(* ===== verification/Prelude.thy ===== *)
theory Prelude
  imports Main "HOL-Library.Word"
begin

text \<open>
  Shared vocabulary of the development.

  Operations of the Go \<open>Store\<close> are functions of the outside state (the storage provider and
  whatever else moves while an operation runs).  Every operation returns either an error value
  or a result, together with the state the calls made so far have left behind: an early
  \<^verbatim>\<open>return err\<close> keeps the effects of the calls that preceded it.  The combinators below are
  the sequencing of Go statements: \<open>bindE\<close> is \<^verbatim>\<open>x, err := f(); if err != nil { return err }\<close>,
  \<open>ensureE\<close> is a guard with an early error return, \<open>liftE\<close> runs a pure fallible function.
\<close>

type_synonym u8 = "8 word"
type_synonym u16 = "16 word"
type_synonym u32 = "32 word"
type_synonym u64 = "64 word"

type_synonym ('s, 'e, 'a) op = "'s \<Rightarrow> ('e + 'a) \<times> 's"

named_theorems op_simps "unfolding of the sequencing combinators"
named_theorems validation_simps "definitions of validators"
named_theorems wire_simps "definitions of wire encoders and decoders"

subsection \<open>Results\<close>

definition returnE :: "'a \<Rightarrow> ('s, 'e, 'a) op" where
  "returnE x = (\<lambda>s. (Inr x, s))"

definition failE :: "'e \<Rightarrow> ('s, 'e, 'a) op" where
  "failE e = (\<lambda>s. (Inl e, s))"

definition bindE :: "('s, 'e, 'a) op \<Rightarrow> ('a \<Rightarrow> ('s, 'e, 'b) op) \<Rightarrow> ('s, 'e, 'b) op" where
  "bindE m f = (\<lambda>s. case m s of (Inl e, s1) \<Rightarrow> (Inl e, s1) | (Inr x, s1) \<Rightarrow> f x s1)"

definition liftE :: "'e + 'a \<Rightarrow> ('s, 'e, 'a) op" where
  "liftE r = (\<lambda>s. (r, s))"

definition ensureE :: "bool \<Rightarrow> 'e \<Rightarrow> ('s, 'e, unit) op" where
  "ensureE b e = (\<lambda>s. (if b then Inr () else Inl e, s))"

definition askE :: "('s \<Rightarrow> 'a) \<Rightarrow> ('s, 'e, 'a) op" where
  "askE f = (\<lambda>s. (Inr (f s), s))"

definition bindR :: "'e + 'a \<Rightarrow> ('a \<Rightarrow> 'e + 'b) \<Rightarrow> 'e + 'b" where
  "bindR r f = (case r of Inl e \<Rightarrow> Inl e | Inr x \<Rightarrow> f x)"

definition ensureR :: "bool \<Rightarrow> 'e \<Rightarrow> 'e + unit" where
  "ensureR b e = (if b then Inr () else Inl e)"

lemma bindE_Inr_iff [op_simps]:
  "bindE m f s = (Inr y, t) \<longleftrightarrow> (\<exists>x u. m s = (Inr x, u) \<and> f x u = (Inr y, t))"
  by (auto simp: bindE_def split: prod.splits sum.splits)

lemma bindE_InrE:
  assumes "bindE m f s = (Inr y, t)"
  obtains x u where "m s = (Inr x, u)" and "f x u = (Inr y, t)"
  using assms by (auto simp: bindE_Inr_iff)

text \<open>The same for any outcome: the first call failed, or it returned and the rest ran.\<close>

lemma bindE_E:
  assumes "bindE m f s = (r, t)"
  obtains e where "m s = (Inl e, t)" and "r = Inl e"
    | x u where "m s = (Inr x, u)" and "f x u = (r, t)"
  using assms by (auto simp: bindE_def split: prod.splits sum.splits)

lemma bindE_Inl_iff:
  "bindE m f s = (Inl e, t) \<longleftrightarrow>
     m s = (Inl e, t) \<or> (\<exists>x u. m s = (Inr x, u) \<and> f x u = (Inl e, t))"
  by (auto simp: bindE_def split: prod.splits sum.splits)

lemma bindE_eval: "m s = (Inr x, u) \<Longrightarrow> bindE m f s = f x u"
  by (simp add: bindE_def)

lemma bindE_fail: "m s = (Inl e, u) \<Longrightarrow> bindE m f s = (Inl e, u)"
  by (simp add: bindE_def)

lemma returnE_iff [op_simps, simp]: "returnE x s = (r, t) \<longleftrightarrow> r = Inr x \<and> t = s"
  by (auto simp: returnE_def)

lemma failE_iff [op_simps, simp]: "failE e s = (r, t) \<longleftrightarrow> r = Inl e \<and> t = s"
  by (auto simp: failE_def)

lemma liftE_iff [op_simps, simp]: "liftE x s = (r, t) \<longleftrightarrow> x = r \<and> t = s"
  by (auto simp: liftE_def)

lemma ensureE_Inr_iff [op_simps, simp]: "ensureE b e s = (Inr x, t) \<longleftrightarrow> b \<and> t = s"
  by (auto simp: ensureE_def)

lemma ensureE_Inl_iff [simp]: "ensureE b e s = (Inl e', t) \<longleftrightarrow> \<not> b \<and> e' = e \<and> t = s"
  by (auto simp: ensureE_def)

lemma askE_iff [op_simps, simp]: "askE f s = (r, t) \<longleftrightarrow> r = Inr (f s) \<and> t = s"
  by (auto simp: askE_def)

lemma bindR_Inr_iff [op_simps, simp]: "bindR r f = Inr y \<longleftrightarrow> (\<exists>x. r = Inr x \<and> f x = Inr y)"
  by (auto simp: bindR_def split: sum.splits)

lemma bindR_Inl_iff:
  "bindR r f = Inl e \<longleftrightarrow> r = Inl e \<or> (\<exists>x. r = Inr x \<and> f x = Inl e)"
  by (auto simp: bindR_def split: sum.splits)

lemma bindR_simps [simp]: "bindR (Inl e) f = Inl e" "bindR (Inr x) f = f x"
  by (simp_all add: bindR_def)

lemma ensureR_Inr_iff [op_simps, simp]: "ensureR b e = Inr x \<longleftrightarrow> b"
  by (simp add: ensureR_def)

lemma ensureR_Inl_iff [simp]: "ensureR b e = Inl e' \<longleftrightarrow> \<not> b \<and> e' = e"
  by (auto simp: ensureR_def)

lemma ensureR_True [simp]: "ensureR True e = Inr ()"
  by (simp add: ensureR_def)

text \<open>A guard that a nonempty option passes, keeping the value.\<close>

definition ofOption :: "'e \<Rightarrow> 'a option \<Rightarrow> 'e + 'a" where
  "ofOption e x = (case x of None \<Rightarrow> Inl e | Some y \<Rightarrow> Inr y)"

lemma ofOption_Inr_iff [op_simps, simp]: "ofOption e x = Inr y \<longleftrightarrow> x = Some y"
  by (auto simp: ofOption_def split: option.splits)

lemma ofOption_Inl_iff [simp]: "ofOption e x = Inl e' \<longleftrightarrow> x = None \<and> e' = e"
  by (auto simp: ofOption_def split: option.splits)

subsection \<open>Fallible maps and folds over lists\<close>

fun mapR :: "('a \<Rightarrow> 'e + 'b) \<Rightarrow> 'a list \<Rightarrow> 'e + 'b list" where
  "mapR f [] = Inr []"
| "mapR f (x # xs) = bindR (f x) (\<lambda>y. bindR (mapR f xs) (\<lambda>ys. Inr (y # ys)))"

lemma mapR_Inr_iff: "mapR f xs = Inr ys \<longleftrightarrow> list_all2 (\<lambda>x y. f x = Inr y) xs ys"
  by (induction xs arbitrary: ys) (auto simp: list_all2_Cons1)

lemma mapR_length: "mapR f xs = Inr ys \<Longrightarrow> length ys = length xs"
  by (simp add: mapR_Inr_iff list_all2_lengthD)

subsection \<open>Unsigned machine integers\<close>

lemma word_pos_iff [simp]: "(0 :: 'a::len word) < x \<longleftrightarrow> x \<noteq> 0"
  by (simp add: word_neq_0_conv)

lemma unat_Suc_less_max:
  fixes x :: u64
  assumes "x \<noteq> -1"
  shows "unat (x + 1) = Suc (unat x)"
  using assms by (metis add.commute unatSuc max_word_wrap)

end
