(* ===== verification/Go_Lib.thy ===== *)
theory Go_Lib
  imports Prelude
begin

text \<open>
  The parts of Go's standard library that the modelled code computes with: UTF-8 validity
  (\<^verbatim>\<open>unicode/utf8\<close>), big-endian integers (\<^verbatim>\<open>encoding/binary\<close>), hexadecimal and base64 text
  (\<^verbatim>\<open>encoding/hex\<close>, \<^verbatim>\<open>encoding/base64\<close>), SHA-256 (\<^verbatim>\<open>crypto/sha256\<close>) and instants
  (\<^verbatim>\<open>time\<close>).  A Go string and a Go byte slice are both a HOL \<open>string\<close>: a list of bytes.
\<close>

unbundle bit_operations_syntax

subsection \<open>Bytes\<close>

abbreviation byte_of :: "char \<Rightarrow> nat" where "byte_of \<equiv> of_char"

abbreviation byte_char :: "nat \<Rightarrow> char" where "byte_char \<equiv> char_of"

lemma byte_of_lt [simp]: "byte_of c < 256"
  by simp

lemma byte_of_le: "byte_of c \<le> 255"
  using byte_of_lt [of c] by linarith

lemma byte_char_of [simp]: "byte_char (byte_of c) = c"
  by simp

lemma byte_of_char [simp]: "n < 256 \<Longrightarrow> byte_of (byte_char n) = n"
  by simp

text \<open>\<^verbatim>\<open>binary.BigEndian\<close>: the \<open>n\<close> low bytes of a number, most significant first.\<close>

fun be_put :: "nat \<Rightarrow> nat \<Rightarrow> string" where
  "be_put 0 v = []"
| "be_put (Suc n) v = byte_char (v div 256 ^ n mod 256) # be_put n v"

fun be_get :: "string \<Rightarrow> nat" where
  "be_get [] = 0"
| "be_get (c # cs) = byte_of c * 256 ^ length cs + be_get cs"

lemma length_be_put [simp]: "length (be_put n v) = n"
  by (induction n) auto

lemma be_get_be_put_mod: "be_get (be_put n v) = v mod 256 ^ n"
proof (induction n)
  case 0
  then show ?case by simp
next
  case (Suc n)
  have "v mod 256 ^ Suc n = 256 ^ n * (v div 256 ^ n mod 256) + v mod 256 ^ n"
    using mod_mult2_eq [of v "256 ^ n" 256] by (simp add: mult.commute)
  with Suc show ?case by (simp add: mult.commute)
qed

lemma be_get_be_put: "v < 256 ^ n \<Longrightarrow> be_get (be_put n v) = v"
  by (simp add: be_get_be_put_mod)

lemma be_put_inj: "v < 256 ^ n \<Longrightarrow> w < 256 ^ n \<Longrightarrow> be_put n v = be_put n w \<Longrightarrow> v = w"
  by (metis be_get_be_put)

lemma be_get_lt: "be_get cs < 256 ^ length cs"
proof (induction cs)
  case Nil
  then show ?case by simp
next
  case (Cons c cs)
  have "byte_of c * 256 ^ length cs + be_get cs < (byte_of c + 1) * 256 ^ length cs"
    using Cons by simp
  also have "\<dots> \<le> 256 * 256 ^ length cs"
    using byte_of_lt [of c] by (intro mult_le_mono1) linarith
  finally show ?case by simp
qed

lemma be_put_be_get: "be_put (length cs) (be_get cs) = cs"
proof (induction cs)
  case Nil
  then show ?case by simp
next
  case (Cons c cs)
  have split: "be_put n (a * 256 ^ (n + k) + v) = be_put n v" for n a k v
  proof (induction n arbitrary: k)
    case (Suc n)
    have "(a * 256 ^ (Suc n + k) + v) div 256 ^ n mod 256 = v div 256 ^ n mod 256"
    proof -
      have "a * 256 ^ (Suc n + k) + v = v + 256 ^ n * (256 * (a * 256 ^ k))"
        by (simp add: power_add algebra_simps)
      then have "(a * 256 ^ (Suc n + k) + v) div 256 ^ n = (v + 256 ^ n * (256 * (a * 256 ^ k))) div 256 ^ n"
        by (rule arg_cong)
      moreover have "(v + 256 ^ n * (256 * (a * 256 ^ k))) div 256 ^ n = 256 * (a * 256 ^ k) + v div 256 ^ n"
        by (rule div_mult_self2) simp
      ultimately have "(a * 256 ^ (Suc n + k) + v) div 256 ^ n = 256 * (a * 256 ^ k) + v div 256 ^ n"
        by (rule trans)
      then show ?thesis by (simp only: mod_mult_self4)
    qed
    moreover have "be_put n (a * 256 ^ (Suc n + k) + v) = be_put n v"
      using Suc.IH [of "Suc k"] by (simp add: add.commute)
    ultimately show ?case by simp
  qed simp
  have "(byte_of c * 256 ^ length cs + be_get cs) div 256 ^ length cs = byte_of c"
    using be_get_lt [of cs] by (simp add: div_add1_eq)
  with split [of "length cs" "byte_of c" 0 "be_get cs"] Cons show ?case by simp
qed

subsection \<open>UTF-8\<close>

text \<open>\<open>utf8_seq\<close> is the length of the well-formed sequence at the head, 0 when there is none.\<close>

definition utf8_cont :: "nat \<Rightarrow> bool" where
  "utf8_cont b \<longleftrightarrow> 128 \<le> b \<and> b < 192"

fun utf8_seq :: "nat list \<Rightarrow> nat" where
  "utf8_seq [] = 0"
| "utf8_seq (a # bs) =
    (if a < 128 then 1
     else if a < 194 then 0
     else if a < 224 then
       (case bs of b # _ \<Rightarrow> if utf8_cont b then 2 else 0 | _ \<Rightarrow> 0)
     else if a < 240 then
       (case bs of
          b # c # _ \<Rightarrow>
            if utf8_cont b \<and> utf8_cont c \<and> (a = 224 \<longrightarrow> 160 \<le> b) \<and> (a = 237 \<longrightarrow> b < 160) then 3 else 0
        | _ \<Rightarrow> 0)
     else if a < 245 then
       (case bs of
          b # c # d # _ \<Rightarrow>
            if utf8_cont b \<and> utf8_cont c \<and> utf8_cont d \<and> (a = 240 \<longrightarrow> 144 \<le> b) \<and> (a = 244 \<longrightarrow> b < 144)
            then 4 else 0
        | _ \<Rightarrow> 0)
     else 0)"

declare utf8_seq.simps(2) [simp del]

text \<open>\<^verbatim>\<open>utf8.ValidString\<close>, and the text \<^verbatim>\<open>encoding/json\<close> writes: an invalid byte becomes U+FFFD.\<close>

fun utf8_valid_nats :: "nat list \<Rightarrow> bool" where
  "utf8_valid_nats [] = True"
| "utf8_valid_nats (b # bs) =
    (utf8_seq (b # bs) \<noteq> 0 \<and> utf8_valid_nats (drop (utf8_seq (b # bs) - 1) bs))"

definition ValidString :: "string \<Rightarrow> bool" where
  "ValidString s \<longleftrightarrow> utf8_valid_nats (map byte_of s)"

fun utf8_coerce_nats :: "nat list \<Rightarrow> nat list" where
  "utf8_coerce_nats [] = []"
| "utf8_coerce_nats (b # bs) =
    (let n = utf8_seq (b # bs)
     in if n = 0 then [239, 191, 189] @ utf8_coerce_nats bs
        else take n (b # bs) @ utf8_coerce_nats (drop (n - 1) bs))"

definition utf8_coerce :: "string \<Rightarrow> string" where
  "utf8_coerce s = map byte_char (utf8_coerce_nats (map byte_of s))"

lemma utf8_coerce_nats_valid: "utf8_valid_nats bs \<Longrightarrow> utf8_coerce_nats bs = bs"
proof (induction bs rule: utf8_valid_nats.induct)
  case 1
  then show ?case by simp
next
  case (2 b bs)
  from "2.prems" have n: "utf8_seq (b # bs) \<noteq> 0"
    and rest: "utf8_valid_nats (drop (utf8_seq (b # bs) - 1) bs)"
    by simp_all
  from n obtain m where m: "utf8_seq (b # bs) = Suc m" by (cases "utf8_seq (b # bs)") auto
  from "2.IH" rest m have "utf8_coerce_nats (drop m bs) = drop m bs" by simp
  with m show ?case by (simp add: Let_def)
qed

lemma utf8_coerce_valid [simp]: "ValidString s \<Longrightarrow> utf8_coerce s = s"
  by (simp add: ValidString_def utf8_coerce_def utf8_coerce_nats_valid comp_def)

lemma ValidString_Nil [simp]: "ValidString []"
  by (simp add: ValidString_def)

lemma utf8_valid_ascii: "\<forall>b\<in>set bs. b < 128 \<Longrightarrow> utf8_valid_nats bs"
  by (induction bs) (auto simp: utf8_seq.simps)

lemma ValidString_ascii: "\<forall>c\<in>set s. byte_of c < 128 \<Longrightarrow> ValidString s"
  by (simp add: ValidString_def utf8_valid_ascii)

subsection \<open>Hexadecimal\<close>

definition hex_digit :: "nat \<Rightarrow> char" where
  "hex_digit n = (if n < 10 then byte_char (48 + n) else byte_char (87 + n))"

fun hex_encode :: "string \<Rightarrow> string" where
  "hex_encode [] = []"
| "hex_encode (c # cs) =
     hex_digit (byte_of c div 16) # hex_digit (byte_of c mod 16) # hex_encode cs"

definition hex_value :: "char \<Rightarrow> nat option" where
  "hex_value c =
    (let b = byte_of c
     in if 48 \<le> b \<and> b \<le> 57 then Some (b - 48)
        else if 97 \<le> b \<and> b \<le> 102 then Some (b - 87)
        else if 65 \<le> b \<and> b \<le> 70 then Some (b - 55)
        else None)"

fun hex_decode :: "string \<Rightarrow> string option" where
  "hex_decode [] = Some []"
| "hex_decode [c] = None"
| "hex_decode (c # d # cs) =
    (case (hex_value c, hex_value d, hex_decode cs) of
       (Some a, Some b, Some r) \<Rightarrow> Some (byte_char (16 * a + b) # r)
     | _ \<Rightarrow> None)"

lemma length_hex_encode [simp]: "length (hex_encode s) = 2 * length s"
  by (induction s) auto

lemma hex_value_digit: "n < 16 \<Longrightarrow> hex_value (hex_digit n) = Some n"
  by (auto simp: hex_value_def hex_digit_def Let_def)

lemma hex_decode_encode: "hex_decode (hex_encode s) = Some s"
proof (induction s)
  case Nil
  then show ?case by simp
next
  case (Cons c s)
  have "byte_of c div 16 < 16" using byte_of_lt [of c] by linarith
  then show ?case using Cons by (simp add: hex_value_digit)
qed

lemma hex_encode_inj: "hex_encode s = hex_encode t \<Longrightarrow> s = t"
  by (metis hex_decode_encode option.inject)

subsection \<open>Base64\<close>

definition b64_url_alphabet :: string where
  "b64_url_alphabet = ''ABCDEFGHIJKLMNOPQRSTUVWXYZabcdefghijklmnopqrstuvwxyz0123456789-_''"

fun b64_sextets :: "nat list \<Rightarrow> nat list" where
  "b64_sextets [] = []"
| "b64_sextets [a] = [a div 4, (a mod 4) * 16]"
| "b64_sextets [a, b] = [a div 4, (a mod 4) * 16 + b div 16, (b mod 16) * 4]"
| "b64_sextets (a # b # c # r) =
    (a div 4) # ((a mod 4) * 16 + b div 16) # ((b mod 16) * 4 + c div 64) # (c mod 64) # b64_sextets r"

fun b64_octets :: "nat list \<Rightarrow> nat list option" where
  "b64_octets [] = Some []"
| "b64_octets [p] = None"
| "b64_octets [p, q] = Some [p * 4 + q div 16]"
| "b64_octets [p, q, r] = Some [p * 4 + q div 16, (q mod 16) * 16 + r div 4]"
| "b64_octets (p # q # r # s # rest) =
    map_option (\<lambda>os. (p * 4 + q div 16) # ((q mod 16) * 16 + r div 4) # ((r mod 4) * 64 + s) # os)
      (b64_octets rest)"

fun b64_index :: "string \<Rightarrow> nat \<Rightarrow> char \<Rightarrow> nat option" where
  "b64_index [] i c = None"
| "b64_index (a # as) i c = (if a = c then Some i else b64_index as (Suc i) c)"

text \<open>
  \<^verbatim>\<open>base64.RawURLEncoding\<close>: no padding; the decoder skips carriage returns and line feeds and
  ignores nonzero trailing bits, so distinct texts can decode to the same bytes.
\<close>

definition raw_url_encode :: "string \<Rightarrow> string" where
  "raw_url_encode s = map (\<lambda>i. b64_url_alphabet ! i) (b64_sextets (map byte_of s))"

fun sequence_option :: "'a option list \<Rightarrow> 'a list option" where
  "sequence_option [] = Some []"
| "sequence_option (x # xs) =
    (case (x, sequence_option xs) of (Some y, Some ys) \<Rightarrow> Some (y # ys) | _ \<Rightarrow> None)"

definition raw_url_decode :: "string \<Rightarrow> string option" where
  "raw_url_decode t =
    (case sequence_option (map (b64_index b64_url_alphabet 0)
            (filter (\<lambda>c. c \<noteq> CHR 0x0D \<and> c \<noteq> CHR 0x0A) t)) of
       None \<Rightarrow> None
     | Some is \<Rightarrow> map_option (map byte_char) (b64_octets is))"

definition raw_url_decoded_len :: "nat \<Rightarrow> nat" where
  "raw_url_decoded_len n = n * 6 div 8"

lemma b64_index_nth:
  "distinct as \<Longrightarrow> n < length as \<Longrightarrow> b64_index as i (as ! n) = Some (i + n)"
proof (induction as arbitrary: i n)
  case Nil
  then show ?case by simp
next
  case (Cons a as)
  then show ?case by (cases n) auto
qed

lemma b64_alphabet_facts:
  "distinct b64_url_alphabet" "length b64_url_alphabet = 64"
  "CHR 0x0D \<notin> set b64_url_alphabet" "CHR 0x0A \<notin> set b64_url_alphabet"
  by (simp_all add: b64_url_alphabet_def)

lemma b64_sextets_lt: "\<forall>b\<in>set bs. b < 256 \<Longrightarrow> \<forall>i\<in>set (b64_sextets bs). i < 64"
  by (induction bs rule: b64_sextets.induct) auto

lemma b64_octets_sextets: "\<forall>b\<in>set bs. b < 256 \<Longrightarrow> b64_octets (b64_sextets bs) = Some bs"
proof (induction bs rule: b64_sextets.induct)
  case (4 a b c r)
  then have "a div 4 * 4 + ((a mod 4) * 16 + b div 16) div 16 = a"
    "(((a mod 4) * 16 + b div 16) mod 16) * 16 + ((b mod 16) * 4 + c div 64) div 4 = b"
    "(((b mod 16) * 4 + c div 64) mod 4) * 64 + c mod 64 = c"
    by auto
  with 4 show ?case by simp
qed auto

lemma sequence_option_map_Some: "(\<And>x. x \<in> set xs \<Longrightarrow> f x = Some (g x)) \<Longrightarrow> sequence_option (map f xs) = Some (map g xs)"
  by (induction xs) auto

theorem raw_url_decode_encode: "raw_url_decode (raw_url_encode s) = Some s"
proof -
  let ?is = "b64_sextets (map byte_of s)"
  have lt: "\<forall>i\<in>set ?is. i < 64" by (rule b64_sextets_lt) simp
  have keep: "filter (\<lambda>c. c \<noteq> CHR 0x0D \<and> c \<noteq> CHR 0x0A) (raw_url_encode s) = raw_url_encode s"
    unfolding raw_url_encode_def filter_id_conv
    using lt b64_alphabet_facts by (auto simp: Ball_def) (metis nth_mem)+
  have "sequence_option (map (b64_index b64_url_alphabet 0) (raw_url_encode s)) = Some ?is"
    unfolding raw_url_encode_def map_map comp_def
    using lt b64_index_nth [OF b64_alphabet_facts(1), where i = 0] b64_alphabet_facts(2)
    by (subst sequence_option_map_Some [where g = id]) auto
  with keep show ?thesis
    by (simp add: raw_url_decode_def b64_octets_sextets comp_def)
qed

lemma length_b64_sextets: "length (b64_sextets bs) = (length bs * 8 + 5) div 6"
  by (induction bs rule: b64_sextets.induct) auto

lemma length_raw_url_encode: "length (raw_url_encode s) = (length s * 8 + 5) div 6"
  by (simp add: raw_url_encode_def length_b64_sextets)

lemma raw_url_decoded_len_encode: "raw_url_decoded_len (length (raw_url_encode s)) = length s"
  by (simp add: raw_url_decoded_len_def length_raw_url_encode)

text \<open>\<^verbatim>\<open>base64.StdEncoding\<close>, the form \<^verbatim>\<open>encoding/json\<close> gives a byte slice: padded, strict length.\<close>

definition b64_std_alphabet :: string where
  "b64_std_alphabet = ''ABCDEFGHIJKLMNOPQRSTUVWXYZabcdefghijklmnopqrstuvwxyz0123456789+/''"

definition std_encode :: "string \<Rightarrow> string" where
  "std_encode s =
     map (\<lambda>i. b64_std_alphabet ! i) (b64_sextets (map byte_of s)) @
     replicate ((3 - length s mod 3) mod 3) (CHR ''='')"

definition strip_pad :: "string \<Rightarrow> string" where
  "strip_pad t =
     (if t \<noteq> [] \<and> last t = CHR ''=''
      then (let u = butlast t in if u \<noteq> [] \<and> last u = CHR ''='' then butlast u else u)
      else t)"

definition std_decode :: "string \<Rightarrow> string option" where
  "std_decode t =
    (let u = filter (\<lambda>c. c \<noteq> CHR 0x0D \<and> c \<noteq> CHR 0x0A) t
     in if length u mod 4 \<noteq> 0 then None
        else (case sequence_option (map (b64_index b64_std_alphabet 0) (strip_pad u)) of
                None \<Rightarrow> None
              | Some is \<Rightarrow> map_option (map byte_char) (b64_octets is)))"

lemma b64_std_alphabet_facts:
  "distinct b64_std_alphabet" "length b64_std_alphabet = 64"
  "CHR 0x0D \<notin> set b64_std_alphabet" "CHR 0x0A \<notin> set b64_std_alphabet"
  "CHR ''='' \<notin> set b64_std_alphabet"
  by (simp_all add: b64_std_alphabet_def)

lemma strip_pad_replicate:
  assumes "CHR ''='' \<notin> set t" and "k < 3"
  shows "strip_pad (t @ replicate k (CHR ''='')) = t"
proof -
  have nl: "t = [] \<or> last t \<noteq> CHR ''=''" using assms(1) by (metis last_in_set)
  from assms(2) consider "k = 0" | "k = 1" | "k = 2" by linarith
  then show ?thesis
  proof cases
    case 3
    have "t @ [CHR ''='', CHR ''=''] = (t @ [CHR ''='']) @ [CHR ''='']" by simp
    with 3 nl show ?thesis
      by (simp only: strip_pad_def numeral_2_eq_2 replicate_Suc replicate_0 last_snoc butlast_snoc) simp
  qed (use nl in \<open>auto simp: strip_pad_def Let_def\<close>)
qed

lemma std_padded_length: "((n * 8 + 5) div 6 + (3 - n mod 3) mod 3) mod 4 = (0 :: nat)"
proof -
  obtain q r where n: "n = 3 * q + r" and "r < 3"
    by (metis mult.commute mod_less_divisor div_mult_mod_eq zero_less_numeral)
  then have "r = 0 \<or> r = 1 \<or> r = 2" by auto
  moreover have "((3 * q) * 8 + 5) div 6 = 4 * q" "((3 * q + 1) * 8 + 5) div 6 = 4 * q + 2"
    "((3 * q + 2) * 8 + 5) div 6 = 4 * q + 3"
    by simp_all
  moreover have "(3 * q + 2) mod 3 = 2" by presburger
  ultimately show ?thesis using n by (elim disjE) simp_all
qed

theorem std_decode_encode: "std_decode (std_encode s) = Some s"
proof -
  let ?is = "b64_sextets (map byte_of s)"
  let ?t = "map (\<lambda>i. b64_std_alphabet ! i) ?is"
  let ?k = "(3 - length s mod 3) mod 3"
  have lt: "\<forall>i\<in>set ?is. i < 64" by (rule b64_sextets_lt) simp
  have mem: "set ?t \<subseteq> set b64_std_alphabet"
    using lt b64_std_alphabet_facts(2) by (auto intro: nth_mem)
  have keep: "filter (\<lambda>c. c \<noteq> CHR 0x0D \<and> c \<noteq> CHR 0x0A) (std_encode s) = std_encode s"
    unfolding std_encode_def filter_id_conv using mem b64_std_alphabet_facts by auto
  have len: "length (std_encode s) mod 4 = 0"
    unfolding std_encode_def by (simp only: length_append length_map length_b64_sextets length_replicate std_padded_length)
  have strip: "strip_pad (std_encode s) = ?t"
    unfolding std_encode_def using mem b64_std_alphabet_facts(5)
    by (intro strip_pad_replicate) auto
  have "sequence_option (map (b64_index b64_std_alphabet 0) ?t) = Some ?is"
    unfolding map_map comp_def
    using lt b64_index_nth [OF b64_std_alphabet_facts(1), where i = 0] b64_std_alphabet_facts(2)
    by (subst sequence_option_map_Some [where g = id]) auto
  with keep len strip show ?thesis
    by (simp add: std_decode_def Let_def b64_octets_sextets comp_def)
qed

subsection \<open>SHA-256\<close>

definition sha256_k :: "u32 list" where
  "sha256_k =
    [1116352408, 1899447441, 3049323471, 3921009573, 961987163, 1508970993, 2453635748, 2870763221,
     3624381080, 310598401, 607225278, 1426881987, 1925078388, 2162078206, 2614888103, 3248222580,
     3835390401, 4022224774, 264347078, 604807628, 770255983, 1249150122, 1555081692, 1996064986,
     2554220882, 2821834349, 2952996808, 3210313671, 3336571891, 3584528711, 113926993, 338241895,
     666307205, 773529912, 1294757372, 1396182291, 1695183700, 1986661051, 2177026350, 2456956037,
     2730485921, 2820302411, 3259730800, 3345764771, 3516065817, 3600352804, 4094571909, 275423344,
     430227734, 506948616, 659060556, 883997877, 958139571, 1322822218, 1537002063, 1747873779,
     1955562222, 2024104815, 2227730452, 2361852424, 2428436474, 2756734187, 3204031479, 3329325298]"

definition sha256_init :: "u32 list" where
  "sha256_init =
    [1779033703, 3144134277, 1013904242, 2773480762, 1359893119, 2600822924, 528734635, 1541459225]"

definition sha256_pad :: "string \<Rightarrow> string" where
  "sha256_pad s =
     s @ [byte_char 128] @ replicate ((119 - length s mod 64) mod 64) (byte_char 0)
       @ be_put 8 (8 * length s)"

fun sha256_words :: "string \<Rightarrow> u32 list" where
  "sha256_words (a # b # c # d # r) = word_of_nat (be_get [a, b, c, d]) # sha256_words r"
| "sha256_words _ = []"

fun sha256_schedule :: "nat \<Rightarrow> u32 list \<Rightarrow> u32 list" where
  "sha256_schedule 0 w = w"
| "sha256_schedule (Suc n) w =
    (let t = length w;
         x = w ! (t - 15); y = w ! (t - 2);
         s0 = word_rotr 7 x XOR word_rotr 18 x XOR drop_bit 3 x;
         s1 = word_rotr 17 y XOR word_rotr 19 y XOR drop_bit 10 y
     in sha256_schedule n (w @ [w ! (t - 16) + s0 + w ! (t - 7) + s1]))"

definition sha256_round :: "u32 list \<Rightarrow> u32 \<times> u32 \<Rightarrow> u32 list" where
  "sha256_round st kw =
    (let a = st ! 0; b = st ! 1; c = st ! 2; d = st ! 3;
         e = st ! 4; f = st ! 5; g = st ! 6; h = st ! 7;
         s1 = word_rotr 6 e XOR word_rotr 11 e XOR word_rotr 25 e;
         ch = (e AND f) XOR (NOT e AND g);
         t1 = h + s1 + ch + fst kw + snd kw;
         s0 = word_rotr 2 a XOR word_rotr 13 a XOR word_rotr 22 a;
         maj = (a AND b) XOR (a AND c) XOR (b AND c);
         t2 = s0 + maj
     in [t1 + t2, a, b, c, d + t1, e, f, g])"

definition sha256_rounds :: "(u32 \<times> u32) list \<Rightarrow> u32 list \<Rightarrow> u32 list" where
  "sha256_rounds kws st = foldl sha256_round st kws"

function sha256_blocks :: "string \<Rightarrow> u32 list \<Rightarrow> u32 list" where
  "sha256_blocks s st =
    (if s = [] then st
     else sha256_blocks (drop 64 s)
       (map2 (+) st (sha256_rounds (zip sha256_k (sha256_schedule 48 (sha256_words (take 64 s)))) st)))"
  by pat_completeness auto
termination
  by (relation "measure (\<lambda>(s, st). length s)") auto

declare sha256_blocks.simps [simp del]

text \<open>\<^verbatim>\<open>sha256.Sum256\<close>: 32 bytes.\<close>

definition Sum256 :: "string \<Rightarrow> string" where
  "Sum256 s = concat (map (\<lambda>w. be_put 4 (unat w)) (sha256_blocks (sha256_pad s) sha256_init))"

lemma length_sha256_rounds: "length st = 8 \<Longrightarrow> length (sha256_rounds kws st) = 8"
  unfolding sha256_rounds_def
  by (induction kws arbitrary: st) (simp_all add: sha256_round_def Let_def)

lemma length_sha256_blocks: "length st = 8 \<Longrightarrow> length (sha256_blocks s st) = 8"
proof (induction s st rule: sha256_blocks.induct)
  case (1 s st)
  then show ?case by (subst sha256_blocks.simps) (auto simp: length_sha256_rounds)
qed

lemma length_Sum256 [simp]: "length (Sum256 s) = 32"
proof -
  have four: "length (concat (map (\<lambda>w. be_put 4 (unat w)) (ws :: u32 list))) = 4 * length ws" for ws
    by (induction ws) auto
  show ?thesis
    by (simp add: Sum256_def four length_sha256_blocks sha256_init_def)
qed

subsection \<open>Instants\<close>

text \<open>
  A \<^verbatim>\<open>time.Time\<close> is the instant it names, in nanoseconds since the Unix epoch, and the offset in
  seconds it is displayed at.  Go compares instants with \<^verbatim>\<open>Before\<close>, \<^verbatim>\<open>After\<close> and \<^verbatim>\<open>Equal\<close>; the
  offset matters to the encoded form only.  A monotonic reading is dropped by every path that
  stores a time, and comparing two wall readings is what the stored times allow.
\<close>

record gotime =
  t_ns :: int
  t_zone :: int

definition zero_ns :: int where
  "zero_ns = -62135596800000000000"

definition zeroTime :: gotime where
  "zeroTime = \<lparr>t_ns = zero_ns, t_zone = 0\<rparr>"

definition IsZero :: "gotime \<Rightarrow> bool" where
  "IsZero t \<longleftrightarrow> t_ns t = zero_ns"

definition Before :: "gotime \<Rightarrow> gotime \<Rightarrow> bool" where
  "Before t u \<longleftrightarrow> t_ns t < t_ns u"

definition After :: "gotime \<Rightarrow> gotime \<Rightarrow> bool" where
  "After t u \<longleftrightarrow> t_ns u < t_ns t"

definition EqualT :: "gotime \<Rightarrow> gotime \<Rightarrow> bool" where
  "EqualT t u \<longleftrightarrow> t_ns t = t_ns u"

definition UTC :: "gotime \<Rightarrow> gotime" where
  "UTC t = t\<lparr>t_zone := 0\<rparr>"

definition int64_clamp :: "int \<Rightarrow> int" where
  "int64_clamp i = max (- (2 ^ 63)) (min (2 ^ 63 - 1) i)"

text \<open>\<^verbatim>\<open>t.Sub(u)\<close> saturates at the bounds of \<^verbatim>\<open>time.Duration\<close>.\<close>

definition SubT :: "gotime \<Rightarrow> gotime \<Rightarrow> int" where
  "SubT t u = int64_clamp (t_ns t - t_ns u)"

definition UnixMilli :: "gotime \<Rightarrow> int" where
  "UnixMilli t = t_ns t div 1000000"

definition UnixNano :: "gotime \<Rightarrow> int" where
  "UnixNano t = t_ns t"

definition Hour :: int where
  "Hour = 3600000000000"

lemmas time_simps = IsZero_def Before_def After_def EqualT_def UTC_def

lemma UTC_simps [simp]:
  "t_ns (UTC t) = t_ns t" "t_zone (UTC t) = 0" "UTC (UTC t) = UTC t"
  by (simp_all add: UTC_def)

lemma UTC_id_iff: "UTC t = t \<longleftrightarrow> t_zone t = 0"
  by (cases t) (auto simp: UTC_def)

lemma EqualT_UTC [simp]: "EqualT (UTC t) u \<longleftrightarrow> EqualT t u" "EqualT t (UTC u) \<longleftrightarrow> EqualT t u"
  by (simp_all add: EqualT_def)

lemma Before_UTC [simp]: "Before (UTC t) u \<longleftrightarrow> Before t u" "Before t (UTC u) \<longleftrightarrow> Before t u"
  by (simp_all add: Before_def)

lemma UnixMilli_UTC [simp]: "UnixMilli (UTC t) = UnixMilli t"
  by (simp add: UnixMilli_def)

lemma IsZero_UTC [simp]: "IsZero (UTC t) \<longleftrightarrow> IsZero t"
  by (simp add: IsZero_def)

end
