(* ===== verification/Json_Model.thy ===== *)
theory Json_Model
  imports Go_Lib
begin

text \<open>
  JSON documents and how \<^verbatim>\<open>encoding/json\<close> reads and writes them.

  A stored value is the document it holds.  \<open>Marshalled j\<close> is the very text \<^verbatim>\<open>json.Marshal\<close>
  writes for \<open>j\<close>; \<open>Reformatted j n\<close> is any other text of \<open>n\<close> bytes that parses to \<open>j\<close>
  (other white space, other escapes); \<open>NotJson n\<close> is \<open>n\<close> bytes that parse to no document.
  So equality of stored values is equality of bytes wherever one side was marshalled, which is
  how the code compares them.  Member order and duplicate members are kept.  A string literal
  that is a timestamp is the constructor \<open>JTime\<close>: a member of type \<^verbatim>\<open>time.Time\<close> is written as
  one, and no string member reads one.

  Core's wire types are not part of this repository.  Their validation, the texts they hold and
  the length of their JSON are parameters (\<open>core_lib\<close>); their JSON is the constructor \<open>JCore\<close>,
  which reads back as the value that was written.
\<close>

subsection \<open>Core's wire values\<close>

record object_reference =
  or_ObjectID :: string

record object_metadata =
  om_Reference :: object_reference
  om_SizeBytes :: u64
  om_Digest :: string
  om_MediaType :: string
  om_CreatedAt :: gotime

text \<open>
  \<^verbatim>\<open>Principal\<close> and \<^verbatim>\<open>ErrorDetail\<close> are only compared, copied and validated here: a text stands for
  the value.  \<^verbatim>\<open>MessageMetadata\<close> is a Go map, the list of its members in key order.
\<close>

type_synonym principal = string
type_synonym error_detail = string
type_synonym message_metadata = "(string \<times> string) list"

record gate_projection =
  gp_GateID :: string
  gp_OpenedJournalSeq :: u64
  gp_Deadline :: gotime
  gp_Rest :: string

datatype core_value =
    CoreObjectReference object_reference
  | CoreObjectMetadata object_metadata
  | CorePrincipal principal
  | CoreMessageMetadata message_metadata
  | CoreErrorDetail error_detail
  | CoreGateProjection gate_projection

record session_summary =
  ss_SessionID :: string
  ss_AgentID :: string
  ss_State :: string
  ss_CreatedAt :: gotime
  ss_LastActiveAt :: gotime

record session_status =
  sst_SessionID :: string
  sst_AgentID :: string
  sst_State :: string
  sst_Residency :: string
  sst_WaitingGateID :: string
  sst_JournalTip :: u64
  sst_UpdatedAt :: gotime

datatype CommandState = CommandStateAccepted | CommandStatePending | CommandStateApplied | CommandStateRejected

record command_status =
  cs_CommandID :: string
  cs_AcceptedOrder :: u64
  cs_State :: CommandState
  cs_Error :: "error_detail option"

text \<open>
  Core's validators, the texts of its constants, and what its values look like as text.
  \<open>journal_event_ok\<close> is the validation of a journal event with an id and a body; \<open>uuid_of\<close> is the
  16 bytes \<^verbatim>\<open>uuid.Parse\<close> returns, zero bytes when the text is no UUID.
\<close>

record core_lib =
  tenant_ok :: "string \<Rightarrow> bool"
  session_ok :: "string \<Rightarrow> bool"
  agent_ok :: "string \<Rightarrow> bool"
  command_ok :: "string \<Rightarrow> bool"
  event_ok :: "string \<Rightarrow> bool"
  reference_ok :: "object_reference \<Rightarrow> bool"
  principal_ok :: "principal \<Rightarrow> bool"
  metadata_ok :: "message_metadata \<Rightarrow> bool"
  error_detail_ok :: "error_detail \<Rightarrow> bool"
  gate_ok :: "gate_projection \<Rightarrow> bool"
  summary_ok :: "session_summary \<Rightarrow> bool"
  status_ok :: "session_status \<Rightarrow> bool"
  session_page_ok :: "session_summary list \<Rightarrow> string \<Rightarrow> bool"
  command_status_ok :: "command_status \<Rightarrow> bool"
  journal_event_ok :: "string \<Rightarrow> string \<Rightarrow> bool"
  uuid_of :: "string \<Rightarrow> string"
  HostPlacementPooled :: string
  HostPlacementDedicated :: string
  SessionStateIdle :: string
  SessionResidencyCold :: string
  core_texts :: "core_value \<Rightarrow> (string \<times> string) list"
  core_len :: "core_value \<Rightarrow> nat"
  MaxIDBytes :: nat

subsection \<open>Documents\<close>

datatype json =
    JNull
  | JBool bool
  | JInt int
  | JFloat nat
  | JStr string
  | JTime gotime
  | JTimeZeroOffset gotime
  | JCore core_value
  | JArr "json list"
  | JObj "(string \<times> json) list"

datatype stored_bytes =
    Marshalled json
  | Reformatted json nat
  | NotJson nat

subsection \<open>Lengths of the marshalled text\<close>

fun decimal_len :: "nat \<Rightarrow> nat" where
  "decimal_len n = (if n < 10 then 1 else Suc (decimal_len (n div 10)))"

declare decimal_len.simps [simp del]

definition int_len :: "int \<Rightarrow> nat" where
  "int_len i = (if i < 0 then Suc (decimal_len (nat (- i))) else decimal_len (nat i))"

text \<open>Go escapes quotes, backslashes, control characters, \<open><\<close>, \<open>>\<close>, \<open>&\<close>, U+2028 and U+2029.\<close>

fun str_len :: "nat list \<Rightarrow> nat" where
  "str_len [] = 0"
| "str_len (b # bs) =
    (if b = 226 \<and> (take 2 bs = [128, 168] \<or> take 2 bs = [128, 169]) then 6 + str_len (drop 2 bs)
     else (if b = 34 \<or> b = 92 then 2
           else if b = 8 \<or> b = 9 \<or> b = 10 \<or> b = 12 \<or> b = 13 then 2
           else if b < 32 \<or> b = 60 \<or> b = 62 \<or> b = 38 then 6
           else 1) + str_len bs)"

fun strip_zeros :: "nat \<Rightarrow> nat \<Rightarrow> nat" where
  "strip_zeros 0 n = 0"
| "strip_zeros (Suc k) n = (if n mod 10 = 0 then strip_zeros k (n div 10) else Suc k)"

text \<open>RFC 3339 with nanoseconds, trailing zeros of the fraction dropped.\<close>

definition time_len :: "gotime \<Rightarrow> nat" where
  "time_len t =
    (let f = strip_zeros 9 (nat (t_ns t mod 1000000000))
     in 19 + (if f = 0 then 0 else Suc f) + (if t_zone t = 0 then 1 else 6))"

fun json_len :: "core_lib \<Rightarrow> json \<Rightarrow> nat" where
  "json_len c JNull = 4"
| "json_len c (JBool b) = (if b then 4 else 5)"
| "json_len c (JInt i) = int_len i"
| "json_len c (JFloat n) = n"
| "json_len c (JStr s) = 2 + str_len (map byte_of s)"
| "json_len c (JTime t) = 2 + time_len t"
| "json_len c (JTimeZeroOffset t) = 7 + time_len (UTC t)"
| "json_len c (JCore v) = core_len c v"
| "json_len c (JArr js) = 2 + (length js - 1) + sum_list (map (json_len c) js)"
| "json_len c (JObj ms) =
     2 + (length ms - 1) +
     sum_list (map (\<lambda>(k, j). 3 + str_len (map byte_of k) + json_len c j) ms)"

fun bytes_len :: "core_lib \<Rightarrow> stored_bytes \<Rightarrow> nat" where
  "bytes_len c (Marshalled j) = json_len c j"
| "bytes_len c (Reformatted j n) = n"
| "bytes_len c (NotJson n) = n"

fun bytes_doc :: "stored_bytes \<Rightarrow> json option" where
  "bytes_doc (Marshalled j) = Some j"
| "bytes_doc (Reformatted j n) = Some j"
| "bytes_doc (NotJson n) = None"

subsection \<open>Writing members\<close>

definition jstr :: "string \<Rightarrow> json" where
  "jstr s = JStr (utf8_coerce s)"

definition ju64 :: "u64 \<Rightarrow> json" where
  "ju64 w = JInt (uint w)"

definition ju8 :: "u8 \<Rightarrow> json" where
  "ju8 w = JInt (uint w)"

text \<open>
  \<^verbatim>\<open>Time.MarshalJSON\<close> writes the clock reading at the time's offset and the offset in whole
  minutes, truncated towards zero; it fails when the offset reaches 24 hours.  (It also fails
  outside the years 0 to 9999, which no rankable time is.)
\<close>

definition zone_shown :: "gotime \<Rightarrow> int" where
  "zone_shown t = sgn (t_zone t) * (\<bar>t_zone t\<bar> div 60 * 60)"

definition jtime :: "gotime \<Rightarrow> json" where
  "jtime t =
    (let shown = \<lparr>t_ns = t_ns t + (t_zone t - zone_shown t) * 1000000000, t_zone = zone_shown t\<rparr>
     in if t_zone t \<noteq> 0 \<and> zone_shown t = 0 then JTimeZeroOffset shown else JTime shown)"

definition time_marshals :: "gotime \<Rightarrow> bool" where
  "time_marshals t \<longleftrightarrow> \<bar>zone_shown t\<bar> < 24 * 3600"

text \<open>An offset of whole minutes below a day: the times that read back as they were written.\<close>

definition minute_zone :: "gotime \<Rightarrow> bool" where
  "minute_zone t \<longleftrightarrow> 60 dvd t_zone t \<and> \<bar>t_zone t\<bar> < 24 * 3600"

text \<open>A byte slice: null when nil.  \<open>[]\<close> is the nil slice; the code never keeps an empty one.\<close>

definition jbytes :: "string \<Rightarrow> json" where
  "jbytes s = (if s = [] then JNull else JStr (std_encode s))"

text \<open>\<^verbatim>\<open>omitempty\<close>: a member is written unless its value is empty.\<close>

definition omitempty :: "bool \<Rightarrow> string \<Rightarrow> json \<Rightarrow> (string \<times> json) list" where
  "omitempty isempty k v = (if isempty then [] else [(k, v)])"

definition omitnil :: "('a \<Rightarrow> json) \<Rightarrow> string \<Rightarrow> 'a option \<Rightarrow> (string \<times> json) list" where
  "omitnil enc k x = (case x of None \<Rightarrow> [] | Some y \<Rightarrow> [(k, enc y)])"

lemmas json_write_simps [wire_simps] = jstr_def ju64_def ju8_def jbytes_def omitempty_def omitnil_def

subsection \<open>Reading members\<close>

text \<open>Each reader takes the document and the value the destination holds before.\<close>

fun dec_string :: "json \<Rightarrow> string \<Rightarrow> string option" where
  "dec_string (JStr s) old = Some s"
| "dec_string JNull old = Some old"
| "dec_string _ old = None"

fun dec_bool :: "json \<Rightarrow> bool \<Rightarrow> bool option" where
  "dec_bool (JBool b) old = Some b"
| "dec_bool JNull old = Some old"
| "dec_bool _ old = None"

fun dec_word :: "json \<Rightarrow> 'a::len word \<Rightarrow> 'a word option" where
  "dec_word (JInt i) old =
     (if 0 \<le> i \<and> i < 2 ^ LENGTH('a) then Some (word_of_int i) else None)"
| "dec_word JNull old = Some old"
| "dec_word _ old = None"

fun dec_time :: "json \<Rightarrow> gotime \<Rightarrow> gotime option" where
  "dec_time (JTime t) old = Some t"
| "dec_time (JTimeZeroOffset t) old = Some t"
| "dec_time JNull old = Some old"
| "dec_time _ old = None"

fun dec_byte :: "json \<Rightarrow> char option" where
  "dec_byte (JInt i) = (if 0 \<le> i \<and> i < 256 then Some (byte_char (nat i)) else None)"
| "dec_byte JNull = Some (CHR 0x00)"
| "dec_byte _ = None"

fun dec_bytes :: "json \<Rightarrow> string \<Rightarrow> string option" where
  "dec_bytes (JStr s) old = std_decode s"
| "dec_bytes (JArr js) old = sequence_option (map dec_byte js)"
| "dec_bytes JNull old = Some []"
| "dec_bytes _ old = None"

definition dec_ptr :: "'a \<Rightarrow> (json \<Rightarrow> 'a \<Rightarrow> 'a option) \<Rightarrow> json \<Rightarrow> 'a option \<Rightarrow> 'a option option" where
  "dec_ptr zero dec j old =
    (if j = JNull then Some None
     else map_option Some (dec j (case old of None \<Rightarrow> zero | Some x \<Rightarrow> x)))"

definition dec_list :: "(json \<Rightarrow> 'a option) \<Rightarrow> json \<Rightarrow> 'a list \<Rightarrow> 'a list option" where
  "dec_list dec j old =
    (case j of JNull \<Rightarrow> Some [] | JArr js \<Rightarrow> sequence_option (map dec js) | _ \<Rightarrow> None)"

fun dec_reference :: "json \<Rightarrow> object_reference \<Rightarrow> object_reference option" where
  "dec_reference (JCore (CoreObjectReference r)) old = Some r"
| "dec_reference JNull old = Some old"
| "dec_reference _ old = None"

fun dec_object_metadata :: "json \<Rightarrow> object_metadata \<Rightarrow> object_metadata option" where
  "dec_object_metadata (JCore (CoreObjectMetadata m)) old = Some m"
| "dec_object_metadata _ old = None"

fun dec_principal :: "json \<Rightarrow> principal \<Rightarrow> principal option" where
  "dec_principal (JCore (CorePrincipal p)) old = Some p"
| "dec_principal _ old = None"

fun dec_message_metadata :: "json \<Rightarrow> message_metadata \<Rightarrow> message_metadata option" where
  "dec_message_metadata (JCore (CoreMessageMetadata m)) old = Some m"
| "dec_message_metadata JNull old = Some []"
| "dec_message_metadata _ old = None"

fun dec_error_detail :: "json \<Rightarrow> error_detail \<Rightarrow> error_detail option" where
  "dec_error_detail (JCore (CoreErrorDetail e)) old = Some e"
| "dec_error_detail _ old = None"

fun dec_gate :: "json \<Rightarrow> gate_projection option" where
  "dec_gate (JCore (CoreGateProjection g)) = Some g"
| "dec_gate _ = None"

text \<open>
  A struct is read member by member into the zero value, in document order: a key that folds to
  no field name is an error when unknown fields are disallowed and skipped otherwise, a repeated
  member is read again.
\<close>

definition fold_char :: "char \<Rightarrow> char" where
  "fold_char c = (let b = byte_of c in if 65 \<le> b \<and> b \<le> 90 then byte_char (b + 32) else c)"

fun fold_name :: "string \<Rightarrow> string" where
  "fold_name [] = []"
| "fold_name (c # cs) =
    (if c = CHR 0xC5 \<and> take 1 cs = [CHR 0xBF] then CHR ''s'' # fold_name (drop 1 cs)
     else if c = CHR 0xE2 \<and> take 2 cs = [CHR 0x84, CHR 0xAA] then CHR ''k'' # fold_name (drop 2 cs)
     else fold_char c # fold_name cs)"

declare fold_name.simps(2) [simp del]

definition plain_char :: "char \<Rightarrow> bool" where
  "plain_char c \<longleftrightarrow> (97 \<le> byte_of c \<and> byte_of c \<le> 122) \<or> c = CHR ''_''"

lemma fold_name_plain: "list_all plain_char s \<Longrightarrow> fold_name s = s"
proof (induction s)
  case Nil
  then show ?case by simp
next
  case (Cons c s)
  then have "plain_char c" and IH: "fold_name s = s" by simp_all
  then have "c \<noteq> CHR 0xC5" "c \<noteq> CHR 0xE2" "fold_char c = c"
    by (auto simp: plain_char_def fold_char_def Let_def)
  with IH show ?case by (simp add: fold_name.simps(2))
qed

type_synonym 'w field_table = "(string \<times> (json \<Rightarrow> 'w \<Rightarrow> 'w option)) list"

fun decode_members :: "bool \<Rightarrow> 'w field_table \<Rightarrow> (string \<times> json) list \<Rightarrow> 'w \<Rightarrow> 'w option" where
  "decode_members strict tbl [] w = Some w"
| "decode_members strict tbl ((k, v) # ms) w =
    (case map_of tbl (fold_name k) of
       None \<Rightarrow> if strict then None else decode_members strict tbl ms w
     | Some f \<Rightarrow> (case f v w of None \<Rightarrow> None | Some w' \<Rightarrow> decode_members strict tbl ms w'))"

fun decode_struct :: "bool \<Rightarrow> 'w field_table \<Rightarrow> json \<Rightarrow> 'w \<Rightarrow> 'w option" where
  "decode_struct strict tbl (JObj ms) w = decode_members strict tbl ms w"
| "decode_struct strict tbl JNull w = Some w"
| "decode_struct strict tbl _ w = None"

lemma decode_members_append:
  "decode_members strict tbl (ms @ ns) w =
     (case decode_members strict tbl ms w of None \<Rightarrow> None | Some w' \<Rightarrow> decode_members strict tbl ns w')"
  by (induction strict tbl ms w rule: decode_members.induct) (auto split: option.splits)

text \<open>One plain member, written, omitted when empty or nil, and read by its field's reader.\<close>

lemma decode_members_one:
  assumes "list_all plain_char k" and "map_of tbl k = Some f"
  shows "decode_members strict tbl ((k, v) # ms) w =
    (case f v w of None \<Rightarrow> None | Some w' \<Rightarrow> decode_members strict tbl ms w')"
  using assms by (simp add: fold_name_plain)

lemma decode_omitnil:
  assumes "list_all plain_char k" and "map_of tbl k = Some f"
  shows "decode_members strict tbl (omitnil enc k x @ ms) w =
    (case x of None \<Rightarrow> decode_members strict tbl ms w
     | Some y \<Rightarrow> (case f (enc y) w of None \<Rightarrow> None | Some w' \<Rightarrow> decode_members strict tbl ms w'))"
  using assms by (cases x) (simp_all add: omitnil_def fold_name_plain)

lemma decode_omitempty:
  assumes "list_all plain_char k" and "map_of tbl k = Some f"
  shows "decode_members strict tbl (omitempty b k v @ ms) w =
    (if b then decode_members strict tbl ms w
     else (case f v w of None \<Rightarrow> None | Some w' \<Rightarrow> decode_members strict tbl ms w'))"
  using assms by (simp add: omitempty_def fold_name_plain)

lemmas decode_omitnil_last = decode_omitnil [where ms = "[]", simplified]
  and decode_omitempty_last = decode_omitempty [where ms = "[]", simplified]

lemma dec_word_uint [simp]: "dec_word (JInt (uint w)) old = Some w"
  using uint_lt2p [of w] by simp

declare dec_word.simps(1) [simp del]

lemma dec_word_ju [simp]: "dec_word (ju64 w) old = Some w" "dec_word (ju8 v) old' = Some v"
  by (simp_all add: ju64_def ju8_def)

lemma zone_shown_minute: "minute_zone t \<Longrightarrow> zone_shown t = t_zone t"
  by (auto simp: minute_zone_def zone_shown_def dvd_div_mult_self abs_mult_sgn mult.commute)

lemma jtime_minute: "minute_zone t \<Longrightarrow> jtime t = JTime t"
  by (auto simp: jtime_def zone_shown_minute Let_def)

lemma minute_zone_UTC [simp]: "t_zone t = 0 \<Longrightarrow> minute_zone t"
  by (simp add: minute_zone_def)

lemma minute_zone_marshals: "minute_zone t \<Longrightarrow> time_marshals t"
  by (simp add: time_marshals_def zone_shown_minute) (simp add: minute_zone_def)

lemma dec_time_jtime [simp]: "minute_zone t \<Longrightarrow> dec_time (jtime t) old = Some t"
  by (simp add: jtime_minute)

lemma dec_bytes_jbytes [simp]: "dec_bytes (jbytes s) old = Some s"
  by (simp add: jbytes_def std_decode_encode)

lemma dec_string_jstr [simp]: "ValidString s \<Longrightarrow> dec_string (jstr s) old = Some s"
  by (simp add: jstr_def)

text \<open>A field reader that stores into one component of the record.\<close>

definition into ::
  "(json \<Rightarrow> 'a \<Rightarrow> 'a option) \<Rightarrow> ('w \<Rightarrow> 'a) \<Rightarrow> (('a \<Rightarrow> 'a) \<Rightarrow> 'w \<Rightarrow> 'w) \<Rightarrow> json \<Rightarrow> 'w \<Rightarrow> 'w option" where
  "into dec get upd j w = map_option (\<lambda>x. upd (\<lambda>_. x) w) (dec j (get w))"

lemma into_Some [simp]: "dec j (get w) = Some x \<Longrightarrow> into dec get upd j w = Some (upd (\<lambda>_. x) w)"
  by (simp add: into_def)

subsection \<open>Versioned records\<close>

datatype versionedRecordFailure =
    versionedRecordTooLarge
  | versionedRecordMalformed
  | versionedRecordVersion

record versionedRecordFields =
  vf_Record :: string
  vf_Version :: string

definition version_probe :: "json \<Rightarrow> u8 option" where
  "version_probe j = decode_struct False [(''record_version'', dec_word)] j 0"

definition decodeVersionedRecordOf ::
  "core_lib \<Rightarrow> (json \<Rightarrow> 'w option) \<Rightarrow> stored_bytes \<Rightarrow> nat \<Rightarrow> u8 list \<Rightarrow> versionedRecordFields
    \<Rightarrow> (versionedRecordFailure \<Rightarrow> string \<Rightarrow> 'e) \<Rightarrow> 'e + 'w" where
  "decodeVersionedRecordOf c dec v maxBytes versions flds fail =
    (if bytes_len c v > maxBytes then Inl (fail versionedRecordTooLarge (vf_Record flds))
     else if bytes_len c v = 0 then Inl (fail versionedRecordMalformed (vf_Record flds))
     else (case bytes_doc v of
        None \<Rightarrow> Inl (fail versionedRecordMalformed (vf_Record flds))
      | Some j \<Rightarrow>
         (case version_probe j of
            None \<Rightarrow> Inl (fail versionedRecordMalformed (vf_Record flds))
          | Some version \<Rightarrow>
              if version \<notin> set versions then Inl (fail versionedRecordVersion (vf_Version flds))
              else (case dec j of
                      None \<Rightarrow> Inl (fail versionedRecordMalformed (vf_Record flds))
                    | Some wire \<Rightarrow> Inr wire))))"

definition decodeVersionedRecord ::
  "core_lib \<Rightarrow> (json \<Rightarrow> 'w option) \<Rightarrow> stored_bytes \<Rightarrow> nat \<Rightarrow> u8 \<Rightarrow> versionedRecordFields
    \<Rightarrow> (versionedRecordFailure \<Rightarrow> string \<Rightarrow> 'e) \<Rightarrow> 'e + 'w" where
  "decodeVersionedRecord c dec v maxBytes wantVersion flds fail =
     decodeVersionedRecordOf c dec v maxBytes [wantVersion] flds fail"

definition not_version :: "(string \<times> json) list \<Rightarrow> bool" where
  "not_version ms \<longleftrightarrow> list_all (\<lambda>m. fold_name (fst m) \<noteq> ''record_version'') ms"

lemma not_version_simps [simp]:
  "not_version []"
  "not_version (m # ms) \<longleftrightarrow> fold_name (fst m) \<noteq> ''record_version'' \<and> not_version ms"
  "not_version (ms @ ns) \<longleftrightarrow> not_version ms \<and> not_version ns"
  by (simp_all add: not_version_def)

lemma decode_not_version:
  "not_version ms \<Longrightarrow> decode_members False [(''record_version'', dec_word)] ms x = Some x"
  by (induction ms arbitrary: x) auto

lemma version_probe_head:
  assumes "not_version ms"
  shows "version_probe (JObj ((''record_version'', ju8 w) # ms)) = Some w"
  unfolding version_probe_def decode_struct.simps
  using decode_not_version [OF assms]
  by (subst decode_members_one [where f = dec_word]) (simp_all add: plain_char_def)

lemma json_len_pos: "json_len c (JObj ms) > 0"
  by simp

lemma decodeVersionedRecordOf_marshalled:
  assumes "json_len c (JObj ms) \<le> maxBytes"
    and "version_probe (JObj ms) = Some w" and "w \<in> set versions" and "dec (JObj ms) = Some x"
  shows "decodeVersionedRecordOf c dec (Marshalled (JObj ms)) maxBytes versions flds fail = Inr x"
  using assms by (simp add: decodeVersionedRecordOf_def)

end
