(* ===== verification/Errors.thy ===== *)
theory Errors
  imports Json_Model
begin

text \<open>
  The error values of \<^verbatim>\<open>errors.go\<close> as the modelled code returns them.  A Go error here is its
  type, its code, the field it names and the marks it discloses; the wrapped \<^verbatim>\<open>Cause\<close>, which no
  modelled branch inspects once the error has been built, is left out.  \<open>Panic\<close> is a Go panic:
  no modelled function recovers, so it propagates like any error.
\<close>

datatype KeyspaceErrorCode =
    KeyspaceBackend | KeyspaceMarkerMalformed | KeyspaceLayoutMismatch | KeyspaceMarkerAmbiguous
  | KeyspaceBindingNotFound | KeyspaceBindingAmbiguous | KeyspaceScopeInvalid | KeyspaceHashCollision
  | KeyspaceLegacyTenant | KeyspaceLegacySession

datatype ObjectErrorCode =
    ObjectErrorInvalid | ObjectErrorSize | ObjectErrorDigest | ObjectErrorSource | ObjectErrorBackend
  | ObjectErrorConflict | ObjectErrorIntegrity | ObjectErrorCanceled | ObjectErrorMetadataUnavailable

datatype CatalogErrorCode =
    CatalogErrorInvalid | CatalogErrorCursor | CatalogErrorNotFound | CatalogErrorDeleted
  | CatalogErrorIdentity | CatalogErrorEpoch | CatalogErrorSequence | CatalogErrorTooSoon
  | CatalogErrorConflict | CatalogErrorUnknown | CatalogErrorBackend | CatalogErrorMalformed
  | CatalogErrorVersion | CatalogErrorTooLarge

datatype JournalErrorCode =
    JournalErrorInvalid | JournalErrorLeaseHeld | JournalErrorLeaseLost | JournalErrorFenced
  | JournalErrorUnknown | JournalErrorClosed | JournalErrorBackend | JournalErrorIntegrity
  | JournalErrorTooLarge | JournalErrorCursor

datatype InboxErrorCode =
    InboxErrorInvalid | InboxErrorCursor | InboxErrorCommandMismatch | InboxErrorNotFound
  | InboxErrorDeleted | InboxErrorIdentity | InboxErrorConflict | InboxErrorEpoch | InboxErrorOrder
  | InboxErrorClaimHeld | InboxErrorClaimLost | InboxErrorDeadline | InboxErrorState
  | InboxErrorEvidence | InboxErrorTerminal | InboxErrorUnknown | InboxErrorBackend
  | InboxErrorMalformed | InboxErrorVersion | InboxErrorTooLarge

datatype EnvelopeErrorCode =
    EnvelopeErrorMalformed | EnvelopeErrorVersion | EnvelopeErrorKind | EnvelopeErrorField
  | EnvelopeErrorOrder | EnvelopeErrorMissing | EnvelopeErrorInvalid | EnvelopeErrorLength
  | EnvelopeErrorTooLarge | EnvelopeErrorDigest | EnvelopeErrorTrailing

datatype RegistryErrorCode =
    RegistryErrorInvalid | RegistryErrorNotFound | RegistryErrorExpired | RegistryErrorReleased
  | RegistryErrorDeleted | RegistryErrorIdentity | RegistryErrorEpoch | RegistryErrorConflict
  | RegistryErrorUnknown | RegistryErrorBackend | RegistryErrorMalformed | RegistryErrorVersion
  | RegistryErrorTooLarge

datatype HostTargetErrorCode =
    HostTargetErrorInvalid | HostTargetErrorNotFound | HostTargetErrorWithdrawn | HostTargetErrorDeleted
  | HostTargetErrorIdentity | HostTargetErrorGeneration | HostTargetErrorConflict | HostTargetErrorCursor
  | HostTargetErrorUnknown | HostTargetErrorBackend | HostTargetErrorMalformed | HostTargetErrorVersion
  | HostTargetErrorTooLarge

datatype ReconcileErrorCode =
    ReconcileErrorInvalid | ReconcileErrorNotFound | ReconcileErrorHeld | ReconcileErrorLapsed
  | ReconcileErrorDeleted | ReconcileErrorIdentity | ReconcileErrorConflict | ReconcileErrorUnknown
  | ReconcileErrorBackend | ReconcileErrorMalformed | ReconcileErrorVersion | ReconcileErrorTooLarge

datatype PointerErrorCode =
    PointerErrorInvalid | PointerErrorNotFound | PointerErrorCleared | PointerErrorEpoch
  | PointerErrorSequence | PointerErrorDeleted | PointerErrorIdentity | PointerErrorConflict
  | PointerErrorUnknown | PointerErrorBackend | PointerErrorMalformed | PointerErrorVersion
  | PointerErrorTooLarge

datatype TerminationErrorCode =
    TerminationErrorInvalid | TerminationErrorNotFound | TerminationErrorUnissued | TerminationErrorSuperseded
  | TerminationErrorMismatch | TerminationErrorDeleted | TerminationErrorIdentity | TerminationErrorConflict
  | TerminationErrorUnknown | TerminationErrorBackend | TerminationErrorMalformed | TerminationErrorVersion
  | TerminationErrorTooLarge

record registry_error =
  re_Code :: RegistryErrorCode
  re_Field :: string
  re_Epoch :: u64
  re_Revision :: u64

record host_target_error =
  he_Code :: HostTargetErrorCode
  he_Field :: string
  he_Generation :: u64
  he_Revision :: u64

record reconcile_error =
  rc_Code :: ReconcileErrorCode
  rc_Field :: string
  rc_ExpiresAt :: gotime
  rc_Revision :: u64

record pointer_error =
  pe_Code :: PointerErrorCode
  pe_Field :: string
  pe_Epoch :: u64
  pe_Sequence :: u64
  pe_Revision :: u64

record termination_error =
  te_Code :: TerminationErrorCode
  te_Field :: string
  te_Generation :: u64
  te_Revision :: u64

record journal_error =
  je_Code :: JournalErrorCode
  je_Field :: string
  je_Epoch :: u64

record catalog_error =
  ce_Code :: CatalogErrorCode
  ce_Field :: string
  ce_Epoch :: u64
  ce_Revision :: u64

record inbox_error =
  ie_Code :: InboxErrorCode
  ie_Field :: string
  ie_Epoch :: u64
  ie_Order :: u64
  ie_Revision :: u64

datatype err =
    KeyspaceError KeyspaceErrorCode
  | InvalidIdentityError string
  | StoreClosedError
  | ContextError
  | ObjectError ObjectErrorCode string
  | CatalogError catalog_error
  | JournalError journal_error
  | InboxError inbox_error
  | ResidencyError string
  | ResidencyAcquireCleanupError err
  | InvalidOptionError string
  | EvidenceReaderError string
  | EnvelopeError EnvelopeErrorCode string
  | RegistryError registry_error
  | HostTargetError host_target_error
  | ReconcileError reconcile_error
  | PointerError pointer_error
  | TerminationError termination_error
  | Panic string

definition objectErr :: "ObjectErrorCode \<Rightarrow> string \<Rightarrow> err" where
  "objectErr code field = ObjectError code field"

definition catalogErr :: "CatalogErrorCode \<Rightarrow> string \<Rightarrow> err" where
  "catalogErr code field =
     CatalogError \<lparr>ce_Code = code, ce_Field = field, ce_Epoch = 0, ce_Revision = 0\<rparr>"

definition catalogConflict :: "string \<Rightarrow> u64 \<Rightarrow> err" where
  "catalogConflict field revision =
     CatalogError \<lparr>ce_Code = CatalogErrorConflict, ce_Field = field, ce_Epoch = 0, ce_Revision = revision\<rparr>"

definition journalErr :: "JournalErrorCode \<Rightarrow> string \<Rightarrow> err" where
  "journalErr code field = JournalError \<lparr>je_Code = code, je_Field = field, je_Epoch = 0\<rparr>"

definition inboxErr :: "InboxErrorCode \<Rightarrow> string \<Rightarrow> err" where
  "inboxErr code field =
     InboxError \<lparr>ie_Code = code, ie_Field = field, ie_Epoch = 0, ie_Order = 0, ie_Revision = 0\<rparr>"

definition inboxConflict :: "string \<Rightarrow> u64 \<Rightarrow> err" where
  "inboxConflict field revision =
     InboxError \<lparr>ie_Code = InboxErrorConflict, ie_Field = field, ie_Epoch = 0, ie_Order = 0,
       ie_Revision = revision\<rparr>"

definition inboxEpoch :: "string \<Rightarrow> u64 \<Rightarrow> err" where
  "inboxEpoch field epoch =
     InboxError \<lparr>ie_Code = InboxErrorEpoch, ie_Field = field, ie_Epoch = epoch, ie_Order = 0,
       ie_Revision = 0\<rparr>"

definition inboxInvalid :: "string \<Rightarrow> err" where
  "inboxInvalid field = inboxErr InboxErrorInvalid field"

definition inboxIdentity :: "string \<Rightarrow> err" where
  "inboxIdentity field = inboxErr InboxErrorIdentity field"

definition catalogInvalid :: "string \<Rightarrow> err" where
  "catalogInvalid field = catalogErr CatalogErrorInvalid field"

fun inboxRecordFailure :: "versionedRecordFailure \<Rightarrow> string \<Rightarrow> err" where
  "inboxRecordFailure versionedRecordTooLarge field = inboxErr InboxErrorTooLarge field"
| "inboxRecordFailure versionedRecordVersion field = inboxErr InboxErrorVersion field"
| "inboxRecordFailure versionedRecordMalformed field = inboxErr InboxErrorMalformed field"

fun catalogRecordFailure :: "versionedRecordFailure \<Rightarrow> string \<Rightarrow> err" where
  "catalogRecordFailure versionedRecordTooLarge field = catalogErr CatalogErrorTooLarge field"
| "catalogRecordFailure versionedRecordVersion field = catalogErr CatalogErrorVersion field"
| "catalogRecordFailure versionedRecordMalformed field = catalogErr CatalogErrorMalformed field"

definition registryErr :: "RegistryErrorCode \<Rightarrow> string \<Rightarrow> err" where
  "registryErr code field = RegistryError \<lparr>re_Code = code, re_Field = field, re_Epoch = 0, re_Revision = 0\<rparr>"

definition registryConflict :: "string \<Rightarrow> u64 \<Rightarrow> err" where
  "registryConflict field revision =
     RegistryError \<lparr>re_Code = RegistryErrorConflict, re_Field = field, re_Epoch = 0, re_Revision = revision\<rparr>"

definition registryIdentity :: "string \<Rightarrow> err" where
  "registryIdentity field = registryErr RegistryErrorIdentity field"

fun registryRecordFailure :: "versionedRecordFailure \<Rightarrow> string \<Rightarrow> err" where
  "registryRecordFailure versionedRecordTooLarge field = registryErr RegistryErrorTooLarge field"
| "registryRecordFailure versionedRecordVersion field = registryErr RegistryErrorVersion field"
| "registryRecordFailure versionedRecordMalformed field = registryErr RegistryErrorMalformed field"

definition hostTargetErr :: "HostTargetErrorCode \<Rightarrow> string \<Rightarrow> err" where
  "hostTargetErr code field = HostTargetError \<lparr>he_Code = code, he_Field = field, he_Generation = 0, he_Revision = 0\<rparr>"

definition hostTargetConflict :: "string \<Rightarrow> u64 \<Rightarrow> err" where
  "hostTargetConflict field revision =
     HostTargetError \<lparr>he_Code = HostTargetErrorConflict, he_Field = field, he_Generation = 0, he_Revision = revision\<rparr>"

definition hostTargetIdentity :: "string \<Rightarrow> err" where
  "hostTargetIdentity field = hostTargetErr HostTargetErrorIdentity field"

fun hostTargetRecordFailure :: "versionedRecordFailure \<Rightarrow> string \<Rightarrow> err" where
  "hostTargetRecordFailure versionedRecordTooLarge field = hostTargetErr HostTargetErrorTooLarge field"
| "hostTargetRecordFailure versionedRecordVersion field = hostTargetErr HostTargetErrorVersion field"
| "hostTargetRecordFailure versionedRecordMalformed field = hostTargetErr HostTargetErrorMalformed field"

definition reconcileErr :: "ReconcileErrorCode \<Rightarrow> string \<Rightarrow> err" where
  "reconcileErr code field = ReconcileError \<lparr>rc_Code = code, rc_Field = field, rc_ExpiresAt = zeroTime, rc_Revision = 0\<rparr>"

definition reconcileConflict :: "string \<Rightarrow> u64 \<Rightarrow> err" where
  "reconcileConflict field revision =
     ReconcileError \<lparr>rc_Code = ReconcileErrorConflict, rc_Field = field, rc_ExpiresAt = zeroTime, rc_Revision = revision\<rparr>"

definition reconcileIdentity :: "string \<Rightarrow> err" where
  "reconcileIdentity field = reconcileErr ReconcileErrorIdentity field"

fun reconcileRecordFailure :: "versionedRecordFailure \<Rightarrow> string \<Rightarrow> err" where
  "reconcileRecordFailure versionedRecordTooLarge field = reconcileErr ReconcileErrorTooLarge field"
| "reconcileRecordFailure versionedRecordVersion field = reconcileErr ReconcileErrorVersion field"
| "reconcileRecordFailure versionedRecordMalformed field = reconcileErr ReconcileErrorMalformed field"

definition pointerErr :: "PointerErrorCode \<Rightarrow> string \<Rightarrow> err" where
  "pointerErr code field = PointerError \<lparr>pe_Code = code, pe_Field = field, pe_Epoch = 0, pe_Sequence = 0, pe_Revision = 0\<rparr>"

definition pointerConflict :: "string \<Rightarrow> u64 \<Rightarrow> err" where
  "pointerConflict field revision =
     PointerError \<lparr>pe_Code = PointerErrorConflict, pe_Field = field, pe_Epoch = 0, pe_Sequence = 0, pe_Revision = revision\<rparr>"

definition pointerIdentity :: "string \<Rightarrow> err" where
  "pointerIdentity field = pointerErr PointerErrorIdentity field"

fun pointerRecordFailure :: "versionedRecordFailure \<Rightarrow> string \<Rightarrow> err" where
  "pointerRecordFailure versionedRecordTooLarge field = pointerErr PointerErrorTooLarge field"
| "pointerRecordFailure versionedRecordVersion field = pointerErr PointerErrorVersion field"
| "pointerRecordFailure versionedRecordMalformed field = pointerErr PointerErrorMalformed field"

definition terminationErr :: "TerminationErrorCode \<Rightarrow> string \<Rightarrow> err" where
  "terminationErr code field = TerminationError \<lparr>te_Code = code, te_Field = field, te_Generation = 0, te_Revision = 0\<rparr>"

definition terminationConflict :: "string \<Rightarrow> u64 \<Rightarrow> err" where
  "terminationConflict field revision =
     TerminationError \<lparr>te_Code = TerminationErrorConflict, te_Field = field, te_Generation = 0, te_Revision = revision\<rparr>"

definition terminationIdentity :: "string \<Rightarrow> err" where
  "terminationIdentity field = terminationErr TerminationErrorIdentity field"

fun terminationRecordFailure :: "versionedRecordFailure \<Rightarrow> string \<Rightarrow> err" where
  "terminationRecordFailure versionedRecordTooLarge field = terminationErr TerminationErrorTooLarge field"
| "terminationRecordFailure versionedRecordVersion field = terminationErr TerminationErrorVersion field"
| "terminationRecordFailure versionedRecordMalformed field = terminationErr TerminationErrorMalformed field"

definition registryInvalid :: "string \<Rightarrow> err" where
  "registryInvalid field = registryErr RegistryErrorInvalid field"

definition hostTargetInvalid :: "string \<Rightarrow> err" where
  "hostTargetInvalid field = hostTargetErr HostTargetErrorInvalid field"

definition reconcileInvalid :: "string \<Rightarrow> err" where
  "reconcileInvalid field = reconcileErr ReconcileErrorInvalid field"

definition catalogIdentity :: "string \<Rightarrow> err" where
  "catalogIdentity field = catalogErr CatalogErrorIdentity field"

definition envelopeError :: "EnvelopeErrorCode \<Rightarrow> string \<Rightarrow> err" where
  "envelopeError code field = EnvelopeError code field"

lemmas err_defs = envelopeError_def objectErr_def catalogErr_def catalogConflict_def journalErr_def inboxErr_def
  inboxConflict_def inboxEpoch_def inboxInvalid_def inboxIdentity_def catalogInvalid_def catalogIdentity_def
  registryErr_def registryConflict_def registryIdentity_def hostTargetErr_def hostTargetConflict_def hostTargetIdentity_def
  reconcileErr_def reconcileConflict_def reconcileIdentity_def pointerErr_def pointerConflict_def pointerIdentity_def
  terminationErr_def terminationConflict_def terminationIdentity_def registryInvalid_def hostTargetInvalid_def reconcileInvalid_def

subsection \<open>Storage errors and their classification\<close>

text \<open>What a provider's ordered index reports; \<open>OrderedOther\<close> is any error of no documented type.\<close>

datatype ordered_error =
    OrderedRecordNotFoundError
  | OrderedDeletedError
  | OrderedRevisionConflictError u64
  | InvalidOrderedCursorError
  | OrderedAmbiguousError
  | OrderedOther

fun classifyInboxOrderedError :: "ordered_error \<Rightarrow> string \<Rightarrow> err" where
  "classifyInboxOrderedError OrderedRecordNotFoundError field = inboxErr InboxErrorNotFound field"
| "classifyInboxOrderedError OrderedDeletedError field = inboxErr InboxErrorDeleted field"
| "classifyInboxOrderedError (OrderedRevisionConflictError actual) field = inboxConflict field actual"
| "classifyInboxOrderedError InvalidOrderedCursorError field = inboxErr InboxErrorCursor field"
| "classifyInboxOrderedError OrderedAmbiguousError field = inboxErr InboxErrorUnknown field"
| "classifyInboxOrderedError OrderedOther field = inboxErr InboxErrorBackend field"

fun classifyCatalogOrderedError :: "ordered_error \<Rightarrow> string \<Rightarrow> err" where
  "classifyCatalogOrderedError OrderedRecordNotFoundError field = catalogErr CatalogErrorNotFound field"
| "classifyCatalogOrderedError OrderedDeletedError field = catalogErr CatalogErrorDeleted field"
| "classifyCatalogOrderedError (OrderedRevisionConflictError actual) field = catalogConflict field actual"
| "classifyCatalogOrderedError InvalidOrderedCursorError field = catalogErr CatalogErrorCursor field"
| "classifyCatalogOrderedError OrderedAmbiguousError field = catalogErr CatalogErrorUnknown field"
| "classifyCatalogOrderedError OrderedOther field = catalogErr CatalogErrorBackend field"

fun classifyRegistryOrderedError :: "ordered_error \<Rightarrow> string \<Rightarrow> err" where
  "classifyRegistryOrderedError OrderedRecordNotFoundError field = registryErr RegistryErrorNotFound field"
| "classifyRegistryOrderedError OrderedDeletedError field = registryErr RegistryErrorDeleted field"
| "classifyRegistryOrderedError (OrderedRevisionConflictError actual) field = registryConflict field actual"
| "classifyRegistryOrderedError InvalidOrderedCursorError field = registryErr RegistryErrorBackend field"
| "classifyRegistryOrderedError OrderedAmbiguousError field = registryErr RegistryErrorUnknown field"
| "classifyRegistryOrderedError OrderedOther field = registryErr RegistryErrorBackend field"

fun classifyHostTargetOrderedError :: "ordered_error \<Rightarrow> string \<Rightarrow> err" where
  "classifyHostTargetOrderedError OrderedRecordNotFoundError field = hostTargetErr HostTargetErrorNotFound field"
| "classifyHostTargetOrderedError OrderedDeletedError field = hostTargetErr HostTargetErrorDeleted field"
| "classifyHostTargetOrderedError (OrderedRevisionConflictError actual) field = hostTargetConflict field actual"
| "classifyHostTargetOrderedError InvalidOrderedCursorError field = hostTargetErr HostTargetErrorCursor field"
| "classifyHostTargetOrderedError OrderedAmbiguousError field = hostTargetErr HostTargetErrorUnknown field"
| "classifyHostTargetOrderedError OrderedOther field = hostTargetErr HostTargetErrorBackend field"

fun classifyReconcileOrderedError :: "ordered_error \<Rightarrow> string \<Rightarrow> err" where
  "classifyReconcileOrderedError OrderedRecordNotFoundError field = reconcileErr ReconcileErrorNotFound field"
| "classifyReconcileOrderedError OrderedDeletedError field = reconcileErr ReconcileErrorDeleted field"
| "classifyReconcileOrderedError (OrderedRevisionConflictError actual) field = reconcileConflict field actual"
| "classifyReconcileOrderedError InvalidOrderedCursorError field = reconcileErr ReconcileErrorBackend field"
| "classifyReconcileOrderedError OrderedAmbiguousError field = reconcileErr ReconcileErrorUnknown field"
| "classifyReconcileOrderedError OrderedOther field = reconcileErr ReconcileErrorBackend field"

fun classifyPointerOrderedError :: "ordered_error \<Rightarrow> string \<Rightarrow> err" where
  "classifyPointerOrderedError OrderedRecordNotFoundError field = pointerErr PointerErrorNotFound field"
| "classifyPointerOrderedError OrderedDeletedError field = pointerErr PointerErrorDeleted field"
| "classifyPointerOrderedError (OrderedRevisionConflictError actual) field = pointerConflict field actual"
| "classifyPointerOrderedError InvalidOrderedCursorError field = pointerErr PointerErrorBackend field"
| "classifyPointerOrderedError OrderedAmbiguousError field = pointerErr PointerErrorUnknown field"
| "classifyPointerOrderedError OrderedOther field = pointerErr PointerErrorBackend field"

fun classifyTerminationOrderedError :: "ordered_error \<Rightarrow> string \<Rightarrow> err" where
  "classifyTerminationOrderedError OrderedRecordNotFoundError field = terminationErr TerminationErrorNotFound field"
| "classifyTerminationOrderedError OrderedDeletedError field = terminationErr TerminationErrorDeleted field"
| "classifyTerminationOrderedError (OrderedRevisionConflictError actual) field = terminationConflict field actual"
| "classifyTerminationOrderedError InvalidOrderedCursorError field = terminationErr TerminationErrorBackend field"
| "classifyTerminationOrderedError OrderedAmbiguousError field = terminationErr TerminationErrorUnknown field"
| "classifyTerminationOrderedError OrderedOther field = terminationErr TerminationErrorBackend field"

subsection \<open>Validators shared by the record kinds\<close>

definition minRankableTime :: gotime where
  "minRankableTime = \<lparr>t_ns = - (2 ^ 63), t_zone = 0\<rparr>"

definition maxRankableTime :: gotime where
  "maxRankableTime = \<lparr>t_ns = 2 ^ 63 - 1, t_zone = 0\<rparr>"

definition rankableTime :: "gotime \<Rightarrow> bool" where
  "rankableTime t \<longleftrightarrow> \<not> Before t minRankableTime \<and> \<not> After t maxRankableTime"

lemma rankableTime_iff: "rankableTime t \<longleftrightarrow> - (2 ^ 63) \<le> t_ns t \<and> t_ns t \<le> 2 ^ 63 - 1"
  by (auto simp: rankableTime_def Before_def After_def minRankableTime_def maxRankableTime_def)

lemma rankableTime_UTC [simp]: "rankableTime (UTC t) \<longleftrightarrow> rankableTime t"
  by (simp add: rankableTime_iff)

lemma rankable_not_zero: "rankableTime t \<Longrightarrow> \<not> IsZero t"
  by (simp add: rankableTime_iff IsZero_def zero_ns_def)

definition validateOpaque :: "core_lib \<Rightarrow> string \<Rightarrow> string \<Rightarrow> (string \<Rightarrow> err) \<Rightarrow> err + unit" where
  "validateOpaque c value field fail =
     (if value = [] \<or> length value > MaxIDBytes c \<or> \<not> ValidString value then Inl (fail field) else Inr ())"

definition validateOptionalOpaque :: "core_lib \<Rightarrow> string \<Rightarrow> string \<Rightarrow> (string \<Rightarrow> err) \<Rightarrow> err + unit" where
  "validateOptionalOpaque c value field fail =
     (if value = [] then Inr () else validateOpaque c value field fail)"

lemma validateOpaque_Inr_iff [simp]:
  "validateOpaque c value field fail = Inr u \<longleftrightarrow>
     value \<noteq> [] \<and> length value \<le> MaxIDBytes c \<and> ValidString value"
  by (auto simp: validateOpaque_def)

lemma validateOptionalOpaque_Inr_iff [simp]:
  "validateOptionalOpaque c value field fail = Inr u \<longleftrightarrow>
     value = [] \<or> (length value \<le> MaxIDBytes c \<and> ValidString value)"
  by (auto simp: validateOptionalOpaque_def)

definition validateBoundedExpiry ::
  "gotime \<Rightarrow> gotime \<Rightarrow> int \<Rightarrow> string \<Rightarrow> (string \<Rightarrow> err) \<Rightarrow> err + unit" where
  "validateBoundedExpiry expiresAt now maxTTL field fail =
     (if \<not> Before now expiresAt then Inl (fail field)
      else if SubT expiresAt now > maxTTL then Inl (fail field)
      else Inr ())"

text \<open>For a bound below the largest duration the saturation of \<^verbatim>\<open>Sub\<close> hides nothing.\<close>

lemma validateBoundedExpiry_Inr_iff:
  assumes "m < 2 ^ 63 - 1"
  shows "validateBoundedExpiry e now m field fail = Inr u \<longleftrightarrow>
    t_ns now < t_ns e \<and> t_ns e - t_ns now \<le> m"
  using assms by (auto simp: validateBoundedExpiry_def Before_def SubT_def int64_clamp_def)

definition epochFence :: "u64 \<Rightarrow> u64 \<Rightarrow> (u64 \<Rightarrow> err) \<Rightarrow> err + unit" where
  "epochFence committed requested fail =
     (if requested < committed then Inl (fail committed) else Inr ())"

lemma epochFence_Inr_iff [simp]: "epochFence committed requested fail = Inr u \<longleftrightarrow> committed \<le> requested"
  by (auto simp: epochFence_def)

lemma epochFence_Inl_iff:
  "epochFence committed requested fail = Inl e \<longleftrightarrow> requested < committed \<and> e = fail committed"
  by (auto simp: epochFence_def)

end
