(* ===== verification/Store_Model.thy ===== *)
theory Store_Model
  imports Errors
begin

text \<open>
  The \<^verbatim>\<open>Store\<close>: its configuration, and the storage provider it was opened on.  The provider
  (\<^verbatim>\<open>storage.Composite\<close>) and Core are other modules; every call of theirs the modelled code
  makes is a field here, a function of the outside state \<open>'s\<close> that returns what the call returns
  and the state it leaves.  The outside state also moves between the calls of one operation as far
  as a provider function lets it: a call may be preceded by any number of writes of other
  processes, which is how interleaving enters the model.
\<close>

subsection \<open>Provider values\<close>

record ordered_id =
  oid_Namespace :: string
  oid_OrderingScope :: string
  oid_StableKey :: string

record rank =
  rk_Ranked :: bool
  rk_Value :: int

datatype due = NoDue | DueAt int

record ordered_record =
  rec_ID :: ordered_id
  rec_RankingScope :: string
  rec_Value :: stored_bytes
  rec_Revision :: u64
  rec_Order :: u64
  rec_Rank :: rank
  rec_Due :: due
  rec_Deleted :: bool

record ordered_page =
  op_Records :: "ordered_record list"
  op_NextAfterOrder :: u64

record due_page =
  dp_Records :: "ordered_record list"
  dp_NextCursor :: string

record ranked_page =
  rp_Records :: "ordered_record list"
  rp_NextCursor :: string

definition noRank :: rank where
  "noRank = \<lparr>rk_Ranked = False, rk_Value = 0\<rparr>"

datatype kv_error = KeyNotFoundError string | ConflictError string u64 | KvOther

datatype ledger_error = LedgerOther

datatype append_error = AppendConflictError | AppendAmbiguousError | AppendVerifyError | AppendOther

datatype lease_error = LeaseHeldError u64 | LeaseOther

record ledger_record =
  lr_Seq :: u64
  lr_Payload :: string

text \<open>
  A reader: what the call number \<open>i\<close> returns when \<open>pos\<close> bytes were delivered before and the buffer has
  room for \<open>n\<close>; no data is a count below zero.  A blob reader also says whether closing it fails.
\<close>

datatype io_error = EOF | IoOther

record read_reply =
  rr_data :: "string option"
  rr_err :: "io_error option"

type_synonym byte_source = "nat \<Rightarrow> nat \<Rightarrow> nat \<Rightarrow> read_reply"

record blob_reader =
  bq_source :: byte_source
  bq_close :: bool

datatype blob_error = BlobConflictError string | BlobOther

text \<open>The reader a blob is uploaded from (\<^verbatim>\<open>exactVerifier\<close> of \<^verbatim>\<open>objects.go\<close>); its hash is the bytes written to it.\<close>

record exactVerifier =
  ev_source :: byte_source
  ev_calls :: nat
  ev_expected :: u64
  ev_digest :: string
  ev_hash :: string
  ev_read :: u64
  ev_verified :: bool
  ev_failure :: "err option"
  ev_readCode :: ObjectErrorCode

subsection \<open>Data the Store's own configuration names\<close>

datatype keyspaceLayout = layoutTenantV1 | layoutLegacySingleTenantV1

datatype ProtocolMode = ProtocolModeNone | ProtocolModeLegacy | ProtocolModeDisposition | ProtocolModeOther string

text \<open>The text of a mode; \<open>ProtocolModeOther\<close> is any text that is none of the three.\<close>

fun mode_text :: "ProtocolMode \<Rightarrow> string" where
  "mode_text ProtocolModeNone = []"
| "mode_text ProtocolModeLegacy = ''legacy''"
| "mode_text ProtocolModeDisposition = ''disposition''"
| "mode_text (ProtocolModeOther s) = s"

definition mode_of_text :: "string \<Rightarrow> ProtocolMode" where
  "mode_of_text s =
    (if s = [] then ProtocolModeNone
     else if s = ''legacy'' then ProtocolModeLegacy
     else if s = ''disposition'' then ProtocolModeDisposition
     else ProtocolModeOther s)"

record SessionBinding =
  sb_StorageBindingID :: string
  sb_BindingVersion :: string
  sb_RuntimeSessionID :: string
  sb_ProtocolMode :: ProtocolMode

definition zeroBinding :: SessionBinding where
  "zeroBinding = \<lparr>sb_StorageBindingID = [], sb_BindingVersion = [], sb_RuntimeSessionID = [],
    sb_ProtocolMode = ProtocolModeNone\<rparr>"

record keyspace =
  ks_layout :: keyspaceLayout
  ks_legacyTenant :: string
  ks_shards :: nat
  ks_digest :: "string \<Rightarrow> string"

text \<open>
  The request a disposition evidence reader gets and the evidence it returns
  (\<^verbatim>\<open>disposition_settlement.go\<close>); they are here because the reader is a member of the Store.
\<close>

datatype DispositionOutcomeKind =
    DispositionApplied | DispositionNoOp | DispositionRefused | DispositionNotApplied
  | DispositionKindOther string

fun outcome_text :: "DispositionOutcomeKind \<Rightarrow> string" where
  "outcome_text DispositionApplied = ''applied''"
| "outcome_text DispositionNoOp = ''no_op''"
| "outcome_text DispositionRefused = ''refused''"
| "outcome_text DispositionNotApplied = ''not_applied''"
| "outcome_text (DispositionKindOther s) = s"

definition outcome_of_text :: "string \<Rightarrow> DispositionOutcomeKind" where
  "outcome_of_text s =
    (if s = ''applied'' then DispositionApplied else if s = ''no_op'' then DispositionNoOp
     else if s = ''refused'' then DispositionRefused else if s = ''not_applied'' then DispositionNotApplied
     else DispositionKindOther s)"

definition outcome_valid :: "DispositionOutcomeKind \<Rightarrow> bool" where
  "outcome_valid k \<longleftrightarrow>
    k = DispositionApplied \<or> k = DispositionNoOp \<or> k = DispositionRefused \<or> k = DispositionNotApplied"

lemma outcome_of_text_text [simp]: "outcome_valid k \<Longrightarrow> outcome_of_text (outcome_text k) = k"
  by (auto simp: outcome_valid_def outcome_of_text_def)

lemma outcome_text_of_text [simp]: "outcome_text (outcome_of_text s) = s"
  by (simp add: outcome_of_text_def)

record DispositionAttempt =
  da_AttemptID :: string
  da_JournalEpoch :: u64
  da_ResidencyEpoch :: u64
  da_StartedAt :: gotime

record DispositionEvidence =
  de_AttemptID :: string
  de_Kind :: DispositionOutcomeKind
  de_AttemptJournalEpoch :: u64
  de_AuthorJournalEpoch :: u64
  de_DispositionSeq :: u64
  de_AuthorFenceSeq :: u64
  de_EventID :: string
  de_EventSeq :: u64

record DispositionEvidenceRequest =
  der_TenantID :: string
  der_SessionID :: string
  der_CommandID :: string
  der_Kind :: string
  der_RuntimeCommandID :: string
  der_Binding :: SessionBinding
  der_Attempt :: DispositionAttempt

subsection \<open>The Store\<close>

text \<open>
  \<open>st_room n\<close> is the room, beyond one byte, that \<^verbatim>\<open>io.ReadAll\<close> offers after \<open>n\<close> bytes, and \<open>st_Generation\<close>
  the source of entropy object generations are drawn from.  \<open>st_StreamCtx s n\<close> is what the context of a stream
  opened in \<open>s\<close> says when its read number \<open>n\<close> starts and once the source has been read: it may be canceled at any read.
\<close>

record 's store =
  st_ident :: nat
  st_core :: core_lib
  st_keys :: keyspace
  st_MaxPageSize :: int
  st_MaxOrderedPageLimit :: int
  st_maxPageBytes :: int
  st_overflowThreshold :: int
  st_room :: "nat \<Rightarrow> nat"
  st_Generation :: "'s \<Rightarrow> (unit + string) \<times> 's"
  st_Now :: "'s \<Rightarrow> gotime"
  st_closing :: "'s \<Rightarrow> bool"
  st_CtxErr :: "'s \<Rightarrow> bool"
  st_StreamCtx :: "'s \<Rightarrow> nat \<Rightarrow> bool \<times> bool"
  st_evidence ::
    "(DispositionEvidenceRequest \<Rightarrow> 's \<Rightarrow> (err + DispositionEvidence) \<times> 's) option"
  kv_Get :: "string \<Rightarrow> 's \<Rightarrow> (kv_error + string \<times> u64) \<times> 's"
  kv_Put :: "string \<Rightarrow> u64 \<Rightarrow> string \<Rightarrow> 's \<Rightarrow> (kv_error + u64) \<times> 's"
  oi_Create ::
    "ordered_id \<Rightarrow> string \<Rightarrow> stored_bytes \<Rightarrow> rank \<Rightarrow> due \<Rightarrow> 's
      \<Rightarrow> (ordered_error + ordered_record \<times> bool) \<times> 's"
  oi_Get :: "ordered_id \<Rightarrow> 's \<Rightarrow> (ordered_error + ordered_record) \<times> 's"
  oi_Update ::
    "ordered_id \<Rightarrow> u64 \<Rightarrow> stored_bytes \<Rightarrow> rank \<Rightarrow> due \<Rightarrow> 's
      \<Rightarrow> (ordered_error + ordered_record) \<times> 's"
  oi_ListOrdered ::
    "string \<Rightarrow> string \<Rightarrow> u64 \<Rightarrow> int \<Rightarrow> 's \<Rightarrow> (ordered_error + ordered_page) \<times> 's"
  oi_ListDue :: "string \<Rightarrow> int \<Rightarrow> string \<Rightarrow> int \<Rightarrow> 's \<Rightarrow> (ordered_error + due_page) \<times> 's"
  oi_ListRanked :: "string \<Rightarrow> string \<Rightarrow> string \<Rightarrow> int \<Rightarrow> 's \<Rightarrow> (ordered_error + ranked_page) \<times> 's"
  oi_Delete :: "ordered_id \<Rightarrow> u64 \<Rightarrow> 's \<Rightarrow> (ordered_error + unit) \<times> 's"
  le_Acquire :: "string \<Rightarrow> 's \<Rightarrow> (lease_error + nat \<times> u64) \<times> 's"
  le_Release :: "nat \<Rightarrow> 's \<Rightarrow> (lease_error + unit) \<times> 's"
  le_Lost :: "nat \<Rightarrow> 's \<Rightarrow> bool"
  lg_Tip :: "string \<Rightarrow> 's \<Rightarrow> (ledger_error + u64) \<times> 's"
  lg_AppendDefinite :: "string \<Rightarrow> u64 \<Rightarrow> string \<Rightarrow> 's \<Rightarrow> (append_error + unit) \<times> 's"
  lg_Read :: "string \<Rightarrow> u64 \<Rightarrow> 's \<Rightarrow> (ledger_error + (ledger_error + ledger_record) list) \<times> 's"
  bl_Put :: "string \<Rightarrow> exactVerifier \<Rightarrow> 's \<Rightarrow> (blob_error + unit) \<times> exactVerifier \<times> 's"
  bl_Get :: "string \<Rightarrow> 's \<Rightarrow> (blob_error + blob_reader option) \<times> 's"
  bl_List :: "string \<Rightarrow> 's \<Rightarrow> (blob_error + string list) \<times> 's"
  bl_Delete :: "string \<Rightarrow> 's \<Rightarrow> (blob_error + unit) \<times> 's"

type_synonym ('s, 'a) store_op = "('s, err, 'a) op"

text \<open>A provider call whose failure the caller inspects, and one whose failure is classified.\<close>

definition attemptE :: "('s \<Rightarrow> ('x + 'a) \<times> 's) \<Rightarrow> ('s, 'x + 'a) store_op" where
  "attemptE m = (\<lambda>s. case m s of (r, t) \<Rightarrow> (Inr r, t))"

definition classifyE :: "('x \<Rightarrow> err) \<Rightarrow> ('s \<Rightarrow> ('x + 'a) \<times> 's) \<Rightarrow> ('s, 'a) store_op" where
  "classifyE f m = (\<lambda>s. case m s of (Inl e, t) \<Rightarrow> (Inl (f e), t) | (Inr x, t) \<Rightarrow> (Inr x, t))"

lemma attemptE_iff [simp, op_simps]: "attemptE m s = (Inr r, t) \<longleftrightarrow> m s = (r, t)"
  by (auto simp: attemptE_def split: prod.splits)

lemma attemptE_Inl [simp]: "attemptE m s \<noteq> (Inl e, t)"
  by (auto simp: attemptE_def split: prod.splits)

lemma classifyE_Inr_iff [simp, op_simps]: "classifyE f m s = (Inr x, t) \<longleftrightarrow> m s = (Inr x, t)"
  by (auto simp: classifyE_def split: prod.splits sum.splits)

lemma classifyE_Inl_iff [simp]: "classifyE f m s = (Inl e, t) \<longleftrightarrow> (\<exists>x. m s = (Inl x, t) \<and> e = f x)"
  by (auto simp: classifyE_def split: prod.splits sum.splits)

text \<open>\<^verbatim>\<open>admitForeground\<close>: an operation is refused once the Store is closing.\<close>

definition admitForeground :: "'s store \<Rightarrow> ('s, unit) store_op" where
  "admitForeground st =
     bindE (askE (st_closing st)) (\<lambda>closing. if closing then failE StoreClosedError else returnE ())"

lemma admitForeground_Inr_iff [simp, op_simps]:
  "admitForeground st s = (Inr u, t) \<longleftrightarrow> \<not> st_closing st s \<and> t = s"
  by (auto simp: admitForeground_def bindE_def askE_def returnE_def failE_def)

text \<open>\<^verbatim>\<open>opCtx.Err()\<close> inside a loop.\<close>

definition checkCtx :: "'s store \<Rightarrow> ('s, unit) store_op" where
  "checkCtx st = bindE (askE (st_CtxErr st)) (\<lambda>done. if done then failE ContextError else returnE ())"

lemma checkCtx_Inr_iff [simp, op_simps]: "checkCtx st s = (Inr u, t) \<longleftrightarrow> \<not> st_CtxErr st s \<and> t = s"
  by (auto simp: checkCtx_def bindE_def askE_def returnE_def failE_def)

text \<open>\<^verbatim>\<open>pageLimit\<close>: a caller's limit, 0 meaning the configured page size.\<close>

definition pageLimit :: "'s store \<Rightarrow> int \<Rightarrow> int option" where
  "pageLimit st limit =
    (if limit < 0 \<or> limit > st_MaxOrderedPageLimit st then None
     else if limit = 0 then Some (st_MaxPageSize st)
     else Some limit)"

text \<open>What a record filed under a scope must say of itself (\<^verbatim>\<open>checkFiledScope\<close>).\<close>

definition checkFiledScope :: "ordered_record \<Rightarrow> string \<Rightarrow> due \<Rightarrow> (string \<Rightarrow> err) \<Rightarrow> err + unit" where
  "checkFiledScope stored scope due fail =
    (if oid_OrderingScope (rec_ID stored) \<noteq> scope then Inl (fail ''ordering_scope'')
     else if rec_RankingScope stored \<noteq> scope then Inl (fail ''ranking_scope'')
     else if rec_Due stored \<noteq> due then Inl (fail ''due'')
     else Inr ())"

lemma checkFiledScope_Inr_iff [simp]:
  "checkFiledScope stored scope due fail = Inr u \<longleftrightarrow>
     oid_OrderingScope (rec_ID stored) = scope \<and> rec_RankingScope stored = scope \<and> rec_Due stored = due"
  by (auto simp: checkFiledScope_def)

lemma mode_text_inject:
  assumes "mode_of_text (mode_text m) = m" "mode_of_text (mode_text n) = n"
  shows "mode_text m = mode_text n \<longleftrightarrow> m = n"
  using assms by metis

lemma mode_of_text_text [simp]: "mode_text (mode_of_text s) = s"
  by (simp add: mode_of_text_def)

end
