(* ===== verification/Go_Text.thy ===== *)
theory Go_Text
  imports Go_Lib
begin

text \<open>
  The text functions of Go's standard library that the object references use: \<^verbatim>\<open>strings.Split\<close>,
  the extended-hex base32 encoding without padding, and whether \<^verbatim>\<open>mime.ParseMediaType\<close> accepts a
  value.
\<close>

subsection \<open>Splitting\<close>

fun split_at :: "char \<Rightarrow> string \<Rightarrow> string list" where
  "split_at d [] = [[]]"
| "split_at d (c # cs) =
    (if c = d then [] # split_at d cs
     else (case split_at d cs of [] \<Rightarrow> [[c]] | w # ws \<Rightarrow> (c # w) # ws))"

lemma split_at_nonempty [simp]: "split_at d s \<noteq> []"
  by (induction s) (auto split: list.split)

lemma split_at_plain: "d \<notin> set s \<Longrightarrow> split_at d s = [s]"
  by (induction s) auto

lemma split_at_append: "d \<notin> set s \<Longrightarrow> split_at d (s @ d # t) = s # split_at d t"
  by (induction s) auto

fun join_with :: "char \<Rightarrow> string list \<Rightarrow> string" where
  "join_with d [] = []"
| "join_with d [w] = w"
| "join_with d (w # ws) = w @ d # join_with d ws"

lemma join_split [simp]: "join_with d (split_at d s) = s"
proof (induction s)
  case Nil
  then show ?case by simp
next
  case (Cons c cs)
  obtain w ws where "split_at d cs = w # ws" by (cases "split_at d cs") auto
  with Cons show ?case by (cases ws) auto
qed

subsection \<open>Base 32\<close>

definition base32_alphabet :: string where
  "base32_alphabet = ''0123456789abcdefghijklmnopqrstuv''"

fun base32_quintets :: "bool list \<Rightarrow> nat list" where
  "base32_quintets (a # b # c # d # e # r) =
     (16 * of_bool a + 8 * of_bool b + 4 * of_bool c + 2 * of_bool d + of_bool e) # base32_quintets r"
| "base32_quintets [] = []"
| "base32_quintets [a] = [16 * of_bool a]"
| "base32_quintets [a, b] = [16 * of_bool a + 8 * of_bool b]"
| "base32_quintets [a, b, c] = [16 * of_bool a + 8 * of_bool b + 4 * of_bool c]"
| "base32_quintets [a, b, c, d] = [16 * of_bool a + 8 * of_bool b + 4 * of_bool c + 2 * of_bool d]"

definition byte_bits :: "char \<Rightarrow> bool list" where
  "byte_bits c = map (\<lambda>i. bit (byte_of c) i) [7, 6, 5, 4, 3, 2, 1, 0]"

text \<open>Encoding, in lower case.\<close>

definition base32_encode :: "string \<Rightarrow> string" where
  "base32_encode s = map (\<lambda>q. base32_alphabet ! q) (base32_quintets (concat (map byte_bits s)))"

fun bits_bytes :: "bool list \<Rightarrow> string" where
  "bits_bytes (a # b # c # d # e # f # g # h # r) =
     byte_char (128 * of_bool a + 64 * of_bool b + 32 * of_bool c + 16 * of_bool d
       + 8 * of_bool e + 4 * of_bool f + 2 * of_bool g + of_bool h) # bits_bytes r"
| "bits_bytes _ = []"

text \<open>
  Decoding of a text brought to upper case: line breaks are dropped, every other character must be
  of the alphabet in either case, and one, three or six characters of a last group are an error.
\<close>

definition to_lower :: "char \<Rightarrow> char" where
  "to_lower c = (let b = byte_of c in if 65 \<le> b \<and> b \<le> 90 then byte_char (b + 32) else c)"

definition base32_decode_fold :: "string \<Rightarrow> string option" where
  "base32_decode_fold t =
    (let u = filter (\<lambda>c. c \<noteq> CHR 0x0D \<and> c \<noteq> CHR 0x0A) t in
     if length u mod 8 \<in> {1, 3, 6} then None
     else (case sequence_option (map (\<lambda>c. b64_index base32_alphabet 0 (to_lower c)) u) of
        None \<Rightarrow> None
      | Some qs \<Rightarrow> Some (bits_bytes (concat (map (\<lambda>q. map (bit q) [4, 3, 2, 1, 0]) qs)))))"

lemma length_byte_bits [simp]: "length (byte_bits c) = 8"
  by (simp add: byte_bits_def)

lemma length_concat_bits: "length (concat (map byte_bits cs)) = 8 * length cs"
  by (induction cs) auto

lemma length_base32_quintets: "length (base32_quintets xs) = (length xs + 4) div 5"
  by (induction xs rule: base32_quintets.induct) auto

lemma base32_quintets_lt: "q \<in> set (base32_quintets bs) \<Longrightarrow> q < 32"
  by (induction bs rule: base32_quintets.induct) (auto simp: of_bool_def split: if_splits)

lemma base32_alphabet_facts: "distinct base32_alphabet" "length base32_alphabet = 32"
  by (simp_all add: base32_alphabet_def)

lemma base32_alphabet_lower: "c \<in> set base32_alphabet \<Longrightarrow> to_lower c = c \<and> c \<noteq> CHR 0x0D \<and> c \<noteq> CHR 0x0A \<and> c \<noteq> CHR '':''"
  by (auto simp: base32_alphabet_def to_lower_def Let_def)

lemma base32_encode_set: "c \<in> set (base32_encode s) \<Longrightarrow> c \<in> set base32_alphabet"
  by (auto simp: base32_encode_def base32_alphabet_facts dest!: base32_quintets_lt)

lemma base32_encode_plain: "CHR '':'' \<notin> set (base32_encode s)"
  using base32_encode_set base32_alphabet_lower by blast

lemma hex_digit_plain: "n < 16 \<Longrightarrow> hex_digit n \<noteq> CHR '':''"
  by (auto simp: hex_digit_def dest!: arg_cong [where f = byte_of])

lemma hex_encode_plain: "CHR '':'' \<notin> set (hex_encode s)"
proof (induction s)
  case (Cons c s)
  have "hex_digit (byte_of c div 16) \<noteq> CHR '':''" "hex_digit (byte_of c mod 16) \<noteq> CHR '':''"
    using byte_of_lt [of c] by (intro hex_digit_plain; linarith)+
  with Cons show ?case by auto
qed simp

lemma quintet_bits:
  "map (bit (16 * of_bool a + 8 * of_bool b + 4 * of_bool c + 2 * of_bool d + of_bool e :: nat)) [4, 3, 2, 1, 0]
     = [a, b, c, d, e]"
  by (cases a; cases b; cases c; cases d; cases e) (simp_all add: bit_iff_odd)

lemma quintets_bits:
  "\<exists>k < 5. concat (map (\<lambda>q. map (bit q) [4, 3, 2, 1, 0]) (base32_quintets bs)) = bs @ replicate k False"
proof (induction bs rule: base32_quintets.induct)
  case (1 a b c d e r)
  then show ?case using quintet_bits [of a b c d e] by auto
next
  case 2
  then show ?case by (auto intro: exI [of _ 0])
next
  case (3 a)
  then show ?case using quintet_bits [of a False False False False] by (auto intro!: exI [of _ 4] simp: eval_nat_numeral)
next
  case (4 a b)
  then show ?case using quintet_bits [of a b False False False] by (auto intro!: exI [of _ 3] simp: eval_nat_numeral)
next
  case (5 a b c)
  then show ?case using quintet_bits [of a b c False False] by (auto intro!: exI [of _ 2] simp: eval_nat_numeral)
next
  case (6 a b c d)
  then show ?case using quintet_bits [of a b c d False] by (auto intro!: exI [of _ 1])
qed

lemma bits_byte:
  "byte_char (128 * of_bool (bit (byte_of x) 7) + 64 * of_bool (bit (byte_of x) 6) + 32 * of_bool (bit (byte_of x) 5)
     + 16 * of_bool (bit (byte_of x) 4) + 8 * of_bool (bit (byte_of x) 3) + 4 * of_bool (bit (byte_of x) 2)
     + 2 * of_bool (bit (byte_of x) 1) + of_bool (bit (byte_of x) 0)) = x"
proof -
  have "horner_sum of_bool 2 (map (bit (byte_of x)) [0, 1, 2, 3, 4, 5, 6, 7]) = take_bit 8 (byte_of x)"
  proof -
    have "[0..<8] = [0, 1, 2, 3, 4, 5, 6, 7 :: nat]" by (simp add: upt_conv_Cons eval_nat_numeral)
    then show ?thesis using horner_sum_bit_eq_take_bit [of "byte_of x" 8] by simp
  qed
  moreover have "take_bit 8 (byte_of x) = byte_of x" by (simp add: take_bit_eq_mod)
  ultimately have "128 * of_bool (bit (byte_of x) 7) + 64 * of_bool (bit (byte_of x) 6) + 32 * of_bool (bit (byte_of x) 5)
     + 16 * of_bool (bit (byte_of x) 4) + 8 * of_bool (bit (byte_of x) 3) + 4 * of_bool (bit (byte_of x) 2)
     + 2 * of_bool (bit (byte_of x) 1) + of_bool (bit (byte_of x) 0) = byte_of x"
    by (simp add: algebra_simps)
  then show ?thesis by (simp only: byte_char_of)
qed

lemma bits_bytes_append:
  assumes "length rest < 8"
  shows "bits_bytes (concat (map byte_bits cs) @ rest) = cs"
proof (induction cs)
  case Nil
  have "bits_bytes rest = []" using assms by (cases rest rule: bits_bytes.cases) auto
  then show ?case by simp
next
  case (Cons c cs)
  then show ?case using bits_byte [of c] by (simp add: byte_bits_def)
qed

lemma base32_decode_encode:
  assumes "(8 * length s + 4) div 5 mod 8 \<notin> {1, 3, 6}"
  shows "base32_decode_fold (base32_encode s) = Some s"
proof -
  let ?qs = "base32_quintets (concat (map byte_bits s))"
  have plain: "filter (\<lambda>c. c \<noteq> CHR 0x0D \<and> c \<noteq> CHR 0x0A) (base32_encode s) = base32_encode s"
    using base32_encode_set base32_alphabet_lower by (intro filter_True) blast
  have len: "length (base32_encode s) = (8 * length s + 4) div 5"
    by (simp add: base32_encode_def length_base32_quintets length_concat_bits)
  have "map (\<lambda>c. b64_index base32_alphabet 0 (to_lower c)) (base32_encode s) = map Some ?qs"
    using base32_alphabet_lower b64_index_nth [OF base32_alphabet_facts(1), of _ 0]
    by (auto simp: base32_encode_def base32_alphabet_facts dest: base32_quintets_lt)
  then have idx: "sequence_option (map (\<lambda>c. b64_index base32_alphabet 0 (to_lower c)) (base32_encode s)) = Some ?qs"
    using sequence_option_map_Some [of ?qs Some "\<lambda>q. q"] by simp
  obtain k where k: "k < 5"
      "concat (map (\<lambda>q. map (bit q) [4, 3, 2, 1, 0]) ?qs) = concat (map byte_bits s) @ replicate k False"
    using quintets_bits by blast
  have "bits_bytes (concat (map (\<lambda>q. map (bit q) [4, 3, 2, 1, 0]) ?qs)) = s"
    unfolding k(2) using k(1) by (intro bits_bytes_append) simp
  then show ?thesis
    using assms by (simp add: base32_decode_fold_def plain len idx Let_def)
qed

subsection \<open>Media types\<close>

text \<open>The bytes of a leading white-space rune (\<^verbatim>\<open>unicode.IsSpace\<close>), 0 when there is none.\<close>

fun space_len :: "nat list \<Rightarrow> nat" where
  "space_len [] = 0"
| "space_len (b # bs) =
    (if (9 \<le> b \<and> b \<le> 13) \<or> b = 32 then 1
     else if b = 194 \<and> (take 1 bs = [133] \<or> take 1 bs = [160]) then 2
     else if take 3 (b # bs) \<in> {[225, 154, 128], [226, 128, 168], [226, 128, 169], [226, 128, 175],
            [226, 129, 159], [227, 128, 128]} then 3
     else if b = 226 \<and> take 1 bs = [128] \<and> length bs \<ge> 2 \<and> 128 \<le> bs ! 1 \<and> bs ! 1 \<le> 138 then 3
     else 0)"

fun trim_left :: "nat \<Rightarrow> nat list \<Rightarrow> nat list" where
  "trim_left 0 bs = bs"
| "trim_left (Suc n) bs = (if space_len bs = 0 then bs else trim_left n (drop (space_len bs) bs))"

definition TrimLeft :: "nat list \<Rightarrow> nat list" where
  "TrimLeft bs = trim_left (length bs) bs"

fun TrimRight :: "nat list \<Rightarrow> nat list" where
  "TrimRight [] = []"
| "TrimRight (b # bs) = (if TrimLeft (b # bs) = [] then [] else b # TrimRight bs)"

text \<open>
  \<^verbatim>\<open>strings.ToLower\<close> as far as tokens can tell: two runes outside ASCII have an ASCII lower case,
  the Kelvin sign and the dotted capital I.
\<close>

fun lower_bytes :: "nat list \<Rightarrow> nat list" where
  "lower_bytes [] = []"
| "lower_bytes (b # bs) =
    (if b = 226 \<and> take 2 bs = [132, 170] then 107 # lower_bytes (drop 2 bs)
     else if b = 196 \<and> take 1 bs = [176] then 105 # lower_bytes (drop 1 bs)
     else (if 65 \<le> b \<and> b \<le> 90 then b + 32 else b) # lower_bytes bs)"

definition tspecials :: "nat list" where
  "tspecials = map byte_of ''()<>@,;:'' @ [92, 34] @ map byte_of ''/[]?=''"

definition token_byte :: "nat \<Rightarrow> bool" where
  "token_byte b \<longleftrightarrow> 32 < b \<and> b < 127 \<and> b \<notin> set tspecials"

definition consume_token :: "nat list \<Rightarrow> nat list \<times> nat list" where
  "consume_token v = (takeWhile token_byte v, dropWhile token_byte v)"

fun consume_quoted :: "nat list \<Rightarrow> nat list \<Rightarrow> (nat list \<times> nat list) option" where
  "consume_quoted acc [] = None"
| "consume_quoted acc (r # rs) =
    (if r = 34 then Some (rev acc, rs)
     else if r = 92 \<and> rs \<noteq> [] \<and> hd rs \<in> set tspecials then consume_quoted (hd rs # acc) (tl rs)
     else if r = 13 \<or> r = 10 then None
     else consume_quoted (r # acc) rs)"

text \<open>A value and what follows it; an unterminated or broken quoted string consumes nothing.\<close>

definition consume_value :: "nat list \<Rightarrow> nat list \<times> nat list" where
  "consume_value v =
    (if v = [] then ([], v)
     else if hd v \<noteq> 34 then consume_token v
     else (case consume_quoted [] (tl v) of None \<Rightarrow> ([], v) | Some p \<Rightarrow> p))"

definition consume_param :: "nat list \<Rightarrow> (nat list \<times> nat list \<times> nat list) option" where
  "consume_param v =
    (let rest = TrimLeft v in
     if take 1 rest \<noteq> [59] then None
     else (let (param, rest2) = consume_token (TrimLeft (drop 1 rest)) in
       if param = [] then None
       else (let rest3 = TrimLeft rest2 in
         if take 1 rest3 \<noteq> [61] then None
         else (let rest4 = TrimLeft (drop 1 rest3); (val, rest5) = consume_value rest4 in
           if val = [] \<and> rest5 = rest4 then None else Some (lower_bytes param, val, rest5)))))"

text \<open>
  The parameters after the type: duplicates must agree; a trailing semicolon is ignored.  Each
  round consumes a byte, so the length of the text bounds the rounds.  A key is looked up in the
  same map as every key with its text before the first \<open>*\<close>, and its full text is its key there.
\<close>

fun media_params :: "nat \<Rightarrow> (nat list \<times> nat list) list \<Rightarrow> nat list \<Rightarrow> bool" where
  "media_params 0 seen v = (v = [])"
| "media_params (Suc n) seen v0 =
    (if v0 = [] then True
     else (let v = TrimLeft v0 in
       if v = [] then True
       else (case consume_param v of
          None \<Rightarrow> TrimRight v = [59]
        | Some (key, val, rest) \<Rightarrow>
            (case map_of seen key of
               Some old \<Rightarrow> old = val \<and> media_params n seen rest
             | None \<Rightarrow> media_params n ((key, val) # seen) rest))))"

definition media_base_ok :: "nat list \<Rightarrow> bool" where
  "media_base_ok s =
    (let (typ, rest) = consume_token s in
     if typ = [] then False
     else if rest = [] then True
     else if hd rest \<noteq> 47 then False
     else (let (subtype, rest2) = consume_token (tl rest) in subtype \<noteq> [] \<and> rest2 = []))"

definition ParseMediaType_ok :: "string \<Rightarrow> bool" where
  "ParseMediaType_ok s =
    (let v = map byte_of s; base = takeWhile (\<lambda>b. b \<noteq> 59) v in
     media_base_ok (TrimRight (TrimLeft (lower_bytes base))) \<and>
     media_params (Suc (length v)) [] (drop (length base) v))"

end
