(* ===== verification/Keyspace.thy ===== *)
theory Keyspace
  imports Store_Model Go_Text
begin

text \<open>
  \<^verbatim>\<open>keyspace.go\<close> and the shard arithmetic of \<^verbatim>\<open>shards.go\<close>: length-prefixed digest frames, the
  names derived from a tenant and a session, the layout marker, and the witnesses that detect two
  identities hashed to one name.
\<close>

definition MinControlShards :: nat where "MinControlShards = 1"
definition MaxControlShards :: nat where "MaxControlShards = 4096"

definition layoutMarkerKey :: string where "layoutMarkerKey = ''sessionstore/layout''"
definition legacyCatalogScope :: string where "legacyCatalogScope = ''sessions''"
definition markerCodecVersion :: nat where "markerCodecVersion = 2"
definition keyAlgorithmVersion :: nat where "keyAlgorithmVersion = 1"
definition layoutMarkerHeaderBytes :: nat where "layoutMarkerHeaderBytes = 11"

fun layout_byte :: "keyspaceLayout \<Rightarrow> nat" where
  "layout_byte layoutTenantV1 = 1"
| "layout_byte layoutLegacySingleTenantV1 = 2"

record sessionScope =
  sc_layout :: keyspaceLayout
  sc_TenantNamespace :: string
  sc_SessionNamespace :: string
  sc_LedgerName :: string
  sc_LeaseName :: string
  sc_CatalogKey :: string
  sc_CatalogScope :: string
  sc_ControlShard :: nat
  sc_BlobPrefix :: string
  sc_JournalName :: string
  sc_tenantWitnessKey :: string
  sc_tenantWitness :: string
  sc_sessionWitnessKey :: string
  sc_sessionWitness :: string

record tenantScope =
  ts_layout :: keyspaceLayout
  ts_TenantNamespace :: string
  ts_CatalogScope :: string
  ts_tenantWitnessKey :: string
  ts_tenantWitness :: string

subsection \<open>Frames and tokens\<close>

definition checkedUint16Length :: "nat \<Rightarrow> err + nat" where
  "checkedUint16Length n =
     (if n > 65535 then Inl (Panic ''sessionstore: internal uint16 length invariant'') else Inr n)"

definition checkedUint32Length :: "nat \<Rightarrow> err + nat" where
  "checkedUint32Length n =
     (if n > 4294967295 then Inl (Panic ''sessionstore: internal uint32 length invariant'') else Inr n)"

fun frame_values32 :: "string list \<Rightarrow> err + string" where
  "frame_values32 [] = Inr []"
| "frame_values32 (v # vs) =
     bindR (checkedUint32Length (length v)) (\<lambda>n.
     bindR (frame_values32 vs) (\<lambda>rest. Inr (be_put 4 n @ v @ rest)))"

definition digestFrame :: "string \<Rightarrow> string list \<Rightarrow> err + string" where
  "digestFrame domain values =
     bindR (checkedUint32Length (length domain)) (\<lambda>n.
     bindR (frame_values32 values) (\<lambda>rest. Inr (be_put 4 n @ domain @ rest)))"

fun frame_values16 :: "string list \<Rightarrow> err + string" where
  "frame_values16 [] = Inr []"
| "frame_values16 (v # vs) =
     bindR (checkedUint16Length (length v)) (\<lambda>n.
     bindR (frame_values16 vs) (\<lambda>rest. Inr (be_put 2 n @ v @ rest)))"

definition encodeWitness :: "nat \<Rightarrow> string list \<Rightarrow> err + string" where
  "encodeWitness kind values =
     bindR (frame_values16 values) (\<lambda>rest. Inr (''LRWB'' @ [byte_char 1, byte_char kind] @ rest))"

text \<open>\<^verbatim>\<open>base32.HexEncoding\<close> without padding, in lower case.\<close>

definition encodeDigest :: "string \<Rightarrow> string" where
  "encodeDigest dg = base32_encode dg"

definition witnessKey :: "string \<Rightarrow> string \<Rightarrow> string" where
  "witnessKey kind token = ''sessionstore/witnesses/'' @ kind @ ''/'' @ token"

subsection \<open>Control shards\<close>

definition hex4 :: "nat \<Rightarrow> string" where
  "hex4 n = map hex_digit [n div 4096 mod 16, n div 256 mod 16, n div 16 mod 16, n mod 16]"

definition controlShardToken :: "nat \<Rightarrow> err + string" where
  "controlShardToken shard =
    (if shard \<ge> MaxControlShards then Inl (Panic ''sessionstore: internal control shard bound invariant'')
     else Inr (hex4 shard))"

text \<open>
  The namespace is used for shards below the bound only: a derived scope's shard
  (\<open>deriveSessionScope_shard\<close>) and a validated one.  There the token does not panic.
\<close>

definition shardNamespace :: "string \<Rightarrow> nat \<Rightarrow> string" where
  "shardNamespace base shard = base @ ''/'' @ hex4 shard"

definition controlShardOf :: "keyspace \<Rightarrow> string \<Rightarrow> string \<Rightarrow> nat \<Rightarrow> err + nat" where
  "controlShardOf k tenant session count =
    (if count < MinControlShards \<or> count > MaxControlShards
     then Inl (Panic ''sessionstore: internal control shard count invariant'')
     else bindR (digestFrame ''looprig/sessionstore/shard/v1'' [tenant, session]) (\<lambda>frame.
       Inr (be_get (take 8 (ks_digest k frame)) mod count)))"

definition validateShard :: "'s store \<Rightarrow> int \<Rightarrow> (string \<Rightarrow> err) \<Rightarrow> err + nat" where
  "validateShard st shard invalid =
    (if shard < 0 \<or> shard \<ge> int (ks_shards (st_keys st)) then Inl (invalid ''shard'') else Inr (nat shard))"

subsection \<open>Scopes\<close>

definition isCanonicalLegacySessionID :: "string \<Rightarrow> bool" where
  "isCanonicalLegacySessionID sid \<longleftrightarrow>
     length sid = 36 \<and>
     list_all (\<lambda>i. if i \<in> {8, 13, 18, 23} then sid ! i = CHR ''-''
                   else (48 \<le> byte_of (sid ! i) \<and> byte_of (sid ! i) \<le> 57)
                      \<or> (97 \<le> byte_of (sid ! i) \<and> byte_of (sid ! i) \<le> 102)) [0..<36]"

definition deriveTenantScope :: "'s store \<Rightarrow> string \<Rightarrow> err + tenantScope" where
  "deriveTenantScope st tenant =
    (if \<not> tenant_ok (st_core st) tenant then Inl (InvalidIdentityError ''TenantID'')
     else if ks_layout (st_keys st) = layoutLegacySingleTenantV1 then
       (if tenant \<noteq> ks_legacyTenant (st_keys st) then Inl (KeyspaceError KeyspaceLegacyTenant)
        else Inr \<lparr>ts_layout = layoutLegacySingleTenantV1, ts_TenantNamespace = [],
                  ts_CatalogScope = legacyCatalogScope, ts_tenantWitnessKey = [], ts_tenantWitness = []\<rparr>)
     else
       bindR (digestFrame ''looprig/sessionstore/key/v1/tenant'' [tenant]) (\<lambda>frame.
       bindR (encodeWitness 1 [tenant]) (\<lambda>witness.
       let tenantToken = encodeDigest (ks_digest (st_keys st) frame);
           tenantNamespace = ''tenants/'' @ tenantToken
       in Inr \<lparr>ts_layout = layoutTenantV1, ts_TenantNamespace = tenantNamespace,
               ts_CatalogScope = tenantNamespace,
               ts_tenantWitnessKey = witnessKey ''tenant'' tenantToken,
               ts_tenantWitness = witness\<rparr>)))"

definition deriveSessionScope :: "'s store \<Rightarrow> string \<Rightarrow> string \<Rightarrow> err + sessionScope" where
  "deriveSessionScope st tenant session =
    bindR (deriveTenantScope st tenant) (\<lambda>owner.
    if \<not> session_ok (st_core st) session then Inl (InvalidIdentityError ''SessionID'')
    else if ts_layout owner = layoutLegacySingleTenantV1 then
      (if \<not> isCanonicalLegacySessionID session then Inl (KeyspaceError KeyspaceLegacySession)
       else bindR (controlShardOf (st_keys st) tenant session (ks_shards (st_keys st))) (\<lambda>shard.
         let prefix = ''sessions/'' @ session
         in Inr \<lparr>sc_layout = layoutLegacySingleTenantV1, sc_TenantNamespace = [],
                 sc_SessionNamespace = prefix, sc_LedgerName = prefix, sc_LeaseName = prefix,
                 sc_CatalogKey = prefix, sc_CatalogScope = ts_CatalogScope owner,
                 sc_ControlShard = shard, sc_BlobPrefix = prefix @ ''/blobs/'', sc_JournalName = prefix,
                 sc_tenantWitnessKey = [], sc_tenantWitness = [],
                 sc_sessionWitnessKey = [], sc_sessionWitness = []\<rparr>))
    else
      bindR (digestFrame ''looprig/sessionstore/key/v1/session'' [tenant, session]) (\<lambda>sessionFrame.
      bindR (controlShardOf (st_keys st) tenant session (ks_shards (st_keys st))) (\<lambda>shard.
      bindR (encodeWitness 2 [tenant, session]) (\<lambda>witness.
      let sessionToken = encodeDigest (ks_digest (st_keys st) sessionFrame);
          sessionNamespace = ts_TenantNamespace owner @ ''/sessions/'' @ sessionToken
      in Inr \<lparr>sc_layout = ts_layout owner, sc_TenantNamespace = ts_TenantNamespace owner,
              sc_SessionNamespace = sessionNamespace,
              sc_LedgerName = sessionNamespace @ ''/journal'',
              sc_LeaseName = sessionNamespace @ ''/lease'',
              sc_CatalogKey = sessionNamespace @ ''/catalog'',
              sc_CatalogScope = ts_CatalogScope owner,
              sc_ControlShard = shard,
              sc_BlobPrefix = sessionNamespace @ ''/blobs/'',
              sc_JournalName = sessionNamespace @ ''/journal'',
              sc_tenantWitnessKey = ts_tenantWitnessKey owner,
              sc_tenantWitness = ts_tenantWitness owner,
              sc_sessionWitnessKey = witnessKey ''session'' sessionToken,
              sc_sessionWitness = witness\<rparr>))))"

definition validateSessionScope :: "'s store \<Rightarrow> sessionScope \<Rightarrow> err + unit" where
  "validateSessionScope st scope =
    (if sc_layout scope \<noteq> ks_layout (st_keys st) then Inl (KeyspaceError KeyspaceScopeInvalid)
     else (case sc_layout scope of
       layoutTenantV1 \<Rightarrow>
         (if sc_tenantWitnessKey scope = [] \<or> sc_tenantWitness scope = []
            \<or> sc_sessionWitnessKey scope = [] \<or> sc_sessionWitness scope = []
          then Inl (KeyspaceError KeyspaceScopeInvalid) else Inr ())
     | layoutLegacySingleTenantV1 \<Rightarrow>
         (if sc_tenantWitnessKey scope \<noteq> [] \<or> sc_tenantWitness scope \<noteq> []
            \<or> sc_sessionWitnessKey scope \<noteq> [] \<or> sc_sessionWitness scope \<noteq> []
          then Inl (KeyspaceError KeyspaceScopeInvalid) else Inr ())))"

subsection \<open>The layout marker\<close>

definition checkedControlShardCount :: "nat \<Rightarrow> err + nat" where
  "checkedControlShardCount shards =
    (if shards < MinControlShards \<or> shards > MaxControlShards
     then Inl (Panic ''sessionstore: internal control shard count invariant'') else Inr shards)"

definition encodeLayoutMarker :: "keyspaceLayout \<Rightarrow> string \<Rightarrow> nat \<Rightarrow> err + string" where
  "encodeLayoutMarker layout tenant shards =
    bindR (checkedControlShardCount shards) (\<lambda>count.
    bindR (checkedUint16Length (length tenant)) (\<lambda>n.
      Inr (''LRKS'' @ [byte_char markerCodecVersion, byte_char (layout_byte layout),
             byte_char keyAlgorithmVersion] @ be_put 2 count @ be_put 2 n @ tenant)))"

definition validateLayoutMarker :: "core_lib \<Rightarrow> string \<Rightarrow> err + unit" where
  "validateLayoutMarker c data =
    (let malformed = Inl (KeyspaceError KeyspaceMarkerMalformed);
         shards = be_get (take 2 (drop 7 data));
         len = be_get (take 2 (drop 9 data));
         rest = drop layoutMarkerHeaderBytes data
     in if length data < layoutMarkerHeaderBytes \<or> take 4 data \<noteq> ''LRKS''
           \<or> byte_of (data ! 4) \<noteq> markerCodecVersion \<or> byte_of (data ! 6) \<noteq> keyAlgorithmVersion
        then malformed
        else if shards < MinControlShards \<or> shards > MaxControlShards then malformed
        else if length data \<noteq> layoutMarkerHeaderBytes + len then malformed
        else if byte_of (data ! 5) = layout_byte layoutTenantV1 then
          (if len \<noteq> 0 then malformed else Inr ())
        else if byte_of (data ! 5) = layout_byte layoutLegacySingleTenantV1 then
          (if tenant_ok c rest then Inr () else malformed)
        else malformed)"

definition compareLayoutMarker :: "core_lib \<Rightarrow> string \<Rightarrow> string \<Rightarrow> err + unit" where
  "compareLayoutMarker c got want =
    bindR (validateLayoutMarker c got) (\<lambda>_.
    if got \<noteq> want then Inl (KeyspaceError KeyspaceLayoutMismatch) else Inr ())"

fun isKeyNotFound :: "kv_error \<Rightarrow> string \<Rightarrow> bool" where
  "isKeyNotFound (KeyNotFoundError k) key = (k = key)"
| "isKeyNotFound _ key = False"

fun isCreateConflict :: "kv_error \<Rightarrow> string \<Rightarrow> bool" where
  "isCreateConflict (ConflictError name expected) key = (name = key \<and> expected = 0)"
| "isCreateConflict _ key = False"

definition initialize :: "'s store \<Rightarrow> ('s, unit) store_op" where
  "initialize st =
    bindE (liftE (encodeLayoutMarker (ks_layout (st_keys st)) (ks_legacyTenant (st_keys st))
                    (ks_shards (st_keys st)))) (\<lambda>want.
    bindE (attemptE (kv_Get st layoutMarkerKey)) (\<lambda>r. case r of
      Inr (got, _) \<Rightarrow> liftE (compareLayoutMarker (st_core st) got want)
    | Inl e \<Rightarrow>
        if \<not> isKeyNotFound e layoutMarkerKey then failE (KeyspaceError KeyspaceBackend)
        else bindE (attemptE (kv_Put st layoutMarkerKey 0 want)) (\<lambda>p. case p of
          Inr _ \<Rightarrow> returnE ()
        | Inl e2 \<Rightarrow>
            if \<not> isCreateConflict e2 layoutMarkerKey then failE (KeyspaceError KeyspaceBackend)
            else bindE (attemptE (kv_Get st layoutMarkerKey)) (\<lambda>g. case g of
              Inl e3 \<Rightarrow>
                failE (KeyspaceError (if isKeyNotFound e3 layoutMarkerKey
                                      then KeyspaceMarkerAmbiguous else KeyspaceBackend))
            | Inr (got, _) \<Rightarrow> liftE (compareLayoutMarker (st_core st) got want)))))"

subsection \<open>Witnesses\<close>

definition verifyWitness :: "'s store \<Rightarrow> string \<Rightarrow> string \<Rightarrow> ('s, unit) store_op" where
  "verifyWitness st key want =
    bindE (attemptE (kv_Get st key)) (\<lambda>r. case r of
      Inl e \<Rightarrow> failE (KeyspaceError (if isKeyNotFound e key then KeyspaceBindingNotFound else KeyspaceBackend))
    | Inr (got, _) \<Rightarrow>
        if got \<noteq> want then failE (KeyspaceError KeyspaceHashCollision) else returnE ())"

definition bindWitness :: "'s store \<Rightarrow> string \<Rightarrow> string \<Rightarrow> ('s, unit) store_op" where
  "bindWitness st key want =
    bindE (attemptE (kv_Get st key)) (\<lambda>r. case r of
      Inr (got, _) \<Rightarrow>
        if got \<noteq> want then failE (KeyspaceError KeyspaceHashCollision) else returnE ()
    | Inl e \<Rightarrow>
        if \<not> isKeyNotFound e key then failE (KeyspaceError KeyspaceBackend)
        else bindE (attemptE (kv_Put st key 0 want)) (\<lambda>p. case p of
          Inr _ \<Rightarrow> returnE ()
        | Inl e2 \<Rightarrow>
            if \<not> isCreateConflict e2 key then failE (KeyspaceError KeyspaceBackend)
            else bindE (attemptE (kv_Get st key)) (\<lambda>g. case g of
              Inl e3 \<Rightarrow>
                failE (KeyspaceError (if isKeyNotFound e3 key then KeyspaceBindingAmbiguous else KeyspaceBackend))
            | Inr (got, _) \<Rightarrow>
                if got \<noteq> want then failE (KeyspaceError KeyspaceHashCollision) else returnE ())))"

definition verifySessionScope :: "'s store \<Rightarrow> sessionScope \<Rightarrow> ('s, unit) store_op" where
  "verifySessionScope st scope =
    bindE (liftE (validateSessionScope st scope)) (\<lambda>_.
    if sc_layout scope = layoutLegacySingleTenantV1 then returnE ()
    else
      bindE (verifyWitness st (sc_tenantWitnessKey scope) (sc_tenantWitness scope)) (\<lambda>_.
      verifyWitness st (sc_sessionWitnessKey scope) (sc_sessionWitness scope)))"

subsection \<open>Frames name their fields\<close>

lemma checkedUint32Length_Inr_iff [simp]: "checkedUint32Length n = Inr m \<longleftrightarrow> n < 256 ^ 4 \<and> m = n"
  by (auto simp: checkedUint32Length_def)

lemma checkedUint16Length_Inr_iff [simp]: "checkedUint16Length n = Inr m \<longleftrightarrow> n < 256 ^ 2 \<and> m = n"
  by (auto simp: checkedUint16Length_def)

text \<open>A length-prefixed field is read back from the head of a frame.\<close>

lemma prefixed_field_inj:
  assumes "be_put k (length v) @ v @ r = be_put k (length w) @ w @ q"
    and "length v < 256 ^ k" and "length w < 256 ^ k"
  shows "v = w \<and> r = q"
proof -
  from assms(1) have hd: "be_put k (length v) = be_put k (length w)" and tl: "v @ r = w @ q"
    by (simp_all add: append_eq_append_conv)
  from be_put_inj [OF assms(2,3) hd] have "length v = length w" .
  with tl show ?thesis by simp
qed

lemma be_put_append_4 [simp]: "be_put 4 n @ xs \<noteq> []"
  using length_be_put [of 4 n] by (cases "be_put 4 n") (simp_all del: length_be_put)

lemma frame_values32_Nil: "frame_values32 ws = Inr [] \<longleftrightarrow> ws = []"
  by (cases ws) (simp_all del: be_put.simps append_is_Nil_conv)

lemma frame_values32_inj: "frame_values32 vs = Inr f \<Longrightarrow> frame_values32 ws = Inr f \<Longrightarrow> vs = ws"
proof (induction vs arbitrary: ws f)
  case Nil
  then show ?case by (auto simp: frame_values32_Nil)
next
  case (Cons v vs)
  then obtain r where r: "frame_values32 vs = Inr r" "length v < 256 ^ 4"
    and f: "f = be_put 4 (length v) @ v @ r"
    by (auto simp del: be_put.simps)
  then have "f \<noteq> []" by (simp del: be_put.simps append_is_Nil_conv)
  with Cons.prems(2) obtain w ws' where ws: "ws = w # ws'" by (cases ws) auto
  with Cons.prems(2) obtain q where q: "frame_values32 ws' = Inr q" "length w < 256 ^ 4"
    "f = be_put 4 (length w) @ w @ q"
    by (auto simp del: be_put.simps)
  from f q(3) have eq: "be_put 4 (length v) @ v @ r = be_put 4 (length w) @ w @ q"
    by (simp only:)
  from prefixed_field_inj [OF eq r(2) q(2)] have "v = w" "r = q" by simp_all
  with Cons.IH [OF r(1)] q(1) ws show ?case by simp
qed

lemma be_put_append_2 [simp]: "be_put 2 n @ xs \<noteq> []"
  using length_be_put [of 2 n] by (cases "be_put 2 n") (simp_all del: length_be_put)

lemma frame_values16_Nil: "frame_values16 ws = Inr [] \<longleftrightarrow> ws = []"
  by (cases ws) (simp_all del: be_put.simps append_is_Nil_conv)

lemma frame_values16_inj: "frame_values16 vs = Inr f \<Longrightarrow> frame_values16 ws = Inr f \<Longrightarrow> vs = ws"
proof (induction vs arbitrary: ws f)
  case Nil
  then show ?case by (auto simp: frame_values16_Nil)
next
  case (Cons v vs)
  then obtain r where r: "frame_values16 vs = Inr r" "length v < 256 ^ 2"
    and f: "f = be_put 2 (length v) @ v @ r"
    by (auto simp del: be_put.simps)
  then have "f \<noteq> []" by (simp del: be_put.simps append_is_Nil_conv)
  with Cons.prems(2) obtain w ws' where ws: "ws = w # ws'" by (cases ws) auto
  with Cons.prems(2) obtain q where q: "frame_values16 ws' = Inr q" "length w < 256 ^ 2"
    "f = be_put 2 (length w) @ w @ q"
    by (auto simp del: be_put.simps)
  from f q(3) have eq: "be_put 2 (length v) @ v @ r = be_put 2 (length w) @ w @ q"
    by (simp only:)
  from prefixed_field_inj [OF eq r(2) q(2)] have "v = w" "r = q" by simp_all
  with Cons.IH [OF r(1)] q(1) ws show ?case by simp
qed

lemma digestFrame_inject:
  assumes "digestFrame d vs = Inr f" and "digestFrame e ws = Inr f"
  shows "d = e \<and> vs = ws"
proof -
  from assms(1) obtain r where r: "frame_values32 vs = Inr r" "length d < 256 ^ 4"
    and f: "f = be_put 4 (length d) @ d @ r"
    by (auto simp: digestFrame_def simp del: be_put.simps)
  from assms(2) obtain q where q: "frame_values32 ws = Inr q" "length e < 256 ^ 4"
    "f = be_put 4 (length e) @ e @ q"
    by (auto simp: digestFrame_def simp del: be_put.simps)
  from f q(3) have eq: "be_put 4 (length d) @ d @ r = be_put 4 (length e) @ e @ q"
    by (simp only:)
  from prefixed_field_inj [OF eq r(2) q(2)] have "d = e" "r = q" by simp_all
  with r(1) q(1) frame_values32_inj show ?thesis by blast
qed

lemma encodeWitness_inject:
  assumes "encodeWitness j vs = Inr f" and "encodeWitness k ws = Inr f" and "j < 256" and "k < 256"
  shows "j = k \<and> vs = ws"
proof -
  from assms obtain r q where "frame_values16 vs = Inr r" "frame_values16 ws = Inr q"
    and "byte_char j = byte_char k" "r = q"
    by (auto simp: encodeWitness_def)
  moreover from \<open>byte_char j = byte_char k\<close> assms(3,4) have "j = k"
    by (metis byte_of_char)
  ultimately show ?thesis using frame_values16_inj by blast
qed

lemma encodeWitness_nonempty: "encodeWitness j vs = Inr f \<Longrightarrow> f \<noteq> []"
  by (auto simp: encodeWitness_def)

subsection \<open>Tokens\<close>

lemma quintet_inj:
  "16 * of_bool a + 8 * of_bool b + 4 * of_bool c + 2 * of_bool d + of_bool e =
   (16 * of_bool a' + 8 * of_bool b' + 4 * of_bool c' + 2 * of_bool d' + of_bool e' :: nat)
   \<longleftrightarrow> a = a' \<and> b = b' \<and> c = c' \<and> d = d' \<and> e = e'"
  by (cases a; cases b; cases c; cases d; cases e) (auto simp: of_bool_def split: if_splits)

lemma base32_quintets_inj:
  "length xs = length ys \<Longrightarrow> base32_quintets xs = base32_quintets ys \<Longrightarrow> xs = ys"
proof (induction xs arbitrary: ys rule: base32_quintets.induct)
  case (1 a b c d e r)
  then show ?case by (cases ys rule: base32_quintets.cases) (auto simp: quintet_inj)
next
  case (3 a)
  then show ?case by (cases ys rule: base32_quintets.cases) (auto simp: of_bool_def split: if_splits)
next
  case (4 a b)
  then show ?case by (cases ys rule: base32_quintets.cases) (auto simp: of_bool_def split: if_splits)
next
  case (5 a b c)
  then show ?case by (cases ys rule: base32_quintets.cases) (auto simp: of_bool_def split: if_splits)
next
  case (6 a b c d)
  then show ?case by (cases ys rule: base32_quintets.cases) (auto simp: of_bool_def split: if_splits)
qed simp

lemma byte_bits_inj: "byte_bits c = byte_bits d \<Longrightarrow> c = d"
proof -
  assume "byte_bits c = byte_bits d"
  then have low: "bit (byte_of c) i = bit (byte_of d) i" if "i < 8" for i
    using that by (auto simp: byte_bits_def numeral_eq_Suc less_Suc_eq)
  have "take_bit 8 (byte_of c) = byte_of c" "take_bit 8 (byte_of d) = byte_of d"
    by (simp_all add: take_bit_eq_mod)
  moreover have "take_bit 8 (byte_of c) = take_bit 8 (byte_of d)"
    using low by (intro bit_eqI) (auto simp: bit_take_bit_iff)
  ultimately show ?thesis by (metis byte_char_of)
qed

lemma concat_bits_inj:
  "length cs = length ds \<Longrightarrow> concat (map byte_bits cs) = concat (map byte_bits ds) \<Longrightarrow> cs = ds"
  by (induction cs ds rule: list_induct2) (auto dest: byte_bits_inj)

lemma encodeDigest_inj:
  assumes "length a = length b" and "encodeDigest a = encodeDigest b"
  shows "a = b"
proof -
  let ?q = "\<lambda>s. base32_quintets (concat (map byte_bits s))"
  have inj: "inj_on ((!) base32_alphabet) {..<32}"
    by (intro inj_on_nth) (auto simp: base32_alphabet_def)
  have "set (?q a) \<union> set (?q b) \<subseteq> {..<32}" using base32_quintets_lt by auto
  with assms(2) have "?q a = ?q b"
    unfolding encodeDigest_def base32_encode_def
    by (auto dest!: map_inj_on intro: inj_on_subset [OF inj])
  then have "concat (map byte_bits a) = concat (map byte_bits b)"
    using assms(1) by (intro base32_quintets_inj) (simp_all add: length_concat_bits)
  with assms(1) show ?thesis by (rule concat_bits_inj)
qed

subsection \<open>Names name their session\<close>

lemma controlShardOf_lt:
  "controlShardOf k tenant session count = Inr shard \<Longrightarrow> shard < MaxControlShards"
  by (auto simp: controlShardOf_def MinControlShards_def MaxControlShards_def
      split: if_splits intro: less_le_trans [OF mod_less_divisor])

lemma shardNamespace_token:
  "controlShardToken shard = Inr token \<Longrightarrow> shardNamespace base shard = base @ ''/'' @ token"
  by (auto simp: controlShardToken_def shardNamespace_def split: if_split_asm)

lemma deriveSessionScope_shard:
  "deriveSessionScope st tenant session = Inr sc \<Longrightarrow> sc_ControlShard sc < MaxControlShards"
  by (auto simp: deriveSessionScope_def Let_def split: if_splits dest: controlShardOf_lt)

lemma deriveTenantScope_layout:
  "deriveTenantScope st tenant = Inr ts \<Longrightarrow> ts_layout ts = ks_layout (st_keys st)"
  by (cases "ks_layout (st_keys st)") (auto simp: deriveTenantScope_def Let_def split: if_splits)

lemma deriveSessionScope_ids:
  "deriveSessionScope st tenant session = Inr sc \<Longrightarrow>
     tenant_ok (st_core st) tenant \<and> session_ok (st_core st) session"
  by (auto simp: deriveSessionScope_def deriveTenantScope_def split: if_splits)

lemma deriveSessionScope_layout:
  "deriveSessionScope st tenant session = Inr sc \<Longrightarrow> sc_layout sc = ks_layout (st_keys st)"
  by (auto simp: deriveSessionScope_def Let_def split: if_splits dest: deriveTenantScope_layout)

text \<open>A derived scope always passes its own validation: the two layouts set the witnesses they need.\<close>

lemma deriveSessionScope_valid:
  assumes "deriveSessionScope st tenant session = Inr sc"
  shows "validateSessionScope st sc = Inr ()"
proof -
  from assms obtain ts where ts: "deriveTenantScope st tenant = Inr ts"
    by (auto simp: deriveSessionScope_def)
  note layout = deriveTenantScope_layout [OF ts]
  show ?thesis
  proof (cases "ks_layout (st_keys st)")
    case layoutTenantV1
    with ts have "ts_tenantWitnessKey ts \<noteq> [] \<and> ts_tenantWitness ts \<noteq> []"
      by (auto simp: deriveTenantScope_def Let_def witnessKey_def dest: encodeWitness_nonempty split: if_splits)
    with assms ts layout layoutTenantV1 show ?thesis
      by (auto simp: deriveSessionScope_def validateSessionScope_def Let_def witnessKey_def
          dest: encodeWitness_nonempty split: if_splits)
  next
    case layoutLegacySingleTenantV1
    with assms ts layout show ?thesis
      by (auto simp: deriveSessionScope_def validateSessionScope_def Let_def split: if_splits)
  qed
qed

lemma deriveTenantScope_namespace:
  assumes "deriveTenantScope st tenant = Inr ts" and "ks_layout (st_keys st) = layoutTenantV1"
  obtains f where "digestFrame ''looprig/sessionstore/key/v1/tenant'' [tenant] = Inr f"
    and "ts_TenantNamespace ts = ''tenants/'' @ encodeDigest (ks_digest (st_keys st) f)"
  using assms by (auto simp: deriveTenantScope_def Let_def split: if_splits)

lemma length_encodeDigest: "length (encodeDigest a) = (8 * length a + 4) div 5"
  by (simp add: encodeDigest_def base32_encode_def length_base32_quintets length_concat_bits)

text \<open>
  C34. Two sessions never share a namespace: when the names derived for two (tenant, session)
  pairs are equal, the pairs are equal, or the configured digest maps their two distinct frames to
  one value, which is the collision the session witness detects.  The digest is a
  \<^verbatim>\<open>[32]byte\<close> by its Go type.
\<close>

theorem session_namespace_determines_session:
  assumes "deriveSessionScope st t s = Inr sc" and "deriveSessionScope st t' s' = Inr sc'"
    and "sc_SessionNamespace sc = sc_SessionNamespace sc'"
    and "\<And>x. length (ks_digest (st_keys st) x) = 32"
  shows "t = t' \<and> s = s' \<or>
    (\<exists>f f'. digestFrame ''looprig/sessionstore/key/v1/session'' [t, s] = Inr f
          \<and> digestFrame ''looprig/sessionstore/key/v1/session'' [t', s'] = Inr f'
          \<and> f \<noteq> f' \<and> ks_digest (st_keys st) f = ks_digest (st_keys st) f')"
proof (cases "ks_layout (st_keys st)")
  case layoutLegacySingleTenantV1
  from assms(1,2) obtain ts ts' where "deriveTenantScope st t = Inr ts" "deriveTenantScope st t' = Inr ts'"
    by (auto simp: deriveSessionScope_def)
  with assms(1-3) layoutLegacySingleTenantV1 show ?thesis
    by (auto simp: deriveSessionScope_def deriveTenantScope_def Let_def split: if_splits)
next
  case layoutTenantV1
  let ?frame = "digestFrame ''looprig/sessionstore/key/v1/session''"
  let ?tok = "\<lambda>f. encodeDigest (ks_digest (st_keys st) f)"
  have names: "\<exists>ts f. deriveTenantScope st t = Inr ts \<and> ?frame [t, s] = Inr f
      \<and> sc_SessionNamespace sc = ts_TenantNamespace ts @ ''/sessions/'' @ ?tok f"
    if "deriveSessionScope st t s = Inr sc" for t s sc
    using that layoutTenantV1 deriveTenantScope_layout [of st t]
    by (fastforce simp: deriveSessionScope_def Let_def split: if_splits)
  from names [OF assms(1)] names [OF assms(2)] obtain ts f ts' f' where
    f: "deriveTenantScope st t = Inr ts" "?frame [t, s] = Inr f"
      "sc_SessionNamespace sc = ts_TenantNamespace ts @ ''/sessions/'' @ ?tok f" and
    f': "deriveTenantScope st t' = Inr ts'" "?frame [t', s'] = Inr f'"
      "sc_SessionNamespace sc' = ts_TenantNamespace ts' @ ''/sessions/'' @ ?tok f'"
    by blast
  have "length (?tok f) = length (?tok f')"
    by (simp add: length_encodeDigest assms(4))
  moreover from f(3) f'(3) assms(3)
  have "(ts_TenantNamespace ts @ ''/sessions/'') @ ?tok f = (ts_TenantNamespace ts' @ ''/sessions/'') @ ?tok f'"
    by simp
  ultimately have "?tok f = ?tok f'"
    by (metis append_eq_append_conv)
  then have "ks_digest (st_keys st) f = ks_digest (st_keys st) f'"
    using assms(4) encodeDigest_inj by metis
  then show ?thesis
    using digestFrame_inject [of _ "[t, s]" f _ "[t', s']"] f(2) f'(2) by (cases "f = f'") auto
qed

text \<open>
  C35. The layout marker fixes the configuration: a Store opened with one configuration accepts the
  marker another configuration wrote exactly when layout, legacy tenant and control shard count are
  all the same.  A tenant layout carries no tenant name, a legacy layout a valid one.
\<close>

theorem layout_marker_fixes_configuration:
  assumes "encodeLayoutMarker l t n = Inr m" and "encodeLayoutMarker l' t' n' = Inr m'"
    and "l = layoutTenantV1 \<Longrightarrow> t = []" and "l = layoutLegacySingleTenantV1 \<Longrightarrow> tenant_ok c t"
  shows "compareLayoutMarker c m m' = Inr () \<longleftrightarrow> (l, t, n) = (l', t', n')"
proof -
  have shape: "m = ''LRKS'' @ [byte_char 2, byte_char (layout_byte l), byte_char 1] @ be_put 2 n @ be_put 2 (length t) @ t
      \<and> 1 \<le> n \<and> n \<le> 4096 \<and> length t < 256 ^ 2"
    if "encodeLayoutMarker l t n = Inr m" for l t n m
    using that
    by (auto simp: encodeLayoutMarker_def checkedControlShardCount_def markerCodecVersion_def
        keyAlgorithmVersion_def MinControlShards_def MaxControlShards_def
        simp del: be_put.simps split: if_splits)
  note m = shape [OF assms(1)] and m' = shape [OF assms(2)]
  have lb: "layout_byte x < 256" "layout_byte x = layout_byte y \<longleftrightarrow> x = y" for x y
    by (cases x; cases y; simp)+
  define p q where "p = be_put 2 n" and "q = be_put 2 (length t)"
  have pq: "length p = 2" "length q = 2" "be_get p = n" "be_get q = length t"
    using m by (simp_all add: p_def q_def be_get_be_put)
  have eq: "m = CHR ''L'' # CHR ''R'' # CHR ''K'' # CHR ''S'' # byte_char 2 # byte_char (layout_byte l)
      # byte_char 1 # p @ q @ t"
    using m by (simp add: p_def q_def)
  have "drop 2 (p @ q @ t) = q @ t" "drop 4 (p @ q @ t) = t"
    using pq(1,2) by simp_all
  then have fields: "take 4 m = ''LRKS''" "m ! 4 = byte_char 2" "m ! 5 = byte_char (layout_byte l)"
    "m ! 6 = byte_char 1" "take 2 (drop 7 m) = p" "take 2 (drop 9 m) = q" "drop 11 m = t"
    "length m = 11 + length t"
    using pq(1,2) by (simp_all add: eq)
  have "validateLayoutMarker c m = Inr ()"
    using fields pq m assms(3,4) lb(1) [of l]
    by (cases l)
       (auto simp: validateLayoutMarker_def Let_def layoutMarkerHeaderBytes_def markerCodecVersion_def
         keyAlgorithmVersion_def MinControlShards_def MaxControlShards_def)
  moreover have "m = m' \<longleftrightarrow> (l, t, n) = (l', t', n')"
  proof
    assume "m = m'"
    with m m' have "byte_char (layout_byte l) = byte_char (layout_byte l')"
      and tail: "be_put 2 n @ be_put 2 (length t) @ t = be_put 2 n' @ be_put 2 (length t') @ t'"
      by (auto simp del: be_put.simps)
    then have "l = l'" using lb by (metis byte_of_char)
    moreover from tail have "be_put 2 n = be_put 2 n'" "be_put 2 (length t) @ t @ [] = be_put 2 (length t') @ t' @ []"
      by (simp_all add: append_eq_append_conv del: be_put.simps)
    moreover have "n < 256 ^ 2" "n' < 256 ^ 2" using m m' by simp_all
    ultimately show "(l, t, n) = (l', t', n')"
      using prefixed_field_inj [of 2 t "[]" t' "[]"] m m' be_put_inj by blast
  qed (use assms in auto)
  ultimately show ?thesis by (simp add: compareLayoutMarker_def)
qed

end
