(* ===== verification/Object_Ref.thy ===== *)
theory Object_Ref
  imports Keyspace
begin

text \<open>
  Object references and the object-metadata record: the parsing half of \<^verbatim>\<open>objects.go\<close> and all of
  \<^verbatim>\<open>object_metadata.go\<close>.  A reference names its kind, the generation that makes one upload
  distinct from another, and the digest of the bytes.
\<close>

subsection \<open>Kinds\<close>

datatype ObjectKind =
    ObjectKindJournalPublic | ObjectKindJournalRuntime | ObjectKindCommandPayload
  | ObjectKindToolResult | ObjectKindWorkspaceCheckpoint | ObjectKindRuntimeCheckpoint
  | ObjectKindArtifact | ObjectKindAttachment | ObjectKindContinuation | ObjectKindRuntimeObject
  | ObjectKindOther string

fun kind_text :: "ObjectKind \<Rightarrow> string" where
  "kind_text ObjectKindJournalPublic = ''journal-public''"
| "kind_text ObjectKindJournalRuntime = ''journal-runtime''"
| "kind_text ObjectKindCommandPayload = ''command-payload''"
| "kind_text ObjectKindToolResult = ''tool-result''"
| "kind_text ObjectKindWorkspaceCheckpoint = ''workspace-checkpoint''"
| "kind_text ObjectKindRuntimeCheckpoint = ''runtime-checkpoint''"
| "kind_text ObjectKindArtifact = ''artifact''"
| "kind_text ObjectKindAttachment = ''attachment''"
| "kind_text ObjectKindContinuation = ''continuation''"
| "kind_text ObjectKindRuntimeObject = ''runtime-object''"
| "kind_text (ObjectKindOther s) = s"

definition known_kinds :: "ObjectKind list" where
  "known_kinds =
    [ObjectKindJournalPublic, ObjectKindJournalRuntime, ObjectKindCommandPayload, ObjectKindToolResult,
     ObjectKindWorkspaceCheckpoint, ObjectKindRuntimeCheckpoint, ObjectKindArtifact,
     ObjectKindAttachment, ObjectKindContinuation, ObjectKindRuntimeObject]"

definition kind_valid :: "ObjectKind \<Rightarrow> bool" where
  "kind_valid k \<longleftrightarrow> k \<in> set known_kinds"

definition kind_of_text :: "string \<Rightarrow> ObjectKind" where
  "kind_of_text s =
    (case List.find (\<lambda>k. kind_text k = s) known_kinds of None \<Rightarrow> ObjectKindOther s | Some k \<Rightarrow> k)"

lemma kind_text_distinct: "distinct (map kind_text known_kinds)"
  by code_simp

lemma kind_of_text_known [simp]: "kind_valid k \<Longrightarrow> kind_of_text (kind_text k) = k"
  using kind_text_distinct
  by (auto simp: kind_valid_def kind_of_text_def find_None_iff find_Some_iff distinct_map inj_on_def
      split: option.split)

lemma kind_text_of_text [simp]: "kind_text (kind_of_text s) = s"
  by (auto simp: kind_of_text_def find_Some_iff split: option.split)

lemma kind_text_plain: "kind_valid k \<Longrightarrow> CHR '':'' \<notin> set (kind_text k)"
  by (auto simp: kind_valid_def known_kinds_def)

subsection \<open>References\<close>

definition objectSchemeV1 :: string where "objectSchemeV1 = ''v1''"
definition objectDigestPrefix :: string where "objectDigestPrefix = ''sha256:''"

record parsedObject =
  po_kind :: ObjectKind
  po_generation :: string
  po_digest :: string
  po_size :: u64

definition encodeObjectGeneration :: "string \<Rightarrow> string" where
  "encodeObjectGeneration generation = base32_encode generation"

text \<open>\<^verbatim>\<open>copy\<close> into the 16-byte array cuts a longer decoding and leaves zeros after a shorter one.\<close>

definition decodeObjectGeneration :: "string \<Rightarrow> string option" where
  "decodeObjectGeneration value =
    (case base32_decode_fold value of
       None \<Rightarrow> None
     | Some decoded \<Rightarrow>
         (let generation = take 16 (decoded @ replicate 16 (CHR 0x00)) in
          if encodeObjectGeneration generation \<noteq> value then None else Some generation))"

definition decodeObjectDigest :: "string \<Rightarrow> string option" where
  "decodeObjectDigest value =
    (if length value \<noteq> 64 then None
     else (case hex_decode value of
        None \<Rightarrow> None
      | Some digest \<Rightarrow>
          if hex_encode digest \<noteq> value \<or> digest = replicate 32 (CHR 0x00) then None else Some digest))"

definition objectIDFor :: "ObjectKind \<Rightarrow> string \<Rightarrow> string \<Rightarrow> object_reference" where
  "objectIDFor kind generation digest =
    \<lparr>or_ObjectID = objectSchemeV1 @ '':'' @ kind_text kind @ '':'' @ generation @ '':'' @ digest\<rparr>"

definition parseObjectReference :: "core_lib \<Rightarrow> object_reference \<Rightarrow> err + parsedObject" where
  "parseObjectReference c reference =
    (if \<not> reference_ok c reference then Inl (objectErr ObjectErrorInvalid ''object_id'')
     else (let parts = split_at (CHR '':'') (or_ObjectID reference) in
       if length parts \<noteq> 4 \<or> parts ! 0 \<noteq> objectSchemeV1
       then Inl (objectErr ObjectErrorInvalid ''object_id'')
       else (let kind = kind_of_text (parts ! 1) in
         if \<not> kind_valid kind then Inl (objectErr ObjectErrorInvalid ''kind'')
         else if decodeObjectGeneration (parts ! 2) = None
         then Inl (objectErr ObjectErrorInvalid ''generation'')
         else (case decodeObjectDigest (parts ! 3) of
            None \<Rightarrow> Inl (objectErr ObjectErrorInvalid ''digest'')
          | Some digest \<Rightarrow>
              Inr \<lparr>po_kind = kind, po_generation = parts ! 2, po_digest = digest, po_size = 0\<rparr>))))"

definition validateMediaType :: "string \<Rightarrow> err + unit" where
  "validateMediaType value =
    (if value = [] then Inr ()
     else if length value > 256 \<or> \<not> ValidString value then Inl (objectErr ObjectErrorInvalid ''media_type'')
     else if \<not> ParseMediaType_ok value then Inl (objectErr ObjectErrorInvalid ''media_type'')
     else Inr ())"

definition parseObjectMetadata :: "core_lib \<Rightarrow> object_metadata \<Rightarrow> err + parsedObject" where
  "parseObjectMetadata c metadata =
    bindR (parseObjectReference c (om_Reference metadata)) (\<lambda>parsed.
    if om_Digest metadata \<noteq> objectDigestPrefix @ hex_encode (po_digest parsed)
    then Inl (objectErr ObjectErrorDigest ''digest'')
    else bindR (validateMediaType (om_MediaType metadata)) (\<lambda>_.
      Inr (parsed\<lparr>po_size := om_SizeBytes metadata\<rparr>)))"

definition objectMetadataFor :: "ObjectKind \<Rightarrow> string \<Rightarrow> u64 \<Rightarrow> string \<Rightarrow> string \<Rightarrow> object_metadata" where
  "objectMetadataFor kind generation sz digest mediaType =
    (let encodedDigest = hex_encode digest in
     \<lparr>om_Reference = objectIDFor kind (encodeObjectGeneration generation) encodedDigest,
      om_SizeBytes = sz, om_Digest = objectDigestPrefix @ encodedDigest,
      om_MediaType = mediaType, om_CreatedAt = zeroTime\<rparr>)"

definition objectKindPrefix :: "sessionScope \<Rightarrow> ObjectKind \<Rightarrow> string" where
  "objectKindPrefix scope kind = sc_BlobPrefix scope @ objectSchemeV1 @ ''/'' @ kind_text kind @ ''/''"

definition objectKeySuffix :: "string \<Rightarrow> string \<Rightarrow> string" where
  "objectKeySuffix digest generation = digest @ ''/'' @ generation"

definition splitObjectKeySuffix :: "string \<Rightarrow> (string \<times> string) option" where
  "splitObjectKeySuffix suffix =
    (case split_at (CHR ''/'') suffix of [digest, generation] \<Rightarrow> Some (digest, generation) | _ \<Rightarrow> None)"

definition objectKey :: "sessionScope \<Rightarrow> parsedObject \<Rightarrow> string" where
  "objectKey scope object =
    objectKindPrefix scope (po_kind object) @ objectKeySuffix (hex_encode (po_digest object)) (po_generation object)"

definition parsePhysicalObjectKey :: "core_lib \<Rightarrow> string \<Rightarrow> ObjectKind \<Rightarrow> string \<Rightarrow> err + parsedObject" where
  "parsePhysicalObjectKey c pre kind key =
    (if pre = [] \<or> take (length pre) key \<noteq> pre then Inl (objectErr ObjectErrorIntegrity ''list_key'')
     else (case splitObjectKeySuffix (drop (length pre) key) of
        None \<Rightarrow> Inl (objectErr ObjectErrorIntegrity ''list_key'')
      | Some (digest, generation) \<Rightarrow>
          (case parseObjectReference c (objectIDFor kind generation digest) of
             Inl _ \<Rightarrow> Inl (objectErr ObjectErrorIntegrity ''list_key'')
           | Inr parsed \<Rightarrow> Inr parsed)))"

subsection \<open>The metadata record\<close>

definition objectMetadataKey :: "sessionScope \<Rightarrow> parsedObject \<Rightarrow> string" where
  "objectMetadataKey scope object =
    sc_SessionNamespace scope @ ''/object-metadata/v1/'' @ kind_text (po_kind object) @ ''/'' @
    objectKeySuffix (hex_encode (po_digest object)) (po_generation object)"

definition objectMetadataStringBytes :: nat where "objectMetadataStringBytes = 256"
definition maxObjectMetadataRecordBytes :: nat where
  "maxObjectMetadataRecordBytes = 5 + 8 + 5 * (2 + objectMetadataStringBytes)"

definition objectMetadataMagic :: string where
  "objectMetadataMagic = ''LROM'' @ [CHR 0x01]"

definition encodeObjectMetadataRecord :: "string \<Rightarrow> string \<Rightarrow> object_metadata \<Rightarrow> err + string" where
  "encodeObjectMetadataRecord tenant session metadata =
    bindR (frame_values16 [tenant, session, or_ObjectID (om_Reference metadata),
        om_Digest metadata, om_MediaType metadata]) (\<lambda>rest.
      Inr (objectMetadataMagic @ be_put 8 (unat (om_SizeBytes metadata)) @ rest))"

record GetObjectMetadataRequest =
  gm_TenantID :: string
  gm_SessionID :: string
  gm_ExpectedKind :: ObjectKind
  gm_Reference :: object_reference

text \<open>\<open>read_fields n rest\<close> is the loop that reads \<open>n\<close> length-prefixed strings.\<close>

fun read_fields :: "nat \<Rightarrow> string \<Rightarrow> (string list \<times> string) option" where
  "read_fields 0 rest = Some ([], rest)"
| "read_fields (Suc k) rest =
    (if length rest < 2 then None
     else (let n = be_get (take 2 rest); rest1 = drop 2 rest in
       if n > objectMetadataStringBytes \<or> n > length rest1 then None
       else (case read_fields k (drop n rest1) of
          None \<Rightarrow> None
        | Some (fs, r) \<Rightarrow> Some (take n rest1 # fs, r))))"

definition decodeObjectMetadataRecord ::
  "core_lib \<Rightarrow> string \<Rightarrow> GetObjectMetadataRequest \<Rightarrow> err + object_metadata" where
  "decodeObjectMetadataRecord c data req =
    (let bad = Inl (objectErr ObjectErrorIntegrity ''metadata'') in
     if length data < 13 \<or> length data > maxObjectMetadataRecordBytes \<or> take 5 data \<noteq> objectMetadataMagic
     then bad
     else (let sz = word_of_nat (be_get (take 8 (drop 5 data))) in
       case read_fields 5 (drop 13 data) of
         None \<Rightarrow> bad
       | Some (fs, rest) \<Rightarrow>
           if rest \<noteq> [] \<or> fs ! 0 \<noteq> gm_TenantID req \<or> fs ! 1 \<noteq> gm_SessionID req
              \<or> fs ! 2 \<noteq> or_ObjectID (gm_Reference req) then bad
           else (let metadata = \<lparr>om_Reference = \<lparr>or_ObjectID = fs ! 2\<rparr>, om_SizeBytes = sz,
                                  om_Digest = fs ! 3, om_MediaType = fs ! 4, om_CreatedAt = zeroTime\<rparr> in
             case parseObjectMetadata c metadata of
               Inl _ \<Rightarrow> bad
             | Inr parsed \<Rightarrow> if po_kind parsed \<noteq> gm_ExpectedKind req then bad else Inr metadata)))"

definition GetObjectMetadata :: "'s store \<Rightarrow> GetObjectMetadataRequest \<Rightarrow> ('s, object_metadata) store_op" where
  "GetObjectMetadata st req =
    (if \<not> kind_valid (gm_ExpectedKind req) then failE (objectErr ObjectErrorInvalid ''expected_kind'')
     else
      bindE (liftE (parseObjectReference (st_core st) (gm_Reference req))) (\<lambda>parsed.
      if po_kind parsed \<noteq> gm_ExpectedKind req then failE (objectErr ObjectErrorInvalid ''expected_kind'')
      else
        bindE (liftE (deriveSessionScope st (gm_TenantID req) (gm_SessionID req))) (\<lambda>scope.
        bindE (admitForeground st) (\<lambda>_.
        bindE (askE (st_CtxErr st)) (\<lambda>canceled.
        if canceled then failE (objectErr ObjectErrorCanceled ''metadata'')
        else
          bindE (verifySessionScope st scope) (\<lambda>_.
          let key = objectMetadataKey scope parsed in
          bindE (attemptE (kv_Get st key)) (\<lambda>r. case r of
            Inl e \<Rightarrow>
              if isKeyNotFound e key then failE (objectErr ObjectErrorMetadataUnavailable ''metadata'')
              else failE (objectErr ObjectErrorBackend ''metadata_get'')
          | Inr (data, _) \<Rightarrow> liftE (decodeObjectMetadataRecord (st_core st) data req))))))))"

definition persistObjectMetadata ::
  "'s store \<Rightarrow> sessionScope \<Rightarrow> string \<Rightarrow> string \<Rightarrow> object_metadata \<Rightarrow> parsedObject \<Rightarrow> ('s, unit) store_op" where
  "persistObjectMetadata st scope tenant session metadata parsed =
    bindE (askE (st_CtxErr st)) (\<lambda>canceled.
    if canceled then failE (objectErr ObjectErrorCanceled ''metadata_commit'')
    else
      (let key = objectMetadataKey scope parsed in
      bindE (liftE (encodeObjectMetadataRecord tenant session metadata)) (\<lambda>want.
      bindE (attemptE (kv_Put st key 0 want)) (\<lambda>p. case p of
        Inr _ \<Rightarrow> returnE ()
      | Inl _ \<Rightarrow>
          bindE (askE (st_CtxErr st)) (\<lambda>canceled2.
          if canceled2 then failE (objectErr ObjectErrorBackend ''metadata_commit'')
          else
            bindE (attemptE (kv_Get st key)) (\<lambda>g. case g of
              Inl _ \<Rightarrow> failE (objectErr ObjectErrorBackend ''metadata_commit'')
            | Inr (got, _) \<Rightarrow>
                if got \<noteq> want then failE (objectErr ObjectErrorConflict ''metadata_commit'')
                else returnE ()))))))"

subsection \<open>References round-trip\<close>

lemma decodeObjectGeneration_encode:
  assumes "length generation = 16"
  shows "decodeObjectGeneration (encodeObjectGeneration generation) = Some generation"
proof -
  have "base32_decode_fold (base32_encode generation) = Some generation"
    using assms by (intro base32_decode_encode) simp
  then show ?thesis
    using assms by (simp add: decodeObjectGeneration_def encodeObjectGeneration_def)
qed

lemma decodeObjectDigest_encode:
  assumes "length digest = 32" and "digest \<noteq> replicate 32 (CHR 0x00)"
  shows "decodeObjectDigest (hex_encode digest) = Some digest"
  using assms by (simp add: decodeObjectDigest_def hex_decode_encode)

lemma decodeObjectDigest_canonical: "decodeObjectDigest v = Some digest \<Longrightarrow> hex_encode digest = v"
  by (auto simp: decodeObjectDigest_def split: if_split_asm option.split_asm)

lemma parts_of_reference:
  assumes "split_at (CHR '':'') v = ps" and "length ps = 4" and "ps ! 0 = objectSchemeV1"
  shows "v = objectSchemeV1 @ '':'' @ ps ! 1 @ '':'' @ ps ! 2 @ '':'' @ ps ! 3"
proof -
  from assms(2) obtain a b c d where ps: "ps = [a, b, c, d]"
    by (auto simp: length_Suc_conv eval_nat_numeral)
  have "v = join_with (CHR '':'') ps" using assms(1) join_split [of "CHR '':''" v] by simp
  with ps assms(3) show ?thesis by simp
qed

text \<open>
  Object references are canonical: a reference that parses is the one reference built from the
  kind, generation and digest that were parsed out of it, so no two spellings name one object.
\<close>

theorem object_reference_canonical:
  assumes "parseObjectReference c reference = Inr parsed"
  shows "reference = objectIDFor (po_kind parsed) (po_generation parsed) (hex_encode (po_digest parsed))"
proof -
  let ?ps = "split_at (CHR '':'') (or_ObjectID reference)"
  from assms have ps: "length ?ps = 4" "?ps ! 0 = objectSchemeV1"
    and parsed: "po_kind parsed = kind_of_text (?ps ! 1)" "po_generation parsed = ?ps ! 2"
      "decodeObjectDigest (?ps ! 3) = Some (po_digest parsed)"
    by (auto simp: parseObjectReference_def Let_def split: if_split_asm option.split_asm)
  from parts_of_reference [OF refl ps] decodeObjectDigest_canonical [OF parsed(3)] parsed(1,2)
  show ?thesis by (cases reference) (simp add: objectIDFor_def)
qed

lemma parse_objectIDFor:
  assumes "kind_valid kind" and "length generation = 16" and "length digest = 32"
    and "digest \<noteq> replicate 32 (CHR 0x00)"
    and "reference_ok c (objectIDFor kind (encodeObjectGeneration generation) (hex_encode digest))"
  shows "parseObjectReference c (objectIDFor kind (encodeObjectGeneration generation) (hex_encode digest)) =
    Inr \<lparr>po_kind = kind, po_generation = encodeObjectGeneration generation, po_digest = digest, po_size = 0\<rparr>"
proof -
  have plain: "CHR '':'' \<notin> set (encodeObjectGeneration generation)" "CHR '':'' \<notin> set (hex_encode digest)"
    using base32_encode_plain hex_encode_plain by (simp_all add: encodeObjectGeneration_def)
  have "split_at (CHR '':'') (or_ObjectID (objectIDFor kind (encodeObjectGeneration generation) (hex_encode digest)))
    = [objectSchemeV1, kind_text kind, encodeObjectGeneration generation, hex_encode digest]"
    using plain kind_text_plain [OF assms(1)]
    by (simp add: objectIDFor_def objectSchemeV1_def split_at_append split_at_plain)
  with assms decodeObjectGeneration_encode [OF assms(2)] decodeObjectDigest_encode [OF assms(3,4)]
  show ?thesis by (simp add: parseObjectReference_def Let_def)
qed

lemma unat_u64_lt: "unat (w :: u64) < 256 ^ 8"
  by (rule less_le_trans [OF unsigned_less]) simp

lemma read_fields_frame:
  "frame_values16 vs = Inr f \<Longrightarrow> \<forall>v\<in>set vs. length v \<le> objectMetadataStringBytes \<Longrightarrow>
     read_fields (length vs) f = Some (vs, [])"
proof (induction vs arbitrary: f)
  case Nil
  then show ?case by simp
next
  case (Cons v vs)
  then obtain g where g: "frame_values16 vs = Inr g" "f = be_put 2 (length v) @ v @ g" "length v < 256 ^ 2"
    by auto
  with Cons be_get_be_put [OF g(3)] show ?case
    by (simp add: g(2) Let_def del: be_put.simps)
qed

text \<open>
  C36. The metadata record of an object is read back as the metadata that was committed: what
  \<^verbatim>\<open>persistObjectMetadata\<close> encodes, \<^verbatim>\<open>GetObjectMetadata\<close> decodes for the same tenant, session,
  reference and kind.
\<close>

theorem object_metadata_round_trip:
  assumes "encodeObjectMetadataRecord tenant session metadata = Inr data"
    and "parseObjectMetadata c metadata = Inr parsed" and "om_CreatedAt metadata = zeroTime"
    and "length tenant \<le> 256" and "length session \<le> 256" and "length (or_ObjectID (om_Reference metadata)) \<le> 256"
  shows "decodeObjectMetadataRecord c data
    \<lparr>gm_TenantID = tenant, gm_SessionID = session, gm_ExpectedKind = po_kind parsed,
     gm_Reference = om_Reference metadata\<rparr> = Inr metadata"
proof -
  let ?vs = "[tenant, session, or_ObjectID (om_Reference metadata), om_Digest metadata, om_MediaType metadata]"
  from assms(1) obtain rest where rest: "frame_values16 ?vs = Inr rest"
    and data: "data = objectMetadataMagic @ be_put 8 (unat (om_SizeBytes metadata)) @ rest"
    by (auto simp: encodeObjectMetadataRecord_def simp del: frame_values16.simps)
  from assms(2) obtain p where p: "parseObjectReference c (om_Reference metadata) = Inr p"
    and dg: "om_Digest metadata = objectDigestPrefix @ hex_encode (po_digest p)"
    and mt: "validateMediaType (om_MediaType metadata) = Inr ()"
    by (auto simp: parseObjectMetadata_def split: if_split_asm)
  from p have "length (hex_encode (po_digest p)) = 64"
    by (auto simp: parseObjectReference_def decodeObjectDigest_def Let_def simp del: length_hex_encode
        split: if_split_asm option.split_asm)
  then have short: "\<forall>v\<in>set ?vs. length v \<le> objectMetadataStringBytes"
    using assms(4-6) mt dg
    by (auto simp: objectMetadataStringBytes_def objectDigestPrefix_def validateMediaType_def split: if_split_asm)
  have len: "length rest = 10 + sum_list (map length ?vs)"
    using rest by (auto simp del: be_put.simps)
  have magic: "length objectMetadataMagic = 5" by (simp add: objectMetadataMagic_def)
  have u: "unat (om_SizeBytes metadata) < 256 ^ 8" by (rule unat_u64_lt)
  have size: "\<not> length data < 13" "\<not> maxObjectMetadataRecordBytes < length data"
    using short len magic by (auto simp: data maxObjectMetadataRecordBytes_def objectMetadataStringBytes_def)
  have parts: "take 5 data = objectMetadataMagic" "take 8 (drop 5 data) = be_put 8 (unat (om_SizeBytes metadata))"
      "drop 13 data = rest"
    using magic by (simp_all add: data del: be_put.simps)
  have rf: "read_fields 5 rest = Some (?vs, [])"
    using read_fields_frame [OF rest short] by (simp del: read_fields.simps add: eval_nat_numeral)
  have again: "\<lparr>om_Reference = \<lparr>or_ObjectID = or_ObjectID (om_Reference metadata)\<rparr>, om_SizeBytes = om_SizeBytes metadata,
      om_Digest = om_Digest metadata, om_MediaType = om_MediaType metadata, om_CreatedAt = zeroTime\<rparr> = metadata"
    using assms(3) by (cases metadata; cases "om_Reference metadata") auto
  show ?thesis
    using size assms(2)
    by (simp add: decodeObjectMetadataRecord_def Let_def parts rf be_get_be_put [OF u] again
        nth_Cons' del: be_put.simps read_fields.simps)
qed

end
