(* ===== verification/Record_Codec.thy ===== *)
theory Record_Codec
  imports Object_Ref
begin

text \<open>
  What the durable record kinds share: the contract of a versioned codec as a locale, whose
  instances are the codecs of the inbox, disposition-inbox, cursor, public-create and catalog
  records, and the fence every mutable record holds its epoch under.
\<close>

subsection \<open>Codecs\<close>

text \<open>
  \<open>canonical\<close> validates a record and brings it to its stored form, \<open>encode\<close> writes the canonical
  form and returns it, \<open>decode\<close> reads stored bytes.  \<open>storable\<close> delimits the records whose bytes
  read back.
\<close>

locale record_codec =
  fixes canonical :: "'r \<Rightarrow> 'e + 'r"
    and encode :: "'r \<Rightarrow> 'e + 'v \<times> 'r"
    and decode :: "'v \<Rightarrow> 'e + 'r"
    and storable :: "'r \<Rightarrow> bool"
  assumes canonical_idem: "canonical r = Inr r' \<Longrightarrow> canonical r' = Inr r'"
    and encode_canonical: "encode r = Inr (v, r') \<Longrightarrow> canonical r = Inr r'"
    and encode_deterministic: "canonical r = Inr r' \<Longrightarrow> encode r' = Inr (v, q) \<Longrightarrow> encode r = Inr (v, q)"
    and decode_canonical: "decode v = Inr r \<Longrightarrow> canonical r = Inr r"
    and decode_encode: "storable r' \<Longrightarrow> encode r = Inr (v, r') \<Longrightarrow> decode v = Inr r'"
begin

lemma encode_result_canonical: "encode r = Inr (v, r') \<Longrightarrow> canonical r' = Inr r'"
  using encode_canonical canonical_idem by blast

text \<open>Bytes name one record: two records with equal bytes have one canonical form.\<close>

lemma encode_inj:
  "\<lbrakk>encode r = Inr (v, r'); encode q = Inr (v, q'); storable r'; storable q'\<rbrakk> \<Longrightarrow> r' = q'"
  using decode_encode by (metis sum.inject(2))

lemma decode_encode_decode:
  "\<lbrakk>decode v = Inr r; encode r = Inr (w, r'); storable r\<rbrakk> \<Longrightarrow> r' = r \<and> decode w = Inr r"
  using decode_canonical encode_canonical decode_encode by (metis sum.inject(2))

end

text \<open>A strict codec reads only the bytes it writes, so records and bytes correspond one to one.\<close>

locale strict_codec = record_codec +
  assumes decode_strict: "decode v = Inr r \<Longrightarrow> encode r = Inr (v, r)"
begin

lemma decode_inj: "decode v = Inr r \<Longrightarrow> decode w = Inr r \<Longrightarrow> v = w"
  using decode_strict by (metis prod.inject sum.inject(2))

lemma decode_iff: "storable r \<Longrightarrow> decode v = Inr r \<longleftrightarrow> encode r = Inr (v, r)"
  using decode_strict decode_encode by blast

end

subsection \<open>Fences\<close>

text \<open>
  A fenced record carries a mark (a lease epoch, a residency epoch, an order); \<open>fence r m\<close> is the
  check a writer presenting \<open>m\<close> passes before its write, and the write stores \<open>m\<close> as the mark.
\<close>

locale fenced =
  fixes mark :: "'r \<Rightarrow> u64"
    and fence :: "'r \<Rightarrow> u64 \<Rightarrow> 'e + unit"
  assumes fence_sound: "fence r m = Inr u \<Longrightarrow> mark r \<le> m"
    and fence_complete: "fence r m = Inl e \<Longrightarrow> m < mark r"
begin

lemma fence_iff: "fence r m = Inr () \<longleftrightarrow> mark r \<le> m"
  using fence_sound fence_complete
  by (cases "fence r m") (auto simp: not_le [symmetric])

text \<open>A run of fenced writes: every write passed the fence on the record it replaced.\<close>

definition fenced_run :: "'r list \<Rightarrow> bool" where
  "fenced_run rs \<longleftrightarrow> (\<forall>i. Suc i < length rs \<longrightarrow> fence (rs ! i) (mark (rs ! Suc i)) = Inr ())"

lemma marks_sorted: "fenced_run rs \<Longrightarrow> i \<le> j \<Longrightarrow> j < length rs \<Longrightarrow> mark (rs ! i) \<le> mark (rs ! j)"
proof (induction j)
  case 0
  then show ?case by simp
next
  case (Suc j)
  show ?case
  proof (cases "i \<le> j")
    case True
    with Suc have "mark (rs ! i) \<le> mark (rs ! j)" by simp
    also have "\<dots> \<le> mark (rs ! Suc j)" using Suc.prems fence_iff by (simp add: fenced_run_def)
    finally show ?thesis .
  next
    case False
    with Suc.prems have "i = Suc j" by simp
    then show ?thesis by simp
  qed
qed

text \<open>A writer that presents less than a mark once stored is refused by every later record.\<close>

lemma stale_refused:
  assumes "fenced_run rs" "i \<le> j" "j < length rs" "m < mark (rs ! i)"
  shows "\<exists>e. fence (rs ! j) m = Inl e"
proof -
  have "m < mark (rs ! j)" using marks_sorted [OF assms(1-3)] assms(4) by (rule less_le_trans [rotated])
  then show ?thesis using fence_iff [of "rs ! j" m] by (cases "fence (rs ! j) m") auto
qed

end

subsection \<open>Texts inside Core's values\<close>

text \<open>
  \<^verbatim>\<open>validateProjectionText\<close> walks a Core value and refuses the first text that is not UTF-8, naming
  its path.  The texts and their paths, in the order of the walk, are Core's (\<open>core_texts\<close>).
\<close>

definition validateProjectionText :: "core_lib \<Rightarrow> core_value \<Rightarrow> string \<Rightarrow> (string \<Rightarrow> err) \<Rightarrow> err + unit" where
  "validateProjectionText c v path fail =
    (case List.find (\<lambda>pt. \<not> ValidString (snd pt)) (core_texts c v) of
       None \<Rightarrow> Inr ()
     | Some pt \<Rightarrow> Inl (fail (path @ fst pt)))"

text \<open>What Core's validators guarantee of the identifiers they accept: they are UTF-8.\<close>

definition core_utf8 :: "core_lib \<Rightarrow> bool" where
  "core_utf8 c \<longleftrightarrow>
    (\<forall>s. tenant_ok c s \<longrightarrow> ValidString s) \<and> (\<forall>s. session_ok c s \<longrightarrow> ValidString s) \<and>
    (\<forall>s. agent_ok c s \<longrightarrow> ValidString s) \<and> (\<forall>s. command_ok c s \<longrightarrow> ValidString s) \<and>
    (\<forall>s. event_ok c s \<longrightarrow> ValidString s) \<and>
    ValidString (HostPlacementPooled c) \<and> ValidString (HostPlacementDedicated c)"

end
