(* ===== verification/Ordered_Index.thy ===== *)
theory Ordered_Index
  imports Record_Codec
begin

text \<open>
  What the Store relies on of Storage's ordered index, as a contract over the history of rows:
  \<open>hist s i r\<close> is the row that was stored under the id \<open>i\<close> at revision \<open>r\<close>, once there was one.
  Rows of other processes enter the history between and during calls; a call can only extend it.
  A read returns a stored row, a create the row created first, and an update at an expected
  revision succeeds only from the row at that revision, and only when no later row exists.
\<close>

type_synonym 's row_history = "'s \<Rightarrow> ordered_id \<Rightarrow> u64 \<Rightarrow> ordered_record option"

definition grows :: "'s row_history \<Rightarrow> 's \<Rightarrow> 's \<Rightarrow> bool" where
  "grows hist s t \<longleftrightarrow> (\<forall>i r row. hist s i r = Some row \<longrightarrow> hist t i r = Some row)"

lemma grows_refl [simp]: "grows hist s s"
  by (simp add: grows_def)

lemma grows_trans [trans]: "grows hist s t \<Longrightarrow> grows hist t u \<Longrightarrow> grows hist s u"
  by (simp add: grows_def)

lemma growsD: "grows hist s t \<Longrightarrow> hist s i r = Some row \<Longrightarrow> hist t i r = Some row"
  by (simp add: grows_def)

text \<open>The row an update of \<open>old\<close> leaves.\<close>

definition updated_row :: "ordered_record \<Rightarrow> stored_bytes \<Rightarrow> rank \<Rightarrow> due \<Rightarrow> ordered_record" where
  "updated_row old v rank due =
     old\<lparr>rec_Value := v, rec_Rank := rank, rec_Due := due, rec_Revision := rec_Revision old + 1\<rparr>"

definition created_row :: "ordered_id \<Rightarrow> string \<Rightarrow> stored_bytes \<Rightarrow> rank \<Rightarrow> due \<Rightarrow> ordered_record \<Rightarrow> bool" where
  "created_row i scope v rank due row \<longleftrightarrow>
     rec_ID row = i \<and> rec_RankingScope row = scope \<and> rec_Value row = v \<and> rec_Revision row = 1 \<and>
     rec_Order row \<noteq> 0 \<and> rec_Rank row = rank \<and> rec_Due row = due \<and> \<not> rec_Deleted row"

definition extends :: "'s row_history \<Rightarrow> ('s, 'e, 'a) op \<Rightarrow> bool" where
  "extends hist m \<longleftrightarrow> (\<forall>s r t. m s = (r, t) \<longrightarrow> grows hist s t)"

definition calls_extend :: "'s store \<Rightarrow> 's row_history \<Rightarrow> bool" where
  "calls_extend st hist \<longleftrightarrow>
    (\<forall>k. extends hist (kv_Get st k)) \<and> (\<forall>k e v. extends hist (kv_Put st k e v)) \<and>
    (\<forall>i. extends hist (oi_Get st i)) \<and> (\<forall>i sc v rk d. extends hist (oi_Create st i sc v rk d)) \<and>
    (\<forall>i e v rk d. extends hist (oi_Update st i e v rk d)) \<and>
    (\<forall>i e. extends hist (oi_Delete st i e)) \<and>
    (\<forall>ns sc a l. extends hist (oi_ListOrdered st ns sc a l)) \<and>
    (\<forall>ns b a l. extends hist (oi_ListDue st ns b a l)) \<and>
    (\<forall>ns sc a l. extends hist (oi_ListRanked st ns sc a l)) \<and>
    (\<forall>n. extends hist (le_Acquire st n)) \<and> (\<forall>n. extends hist (le_Release st n)) \<and>
    (\<forall>n. extends hist (lg_Tip st n)) \<and>
    (\<forall>n e p. extends hist (lg_AppendDefinite st n e p)) \<and> (\<forall>n a. extends hist (lg_Read st n a)) \<and>
    (\<forall>f req. st_evidence st = Some f \<longrightarrow> extends hist (f req))"

definition get_law :: "'s store \<Rightarrow> 's row_history \<Rightarrow> bool" where
  "get_law st hist \<longleftrightarrow>
    (\<forall>i s row t. oi_Get st i s = (Inr row, t) \<longrightarrow> rec_ID row = i \<and> hist t i (rec_Revision row) = Some row)"

definition create_law :: "'s store \<Rightarrow> 's row_history \<Rightarrow> bool" where
  "create_law st hist \<longleftrightarrow>
    (\<forall>i sc v rk d s row t. oi_Create st i sc v rk d s = (Inr (row, True), t) \<longrightarrow>
       created_row i sc v rk d row \<and> hist s i 1 = None \<and> hist t i 1 = Some row) \<and>
    (\<forall>i sc v rk d s row t. oi_Create st i sc v rk d s = (Inr (row, False), t) \<longrightarrow>
       rec_ID row = i \<and> hist t i (rec_Revision row) = Some row)"

definition update_law :: "'s store \<Rightarrow> 's row_history \<Rightarrow> bool" where
  "update_law st hist \<longleftrightarrow>
    (\<forall>i e v rk d s row t. oi_Update st i e v rk d s = (Inr row, t) \<longrightarrow>
       hist s i (e + 1) = None \<and>
       (\<exists>old. hist t i e = Some old \<and> rec_Revision old = e \<and> \<not> rec_Deleted old \<and>
              row = updated_row old v rk d \<and> hist t i (e + 1) = Some row))"

definition oi_contract :: "'s store \<Rightarrow> 's row_history \<Rightarrow> bool" where
  "oi_contract st hist \<longleftrightarrow>
     calls_extend st hist \<and> get_law st hist \<and> create_law st hist \<and> update_law st hist"

lemmas oi_laws = oi_contract_def calls_extend_def get_law_def create_law_def update_law_def

lemma oi_get:
  "oi_contract st hist \<Longrightarrow> oi_Get st i s = (Inr row, t) \<Longrightarrow>
     rec_ID row = i \<and> hist t i (rec_Revision row) = Some row"
  unfolding oi_laws by metis

lemma oi_create_new:
  "oi_contract st hist \<Longrightarrow> oi_Create st i sc v rk d s = (Inr (row, True), t) \<Longrightarrow>
     created_row i sc v rk d row \<and> hist s i 1 = None \<and> hist t i 1 = Some row"
  unfolding oi_laws by metis

lemma oi_create_old:
  "oi_contract st hist \<Longrightarrow> oi_Create st i sc v rk d s = (Inr (row, False), t) \<Longrightarrow>
     rec_ID row = i \<and> hist t i (rec_Revision row) = Some row"
  unfolding oi_laws by metis

lemma oi_update:
  "oi_contract st hist \<Longrightarrow> oi_Update st i e v rk d s = (Inr row, t) \<Longrightarrow>
     hist s i (e + 1) = None \<and>
     (\<exists>old. hist t i e = Some old \<and> rec_Revision old = e \<and> \<not> rec_Deleted old \<and>
            row = updated_row old v rk d \<and> hist t i (e + 1) = Some row)"
  unfolding oi_contract_def update_law_def by metis

text \<open>An update from a row that was read is an update of that row.\<close>

lemma oi_update_of_read:
  assumes "oi_contract st hist" and "hist s i (rec_Revision old) = Some old"
    and "oi_Update st i (rec_Revision old) v rk d s = (Inr row, t)"
  shows "row = updated_row old v rk d" "hist t i (rec_Revision old + 1) = Some row"
    "hist s i (rec_Revision old + 1) = None" "hist t i (rec_Revision old) = Some old"
proof -
  have "extends hist (oi_Update st i (rec_Revision old) v rk d)"
    using assms(1) by (simp add: oi_contract_def calls_extend_def)
  then have "hist t i (rec_Revision old) = Some old"
    using growsD [of hist s t i "rec_Revision old" old] assms(2,3) unfolding extends_def by metis
  with oi_update [OF assms(1,3)]
  show "row = updated_row old v rk d" "hist t i (rec_Revision old + 1) = Some row"
    "hist s i (rec_Revision old + 1) = None" "hist t i (rec_Revision old) = Some old"
    by auto
qed

text \<open>Two updates cannot both succeed from one revision of one row.\<close>

lemma oi_update_once:
  assumes "oi_contract st hist" and "oi_Update st i e v rk d s = (Inr row, t)" and "grows hist t u"
    and "oi_Update st i e v' rk' d' u = (Inr row', u')"
  shows False
  using oi_update [OF assms(1,2)] oi_update [OF assms(1,4)] growsD [OF assms(3), of i "e + 1" row] by fastforce

subsection \<open>Operations only extend the history\<close>

named_theorems extends_intros "closure of the history-extending operations"

lemma extendsD: "extends hist m \<Longrightarrow> m s = (r, t) \<Longrightarrow> grows hist s t"
  by (simp add: extends_def)

lemma extends_pure [extends_intros]:
  "extends hist (liftE x)" "extends hist (returnE y)" "extends hist (failE e)" "extends hist (askE f)"
  by (auto simp: extends_def)

lemma extends_bindE [extends_intros]:
  "extends hist m \<Longrightarrow> (\<And>x. extends hist (f x)) \<Longrightarrow> extends hist (bindE m f)"
  by (auto simp: extends_def elim!: bindE_E) (metis grows_trans)

lemma extends_calls [extends_intros]:
  "extends hist m \<Longrightarrow> extends hist (attemptE m)" "extends hist m \<Longrightarrow> extends hist (classifyE f m)"
  by (auto simp: extends_def attemptE_def classifyE_def split: prod.splits sum.splits)

lemma extends_cases [extends_intros]:
  "\<lbrakk>b \<Longrightarrow> extends hist m; \<not> b \<Longrightarrow> extends hist n\<rbrakk> \<Longrightarrow> extends hist (if b then m else n)"
  "\<lbrakk>\<And>e. extends hist (l e); \<And>x. extends hist (i x)\<rbrakk> \<Longrightarrow> extends hist (case_sum l i y)"
  "\<lbrakk>\<And>x y. extends hist (g x y)\<rbrakk> \<Longrightarrow> extends hist (case_prod g p)"
  "\<lbrakk>extends hist m; \<And>x. extends hist (h x)\<rbrakk> \<Longrightarrow> extends hist (case_option m h z)"
  by (auto split: sum.splits prod.splits option.splits)

lemma extends_checks [extends_intros]:
  "extends hist (admitForeground st)" "extends hist (checkCtx st)"
  unfolding admitForeground_def checkCtx_def by (intro extends_intros)+

lemma extends_provider [extends_intros]:
  assumes "oi_contract st hist"
  shows "extends hist (kv_Get st k)" "extends hist (kv_Put st k e w)" "extends hist (oi_Get st i)"
    "extends hist (oi_Create st i sc v rk d)" "extends hist (oi_Update st i e v rk d)"
    "extends hist (oi_ListOrdered st ns sc a l)" "extends hist (oi_ListDue st ns b af l)"
    "extends hist (oi_ListRanked st ns sc af l)" "extends hist (le_Acquire st n)"
    "extends hist (le_Release st h)" "extends hist (oi_Delete st i e)" "extends hist (lg_AppendDefinite st n e p)"
    "extends hist (lg_Tip st n)" "extends hist (lg_Read st n a)"
  using assms by (simp_all add: oi_contract_def calls_extend_def)

lemma extends_evidence [extends_intros]:
  "oi_contract st hist \<Longrightarrow> st_evidence st = Some f \<Longrightarrow> extends hist (f req)"
  by (simp add: oi_contract_def calls_extend_def)

lemma extends_let [extends_intros]: "extends hist (f x) \<Longrightarrow> extends hist (let y = x in f y)"
  by simp

lemma extends_verifyWitness [extends_intros]:
  "oi_contract st hist \<Longrightarrow> extends hist (verifyWitness st k w)"
  unfolding verifyWitness_def by (intro extends_intros)

lemma extends_verifySessionScope [extends_intros]:
  "oi_contract st hist \<Longrightarrow> extends hist (verifySessionScope st scope)"
  unfolding verifySessionScope_def by (intro extends_intros)

lemma extends_bindWitness [extends_intros]:
  "oi_contract st hist \<Longrightarrow> extends hist (bindWitness st k w)"
  unfolding bindWitness_def by (intro extends_intros)

end
