(* ===== verification/Session_Binding.thy ===== *)
theory Session_Binding
  imports Keyspace
begin

text \<open>
  \<^verbatim>\<open>session_binding.go\<close> and the binding half of \<^verbatim>\<open>keyspace.go\<close>: the immutable session binding,
  and the create-only protocol witness that reserves a session for the legacy or the disposition
  protocol.
\<close>

definition protocolModeOrLegacy :: "SessionBinding \<Rightarrow> ProtocolMode" where
  "protocolModeOrLegacy b = (if b = zeroBinding then ProtocolModeLegacy else sb_ProtocolMode b)"

definition validateBinding :: "core_lib \<Rightarrow> SessionBinding \<Rightarrow> err + unit" where
  "validateBinding c b =
    bindR (validateOpaque c (sb_StorageBindingID b) ''binding.storage_binding_id'' catalogInvalid) (\<lambda>_.
    bindR (validateOpaque c (sb_BindingVersion b) ''binding.binding_version'' catalogInvalid) (\<lambda>_.
    bindR (validateOpaque c (sb_RuntimeSessionID b) ''binding.runtime_session_id'' catalogInvalid) (\<lambda>_.
    if sb_ProtocolMode b \<noteq> ProtocolModeLegacy \<and> sb_ProtocolMode b \<noteq> ProtocolModeDisposition
    then Inl (catalogInvalid ''binding.protocol_mode'') else Inr ())))"

lemma validateBinding_Inr_iff:
  "validateBinding c b = Inr u \<longleftrightarrow>
    (\<forall>x \<in> {sb_StorageBindingID b, sb_BindingVersion b, sb_RuntimeSessionID b}.
       x \<noteq> [] \<and> length x \<le> MaxIDBytes c \<and> ValidString x) \<and>
    sb_ProtocolMode b \<in> {ProtocolModeLegacy, ProtocolModeDisposition}"
  by (auto simp: validateBinding_def)

definition protocolKey :: "sessionScope \<Rightarrow> string" where
  "protocolKey scope = sc_SessionNamespace scope @ ''/protocol''"

definition protocolWitness :: "sessionScope \<Rightarrow> ProtocolMode \<Rightarrow> err + string" where
  "protocolWitness scope mode = encodeWitness 1 [sc_sessionWitness scope, mode_text mode]"

definition boundProtocolMode :: "'s store \<Rightarrow> sessionScope \<Rightarrow> ('s, ProtocolMode option) store_op" where
  "boundProtocolMode st scope =
    bindE (liftE (validateSessionScope st scope)) (\<lambda>_.
    if sc_layout scope = layoutLegacySingleTenantV1 then returnE (Some ProtocolModeLegacy)
    else
      bindE (attemptE (kv_Get st (protocolKey scope))) (\<lambda>r. case r of
        Inl e \<Rightarrow>
          if isKeyNotFound e (protocolKey scope) then returnE None
          else failE (catalogErr CatalogErrorBackend ''binding.protocol_mode'')
      | Inr (got, _) \<Rightarrow>
          bindE (liftE (protocolWitness scope ProtocolModeLegacy)) (\<lambda>legacy.
          bindE (liftE (protocolWitness scope ProtocolModeDisposition)) (\<lambda>disposition.
          if got = legacy then returnE (Some ProtocolModeLegacy)
          else if got = disposition then returnE (Some ProtocolModeDisposition)
          else failE (KeyspaceError KeyspaceHashCollision)))))"

text \<open>The \<^verbatim>\<open>check\<close> closure of \<^verbatim>\<open>bindProtocolMode\<close>.\<close>

definition checkProtocolWitness :: "sessionScope \<Rightarrow> ProtocolMode \<Rightarrow> string \<Rightarrow> string \<Rightarrow> err + unit" where
  "checkProtocolWitness scope mode want got =
    (if got \<noteq> want then
       (let other = (if mode = ProtocolModeLegacy then ProtocolModeDisposition else ProtocolModeLegacy)
        in bindR (protocolWitness scope other) (\<lambda>w.
           if got = w then Inl (catalogErr CatalogErrorConflict ''binding.protocol_mode'')
           else Inl (KeyspaceError KeyspaceHashCollision)))
     else Inr ())"

definition putProtocolWitness :: "'s store \<Rightarrow> sessionScope \<Rightarrow> ProtocolMode \<Rightarrow> string \<Rightarrow> ('s, unit) store_op" where
  "putProtocolWitness st scope mode want =
    bindE (attemptE (kv_Put st (protocolKey scope) 0 want)) (\<lambda>p. case p of
      Inr _ \<Rightarrow> returnE ()
    | Inl _ \<Rightarrow>
        bindE (attemptE (kv_Get st (protocolKey scope))) (\<lambda>g. case g of
          Inl _ \<Rightarrow> failE (catalogErr CatalogErrorBackend ''binding.protocol_mode'')
        | Inr (got, _) \<Rightarrow> liftE (checkProtocolWitness scope mode want got)))"

definition bindProtocolMode :: "'s store \<Rightarrow> sessionScope \<Rightarrow> ProtocolMode \<Rightarrow> ('s, unit) store_op" where
  "bindProtocolMode st scope mode =
    bindE (liftE (validateSessionScope st scope)) (\<lambda>_.
    if mode \<noteq> ProtocolModeLegacy \<and> mode \<noteq> ProtocolModeDisposition
      then failE (catalogInvalid ''binding.protocol_mode'')
    else if sc_layout scope = layoutLegacySingleTenantV1 then
      (if mode \<noteq> ProtocolModeLegacy then failE (catalogInvalid ''binding.protocol_mode'') else returnE ())
    else
      bindE (liftE (protocolWitness scope mode)) (\<lambda>want.
      bindE (attemptE (kv_Get st (protocolKey scope))) (\<lambda>r. case r of
        Inr (got, _) \<Rightarrow> liftE (checkProtocolWitness scope mode want got)
      | Inl e \<Rightarrow>
          if \<not> isKeyNotFound e (protocolKey scope)
            then failE (catalogErr CatalogErrorBackend ''binding.protocol_mode'')
          else if mode = ProtocolModeDisposition then
            bindE (attemptE (kv_Get st (sc_sessionWitnessKey scope))) (\<lambda>old. case old of
              Inr _ \<Rightarrow>
                bindE (attemptE (kv_Get st (protocolKey scope))) (\<lambda>again. case again of
                  Inr (got, _) \<Rightarrow> liftE (checkProtocolWitness scope mode want got)
                | Inl e2 \<Rightarrow>
                    failE (catalogErr (if isKeyNotFound e2 (protocolKey scope)
                                       then CatalogErrorConflict else CatalogErrorBackend)
                            ''binding.protocol_mode''))
            | Inl oldErr \<Rightarrow>
                if \<not> isKeyNotFound oldErr (sc_sessionWitnessKey scope)
                then failE (catalogErr CatalogErrorBackend ''binding.protocol_mode'')
                else putProtocolWitness st scope mode want)
          else putProtocolWitness st scope mode want)))"

definition bindSessionScopeMode :: "'s store \<Rightarrow> sessionScope \<Rightarrow> ProtocolMode \<Rightarrow> ('s, unit) store_op" where
  "bindSessionScopeMode st scope mode =
    bindE (bindProtocolMode st scope mode) (\<lambda>_.
    bindE (liftE (validateSessionScope st scope)) (\<lambda>_.
    if sc_layout scope = layoutLegacySingleTenantV1 then returnE ()
    else
      bindE (bindWitness st (sc_tenantWitnessKey scope) (sc_tenantWitness scope)) (\<lambda>_.
      bindWitness st (sc_sessionWitnessKey scope) (sc_sessionWitness scope))))"

definition bindSessionScope :: "'s store \<Rightarrow> sessionScope \<Rightarrow> ('s, unit) store_op" where
  "bindSessionScope st scope = bindSessionScopeMode st scope ProtocolModeLegacy"

subsection \<open>What the code relies on of the key-value primitive\<close>

text \<open>
  \<open>kv_contract st view\<close> states Storage's documented behaviour over a view of the stored keys: a
  read returns the value stored at that moment or reports that key missing, a successful put
  at revision 0 has created the key with the value written, and no call removes or replaces a key
  created at revision 0 (the witnesses are create-only and are never deleted).
\<close>

definition kv_contract :: "'s store \<Rightarrow> ('s \<Rightarrow> string \<Rightarrow> string option) \<Rightarrow> bool" where
  "kv_contract st view \<longleftrightarrow>
    (\<forall>key s v r t. kv_Get st key s = (Inr (v, r), t) \<longrightarrow> view t key = Some v) \<and>
    (\<forall>key want s r t. kv_Put st key 0 want s = (Inr r, t) \<longrightarrow> view t key = Some want) \<and>
    (\<forall>key key' s r t v. kv_Get st key s = (r, t) \<longrightarrow> view s key' = Some v \<longrightarrow> view t key' = Some v) \<and>
    (\<forall>key key' want s r t v. kv_Put st key 0 want s = (r, t) \<longrightarrow> view s key' = Some v \<longrightarrow> view t key' = Some v)"

lemma kv_contract_get: "kv_contract st view \<Longrightarrow> kv_Get st key s = (Inr (v, r), t) \<Longrightarrow> view t key = Some v"
  by (simp add: kv_contract_def)

lemma kv_contract_put: "kv_contract st view \<Longrightarrow> kv_Put st key 0 want s = (Inr r, t) \<Longrightarrow> view t key = Some want"
  by (simp add: kv_contract_def)

lemma kv_contract_get_keeps:
  "kv_contract st view \<Longrightarrow> kv_Get st key s = (r, t) \<Longrightarrow> view s key' = Some v \<Longrightarrow> view t key' = Some v"
  by (simp add: kv_contract_def)

lemma kv_contract_put_keeps:
  "kv_contract st view \<Longrightarrow> kv_Put st key 0 want s = (r, t) \<Longrightarrow> view s key' = Some v \<Longrightarrow> view t key' = Some v"
  by (simp add: kv_contract_def)

lemmas kv_contract_keeps = kv_contract_get_keeps kv_contract_put_keeps

lemma checkProtocolWitness_Inr_iff [simp]:
  "checkProtocolWitness scope mode want got = Inr u \<longleftrightarrow> got = want"
  by (auto simp: checkProtocolWitness_def Let_def split: if_splits)

text \<open>Code that only reads and creates keys keeps every key: the closure of that property.\<close>

definition keeps :: "('s \<Rightarrow> string \<Rightarrow> string option) \<Rightarrow> ('s, 'e, 'a) op \<Rightarrow> bool" where
  "keeps view m \<longleftrightarrow> (\<forall>s r t key v. m s = (r, t) \<longrightarrow> view s key = Some v \<longrightarrow> view t key = Some v)"

named_theorems keeps_intros "closure of the key-preserving operations"

lemma keepsD: "keeps view m \<Longrightarrow> m s = (r, t) \<Longrightarrow> view s key = Some v \<Longrightarrow> view t key = Some v"
  by (auto simp: keeps_def)

lemma keeps_pure [keeps_intros]: "keeps view (liftE x)" "keeps view (returnE y)" "keeps view (failE e)"
  by (auto simp: keeps_def)

lemma keeps_bindE [keeps_intros]: "keeps view m \<Longrightarrow> (\<And>x. keeps view (f x)) \<Longrightarrow> keeps view (bindE m f)"
  by (fastforce simp: keeps_def elim!: bindE_E)

lemma keeps_attemptE [keeps_intros]: "keeps view m \<Longrightarrow> keeps view (attemptE m)"
  by (auto simp: keeps_def attemptE_def split: prod.splits)

lemma keeps_cases [keeps_intros]:
  "\<lbrakk>b \<Longrightarrow> keeps view m; \<not> b \<Longrightarrow> keeps view n\<rbrakk> \<Longrightarrow> keeps view (if b then m else n)"
  "\<lbrakk>\<And>e. keeps view (l e); \<And>x. keeps view (i x)\<rbrakk> \<Longrightarrow> keeps view (case_sum l i x)"
  "\<lbrakk>\<And>x y. keeps view (g x y)\<rbrakk> \<Longrightarrow> keeps view (case_prod g p)"
  by (auto split: sum.splits prod.splits)

lemma keeps_kv [keeps_intros]:
  "kv_contract st view \<Longrightarrow> keeps view (kv_Get st key)"
  "kv_contract st view \<Longrightarrow> keeps view (kv_Put st key 0 want)"
  unfolding keeps_def by (blast intro: kv_contract_keeps)+

lemma bindProtocolMode_keeps:
  assumes "kv_contract st view"
  shows "keeps view (bindProtocolMode st scope mode)"
  unfolding bindProtocolMode_def putProtocolWitness_def by (intro keeps_intros assms)

lemma putProtocolWitness_records:
  assumes "kv_contract st view" and "putProtocolWitness st scope mode want s = (Inr u, t)"
  shows "view t (protocolKey scope) = Some want"
  using assms(2)
  by (auto simp: putProtocolWitness_def elim!: bindE_InrE split: sum.split_asm prod.split_asm)
    (erule kv_contract_get [OF assms(1)] kv_contract_put [OF assms(1)])+

text \<open>A successful binding leaves the protocol key holding the witness of the mode that was bound.\<close>

lemma bindProtocolMode_records:
  assumes "kv_contract st view" and "bindProtocolMode st scope mode s = (Inr u, t)"
    and "sc_layout scope = layoutTenantV1"
  shows "\<exists>w. protocolWitness scope mode = Inr w \<and> view t (protocolKey scope) = Some w"
  using assms(2,3)
  by (auto simp: bindProtocolMode_def elim!: bindE_InrE split: sum.split_asm if_split_asm prod.split_asm)
    (erule kv_contract_get [OF assms(1)] putProtocolWitness_records [OF assms(1)])+

lemma bindProtocolMode_mode:
  "bindProtocolMode st scope mode s = (Inr u, t) \<Longrightarrow> mode \<in> {ProtocolModeLegacy, ProtocolModeDisposition}"
  by (auto simp: bindProtocolMode_def elim!: bindE_InrE split: if_split_asm)

lemma bindProtocolMode_legacy_layout:
  "bindProtocolMode st scope mode s = (Inr u, t) \<Longrightarrow> sc_layout scope = layoutLegacySingleTenantV1 \<Longrightarrow>
     mode = ProtocolModeLegacy"
  by (auto simp: bindProtocolMode_def elim!: bindE_InrE split: if_split_asm)

text \<open>
  C30. The protocol of a session is chosen once: whatever ran in between, as long as the store
  kept its keys, two successful bindings of one session scope name the same protocol mode.  So a
  session can never be served by the legacy and the disposition protocol both.
\<close>

theorem protocol_mode_is_exclusive:
  assumes "kv_contract st view"
    and "bindProtocolMode st scope mode s = (Inr (), t)"
    and "\<And>key v. view t key = Some v \<Longrightarrow> view t' key = Some v"
    and "bindProtocolMode st scope mode' t' = (Inr (), t'')"
  shows "mode = mode'"
proof (cases "sc_layout scope")
  case layoutTenantV1
  from bindProtocolMode_records [OF assms(1,2) this]
  obtain w where w: "protocolWitness scope mode = Inr w" "view t (protocolKey scope) = Some w" by blast
  from bindProtocolMode_records [OF assms(1,4) layoutTenantV1]
  obtain w' where w': "protocolWitness scope mode' = Inr w'" "view t'' (protocolKey scope) = Some w'" by blast
  from keepsD [OF bindProtocolMode_keeps [OF assms(1)] assms(4)] assms(3) w(2) w'(2) have "w = w'" by fastforce
  with w(1) w'(1) have "mode_text mode = mode_text mode'"
    using encodeWitness_inject [of 1 "[sc_sessionWitness scope, mode_text mode]" w 1
        "[sc_sessionWitness scope, mode_text mode']"] \<open>w = w'\<close>
    by (simp add: protocolWitness_def)
  with bindProtocolMode_mode [OF assms(2)] bindProtocolMode_mode [OF assms(4)] show ?thesis by auto
next
  case layoutLegacySingleTenantV1
  with bindProtocolMode_legacy_layout [OF assms(2)] bindProtocolMode_legacy_layout [OF assms(4)]
  show ?thesis by simp
qed

end
