(* ===== verification/Object_Stream.thy ===== *)
theory Object_Stream
  imports Object_Ref
begin

text \<open>
  \<^verbatim>\<open>objects.go\<close>, the streams: an upload and a download both pass through a verifier that counts and
  hashes the bytes it hands on and reports their end only when they are exactly the declared ones.
  The blob store and the readers it is given or gives are the provider's; a reader is a function of
  the number of the call, the bytes it delivered so far and the room it is offered.
\<close>

subsection \<open>The exact verifier\<close>

datatype stream_end = StreamEOF | StreamErr err

definition newExactVerifierWithReadCode :: "byte_source \<Rightarrow> u64 \<Rightarrow> string \<Rightarrow> ObjectErrorCode \<Rightarrow> exactVerifier" where
  "newExactVerifierWithReadCode source expected digest readCode =
    \<lparr>ev_source = source, ev_calls = 0, ev_expected = expected, ev_digest = digest, ev_hash = [], ev_read = 0,
     ev_verified = False, ev_failure = None, ev_readCode = readCode\<rparr>"

definition newExactVerifier :: "byte_source \<Rightarrow> u64 \<Rightarrow> string \<Rightarrow> exactVerifier" where
  "newExactVerifier source expected digest = newExactVerifierWithReadCode source expected digest ObjectErrorSource"

definition newBackendExactVerifier :: "byte_source \<Rightarrow> u64 \<Rightarrow> string \<Rightarrow> exactVerifier" where
  "newBackendExactVerifier source expected digest = newExactVerifierWithReadCode source expected digest ObjectErrorBackend"

type_synonym read_result = "(string \<times> stream_end option) \<times> exactVerifier"

text \<open>Every failure is kept and returned, with the bytes read so far in the call.\<close>

definition failRead :: "string \<Rightarrow> ObjectErrorCode \<Rightarrow> exactVerifier \<Rightarrow> read_result" where
  "failRead d code v =
    ((d, Some (StreamErr (objectErr code ''stream''))), v\<lparr>ev_failure := Some (objectErr code ''stream'')\<rparr>)"

text \<open>\<open>canceled\<close> is what the context says after the source was read.\<close>

definition finishRead :: "bool \<Rightarrow> string \<Rightarrow> io_error option \<Rightarrow> exactVerifier \<Rightarrow> read_result" where
  "finishRead canceled d e v =
    (if canceled then failRead d ObjectErrorCanceled v
     else case e of
       Some IoOther \<Rightarrow> failRead d (ev_readCode v) v
     | Some EOF \<Rightarrow>
         if ev_read v \<noteq> ev_expected v then failRead d ObjectErrorSize v
         else if Sum256 (ev_hash v) \<noteq> ev_digest v then failRead d ObjectErrorIntegrity v
         else ((d, Some StreamEOF), v\<lparr>ev_verified := True\<rparr>)
     | None \<Rightarrow> if d = [] then failRead [] (ev_readCode v) v else ((d, None), v))"

text \<open>One read of the source: a probe for a byte too many once all have been read, else at most what is left.\<close>

definition readSource :: "bool \<Rightarrow> nat \<Rightarrow> exactVerifier \<Rightarrow> read_result" where
  "readSource canceled room v =
    (let remaining = ev_expected v - ev_read v;
         limit = (if remaining = 0 then 1 else min room (unat remaining));
         reply = ev_source v (ev_calls v) (length (ev_hash v)) limit;
         v1 = v\<lparr>ev_calls := Suc (ev_calls v)\<rparr>
     in case rr_data reply of
       None \<Rightarrow> failRead [] (ev_readCode v) v1
     | Some d \<Rightarrow>
         if remaining = 0 then
           (if d \<noteq> [] then failRead [] ObjectErrorSize v1 else finishRead canceled [] (rr_err reply) v1)
         else if length d > limit then failRead [] (ev_readCode v) v1
         else finishRead canceled d (rr_err reply)
           (v1\<lparr>ev_read := ev_read v + word_of_nat (length d), ev_hash := ev_hash v @ d\<rparr>))"

text \<open>\<open>done\<close> is what the context says when the call starts; \<open>room\<close> is the length of the caller's buffer.\<close>

definition verifierRead :: "bool \<Rightarrow> bool \<Rightarrow> nat \<Rightarrow> exactVerifier \<Rightarrow> read_result" where
  "verifierRead done canceled room v =
    (if ev_verified v then (([], Some StreamEOF), v)
     else case ev_failure v of
       Some e \<Rightarrow> (([], Some (StreamErr e)), v)
     | None \<Rightarrow>
         if done then failRead [] ObjectErrorCanceled v
         else if room = 0 then (([], None), v)
         else readSource canceled room v)"

text \<open>\<^verbatim>\<open>bytes.NewReader\<close>: what is left, then the end.\<close>

definition bytesReader :: "string \<Rightarrow> byte_source" where
  "bytesReader b = (\<lambda>calls pos room. if pos \<ge> length b then \<lparr>rr_data = Some [], rr_err = Some EOF\<rparr>
     else \<lparr>rr_data = Some (take room (drop pos b)), rr_err = None\<rparr>)"

subsection \<open>What it guarantees, call by call\<close>

type_synonym read_call = "bool \<times> bool \<times> nat"

text \<open>The results of a sequence of calls, in order: the bytes handed on, and what was reported with them.\<close>

fun readRun :: "read_call list \<Rightarrow> exactVerifier \<Rightarrow> (string \<times> stream_end option) list \<times> exactVerifier" where
  "readRun [] v = ([], v)"
| "readRun ((done, canceled, room) # calls) v =
    (case verifierRead done canceled room v of (reply, v1) \<Rightarrow>
      (case readRun calls v1 of (replies, v2) \<Rightarrow> (reply # replies, v2)))"

definition handed :: "(string \<times> stream_end option) list \<Rightarrow> string" where
  "handed replies = concat (map fst replies)"

definition reported :: "(string \<times> stream_end option) list \<Rightarrow> stream_end set" where
  "reported replies = {r. \<exists>d. (d, Some r) \<in> set replies}"

lemma handed_simps [simp]: "handed [] = []" "handed ((d, r) # replies) = d @ handed replies"
  by (simp_all add: handed_def)

lemma reported_simps [simp]: "reported [] = {}" "reported ((d, None) # replies) = reported replies"
    "reported ((d, Some r) # replies) = insert r (reported replies)"
  by (auto simp: reported_def)

text \<open>The bytes hashed are the bytes counted, never more than expected, and all of them once verified.\<close>

definition verifier_inv :: "exactVerifier \<Rightarrow> bool" where
  "verifier_inv v \<longleftrightarrow> length (ev_hash v) = unat (ev_read v) \<and> ev_read v \<le> ev_expected v \<and>
     (ev_verified v \<longrightarrow> ev_failure v = None \<and> ev_read v = ev_expected v \<and> Sum256 (ev_hash v) = ev_digest v)"

lemma verifier_inv_new: "verifier_inv (newExactVerifierWithReadCode source expected digest readCode)"
  by (simp add: verifier_inv_def newExactVerifierWithReadCode_def)

lemma failRead_simps [simp]:
  "failRead d code v = ((x, e), v') \<longleftrightarrow> x = d \<and> e = Some (StreamErr (objectErr code ''stream'')) \<and>
     v' = v\<lparr>ev_failure := Some (objectErr code ''stream'')\<rparr>"
  by (auto simp: failRead_def)

text \<open>What one call does, when it reads the source.\<close>

lemma finishRead_cases:
  assumes "finishRead canceled d e v = ((x, r), v')" and "d = [] \<or> x = d"
  shows "x = d" "ev_hash v' = ev_hash v" "ev_read v' = ev_read v" "ev_expected v' = ev_expected v" "ev_digest v' = ev_digest v"
    "r = None \<Longrightarrow> d \<noteq> [] \<and> v' = v"
    "r = Some StreamEOF \<Longrightarrow> ev_read v = ev_expected v \<and> Sum256 (ev_hash v) = ev_digest v \<and> v' = v\<lparr>ev_verified := True\<rparr>"
    "\<And>err. r = Some (StreamErr err) \<Longrightarrow> v' = v\<lparr>ev_failure := Some err\<rparr>"
  using assms by (auto simp: finishRead_def split: if_split_asm option.split_asm io_error.split_asm)

lemma finishRead_shape:
  assumes "finishRead canceled d e v = ((x, r), v')"
  shows "x = d"
  using assms by (auto simp: finishRead_def split: if_split_asm option.split_asm io_error.split_asm)

text \<open>The verifier after a call that took \<open>d\<close> from the source.\<close>

definition took :: "string \<Rightarrow> exactVerifier \<Rightarrow> exactVerifier" where
  "took d v = v\<lparr>ev_calls := Suc (ev_calls v), ev_read := ev_read v + word_of_nat (length d), ev_hash := ev_hash v @ d\<rparr>"

lemma readSource_cases:
  assumes "readSource canceled room v = ((x, r), v')"
  obtains (refused) e where "x = []" "r = Some (StreamErr e)" "v' = v\<lparr>ev_calls := Suc (ev_calls v), ev_failure := Some e\<rparr>"
    | (read) e where "length x \<le> unat (ev_expected v - ev_read v)" "finishRead canceled x e (took x v) = ((x, r), v')"
proof -
  let ?rem = "ev_expected v - ev_read v"
  let ?limit = "if ?rem = 0 then 1 else min room (unat ?rem)"
  let ?reply = "ev_source v (ev_calls v) (length (ev_hash v)) ?limit"
  have nothing: "took [] v = v\<lparr>ev_calls := Suc (ev_calls v)\<rparr>" by (simp add: took_def)
  show thesis
  proof (cases "rr_data ?reply")
    case None
    with assms have "x = []" "\<exists>e. r = Some (StreamErr e) \<and> v' = v\<lparr>ev_calls := Suc (ev_calls v), ev_failure := Some e\<rparr>"
      by (simp_all add: readSource_def Let_def)
    then show thesis using refused by blast
  next
    case (Some d)
    show thesis
    proof (cases "(?rem = 0 \<and> d \<noteq> []) \<or> (?rem \<noteq> 0 \<and> ?limit < length d)")
      case True
      with assms Some have "x = []" "\<exists>e. r = Some (StreamErr e) \<and> v' = v\<lparr>ev_calls := Suc (ev_calls v), ev_failure := Some e\<rparr>"
        by (auto simp: readSource_def Let_def)
      then show thesis using refused by blast
    next
      case False
      with assms Some nothing have fin: "finishRead canceled d (rr_err ?reply) (took d v) = ((x, r), v')"
        by (auto simp: readSource_def Let_def took_def split: if_split_asm)
      moreover from False have "length d \<le> unat ?rem" by (auto split: if_split_asm)
      ultimately show thesis using read finishRead_shape by metis
    qed
  qed
qed

lemma verifierRead_cases:
  assumes "verifierRead done canceled room v = ((x, r), v')"
  obtains (over) "ev_verified v" "x = []" "r = Some StreamEOF" "v' = v"
    | (failed) e where "\<not> ev_verified v" "ev_failure v = Some e" "x = []" "r = Some (StreamErr e)" "v' = v"
    | (canceled) "\<not> ev_verified v" "x = []" "r = Some (StreamErr (objectErr ObjectErrorCanceled ''stream''))"
        "v' = v\<lparr>ev_failure := Some (objectErr ObjectErrorCanceled ''stream'')\<rparr>"
    | (idle) "\<not> ev_verified v" "room = 0" "x = []" "r = None" "v' = v"
    | (source) "\<not> ev_verified v" "ev_failure v = None" "readSource canceled room v = ((x, r), v')"
proof -
  consider "ev_verified v" | e where "\<not> ev_verified v" "ev_failure v = Some e"
    | "\<not> ev_verified v" "ev_failure v = None" "done" | "\<not> ev_verified v" "ev_failure v = None" "\<not> done" "room = 0"
    | "\<not> ev_verified v" "ev_failure v = None" "\<not> done" "room \<noteq> 0" by blast
  then show thesis
  proof cases
    case 1
    with assms show thesis by (intro over) (simp_all add: verifierRead_def)
  next
    case (2 e)
    with assms show thesis by (intro failed) (auto simp: verifierRead_def)
  next
    case 3
    with assms show thesis by (intro canceled) (simp_all add: verifierRead_def)
  next
    case 4
    with assms show thesis by (intro idle) (simp_all add: verifierRead_def)
  next
    case 5
    with assms show thesis by (intro source) (simp_all add: verifierRead_def)
  qed
qed

subsection \<open>Reading to the end\<close>

lemma took_inv:
  assumes "verifier_inv v" and "length d \<le> unat (ev_expected v - ev_read v)"
  shows "unat (ev_read (took d v)) = unat (ev_read v) + length d" "ev_read (took d v) \<le> ev_expected v"
    "length (ev_hash (took d v)) = unat (ev_read (took d v))"
proof -
  have le: "ev_read v \<le> ev_expected v" using assms(1) by (simp add: verifier_inv_def)
  then have gap: "unat (ev_expected v - ev_read v) = unat (ev_expected v) - unat (ev_read v)" by (rule unat_sub)
  with assms(2) le have fits: "unat (ev_read v) + length d \<le> unat (ev_expected v)" by (simp add: word_le_nat_alt)
  then have "unat (ev_read v) + length d < 2 ^ LENGTH(64)" using unsigned_less [of "ev_expected v"] by (rule le_less_trans)
  then show read: "unat (ev_read (took d v)) = unat (ev_read v) + length d"
    by (simp add: took_def unat_word_ariths unat_of_nat)
  with fits show "ev_read (took d v) \<le> ev_expected v" by (simp add: word_le_nat_alt)
  from read assms(1) show "length (ev_hash (took d v)) = unat (ev_read (took d v))"
    by (simp add: took_def verifier_inv_def)
qed

text \<open>One call keeps the invariant and hands on exactly the bytes it hashed.\<close>

lemma readSource_step:
  assumes "readSource canceled room v = ((x, r), v')" and "verifier_inv v" and "\<not> ev_verified v" and "ev_failure v = None"
  shows "verifier_inv v' \<and> ev_hash v' = ev_hash v @ x \<and> ev_expected v' = ev_expected v \<and> ev_digest v' = ev_digest v \<and>
    (r = Some StreamEOF \<longleftrightarrow> ev_verified v')"
  using assms(1)
proof (cases rule: readSource_cases)
  case (refused e)
  with assms show ?thesis by (simp add: verifier_inv_def)
next
  case (read e)
  note took = took_inv [OF assms(2) read(1)]
  note fin = finishRead_cases [OF read(2) disjI2 [OF refl]]
  have same: "ev_expected (took x v) = ev_expected v" "ev_digest (took x v) = ev_digest v" "ev_hash (took x v) = ev_hash v @ x"
    "ev_verified (took x v) = ev_verified v" "ev_failure (took x v) = ev_failure v"
    by (simp_all add: took_def)
  consider "r = None" | "r = Some StreamEOF" | err where "r = Some (StreamErr err)" by (metis option.exhaust stream_end.exhaust)
  then show ?thesis
  proof cases
    case 1
    have "v' = took x v" using fin(6) [OF 1] by (rule conjunct2)
    with 1 took same assms show ?thesis by (simp add: verifier_inv_def)
  next
    case 2
    note eof = fin(7) [OF 2]
    from eof have v': "v' = (took x v)\<lparr>ev_verified := True\<rparr>" by iprover
    from eof have "ev_read (took x v) = ev_expected v" "Sum256 (ev_hash v @ x) = ev_digest v" unfolding same by iprover+
    with 2 v' took same assms show ?thesis by (simp add: verifier_inv_def)
  next
    case 3
    have "v' = (took x v)\<lparr>ev_failure := Some err\<rparr>" by (rule fin(8) [OF 3])
    with 3 took same assms show ?thesis by (simp add: verifier_inv_def)
  qed
qed

lemma verifierRead_step:
  assumes "verifierRead done canceled room v = ((x, r), v')" and "verifier_inv v"
  shows "verifier_inv v'" "ev_hash v' = ev_hash v @ x" "ev_expected v' = ev_expected v" "ev_digest v' = ev_digest v"
    "r = Some StreamEOF \<longleftrightarrow> ev_verified v'"
proof -
  have "verifier_inv v' \<and> ev_hash v' = ev_hash v @ x \<and> ev_expected v' = ev_expected v \<and> ev_digest v' = ev_digest v \<and>
    (r = Some StreamEOF \<longleftrightarrow> ev_verified v')"
    using assms(1)
  proof (cases rule: verifierRead_cases)
    case source
    from readSource_step [OF source(3) assms(2) source(1,2)] show ?thesis .
  qed (use assms(2) in \<open>simp_all add: verifier_inv_def\<close>)
  then show "verifier_inv v'" "ev_hash v' = ev_hash v @ x" "ev_expected v' = ev_expected v" "ev_digest v' = ev_digest v"
    "r = Some StreamEOF \<longleftrightarrow> ev_verified v'"
    by iprover+
qed

text \<open>A call that reports neither an end nor an error made progress.\<close>

lemma readSource_progress:
  assumes "readSource canceled room v = ((x, None), v')"
  shows "unat (ev_expected v' - ev_read v') < unat (ev_expected v - ev_read v)"
  using assms
proof (cases rule: readSource_cases)
  case (read e)
  note end_of = finishRead_cases(6) [OF read(2) disjI2 [OF refl] refl]
  have x: "x \<noteq> []" by (rule conjunct1 [OF end_of])
  have v': "v' = took x v" by (rule conjunct2 [OF end_of])
  have len: "length x \<le> unat (ev_expected v - ev_read v)" by (rule read(1))
  then have "length x < 2 ^ LENGTH(64)" using unsigned_less by (rule le_less_trans)
  then have small: "unat (word_of_nat (length x) :: u64) = length x" by (simp add: unat_of_nat)
  then have "word_of_nat (length x) \<le> ev_expected v - ev_read v" using len by (simp add: word_le_nat_alt)
  then have "unat (ev_expected v - ev_read v - word_of_nat (length x)) = unat (ev_expected v - ev_read v) - length x"
    unfolding unat_sub [OF \<open>word_of_nat (length x) \<le> ev_expected v - ev_read v\<close>] small by simp
  moreover have "ev_expected v' - ev_read v' = ev_expected v - ev_read v - word_of_nat (length x)"
    unfolding v' by (simp add: took_def)
  ultimately have "unat (ev_expected v' - ev_read v') = unat (ev_expected v - ev_read v) - length x" by (simp only:)
  moreover have "0 < length x" using x by simp
  ultimately show ?thesis using len diff_less [of "length x" "unat (ev_expected v - ev_read v)"] by presburger
qed simp

lemma verifierRead_progress:
  assumes "verifierRead done canceled room v = ((x, None), v')" and "0 < room"
  shows "unat (ev_expected v' - ev_read v') < unat (ev_expected v - ev_read v)"
  using assms(1)
proof (cases rule: verifierRead_cases)
  case source
  then show ?thesis by (intro readSource_progress)
qed (use assms(2) in simp_all)

text \<open>Once the end or an error was reported, that is all that is ever reported.\<close>

lemma verifierRead_stuck:
  assumes "verifierRead done canceled room v = ((x, r), v')"
  shows "ev_verified v \<Longrightarrow> x = [] \<and> r = Some StreamEOF \<and> v' = v"
    "\<not> ev_verified v \<Longrightarrow> ev_failure v = Some e \<Longrightarrow> x = [] \<and> r = Some (StreamErr e) \<and> v' = v"
  using assms by (auto simp: verifierRead_def)

lemma verifierRead_failed:
  assumes "verifierRead done canceled room v = ((x, Some (StreamErr e)), v')" and "verifier_inv v"
  shows "\<not> ev_verified v' \<and> ev_failure v' = Some e"
proof -
  have "\<not> ev_verified v'" using verifierRead_step(5) [OF assms] by simp
  moreover have "ev_failure v' = Some e"
    using assms(1)
  proof (cases rule: verifierRead_cases)
    case source
    from source(3) show ?thesis
    proof (cases rule: readSource_cases)
      case (read f)
      from finishRead_cases(8) [OF read(2) disjI2 [OF refl] refl] show ?thesis by simp
    qed simp
  qed simp_all
  ultimately show ?thesis ..
qed

lemma readRun_over: "readRun calls v = (replies, v') \<Longrightarrow> ev_verified v \<Longrightarrow> handed replies = [] \<and> reported replies \<subseteq> {StreamEOF}"
proof (induction calls v arbitrary: replies v' rule: readRun.induct)
  case (2 dn canceled room calls v)
  obtain x r v1 where step: "verifierRead dn canceled room v = ((x, r), v1)" by (metis surj_pair)
  obtain rest v2 where rest: "readRun calls v1 = (rest, v2)" by (metis surj_pair)
  note stuck = verifierRead_stuck(1) [OF step "2.prems"(2)]
  with "2.IH" [OF step [symmetric] rest] "2.prems" step rest show ?case by auto
qed simp

lemma readRun_failed:
  "readRun calls v = (replies, v') \<Longrightarrow> \<not> ev_verified v \<Longrightarrow> ev_failure v = Some e \<Longrightarrow> reported replies \<subseteq> {StreamErr e}"
proof (induction calls v arbitrary: replies v' rule: readRun.induct)
  case (2 dn canceled room calls v)
  obtain x r v1 where step: "verifierRead dn canceled room v = ((x, r), v1)" by (metis surj_pair)
  obtain rest v2 where rest: "readRun calls v1 = (rest, v2)" by (metis surj_pair)
  note stuck = verifierRead_stuck(2) [OF step "2.prems"(2,3)]
  with "2.IH" [OF step [symmetric] rest] "2.prems" step rest show ?case by auto
qed simp

lemma readRun_exact:
  "readRun calls v = (replies, v') \<Longrightarrow> verifier_inv v \<Longrightarrow>
     length (ev_hash v @ handed replies) \<le> unat (ev_expected v) \<and>
     (StreamEOF \<in> reported replies \<longrightarrow> length (ev_hash v @ handed replies) = unat (ev_expected v) \<and>
        Sum256 (ev_hash v @ handed replies) = ev_digest v \<and> reported replies = {StreamEOF})"
proof (induction calls v arbitrary: replies v' rule: readRun.induct)
  case (1 v)
  then show ?case by (auto simp: verifier_inv_def word_le_nat_alt)
next
  case (2 dn canceled room calls v)
  obtain x r v1 where step: "verifierRead dn canceled room v = ((x, r), v1)" by (metis surj_pair)
  obtain rest v2 where rest: "readRun calls v1 = (rest, v2)" by (metis surj_pair)
  have replies: "replies = (x, r) # rest" using "2.prems"(1) step rest by simp
  note one = verifierRead_step [OF step "2.prems"(2)]
  note later = "2.IH" [OF step [symmetric] rest one(1), unfolded one(2-4)]
  consider "r = None" | "r = Some StreamEOF" | e where "r = Some (StreamErr e)" by (metis option.exhaust stream_end.exhaust)
  then show ?case
  proof cases
    case 1
    with later show ?thesis by (simp add: replies)
  next
    case 2
    then have over: "ev_verified v1" using one(5) by simp
    from readRun_over [OF rest over] have "handed rest = []" "reported rest \<subseteq> {StreamEOF}" by simp_all
    moreover from over one(1) have "length (ev_hash v1) = unat (ev_expected v1)" "Sum256 (ev_hash v1) = ev_digest v1"
      by (simp_all add: verifier_inv_def)
    ultimately show ?thesis using 2 by (auto simp: replies one(2-4))
  next
    case (3 e)
    from verifierRead_failed [OF step [unfolded 3] "2.prems"(2)] readRun_failed [OF rest]
    have "reported rest \<subseteq> {StreamErr e}" by blast
    with 3 later show ?thesis by (auto simp: replies)
  qed
qed

text \<open>
  C31. A stream behind the verifier is exact: whatever the source yields, whatever buffers it is read
  with and whenever the context is canceled, the bytes handed on never exceed the declared size; and if any
  read reported the end of the stream, the bytes handed on are as many as declared and have the declared
  SHA-256 digest, and no read, before it or after, reported an error.
\<close>

theorem verified_stream_is_exact:
  assumes "readRun calls (newExactVerifierWithReadCode source expected digest readCode) = (replies, v)"
  shows "length (handed replies) \<le> unat expected \<and>
    (StreamEOF \<in> reported replies \<longrightarrow>
       length (handed replies) = unat expected \<and> Sum256 (handed replies) = digest \<and> reported replies = {StreamEOF})"
  using readRun_exact [OF assms verifier_inv_new] by (simp add: newExactVerifierWithReadCode_def)

subsection \<open>Draining a stream\<close>

text \<open>
  \<^verbatim>\<open>io.ReadAll\<close> and \<^verbatim>\<open>io.Copy\<close>: read until the end or an error.  \<open>room n\<close> is what the buffer offers
  after \<open>n\<close> bytes beyond the first byte; it grows as the library likes.  \<open>ctx n\<close> is what the context says
  when read number \<open>n\<close> starts and after the source was read.
\<close>

function drain :: "(nat \<Rightarrow> nat) \<Rightarrow> (nat \<Rightarrow> bool \<times> bool) \<Rightarrow> nat \<Rightarrow> string \<Rightarrow> exactVerifier \<Rightarrow> (err + string) \<times> exactVerifier" where
  "drain room ctx n acc v =
    (case verifierRead (fst (ctx n)) (snd (ctx n)) (Suc (room (length acc))) v of
       ((d, None), v1) \<Rightarrow> drain room ctx (Suc n) (acc @ d) v1
     | ((d, Some StreamEOF), v1) \<Rightarrow> (Inr (acc @ d), v1)
     | ((d, Some (StreamErr e)), v1) \<Rightarrow> (Inl e, v1))"
  by pat_completeness auto

termination drain
  by (relation "measure (\<lambda>(room, ctx, n, acc, v). unat (ev_expected v - ev_read v))")
    (auto dest!: verifierRead_progress [OF sym])

declare drain.simps [simp del]

lemma drain_exact:
  "drain room ctx n acc v = (Inr b, v') \<Longrightarrow> verifier_inv v \<Longrightarrow> ev_hash v = acc \<Longrightarrow>
     length b = unat (ev_expected v) \<and> Sum256 b = ev_digest v"
proof (induction room ctx n acc v arbitrary: b v' rule: drain.induct)
  case (1 room ctx n acc v)
  obtain d r v1 where step: "verifierRead (fst (ctx n)) (snd (ctx n)) (Suc (room (length acc))) v = ((d, r), v1)"
    by (metis surj_pair)
  note facts = verifierRead_step [OF step "1.prems"(2)]
  show ?case
  proof (cases r)
    case None
    with "1.prems"(1) step have more: "drain room ctx (Suc n) (acc @ d) v1 = (Inr b, v')" by (simp add: drain.simps [of room ctx n acc])
    from "1.IH" [OF step [symmetric] refl None more] facts "1.prems"(3) show ?thesis by simp
  next
    case (Some q)
    then have "r = Some StreamEOF" "b = acc @ d" using "1.prems"(1) step
      by (cases q; simp add: drain.simps [of room ctx n acc])+
    with facts "1.prems"(3) show ?thesis by (auto simp: verifier_inv_def)
  qed
qed

end
