(* ===== verification/Ledger.thy ===== *)
theory Ledger
  imports "HOL-Library.Sublist" Keyspace
begin

text \<open>
  What the Store relies on of Storage's ledger, as a contract over the journals: \<open>J s n\<close> is the list of
  payloads of the journal \<open>n\<close>, its \<open>i\<close>th record having the sequence number \<open>i + 1\<close>.  Other processes
  append before and during calls; a call can only extend.  A tip is the length of the journal; a cursor
  yields the records from a position on, one by one, until the end or an error.  After an append that succeeds
  the record directly after the expected tip is, byte for byte, the one offered: the caller's own, or, as
  \<^verbatim>\<open>storage.AppendDefinite\<close> documents for an ambiguous acknowledgement, an identical one another writer put there.
  Sequence numbers do not run out: a journal is shorter than \<open>2 ^ 64 - 1\<close> records.
\<close>

type_synonym 's journals = "'s \<Rightarrow> string \<Rightarrow> string list"

definition ledger_record_at :: "string list \<Rightarrow> nat \<Rightarrow> ledger_record" where
  "ledger_record_at js i = \<lparr>lr_Seq = word_of_nat i, lr_Payload = js ! (i - 1)\<rparr>"

fun yields :: "string list \<Rightarrow> nat \<Rightarrow> (ledger_error + ledger_record) list \<Rightarrow> bool" where
  "yields js i [] = (length js < i)"
| "yields js i (Inl e # rest) = True"
| "yields js i (Inr r # rest) = (i \<le> length js \<and> r = ledger_record_at js i \<and> yields js (Suc i) rest)"

definition ledger_grows :: "'s journals \<Rightarrow> 's \<Rightarrow> 's \<Rightarrow> bool" where
  "ledger_grows J s t \<longleftrightarrow> (\<forall>n. prefix (J s n) (J t n))"

lemma ledger_grows_refl [simp]: "ledger_grows J s s"
  by (simp add: ledger_grows_def)

lemma ledger_grows_trans [trans]: "ledger_grows J s t \<Longrightarrow> ledger_grows J t u \<Longrightarrow> ledger_grows J s u"
  by (auto simp: ledger_grows_def intro: prefix_order.trans)

definition appends :: "'s journals \<Rightarrow> ('s, 'e, 'a) op \<Rightarrow> bool" where
  "appends J m \<longleftrightarrow> (\<forall>s r t. m s = (r, t) \<longrightarrow> ledger_grows J s t)"

lemma appendsD: "appends J m \<Longrightarrow> m s = (r, t) \<Longrightarrow> ledger_grows J s t"
  by (simp add: appends_def)

definition tip_law :: "'s store \<Rightarrow> 's journals \<Rightarrow> bool" where
  "tip_law st J \<longleftrightarrow> (\<forall>n s tip t. lg_Tip st n s = (Inr tip, t) \<longrightarrow> unat tip = length (J t n) \<and> Suc (unat tip) < 2 ^ 64)"

definition read_law :: "'s store \<Rightarrow> 's journals \<Rightarrow> bool" where
  "read_law st J \<longleftrightarrow> (\<forall>n from s items t. lg_Read st n from s = (Inr items, t) \<longrightarrow>
     Suc (length (J t n)) < 2 ^ 64 \<and> yields (J t n) (max 1 (unat from)) items)"

definition append_law :: "'s store \<Rightarrow> 's journals \<Rightarrow> bool" where
  "append_law st J \<longleftrightarrow> (\<forall>n tip payload s t. lg_AppendDefinite st n tip payload s = (Inr (), t) \<longrightarrow>
     unat tip < length (J t n) \<and> J t n ! unat tip = payload \<and> Suc (unat tip) < 2 ^ 64)"

definition calls_append :: "'s store \<Rightarrow> 's journals \<Rightarrow> bool" where
  "calls_append st J \<longleftrightarrow>
    (\<forall>k. appends J (kv_Get st k)) \<and> (\<forall>k e v. appends J (kv_Put st k e v)) \<and>
    (\<forall>n. appends J (lg_Tip st n)) \<and> (\<forall>n a. appends J (lg_Read st n a)) \<and>
    (\<forall>n e p. appends J (lg_AppendDefinite st n e p)) \<and>
    (\<forall>n. appends J (le_Acquire st n)) \<and> (\<forall>h. appends J (le_Release st h)) \<and>
    (\<forall>i. appends J (oi_Get st i)) \<and> appends J (st_Generation st) \<and> (\<forall>k. appends J (bl_Get st k)) \<and>
    (\<forall>k v s r v' t. bl_Put st k v s = (r, v', t) \<longrightarrow> ledger_grows J s t)"

definition ledger_contract :: "'s store \<Rightarrow> 's journals \<Rightarrow> bool" where
  "ledger_contract st J \<longleftrightarrow> calls_append st J \<and> tip_law st J \<and> read_law st J \<and> append_law st J"

subsection \<open>Operations only append\<close>

named_theorems appends_intros

lemma appends_pure [appends_intros]:
  "appends J (returnE x)" "appends J (failE e)" "appends J (liftE r)" "appends J (askE f)" "appends J (admitForeground st)"
  by (auto simp: appends_def returnE_def failE_def liftE_def askE_def admitForeground_def bindE_def
      split: sum.splits if_split_asm)

lemma appends_bindE [appends_intros]:
  assumes "appends J m" and "\<And>x. appends J (k x)"
  shows "appends J (bindE m k)"
  using assms by (auto simp: appends_def elim!: bindE_E) (metis ledger_grows_trans)

lemma appends_calls [appends_intros]:
  "appends J m \<Longrightarrow> appends J (attemptE m)" "appends J m \<Longrightarrow> appends J (classifyE f m)"
  by (auto simp: appends_def attemptE_def classifyE_def split: prod.split_asm sum.split_asm)

lemma appends_cases [appends_intros]:
  "(b \<Longrightarrow> appends J m) \<Longrightarrow> (\<not> b \<Longrightarrow> appends J n) \<Longrightarrow> appends J (if b then m else n)"
  "(\<And>e. appends J (f e)) \<Longrightarrow> (\<And>x. appends J (g x)) \<Longrightarrow> appends J (case r of Inl e \<Rightarrow> f e | Inr x \<Rightarrow> g x)"
  "appends J m \<Longrightarrow> (\<And>x. appends J (h x)) \<Longrightarrow> appends J (case q of None \<Rightarrow> m | Some x \<Rightarrow> h x)"
  "(\<And>a b. appends J (l a b)) \<Longrightarrow> appends J (case p of (a, b) \<Rightarrow> l a b)"
  by (auto split: sum.split option.split prod.split)

lemma appends_provider [appends_intros]:
  assumes "ledger_contract st J"
  shows "appends J (kv_Get st k)" "appends J (kv_Put st k e v)" "appends J (lg_Tip st n)" "appends J (lg_Read st n a)"
    "appends J (lg_AppendDefinite st n tip payload)" "appends J (le_Acquire st n)" "appends J (le_Release st h)"
    "appends J (oi_Get st i)" "appends J (st_Generation st)" "appends J (bl_Get st k)"
  using assms by (simp_all add: ledger_contract_def calls_append_def)

lemma ledger_tip: "ledger_contract st J \<Longrightarrow> lg_Tip st n s = (Inr tip, t) \<Longrightarrow> unat tip = length (J t n) \<and> Suc (unat tip) < 2 ^ 64"
  unfolding ledger_contract_def tip_law_def by metis

lemma ledger_read:
  assumes "ledger_contract st J" and "lg_Read st n from s = (Inr items, t)"
  shows "Suc (length (J t n)) < 2 ^ 64" "yields (J t n) (max 1 (unat from)) items"
  using assms by (simp_all add: ledger_contract_def read_law_def)

lemma ledger_append:
  assumes "ledger_contract st J" and "lg_AppendDefinite st n tip payload s = (Inr (), t)"
  shows "unat tip < length (J t n)" "J t n ! unat tip = payload" "Suc (unat tip) < 2 ^ 64"
  using assms by (simp_all add: ledger_contract_def append_law_def)

lemma ledger_growsD: "ledger_grows J s t \<Longrightarrow> i < length (J s n) \<Longrightarrow> i < length (J t n) \<and> J t n ! i = J s n ! i"
  by (auto simp: ledger_grows_def prefix_def nth_append dest: spec [of _ n])

lemma ledger_grows_take: "ledger_grows J s t \<Longrightarrow> m \<le> length (J s n) \<Longrightarrow> take m (J t n) = take m (J s n)"
  by (auto simp: ledger_grows_def prefix_def dest!: spec [of _ n])

lemma ledger_grows_length: "ledger_grows J s t \<Longrightarrow> length (J s n) \<le> length (J t n)"
  by (auto simp: ledger_grows_def prefix_def dest!: spec [of _ n])

text \<open>A cursor that yields every record.\<close>

definition ledger_records :: "string list \<Rightarrow> nat \<Rightarrow> ledger_record list" where
  "ledger_records js i = map (ledger_record_at js) [i..<Suc (length js)]"

lemma yields_records: "yields js i (map Inr (ledger_records js i))"
proof (induction "Suc (length js) - i" arbitrary: i)
  case 0
  then show ?case by (simp add: ledger_records_def)
next
  case (Suc n)
  then have "i \<le> length js" by simp
  then have "ledger_records js i = ledger_record_at js i # ledger_records js (Suc i)"
    using upt_conv_Cons [of i "Suc (length js)"] by (simp add: ledger_records_def del: upt_Suc)
  with Suc.hyps(1) [of "Suc i"] Suc.hyps(2) \<open>i \<le> length js\<close> show ?case by simp
qed

lemma appends_verifySessionScope [appends_intros]: "ledger_contract st J \<Longrightarrow> appends J (verifySessionScope st scope)"
  unfolding verifySessionScope_def verifyWitness_def Let_def by (intro appends_intros)

end
