(* ===== verification/Mem_Provider.thy ===== *)
theory Mem_Provider
  imports Ordered_Index Session_Binding Object_Stream Ledger
begin

text \<open>
  A concrete storage provider, kept in memory: every row ever stored, newest first, and the
  key-value pairs.  It satisfies the contracts the properties assume of a provider, so they can
  be met together; the witnesses run the Store's operations on it.
\<close>

record mem =
  mem_kv :: "(string \<times> string) list"
  mem_rows :: "ordered_record list"
  mem_now :: gotime
  mem_journal :: "string list"
  mem_blobs :: "(string \<times> string) list"

definition mem_version :: "mem \<Rightarrow> ordered_id \<Rightarrow> u64 \<Rightarrow> ordered_record option" where
  "mem_version m i r = List.find (\<lambda>row. rec_ID row = i \<and> rec_Revision row = r) (mem_rows m)"

definition mem_current :: "mem \<Rightarrow> ordered_id \<Rightarrow> ordered_record option" where
  "mem_current m i = List.find (\<lambda>row. rec_ID row = i) (mem_rows m)"

definition mem_view :: "mem \<Rightarrow> string \<Rightarrow> string option" where
  "mem_view m k = map_of (mem_kv m) k"

definition mem_Get :: "string \<Rightarrow> mem \<Rightarrow> (kv_error + string \<times> u64) \<times> mem" where
  "mem_Get k m = ((case mem_view m k of None \<Rightarrow> Inl (KeyNotFoundError k) | Some v \<Rightarrow> Inr (v, 1)), m)"

definition mem_Put :: "string \<Rightarrow> u64 \<Rightarrow> string \<Rightarrow> mem \<Rightarrow> (kv_error + u64) \<times> mem" where
  "mem_Put k e v m =
    (if e = 0 \<and> mem_view m k = None then (Inr 1, m\<lparr>mem_kv := (k, v) # mem_kv m\<rparr>)
     else (Inl (ConflictError k 1), m))"

definition mem_oi_Get :: "ordered_id \<Rightarrow> mem \<Rightarrow> (ordered_error + ordered_record) \<times> mem" where
  "mem_oi_Get i m =
    ((case mem_current m i of None \<Rightarrow> Inl OrderedRecordNotFoundError | Some row \<Rightarrow> Inr row), m)"

definition mem_order :: "mem \<Rightarrow> u64" where
  "mem_order m = (let o' = word_of_nat (Suc (length (mem_rows m))) in if o' = 0 then 1 else o')"

definition mem_oi_Create ::
  "ordered_id \<Rightarrow> string \<Rightarrow> stored_bytes \<Rightarrow> rank \<Rightarrow> due \<Rightarrow> mem \<Rightarrow> (ordered_error + ordered_record \<times> bool) \<times> mem" where
  "mem_oi_Create i sc v rk d m =
    (case mem_current m i of
       Some row \<Rightarrow> (Inr (row, False), m)
     | None \<Rightarrow>
         (let row = \<lparr>rec_ID = i, rec_RankingScope = sc, rec_Value = v, rec_Revision = 1,
            rec_Order = mem_order m, rec_Rank = rk, rec_Due = d, rec_Deleted = False\<rparr>
          in (Inr (row, True), m\<lparr>mem_rows := row # mem_rows m\<rparr>)))"

definition mem_oi_Update ::
  "ordered_id \<Rightarrow> u64 \<Rightarrow> stored_bytes \<Rightarrow> rank \<Rightarrow> due \<Rightarrow> mem \<Rightarrow> (ordered_error + ordered_record) \<times> mem" where
  "mem_oi_Update i e v rk d m =
    (case mem_version m i e of
       None \<Rightarrow> (Inl OrderedRecordNotFoundError, m)
     | Some old \<Rightarrow>
         if rec_Deleted old then (Inl OrderedDeletedError, m)
         else if mem_version m i (e + 1) \<noteq> None then (Inl (OrderedRevisionConflictError (e + 1)), m)
         else (let row = updated_row old v rk d in (Inr row, m\<lparr>mem_rows := row # mem_rows m\<rparr>)))"

text \<open>The newest version of every row of a scope past an order, in ascending order.\<close>

definition mem_listed :: "mem \<Rightarrow> string \<Rightarrow> string \<Rightarrow> u64 \<Rightarrow> ordered_record list" where
  "mem_listed m ns sc after =
    sort_key rec_Order (filter (\<lambda>row. oid_Namespace (rec_ID row) = ns \<and> oid_OrderingScope (rec_ID row) = sc
      \<and> rec_Order row > after \<and> mem_current m (rec_ID row) = Some row) (mem_rows m))"

definition mem_oi_ListOrdered ::
  "string \<Rightarrow> string \<Rightarrow> u64 \<Rightarrow> int \<Rightarrow> mem \<Rightarrow> (ordered_error + ordered_page) \<times> mem" where
  "mem_oi_ListOrdered ns sc after limit m =
    (let rows = take (nat limit) (mem_listed m ns sc after) in
     (Inr \<lparr>op_Records = rows, op_NextAfterOrder = (if rows = [] then 0 else rec_Order (last rows))\<rparr>, m))"

text \<open>
  Ranked and due listings without further pages.
\<close>

definition mem_live :: "mem \<Rightarrow> string \<Rightarrow> ordered_record list" where
  "mem_live m ns = filter (\<lambda>row. oid_Namespace (rec_ID row) = ns \<and> \<not> rec_Deleted row
     \<and> mem_current m (rec_ID row) = Some row) (mem_rows m)"

definition mem_oi_ListRanked :: "string \<Rightarrow> string \<Rightarrow> string \<Rightarrow> int \<Rightarrow> mem \<Rightarrow> (ordered_error + ranked_page) \<times> mem" where
  "mem_oi_ListRanked ns sc after limit m =
    (Inr \<lparr>rp_Records = take (nat limit) (sort_key (\<lambda>row. - rk_Value (rec_Rank row))
        (filter (\<lambda>row. rk_Ranked (rec_Rank row) \<and> rec_RankingScope row = sc) (mem_live m ns))), rp_NextCursor = []\<rparr>, m)"

definition mem_oi_ListDue :: "string \<Rightarrow> int \<Rightarrow> string \<Rightarrow> int \<Rightarrow> mem \<Rightarrow> (ordered_error + due_page) \<times> mem" where
  "mem_oi_ListDue ns before after limit m =
    (Inr \<lparr>dp_Records = take (nat limit) (filter (\<lambda>row. case rec_Due row of NoDue \<Rightarrow> False | DueAt d \<Rightarrow> d < before) (mem_live m ns)),
        dp_NextCursor = []\<rparr>, m)"

text \<open>One journal: the tip is its length, and an append at the tip extends it until the sequence numbers run out.\<close>

definition mem_full :: "mem \<Rightarrow> bool" where
  "mem_full m \<longleftrightarrow> 2 ^ 64 - 1 \<le> length (mem_journal m)"

definition mem_AppendDefinite :: "string \<Rightarrow> u64 \<Rightarrow> string \<Rightarrow> mem \<Rightarrow> (append_error + unit) \<times> mem" where
  "mem_AppendDefinite n expected payload m =
    (if length (mem_journal m) \<noteq> unat expected then (Inl AppendConflictError, m)
     else if mem_full m then (Inl AppendOther, m)
     else (Inr (), m\<lparr>mem_journal := mem_journal m @ [payload]\<rparr>))"

definition mem_Tip :: "string \<Rightarrow> mem \<Rightarrow> (ledger_error + u64) \<times> mem" where
  "mem_Tip n m = (if mem_full m then Inl LedgerOther else Inr (word_of_nat (length (mem_journal m))), m)"

definition mem_Read :: "string \<Rightarrow> u64 \<Rightarrow> mem \<Rightarrow> (ledger_error + (ledger_error + ledger_record) list) \<times> mem" where
  "mem_Read n from m =
    (if mem_full m then Inl LedgerOther else Inr (map Inr (ledger_records (mem_journal m) (max 1 (unat from)))), m)"

text \<open>Blobs are written once, and read back in one piece.\<close>

definition mem_bl_Put :: "string \<Rightarrow> exactVerifier \<Rightarrow> mem \<Rightarrow> (blob_error + unit) \<times> exactVerifier \<times> mem" where
  "mem_bl_Put k v m =
    (if map_of (mem_blobs m) k \<noteq> None then (Inl (BlobConflictError k), v, m)
     else case drain (\<lambda>_. 4095) (\<lambda>_. (False, False)) 0 [] v of
       (Inl e, v1) \<Rightarrow> (Inl BlobOther, v1, m)
     | (Inr b, v1) \<Rightarrow> (Inr (), v1, m\<lparr>mem_blobs := (k, b) # mem_blobs m\<rparr>))"

definition mem_bl_Get :: "string \<Rightarrow> mem \<Rightarrow> (blob_error + blob_reader option) \<times> mem" where
  "mem_bl_Get k m =
    ((case map_of (mem_blobs m) k of None \<Rightarrow> Inl BlobOther
      | Some b \<Rightarrow> Inr (Some \<lparr>bq_source = bytesReader b, bq_close = False\<rparr>)), m)"

definition mem_bl_List :: "string \<Rightarrow> mem \<Rightarrow> (blob_error + string list) \<times> mem" where
  "mem_bl_List pre m = (Inr (filter (\<lambda>k. take (length pre) k = pre) (map fst (mem_blobs m))), m)"

definition mem_core :: core_lib where
  "mem_core = (let plain = (\<lambda>s. s \<noteq> [] \<and> length s \<le> 256 \<and> ValidString s) in
    \<lparr>tenant_ok = plain, session_ok = plain, agent_ok = plain, command_ok = plain, event_ok = plain,
     reference_ok = (\<lambda>r. plain (or_ObjectID r)), principal_ok = plain, metadata_ok = (\<lambda>_. True),
     error_detail_ok = plain, gate_ok = (\<lambda>_. True), summary_ok = (\<lambda>_. True), status_ok = (\<lambda>_. True),
     session_page_ok = (\<lambda>_ _. True), command_status_ok = (\<lambda>_. True), journal_event_ok = (\<lambda>_ _. True),
     uuid_of = (\<lambda>s. if length s = 16 then s else replicate 16 (CHR 0x00)),
     HostPlacementPooled = ''pooled'', HostPlacementDedicated = ''dedicated'',
     SessionStateIdle = ''idle'', SessionResidencyCold = ''cold'',
     core_texts = (\<lambda>_. []), core_len = (\<lambda>_. 100), MaxIDBytes = 256\<rparr>)"

definition mem_keys :: keyspace where
  "mem_keys = \<lparr>ks_layout = layoutTenantV1, ks_legacyTenant = [], ks_shards = 16,
     ks_digest = (\<lambda>s. rev (take 32 (rev s @ replicate 32 (CHR 0x00))))\<rparr>"

definition mem_store :: "mem store" where
  "mem_store = \<lparr>st_ident = 1, st_core = mem_core, st_keys = mem_keys, st_MaxPageSize = 50,
     st_MaxOrderedPageLimit = 200, st_maxPageBytes = 1048576, st_overflowThreshold = 65536,
     st_room = (\<lambda>n. 511), st_Generation = (\<lambda>m. (Inr (replicate 16 (CHR ''g'')), m)), st_Now = mem_now, st_closing = (\<lambda>_. False), st_CtxErr = (\<lambda>_. False), st_StreamCtx = (\<lambda>_ _. (False, False)),
     st_evidence = None, kv_Get = mem_Get, kv_Put = mem_Put, oi_Create = mem_oi_Create,
     oi_Get = mem_oi_Get, oi_Update = mem_oi_Update, oi_ListOrdered = mem_oi_ListOrdered,
     oi_ListDue = mem_oi_ListDue, oi_ListRanked = mem_oi_ListRanked,
     oi_Delete = (\<lambda>i e m. (Inl OrderedOther, m)),
     le_Acquire = (\<lambda>n m. (Inr (0, 1), m)), le_Release = (\<lambda>n m. (Inr (), m)), le_Lost = (\<lambda>n m. False),
     lg_Tip = mem_Tip, lg_AppendDefinite = mem_AppendDefinite, lg_Read = mem_Read,
     bl_Put = mem_bl_Put, bl_Get = mem_bl_Get, bl_List = mem_bl_List, bl_Delete = (\<lambda>k m. (Inl BlobOther, m))\<rparr>"

definition mem_start :: "gotime \<Rightarrow> mem" where
  "mem_start now = \<lparr>mem_kv = [], mem_rows = [], mem_now = now, mem_journal = [], mem_blobs = []\<rparr>"

subsection \<open>It keeps the contracts\<close>

lemma mem_kv_contract: "kv_contract mem_store mem_view"
  by (auto simp: kv_contract_def mem_store_def mem_Get_def mem_Put_def mem_view_def
      split: option.split_asm if_split_asm)

lemma mem_push:
  "mem_version (m\<lparr>mem_rows := row # mem_rows m\<rparr>) i r =
     (if rec_ID row = i \<and> rec_Revision row = r then Some row else mem_version m i r)"
  by (simp add: mem_version_def)

lemma mem_current_version: "mem_current m i = Some row \<Longrightarrow> rec_ID row = i \<and> mem_version m i (rec_Revision row) = Some row"
proof -
  have "List.find (\<lambda>x. rec_ID x = i) rs = Some row \<Longrightarrow>
    rec_ID row = i \<and> List.find (\<lambda>x. rec_ID x = i \<and> rec_Revision x = rec_Revision row) rs = Some row" for rs
    by (induction rs) (auto split: if_split_asm)
  then show "mem_current m i = Some row \<Longrightarrow> ?thesis" by (simp add: mem_current_def mem_version_def)
qed

lemma mem_current_None: "mem_current m i = None \<Longrightarrow> mem_version m i r = None"
  by (auto simp: mem_current_def mem_version_def find_None_iff)

lemma mem_version_Some: "mem_version m i r = Some row \<Longrightarrow> rec_ID row = i \<and> rec_Revision row = r"
  by (auto simp: mem_version_def find_Some_iff)

lemma mem_order_nonzero: "mem_order m \<noteq> 0"
  by (simp add: mem_order_def Let_def)

lemma mem_oi_contract: "oi_contract mem_store mem_version"
proof -
  have kv: "mem_version (m\<lparr>mem_kv := x\<rparr>) = mem_version m" for m x
    by (intro ext) (simp add: mem_version_def)
  have journal: "mem_version (m\<lparr>mem_journal := x\<rparr>) = mem_version m" for m x
    by (intro ext) (simp add: mem_version_def)
  have ext: "calls_extend mem_store mem_version"
    by (auto simp: calls_extend_def extends_def grows_def mem_store_def mem_Get_def mem_Put_def kv journal
        mem_oi_Get_def mem_oi_Create_def mem_oi_Update_def mem_push mem_oi_ListOrdered_def mem_oi_ListRanked_def mem_oi_ListDue_def mem_AppendDefinite_def mem_Tip_def mem_Read_def Let_def
        updated_row_def mem_current_None split: if_split_asm option.split_asm)
      (metis mem_version_Some option.distinct(1))
  have get: "get_law mem_store mem_version"
    by (auto simp: get_law_def mem_store_def mem_oi_Get_def dest: mem_current_version split: option.split_asm)
  have create: "create_law mem_store mem_version"
    by (auto simp: create_law_def mem_store_def mem_oi_Create_def created_row_def mem_push Let_def
        mem_order_nonzero dest: mem_current_version mem_current_None split: option.split_asm)
  have update: "update_law mem_store mem_version"
    unfolding update_law_def
  proof (intro allI impI)
    fix i e v rk d s row t
    assume "oi_Update mem_store i e v rk d s = (Inr row, t)"
    then obtain old where old: "mem_version s i e = Some old" "\<not> rec_Deleted old" "mem_version s i (e + 1) = None"
      and t: "row = updated_row old v rk d" "t = s\<lparr>mem_rows := row # mem_rows s\<rparr>"
      by (auto simp: mem_store_def mem_oi_Update_def Let_def split: option.split_asm if_split_asm)
    have "rec_ID old = i" "rec_Revision old = e"
      using mem_version_Some [OF old(1)] by simp_all
    then show "mem_version s i (e + 1) = None \<and> (\<exists>old. mem_version t i e = Some old \<and> rec_Revision old = e
        \<and> \<not> rec_Deleted old \<and> row = updated_row old v rk d \<and> mem_version t i (e + 1) = Some row)"
      using old t by (simp add: mem_push updated_row_def)
  qed
  show ?thesis using ext get create update by (simp add: oi_contract_def)
qed

lemma mem_ledger_contract: "ledger_contract mem_store (\<lambda>m n. mem_journal m)"
proof -
  have calls: "calls_append mem_store (\<lambda>m n. mem_journal m)"
    by (auto simp: calls_append_def appends_def ledger_grows_def mem_store_def mem_Get_def mem_Put_def mem_Tip_def mem_Read_def
        mem_AppendDefinite_def mem_oi_Get_def mem_bl_Get_def mem_bl_Put_def
        split: if_split_asm option.split_asm sum.split_asm prod.split_asm)
  have tip: "tip_law mem_store (\<lambda>m n. mem_journal m)"
    by (auto simp: tip_law_def mem_store_def mem_Tip_def mem_full_def unat_of_nat split: if_split_asm)
  have read: "read_law mem_store (\<lambda>m n. mem_journal m)"
    by (auto simp: read_law_def mem_store_def mem_Read_def mem_full_def yields_records split: if_split_asm)
  have put: "append_law mem_store (\<lambda>m n. mem_journal m)"
    by (auto simp: append_law_def mem_store_def mem_AppendDefinite_def mem_full_def nth_append split: if_split_asm)
  show ?thesis using calls tip read put by (simp add: ledger_contract_def)
qed

end
