(* ===== verification/Evaluation.thy ===== *)
theory Evaluation
  imports "HOL-Library.Code_Target_Numeral" Mem_Provider
begin

text \<open>
  Code equations under which the kernel evaluates the model on concrete inputs: numbers as numerals,
  and base 32 by bits instead of by arithmetic.  Nothing else depends on them.
\<close>

lemma byte_bits_Char [code]: "byte_bits (Char a b c d e f g h) = [h, g, f, e, d, c, b, a]"
  by (simp only: byte_bits_def of_char_def list.map char.sel bit_horner_sum_bit_iff) simp
definition base32_char :: "bool \<Rightarrow> bool \<Rightarrow> bool \<Rightarrow> bool \<Rightarrow> bool \<Rightarrow> char" where
  "base32_char a b c d e = base32_alphabet ! (16 * of_bool a + 8 * of_bool b + 4 * of_bool c + 2 * of_bool d + of_bool e)"

lemma base32_char_code [code]: "base32_char a b c d e =
    (if a then (if b then (if c then (if d then (if e then CHR ''v'' else CHR ''u'') else (if e then CHR ''t''
     else CHR ''s'')) else (if d then (if e then CHR ''r'' else CHR ''q'') else (if e then CHR ''p'' else CHR
     ''o''))) else (if c then (if d then (if e then CHR ''n'' else CHR ''m'') else (if e then CHR ''l'' else
     CHR ''k'')) else (if d then (if e then CHR ''j'' else CHR ''i'') else (if e then CHR ''h'' else CHR
     ''g'')))) else (if b then (if c then (if d then (if e then CHR ''f'' else CHR ''e'') else (if e then CHR
     ''d'' else CHR ''c'')) else (if d then (if e then CHR ''b'' else CHR ''a'') else (if e then CHR ''9''
     else CHR ''8''))) else (if c then (if d then (if e then CHR ''7'' else CHR ''6'') else (if e then CHR
     ''5'' else CHR ''4'')) else (if d then (if e then CHR ''3'' else CHR ''2'') else (if e then CHR ''1''
     else CHR ''0'')))))"
  by (simp add: base32_char_def base32_alphabet_def)

fun base32_chars :: "bool list \<Rightarrow> string" where
  "base32_chars (a # b # c # d # e # r) = base32_char a b c d e # base32_chars r"
| "base32_chars [] = []"
| "base32_chars [a] = [base32_char a False False False False]"
| "base32_chars [a, b] = [base32_char a b False False False]"
| "base32_chars [a, b, c] = [base32_char a b c False False]"
| "base32_chars [a, b, c, d] = [base32_char a b c d False]"

lemma base32_encode_code [code]: "base32_encode s = base32_chars (concat (map byte_bits s))"
proof -
  have "map (\<lambda>q. base32_alphabet ! q) (base32_quintets bs) = base32_chars bs" for bs
    by (induction bs rule: base32_chars.induct) (simp_all add: base32_char_def)
  then show ?thesis by (simp add: base32_encode_def)
qed

text \<open>Texts by the bits of their characters: UTF-8, the size of a JSON string, hexadecimal.\<close>

fun ascii_char :: "char \<Rightarrow> bool" where
  "ascii_char (Char a b c d e f g h) = (if h then False else True)"

fun plain_json_char :: "char \<Rightarrow> bool" where
  "plain_json_char (Char a b c d e f g h) =
     (if h then False
      else if g then (if f then True else if e then (if d then (if c then (if b then True else if a then True else False) else True) else True) else True)
      else if f then (if e then (if d then (if c then (if a then True else False) else True) else True)
                      else if d then True else if b then (if a then True else False) else True)
      else False)"

lemma byte_of_Char: "byte_of (Char a b c d e f g h) = of_bool a + 2 * of_bool b + 4 * of_bool c + 8 * of_bool d +
    16 * of_bool e + 32 * of_bool f + 64 * of_bool g + 128 * of_bool h"
  by (simp add: of_char_def)

lemma ascii_char_byte: "ascii_char c \<Longrightarrow> byte_of c < 128"
  by (cases c) (simp only: byte_of_Char, auto split: if_splits simp: of_bool_def)

lemma plain_json_char_byte: "plain_json_char ch \<Longrightarrow> 32 \<le> byte_of ch \<and> byte_of ch < 128 \<and> byte_of ch \<notin> {34, 38, 60, 62, 92}"
proof (cases ch)
  case (Char a b c d e f g h)
  assume "plain_json_char ch"
  then show ?thesis unfolding Char
    by (cases a; cases b; cases c; cases d; cases e; cases f; cases g; cases h) (simp_all only: byte_of_Char, simp_all)
qed

lemma ValidString_code [code]:
  "ValidString s = (if list_all ascii_char s then True else utf8_valid_nats (map byte_of s))"
  by (auto simp: ValidString_def list_all_iff ascii_char_byte intro!: utf8_valid_ascii)

lemma utf8_coerce_code [code]:
  "utf8_coerce s = (if list_all ascii_char s then s else map byte_char (utf8_coerce_nats (map byte_of s)))"
  using ValidString_code [of s] utf8_coerce_valid [of s] by (simp add: utf8_coerce_def)

definition text_len :: "string \<Rightarrow> nat" where
  "text_len s = str_len (map byte_of s)"

lemma text_len_code [code]:
  "text_len s = (if list_all plain_json_char s then length s else str_len (map byte_of s))"
proof -
  have "list_all plain_json_char s \<Longrightarrow> str_len (map byte_of s) = length s"
    by (induction s) (auto dest!: plain_json_char_byte)
  then show ?thesis by (simp add: text_len_def)
qed

declare json_len.simps(1-4, 6-9) [code]

lemma json_len_JStr_code [code]: "json_len c (JStr s) = 2 + text_len s"
  by (simp add: text_len_def)

lemma json_len_JObj_code [code]:
  "json_len c (JObj ms) = 2 + (length ms - 1) + sum_list (map (\<lambda>(k, j). 3 + text_len k + json_len c j) ms)"
  by (simp add: text_len_def)

fun hex_char :: "bool \<Rightarrow> bool \<Rightarrow> bool \<Rightarrow> bool \<Rightarrow> char" where
  "hex_char a b c d = (if a then (if b then (if c then (if d then CHR ''f'' else CHR ''e'') else (if d then CHR ''d'' else CHR ''c'')) else (if c then (if d then CHR ''b'' else CHR ''a'') else (if d then CHR ''9'' else CHR ''8''))) else (if b then (if c then (if d then CHR ''7'' else CHR ''6'') else (if d then CHR ''5'' else CHR ''4'')) else (if c then (if d then CHR ''3'' else CHR ''2'') else (if d then CHR ''1'' else CHR ''0''))))"

lemma hex_char_digit: "hex_char a b c d = hex_digit (8 * of_bool a + 4 * of_bool b + 2 * of_bool c + of_bool d)"
  by (cases a; cases b; cases c; cases d) (simp_all add: hex_digit_def char_of_def bit_0)

lemma nibbles: "n = 16 * x + y \<Longrightarrow> y < 16 \<Longrightarrow> n div 16 = x \<and> n mod 16 = (y :: nat)"
  by simp

declare hex_encode.simps(1) [code]
declare hex_decode.simps(1, 2) [code]

lemma hex_encode_Char [code]:
  "hex_encode (Char a b c d e f g h # cs) = hex_char h g f e # hex_char d c b a # hex_encode cs"
proof -
  have split: "byte_of (Char a b c d e f g h) = 16 * (8 * of_bool h + 4 * of_bool g + 2 * of_bool f + of_bool e) +
      (8 * of_bool d + 4 * of_bool c + 2 * of_bool b + of_bool a)" by (simp only: byte_of_Char distrib_left mult.assoc [symmetric])
  have small: "8 * of_bool d + 4 * of_bool c + 2 * of_bool b + of_bool a < (16 :: nat)"
    by (cases a; cases b; cases c; cases d) simp_all
  show ?thesis by (simp only: hex_encode.simps hex_char_digit nibbles [OF split small])
qed

fun hex_bits :: "char \<Rightarrow> (bool \<times> bool \<times> bool \<times> bool) option" where
  "hex_bits (Char a b c d e f g h) =
     (if h then None
      else if g then
        (if e then None else if d then None
         else if c then (if b then (if a then None else Some (True, True, True, True))
                         else if a then Some (True, True, True, False) else Some (True, True, False, True))
         else if b then (if a then Some (True, True, False, False) else Some (True, False, True, True))
         else if a then Some (True, False, True, False) else None)
      else if f then (if e then (if d then (if c then None else if b then None else Some (True, False, False, a))
                                 else Some (False, c, b, a)) else None)
      else None)"

definition nibble_of :: "bool \<times> bool \<times> bool \<times> bool \<Rightarrow> nat" where
  "nibble_of bs = (case bs of (p, q, r, s) \<Rightarrow> 8 * of_bool p + 4 * of_bool q + 2 * of_bool r + of_bool s)"

lemma hex_value_bits: "hex_value ch = map_option nibble_of (hex_bits ch)"
proof (cases ch)
  case (Char a b c d e f g h)
  show ?thesis unfolding Char hex_value_def Let_def
    by (cases a; cases b; cases c; cases d; cases e; cases f; cases g; cases h)
      (simp_all only: byte_of_Char, simp_all add: nibble_of_def)
qed

lemma byte_char_nibbles: "byte_char (16 * nibble_of (h, g, f, e) + nibble_of (d, c, b, a)) = Char a b c d e f g h"
proof -
  have "16 * nibble_of (h, g, f, e) + nibble_of (d, c, b, a) = byte_of (Char a b c d e f g h)"
    by (simp only: byte_of_Char distrib_left mult.assoc [symmetric] nibble_of_def prod.case)
  then show ?thesis by (simp only: char_of_char)
qed

lemma hex_decode_code [code]:
  "hex_decode (x # y # cs) = (case hex_bits x of None \<Rightarrow> None | Some (h, g, f, e) \<Rightarrow>
     (case hex_bits y of None \<Rightarrow> None | Some (d, c, b, a) \<Rightarrow>
       (case hex_decode cs of None \<Rightarrow> None | Some r \<Rightarrow> Some (Char a b c d e f g h # r))))"
  by (auto simp: hex_value_bits byte_char_nibbles split: option.splits)

end
