(* ===== verification/Cursor.thy ===== *)
theory Cursor
  imports Keyspace
begin

text \<open>
  \<^verbatim>\<open>cursor.go\<close> and the two families of cursors built on it: the catalog cursor of
  \<^verbatim>\<open>catalog.go\<close> and the sweep cursors of \<^verbatim>\<open>shards.go\<close>.  A cursor is an envelope: four magic
  bytes, a version byte, the 32-byte digest of the scope it was issued for, and a payload.
\<close>

definition cursorMagicBytes :: nat where "cursorMagicBytes = 4"
definition cursorScopeBytes :: nat where "cursorScopeBytes = 32"
definition cursorPayloadAt :: nat where "cursorPayloadAt = 37"

lemmas cursor_layout = cursorMagicBytes_def cursorScopeBytes_def cursorPayloadAt_def

text \<open>
  \<^verbatim>\<open>copy\<close> into the fixed windows: the magic is checked to have its length, the version is one
  byte and the scope is an array of 32.
\<close>

definition encodeCursorEnvelope :: "string \<Rightarrow> char \<Rightarrow> string \<Rightarrow> string \<Rightarrow> err + string" where
  "encodeCursorEnvelope magic version scope payload =
    (if length magic \<noteq> cursorMagicBytes
     then Inl (Panic ''sessionstore: internal cursor magic invariant'')
     else Inr (raw_url_encode (magic @ [version] @ scope @ payload)))"

definition decodeCursorEnvelope ::
  "string \<Rightarrow> char \<Rightarrow> string \<Rightarrow> string \<Rightarrow> nat \<Rightarrow> nat \<Rightarrow> string option" where
  "decodeCursorEnvelope magic version scope cursor minPayload maxPayload =
    (let size = raw_url_decoded_len (length cursor) in
     if size < cursorPayloadAt + minPayload \<or> size > cursorPayloadAt + maxPayload then None
     else (case raw_url_decode cursor of
        None \<Rightarrow> None
      | Some token \<Rightarrow>
          if raw_url_encode token \<noteq> cursor then None
          else if take 4 token \<noteq> magic \<or> token ! 4 \<noteq> version then None
          else if take 32 (drop 5 token) \<noteq> scope then None
          else Some (drop cursorPayloadAt token)))"

lemma raw_url_encode_Nil [simp]: "raw_url_encode s = [] \<longleftrightarrow> s = []"
  using length_raw_url_encode [of s] by (cases s) (auto simp: raw_url_encode_def)

lemma envelope_split:
  assumes "37 \<le> length t"
  shows "take 4 t @ [t ! 4] @ take 32 (drop 5 t) @ drop 37 t = t"
proof -
  have "take 32 (drop 5 t) @ drop 37 t = drop 5 t"
    using append_take_drop_id [of 32 "drop 5 t"] by simp
  moreover have "t ! 4 # drop 5 t = drop 4 t"
    using assms Cons_nth_drop_Suc [of 4 t] by simp
  ultimately show ?thesis by simp
qed

text \<open>What a decoded envelope says of the cursor: it is the one encoding of its parts.\<close>

lemma decodeCursorEnvelope_Some_iff:
  assumes "length magic = 4" and "length scope = 32"
  shows "decodeCursorEnvelope magic version scope cursor lo hi = Some payload \<longleftrightarrow>
    encodeCursorEnvelope magic version scope payload = Inr cursor \<and>
    lo \<le> length payload \<and> length payload \<le> hi"
    (is "?D \<longleftrightarrow> ?E")
proof
  assume ?D
  then obtain token where token: "raw_url_decode cursor = Some token" "raw_url_encode token = cursor"
      "take 4 token = magic" "token ! 4 = version" "take 32 (drop 5 token) = scope"
      "payload = drop 37 token"
    and size: "37 + lo \<le> raw_url_decoded_len (length cursor)" "raw_url_decoded_len (length cursor) \<le> 37 + hi"
    by (auto simp: decodeCursorEnvelope_def cursor_layout Let_def not_less
        split: if_split_asm option.split_asm)
  from size token(2) have len: "37 + lo \<le> length token" "length token \<le> 37 + hi"
    using raw_url_decoded_len_encode [of token] by auto
  have "token = take 4 token @ [token ! 4] @ take 32 (drop 5 token) @ drop 37 token"
    using envelope_split [of token] len(1) by simp
  with token have "token = magic @ [version] @ scope @ payload" by simp
  with token(2) assms len show ?E by (auto simp: encodeCursorEnvelope_def cursor_layout)
next
  assume E: ?E
  then have c: "cursor = raw_url_encode (magic @ [version] @ scope @ payload)"
    by (simp add: encodeCursorEnvelope_def split: if_split_asm)
  with E assms raw_url_decoded_len_encode [of "magic @ [version] @ scope @ payload"] show ?D
    by (simp add: decodeCursorEnvelope_def cursor_layout raw_url_decode_encode nth_append Let_def)
qed

subsection \<open>The catalog cursor\<close>

definition catalogCursorMagic :: string where "catalogCursorMagic = ''LRCP''"
definition catalogCursorVersion :: char where "catalogCursorVersion = CHR 0x01"
definition maxCatalogCursorPayload :: nat where "maxCatalogCursorPayload = 4 * 1024 - cursorPayloadAt"

definition catalogCursorScope :: "'s store \<Rightarrow> string \<Rightarrow> err + string" where
  "catalogCursorScope st tenant =
    bindR (digestFrame ''looprig/sessionstore/catalog/cursor/v1'' [tenant]) (\<lambda>frame.
      Inr (ks_digest (st_keys st) frame))"

definition encodeCatalogCursor :: "'s store \<Rightarrow> string \<Rightarrow> string \<Rightarrow> err + string" where
  "encodeCatalogCursor st tenant next =
    (if length next > maxCatalogCursorPayload then Inl (catalogErr CatalogErrorBackend ''next_cursor'')
     else bindR (catalogCursorScope st tenant) (\<lambda>scope.
       encodeCursorEnvelope catalogCursorMagic catalogCursorVersion scope next))"

definition decodeCatalogCursor :: "'s store \<Rightarrow> string \<Rightarrow> string \<Rightarrow> err + string" where
  "decodeCatalogCursor st tenant cursor =
    bindR (catalogCursorScope st tenant) (\<lambda>scope.
    case decodeCursorEnvelope catalogCursorMagic catalogCursorVersion scope cursor 1 maxCatalogCursorPayload of
      None \<Rightarrow> Inl (catalogErr CatalogErrorCursor ''cursor'')
    | Some payload \<Rightarrow> Inr payload)"

subsection \<open>The sweep cursors\<close>

record sweepCursorKind =
  sk_magic :: string
  sk_version :: char
  sk_domain :: string
  sk_cursorErr :: err
  sk_invalidErr :: "string \<Rightarrow> err"
  sk_backendErr :: "string \<Rightarrow> err"

definition sweepCursorBoundBytes :: nat where "sweepCursorBoundBytes = 8"
definition maxSweepCursorPayload :: nat where "maxSweepCursorPayload = 4 * 1024 - cursorPayloadAt"

definition dueCommandCursor :: sweepCursorKind where
  "dueCommandCursor = \<lparr>sk_magic = ''LRDC'', sk_version = CHR 0x01,
    sk_domain = ''looprig/sessionstore/duecommand/cursor/v1'',
    sk_cursorErr = inboxErr InboxErrorCursor ''cursor'',
    sk_invalidErr = inboxErr InboxErrorInvalid,
    sk_backendErr = inboxErr InboxErrorBackend\<rparr>"

definition dueGateCursor :: sweepCursorKind where
  "dueGateCursor = \<lparr>sk_magic = ''LRDG'', sk_version = CHR 0x01,
    sk_domain = ''looprig/sessionstore/duegate/cursor/v1'',
    sk_cursorErr = catalogErr CatalogErrorCursor ''cursor'',
    sk_invalidErr = catalogErr CatalogErrorInvalid,
    sk_backendErr = catalogErr CatalogErrorBackend\<rparr>"

definition dueDispositionCursor :: sweepCursorKind where
  "dueDispositionCursor = \<lparr>sk_magic = ''LRDD'', sk_version = CHR 0x01,
    sk_domain = ''looprig/sessionstore/duedisposition/cursor/v1'',
    sk_cursorErr = inboxErr InboxErrorCursor ''cursor'',
    sk_invalidErr = inboxInvalid,
    sk_backendErr = inboxErr InboxErrorBackend\<rparr>"

definition sweepScope :: "sweepCursorKind \<Rightarrow> 's store \<Rightarrow> nat \<Rightarrow> err + string" where
  "sweepScope k st shard =
    bindR (digestFrame (sk_domain k) [be_put 4 shard]) (\<lambda>frame. Inr (ks_digest (st_keys st) frame))"

text \<open>\<^verbatim>\<open>uint64(bound)\<close> and \<^verbatim>\<open>int64(...)\<close>: the signed bound keeps its 64 bits.\<close>

definition int64_bits :: "int \<Rightarrow> nat" where
  "int64_bits i = nat (i mod 2 ^ 64)"

definition int64_of_bits :: "nat \<Rightarrow> int" where
  "int64_of_bits n = (if n < 2 ^ 63 then int n else int n - 2 ^ 64)"

definition sweepEncode :: "sweepCursorKind \<Rightarrow> 's store \<Rightarrow> nat \<Rightarrow> int \<Rightarrow> string \<Rightarrow> err + string" where
  "sweepEncode k st shard bound after =
    (let payload = be_put sweepCursorBoundBytes (int64_bits bound) @ after in
     if length payload > maxSweepCursorPayload then Inl (sk_backendErr k ''next_cursor'')
     else bindR (sweepScope k st shard) (\<lambda>scope.
       encodeCursorEnvelope (sk_magic k) (sk_version k) scope payload))"

definition sweepDecode :: "sweepCursorKind \<Rightarrow> 's store \<Rightarrow> nat \<Rightarrow> string \<Rightarrow> err + int \<times> string" where
  "sweepDecode k st shard cursor =
    bindR (sweepScope k st shard) (\<lambda>scope.
    case decodeCursorEnvelope (sk_magic k) (sk_version k) scope cursor
           (sweepCursorBoundBytes + 1) maxSweepCursorPayload of
      None \<Rightarrow> Inl (sk_cursorErr k)
    | Some payload \<Rightarrow>
        Inr (int64_of_bits (be_get (take sweepCursorBoundBytes payload)), drop sweepCursorBoundBytes payload))"

definition sweepPosition ::
  "sweepCursorKind \<Rightarrow> 's store \<Rightarrow> nat \<Rightarrow> string \<Rightarrow> gotime \<Rightarrow> err + int \<times> string" where
  "sweepPosition k st shard cursor dueAtOrBefore =
    (if cursor = [] then
       (if \<not> rankableTime dueAtOrBefore then Inl (sk_invalidErr k ''due_at_or_before'')
        else Inr (UnixMilli dueAtOrBefore, []))
     else if \<not> IsZero dueAtOrBefore then Inl (sk_invalidErr k ''due_at_or_before'')
     else sweepDecode k st shard cursor)"

lemma sweep_payload_split:
  assumes "8 \<le> length payload"
  shows "be_put sweepCursorBoundBytes (be_get (take 8 payload)) @ drop 8 payload = payload"
proof -
  have "be_put 8 (be_get (take 8 payload)) = take 8 payload"
    using be_put_be_get [of "take 8 payload"] assms by (simp only: length_take min_absorb2)
  then show ?thesis by (simp add: sweepCursorBoundBytes_def)
qed

lemma int64_bits_inverse:
  "- (2 ^ 63) \<le> i \<Longrightarrow> i < 2 ^ 63 \<Longrightarrow> int64_of_bits (int64_bits i) = i"
proof -
  assume "- (2 ^ 63) \<le> i" "i < 2 ^ 63"
  then have "i mod 2 ^ 64 = (if 0 \<le> i then i else i + 2 ^ 64)"
    using mod_add_self2 [of i "2 ^ 64"] by (auto simp: mod_pos_pos_trivial simp del: mod_add_self2)
  with \<open>i < 2 ^ 63\<close> \<open>- (2 ^ 63) \<le> i\<close> show ?thesis
    by (auto simp: int64_of_bits_def int64_bits_def)
qed

lemma int64_bits_lt: "int64_bits i < 256 ^ 8"
proof -
  have "i mod 2 ^ 64 < 2 ^ 64" by simp
  then show ?thesis by (simp add: int64_bits_def nat_less_iff)
qed

text \<open>The scopes the cursors are bound to are digests of 32 bytes.\<close>

definition digest32 :: "'s store \<Rightarrow> bool" where
  "digest32 st \<longleftrightarrow> (\<forall>x. length (ks_digest (st_keys st) x) = 32)"

lemma sweepScope_length: "digest32 st \<Longrightarrow> sweepScope k st shard = Inr scope \<Longrightarrow> length scope = 32"
  by (auto simp: sweepScope_def digest32_def)

text \<open>
  C37. A sweep cursor is read back exactly: whatever bound (a 64-bit instant) and provider token
  one page of a due sweep was cut at, presenting the cursor resumes at that bound and token.
\<close>

theorem sweep_cursor_round_trip:
  assumes "digest32 st" and "sweepEncode k st shard bound after = Inr cursor"
    and "after \<noteq> []" and "- (2 ^ 63) \<le> bound" and "bound < 2 ^ 63"
  shows "sweepPosition k st shard cursor zeroTime = Inr (bound, after)"
proof -
  let ?payload = "be_put sweepCursorBoundBytes (int64_bits bound) @ after"
  from assms(2) obtain scope where scope: "sweepScope k st shard = Inr scope"
    and enc: "encodeCursorEnvelope (sk_magic k) (sk_version k) scope ?payload = Inr cursor"
    and short: "length ?payload \<le> maxSweepCursorPayload"
    by (auto simp: sweepEncode_def Let_def split: if_split_asm)
  from enc have magic: "length (sk_magic k) = 4"
    by (simp add: encodeCursorEnvelope_def cursor_layout split: if_split_asm)
  have "decodeCursorEnvelope (sk_magic k) (sk_version k) scope cursor
      (sweepCursorBoundBytes + 1) maxSweepCursorPayload = Some ?payload"
    using enc short assms(3) decodeCursorEnvelope_Some_iff [OF magic sweepScope_length [OF assms(1) scope]]
    by (simp add: sweepCursorBoundBytes_def Suc_le_eq)
  moreover have "cursor \<noteq> []"
    using enc by (auto simp: encodeCursorEnvelope_def split: if_split_asm)
  ultimately show ?thesis
    using int64_bits_inverse [OF assms(4,5)] be_get_be_put [OF int64_bits_lt [of bound]]
    by (simp add: sweepPosition_def sweepDecode_def scope IsZero_def zeroTime_def sweepCursorBoundBytes_def)
qed

text \<open>
  C38. A cursor says where it came from: a token one sweep kind issued for a shard is accepted by a
  sweep of that kind, under the same digest of domain and shard, and by no other.  So the cursor
  of one shard, or of the gate sweep, is refused by the command sweep of another.
\<close>

theorem sweep_cursor_is_scoped:
  assumes "digest32 st" and "sweepEncode k st shard bound after = Inr cursor"
    and "sweepDecode k' st' shard' cursor = Inr r" and "digest32 st'" and "length (sk_magic k') = 4"
  shows "sk_magic k' = sk_magic k \<and> sk_version k' = sk_version k \<and>
    sweepScope k' st' shard' = sweepScope k st shard"
proof -
  from assms(2) obtain scope payload where scope: "sweepScope k st shard = Inr scope"
    and enc: "encodeCursorEnvelope (sk_magic k) (sk_version k) scope payload = Inr cursor"
    by (auto simp: sweepEncode_def Let_def split: if_split_asm)
  from assms(3) obtain scope' payload' where scope': "sweepScope k' st' shard' = Inr scope'"
    and dec: "decodeCursorEnvelope (sk_magic k') (sk_version k') scope' cursor
      (sweepCursorBoundBytes + 1) maxSweepCursorPayload = Some payload'"
    by (auto simp: sweepDecode_def split: option.split_asm)
  from dec have enc': "encodeCursorEnvelope (sk_magic k') (sk_version k') scope' payload' = Inr cursor"
    using decodeCursorEnvelope_Some_iff [OF assms(5) sweepScope_length [OF assms(4) scope']] by simp
  from enc enc' have "raw_url_encode (sk_magic k @ [sk_version k] @ scope @ payload)
      = raw_url_encode (sk_magic k' @ [sk_version k'] @ scope' @ payload')" and "length (sk_magic k) = 4"
    by (auto simp: encodeCursorEnvelope_def cursor_layout split: if_split_asm)
  moreover from this(1) have "sk_magic k @ [sk_version k] @ scope @ payload
      = sk_magic k' @ [sk_version k'] @ scope' @ payload'"
    by (metis raw_url_decode_encode option.inject)
  ultimately show ?thesis
    using assms(5) sweepScope_length [OF assms(1) scope] sweepScope_length [OF assms(4) scope'] scope scope'
    by (auto simp: append_eq_append_conv)
qed

end
