(* ===== verification/Envelope.thy ===== *)
theory Envelope
  imports Object_Ref
begin

text \<open>
  \<^verbatim>\<open>envelope.go\<close>: the journal's record frame.  A frame is a 12-byte header (magic, version, kind,
  field count, length of the fields) and fields of a tag byte, a 32-bit length and a value, in
  ascending order of tags.
\<close>

definition EnvelopeVersion :: nat where "EnvelopeVersion = 1"
definition MaxEnvelopeBytes :: nat where "MaxEnvelopeBytes = 1048576"
definition MaxInlineBodyBytes :: nat where "MaxInlineBodyBytes = 524288"
definition envelopeMagic :: string where "envelopeMagic = ''LRJE''"
definition envelopeHeaderBytes :: nat where "envelopeHeaderBytes = 12"
definition bodyReferenceAlgorithmSHA256 :: nat where "bodyReferenceAlgorithmSHA256 = 1"

datatype EnvelopeKind =
    EnvelopeKindPublicEvent | EnvelopeKindRuntimeControl | EnvelopeKindOpeningFence
  | EnvelopeKindApplicationPrefix | EnvelopeKindCommandDisposition | EnvelopeKindOther nat

fun kind_byte :: "EnvelopeKind \<Rightarrow> nat" where
  "kind_byte EnvelopeKindPublicEvent = 1"
| "kind_byte EnvelopeKindRuntimeControl = 2"
| "kind_byte EnvelopeKindOpeningFence = 3"
| "kind_byte EnvelopeKindApplicationPrefix = 4"
| "kind_byte EnvelopeKindCommandDisposition = 5"
| "kind_byte (EnvelopeKindOther n) = n"

definition kind_of_byte :: "nat \<Rightarrow> EnvelopeKind" where
  "kind_of_byte n =
    (if n = 1 then EnvelopeKindPublicEvent else if n = 2 then EnvelopeKindRuntimeControl
     else if n = 3 then EnvelopeKindOpeningFence else if n = 4 then EnvelopeKindApplicationPrefix
     else if n = 5 then EnvelopeKindCommandDisposition else EnvelopeKindOther n)"

fun knownEnvelopeKind :: "EnvelopeKind \<Rightarrow> bool" where
  "knownEnvelopeKind (EnvelopeKindOther _) = False"
| "knownEnvelopeKind _ = True"

definition tagIdentity :: nat where "tagIdentity = 1"
definition tagPublicInline :: nat where "tagPublicInline = 2"
definition tagPublicReference :: nat where "tagPublicReference = 3"
definition tagRuntimeInline :: nat where "tagRuntimeInline = 4"
definition tagRuntimeReference :: nat where "tagRuntimeReference = 5"
definition tagLeaseEpoch :: nat where "tagLeaseEpoch = 6"
definition tagRuntimeCommandID :: nat where "tagRuntimeCommandID = 7"
definition tagCommandKind :: nat where "tagCommandKind = 8"
definition tagAttemptID :: nat where "tagAttemptID = 9"
definition tagAttemptJournalEpoch :: nat where "tagAttemptJournalEpoch = 10"
definition tagDispositionKind :: nat where "tagDispositionKind = 11"

lemmas tag_defs = tagIdentity_def tagPublicInline_def tagPublicReference_def tagRuntimeInline_def
  tagRuntimeReference_def tagLeaseEpoch_def tagRuntimeCommandID_def tagCommandKind_def
  tagAttemptID_def tagAttemptJournalEpoch_def tagDispositionKind_def

definition fieldName :: "nat \<Rightarrow> string" where
  "fieldName tag =
    (if tag = tagIdentity then ''identity'' else if tag = tagPublicInline then ''public_inline''
     else if tag = tagPublicReference then ''public_reference''
     else if tag = tagRuntimeInline then ''runtime_inline''
     else if tag = tagRuntimeReference then ''runtime_reference''
     else if tag = tagLeaseEpoch then ''lease_epoch''
     else if tag = tagRuntimeCommandID then ''runtime_command_id''
     else if tag = tagCommandKind then ''command_kind'' else if tag = tagAttemptID then ''attempt_id''
     else if tag = tagAttemptJournalEpoch then ''attempt_journal_epoch''
     else if tag = tagDispositionKind then ''disposition_kind'' else ''field'')"

text \<open>A body slot's inline bytes may be nil, empty or not: \<open>None\<close>, \<open>Some []\<close>, \<open>Some bs\<close>.\<close>

record BodyReference =
  br_Reference :: object_reference
  br_SizeBytes :: u64
  br_SHA256 :: string

record BodySlot =
  bs_Inline :: "string option"
  bs_Reference :: "BodyReference option"

definition emptySlot :: BodySlot where "emptySlot = \<lparr>bs_Inline = None, bs_Reference = None\<rparr>"

definition present :: "BodySlot \<Rightarrow> bool" where
  "present s \<longleftrightarrow> bs_Inline s \<noteq> None \<or> bs_Reference s \<noteq> None"

record Envelope =
  en_Kind :: EnvelopeKind
  en_EventID :: string
  en_RecordID :: string
  en_Public :: BodySlot
  en_Runtime :: BodySlot
  en_LeaseEpoch :: u64
  en_CommandID :: string
  en_RuntimeCommandID :: string
  en_CommandKind :: string
  en_AttemptID :: string
  en_AttemptJournalEpoch :: u64
  en_DispositionKind :: string

definition zeroUUID :: string where "zeroUUID = replicate 16 (CHR 0x00)"
definition isZeroDigest :: "string \<Rightarrow> bool" where "isZeroDigest d \<longleftrightarrow> d = replicate 32 (CHR 0x00)"

definition zeroEnvelope :: "EnvelopeKind \<Rightarrow> Envelope" where
  "zeroEnvelope kind = \<lparr>en_Kind = kind, en_EventID = [], en_RecordID = [], en_Public = emptySlot,
    en_Runtime = emptySlot, en_LeaseEpoch = 0, en_CommandID = [], en_RuntimeCommandID = zeroUUID,
    en_CommandKind = [], en_AttemptID = [], en_AttemptJournalEpoch = 0, en_DispositionKind = []\<rparr>"

subsection \<open>Validation\<close>

definition validateSlot :: "core_lib \<Rightarrow> BodySlot \<Rightarrow> string \<Rightarrow> err + unit" where
  "validateSlot c slot name =
    (if bs_Inline slot \<noteq> None \<and> bs_Reference slot \<noteq> None
     then Inl (envelopeError EnvelopeErrorField (name @ ''_body''))
     else if (case bs_Inline slot of None \<Rightarrow> 0 | Some b \<Rightarrow> length b) > MaxInlineBodyBytes
     then Inl (envelopeError EnvelopeErrorTooLarge (name @ ''_inline''))
     else (case bs_Reference slot of
        None \<Rightarrow> Inr ()
      | Some ref \<Rightarrow>
          if \<not> reference_ok c (br_Reference ref)
          then Inl (envelopeError EnvelopeErrorInvalid (name @ ''_reference''))
          else if isZeroDigest (br_SHA256 ref)
          then Inl (envelopeError EnvelopeErrorDigest (name @ ''_reference''))
          else Inr ()))"

definition validatePublicBody :: "core_lib \<Rightarrow> string \<Rightarrow> string option \<Rightarrow> err + unit" where
  "validatePublicBody c eventID body =
    (case body of
       None \<Rightarrow> Inr ()
     | Some b \<Rightarrow>
         if \<not> journal_event_ok c eventID b then Inl (envelopeError EnvelopeErrorInvalid ''public_inline'')
         else Inr ())"

definition validateCommandCorrelation :: "core_lib \<Rightarrow> Envelope \<Rightarrow> err + unit" where
  "validateCommandCorrelation c env =
    (if en_CommandID env = [] then Inl (envelopeError EnvelopeErrorMissing ''identity'')
     else if \<not> command_ok c (en_CommandID env) then Inl (envelopeError EnvelopeErrorInvalid ''identity'')
     else if en_RuntimeCommandID env = zeroUUID
     then Inl (envelopeError EnvelopeErrorInvalid ''runtime_command_id'')
     else if en_LeaseEpoch env = 0 then Inl (envelopeError EnvelopeErrorInvalid ''lease_epoch'')
     else if en_CommandKind env = [] then Inl (envelopeError EnvelopeErrorMissing ''command_kind'')
     else if length (en_CommandKind env) > 64 \<or> \<not> ValidString (en_CommandKind env)
     then Inl (envelopeError EnvelopeErrorInvalid ''command_kind'')
     else Inr ())"

text \<open>The three members of a disposition, which the other kinds must leave empty.\<close>

definition no_attempt :: "Envelope \<Rightarrow> bool" where
  "no_attempt env \<longleftrightarrow>
    en_AttemptID env = [] \<and> en_AttemptJournalEpoch env = 0 \<and> en_DispositionKind env = []"

definition validateEnvelope :: "core_lib \<Rightarrow> Envelope \<Rightarrow> err + unit" where
  "validateEnvelope c env =
    (if \<not> knownEnvelopeKind (en_Kind env) then Inl (envelopeError EnvelopeErrorKind ''kind'')
     else
      bindR (validateSlot c (en_Public env) ''public'') (\<lambda>_.
      bindR (validateSlot c (en_Runtime env) ''runtime'') (\<lambda>_.
      case en_Kind env of
        EnvelopeKindPublicEvent \<Rightarrow>
          if en_EventID env = [] then Inl (envelopeError EnvelopeErrorMissing ''identity'')
          else if \<not> event_ok c (en_EventID env) then Inl (envelopeError EnvelopeErrorInvalid ''identity'')
          else if \<not> present (en_Public env) then Inl (envelopeError EnvelopeErrorMissing ''public_body'')
          else bindR (validatePublicBody c (en_EventID env) (bs_Inline (en_Public env))) (\<lambda>_.
            if en_RecordID env \<noteq> [] \<or> en_CommandID env \<noteq> [] \<or> en_RuntimeCommandID env \<noteq> zeroUUID
               \<or> en_LeaseEpoch env \<noteq> 0 \<or> en_CommandKind env \<noteq> [] \<or> \<not> no_attempt env
            then Inl (envelopeError EnvelopeErrorField ''record_shape'') else Inr ())
      | EnvelopeKindRuntimeControl \<Rightarrow>
          if en_RecordID env = [] then Inl (envelopeError EnvelopeErrorMissing ''identity'')
          else if length (en_RecordID env) > MaxIDBytes c \<or> \<not> ValidString (en_RecordID env)
          then Inl (envelopeError EnvelopeErrorInvalid ''identity'')
          else if \<not> present (en_Runtime env) then Inl (envelopeError EnvelopeErrorMissing ''runtime_body'')
          else if present (en_Public env) \<or> en_EventID env \<noteq> [] \<or> en_CommandID env \<noteq> []
             \<or> en_RuntimeCommandID env \<noteq> zeroUUID \<or> en_LeaseEpoch env \<noteq> 0 \<or> en_CommandKind env \<noteq> []
             \<or> \<not> no_attempt env
          then Inl (envelopeError EnvelopeErrorField ''record_shape'') else Inr ()
      | EnvelopeKindOpeningFence \<Rightarrow>
          if en_LeaseEpoch env = 0 then Inl (envelopeError EnvelopeErrorInvalid ''lease_epoch'')
          else if en_EventID env \<noteq> [] \<or> en_RecordID env \<noteq> [] \<or> present (en_Public env)
             \<or> present (en_Runtime env) \<or> en_CommandID env \<noteq> [] \<or> en_RuntimeCommandID env \<noteq> zeroUUID
             \<or> en_CommandKind env \<noteq> [] \<or> \<not> no_attempt env
          then Inl (envelopeError EnvelopeErrorField ''record_shape'') else Inr ()
      | EnvelopeKindApplicationPrefix \<Rightarrow>
          bindR (validateCommandCorrelation c env) (\<lambda>_.
          if en_EventID env \<noteq> [] \<or> en_RecordID env \<noteq> [] \<or> present (en_Public env)
             \<or> present (en_Runtime env) \<or> \<not> no_attempt env
          then Inl (envelopeError EnvelopeErrorField ''record_shape'') else Inr ())
      | EnvelopeKindCommandDisposition \<Rightarrow>
          bindR (validateCommandCorrelation c env) (\<lambda>_.
          if en_AttemptID env = [] then Inl (envelopeError EnvelopeErrorMissing ''attempt_id'')
          else if length (en_AttemptID env) > MaxIDBytes c \<or> \<not> ValidString (en_AttemptID env)
          then Inl (envelopeError EnvelopeErrorInvalid ''attempt_id'')
          else if en_AttemptJournalEpoch env = 0
          then Inl (envelopeError EnvelopeErrorInvalid ''attempt_journal_epoch'')
          else if en_DispositionKind env = [] then Inl (envelopeError EnvelopeErrorMissing ''disposition_kind'')
          else if \<not> outcome_valid (outcome_of_text (en_DispositionKind env))
          then Inl (envelopeError EnvelopeErrorInvalid ''disposition_kind'')
          else if en_EventID env \<noteq> [] \<or> en_RecordID env \<noteq> [] \<or> present (en_Public env) \<or> present (en_Runtime env)
          then Inl (envelopeError EnvelopeErrorField ''record_shape'') else Inr ())
      | EnvelopeKindOther _ \<Rightarrow> Inr ())))"

subsection \<open>Encoding\<close>

definition encodeUint64 :: "u64 \<Rightarrow> string" where
  "encodeUint64 w = be_put 8 (unat w)"

text \<open>\<^verbatim>\<open>uint16(len(objectID))\<close> keeps the low 16 bits of the length, as \<open>be_put 2\<close> does.\<close>

definition encodeBodyReference :: "BodyReference \<Rightarrow> string" where
  "encodeBodyReference ref =
    (let objectID = or_ObjectID (br_Reference ref) in
     [byte_char bodyReferenceAlgorithmSHA256] @ be_put 2 (length objectID) @ objectID @
     encodeUint64 (br_SizeBytes ref) @ br_SHA256 ref)"

definition bodyFields :: "BodySlot \<Rightarrow> nat \<Rightarrow> nat \<Rightarrow> (nat \<times> string) list" where
  "bodyFields slot inlineTag referenceTag =
    (case bs_Inline slot of None \<Rightarrow> [] | Some b \<Rightarrow> [(inlineTag, b)]) @
    (case bs_Reference slot of None \<Rightarrow> [] | Some ref \<Rightarrow> [(referenceTag, encodeBodyReference ref)])"

definition envelopeFields :: "Envelope \<Rightarrow> (nat \<times> string) list" where
  "envelopeFields env =
    (case en_Kind env of
       EnvelopeKindPublicEvent \<Rightarrow>
         [(tagIdentity, en_EventID env)] @
         bodyFields (en_Public env) tagPublicInline tagPublicReference @
         bodyFields (en_Runtime env) tagRuntimeInline tagRuntimeReference
     | EnvelopeKindRuntimeControl \<Rightarrow>
         [(tagIdentity, en_RecordID env)] @
         bodyFields (en_Runtime env) tagRuntimeInline tagRuntimeReference
     | EnvelopeKindOpeningFence \<Rightarrow> [(tagLeaseEpoch, encodeUint64 (en_LeaseEpoch env))]
     | EnvelopeKindApplicationPrefix \<Rightarrow>
         [(tagIdentity, en_CommandID env), (tagLeaseEpoch, encodeUint64 (en_LeaseEpoch env)),
          (tagRuntimeCommandID, en_RuntimeCommandID env), (tagCommandKind, en_CommandKind env)]
     | EnvelopeKindCommandDisposition \<Rightarrow>
         [(tagIdentity, en_CommandID env), (tagLeaseEpoch, encodeUint64 (en_LeaseEpoch env)),
          (tagRuntimeCommandID, en_RuntimeCommandID env), (tagCommandKind, en_CommandKind env),
          (tagAttemptID, en_AttemptID env),
          (tagAttemptJournalEpoch, encodeUint64 (en_AttemptJournalEpoch env)),
          (tagDispositionKind, en_DispositionKind env)]
     | EnvelopeKindOther _ \<Rightarrow> [])"

text \<open>The running total, refused as soon as it would pass the bound.\<close>

fun fieldsTotal :: "nat \<Rightarrow> (nat \<times> string) list \<Rightarrow> err + nat" where
  "fieldsTotal acc [] = Inr acc"
| "fieldsTotal acc ((tag, v) # fs) =
    (if acc + 5 + length v > MaxEnvelopeBytes then Inl (envelopeError EnvelopeErrorTooLarge ''frame'')
     else fieldsTotal (acc + 5 + length v) fs)"

fun field_bytes :: "(nat \<times> string) list \<Rightarrow> string" where
  "field_bytes [] = []"
| "field_bytes ((tag, v) # fs) = byte_char tag # be_put 4 (length v) @ v @ field_bytes fs"

definition EncodeEnvelope :: "core_lib \<Rightarrow> Envelope \<Rightarrow> err + string" where
  "EncodeEnvelope c env =
    bindR (validateEnvelope c env) (\<lambda>_.
    let fs = envelopeFields env in
    bindR (fieldsTotal 0 fs) (\<lambda>fieldsBytes.
    if envelopeHeaderBytes + fieldsBytes > MaxEnvelopeBytes
    then Inl (envelopeError EnvelopeErrorTooLarge ''frame'')
    else Inr (envelopeMagic @ [byte_char EnvelopeVersion, byte_char (kind_byte (en_Kind env))] @
              be_put 2 (length fs) @ be_put 4 fieldsBytes @ field_bytes fs)))"

subsection \<open>Decoding\<close>

definition decodeBodyReference :: "core_lib \<Rightarrow> string \<Rightarrow> err + BodyReference" where
  "decodeBodyReference c encoded =
    (if length encoded < 43 then Inl (envelopeError EnvelopeErrorLength ''body_reference'')
     else if byte_of (hd encoded) \<noteq> bodyReferenceAlgorithmSHA256
     then Inl (envelopeError EnvelopeErrorDigest ''body_reference'')
     else (let objectIDBytes = be_get (take 2 (drop 1 encoded)) in
       if objectIDBytes > MaxIDBytes c \<or> length encoded \<noteq> 43 + objectIDBytes
       then Inl (envelopeError EnvelopeErrorLength ''body_reference'')
       else (let ref = \<lparr>br_Reference = \<lparr>or_ObjectID = take objectIDBytes (drop 3 encoded)\<rparr>,
                       br_SizeBytes = word_of_nat (be_get (take 8 (drop (3 + objectIDBytes) encoded))),
                       br_SHA256 = drop (11 + objectIDBytes) encoded\<rparr> in
         if \<not> reference_ok c (br_Reference ref)
         then Inl (envelopeError EnvelopeErrorInvalid ''body_reference'')
         else if isZeroDigest (br_SHA256 ref)
         then Inl (envelopeError EnvelopeErrorDigest ''body_reference'')
         else Inr ref)))"

definition allowedEnvelopeFields :: "EnvelopeKind \<Rightarrow> nat list" where
  "allowedEnvelopeFields kind =
    (case kind of
       EnvelopeKindPublicEvent \<Rightarrow>
         [tagIdentity, tagPublicInline, tagPublicReference, tagRuntimeInline, tagRuntimeReference]
     | EnvelopeKindRuntimeControl \<Rightarrow> [tagIdentity, tagRuntimeInline, tagRuntimeReference]
     | EnvelopeKindOpeningFence \<Rightarrow> [tagLeaseEpoch]
     | EnvelopeKindApplicationPrefix \<Rightarrow> [tagIdentity, tagLeaseEpoch, tagRuntimeCommandID, tagCommandKind]
     | EnvelopeKindCommandDisposition \<Rightarrow>
         [tagIdentity, tagLeaseEpoch, tagRuntimeCommandID, tagCommandKind, tagAttemptID,
          tagAttemptJournalEpoch, tagDispositionKind]
     | EnvelopeKindOther _ \<Rightarrow> [])"

definition requireField :: "nat list \<Rightarrow> nat \<Rightarrow> err + unit" where
  "requireField seen tag =
    (if tag \<notin> set seen then Inl (envelopeError EnvelopeErrorMissing (fieldName tag)) else Inr ())"

fun requireFields :: "nat list \<Rightarrow> nat list \<Rightarrow> err + unit" where
  "requireFields seen [] = Inr ()"
| "requireFields seen (t # ts) = bindR (requireField seen t) (\<lambda>_. requireFields seen ts)"

definition exactlyOne :: "nat list \<Rightarrow> nat \<Rightarrow> nat \<Rightarrow> string \<Rightarrow> bool \<Rightarrow> err + unit" where
  "exactlyOne seen a b name required =
    (if a \<in> set seen \<and> b \<in> set seen then Inl (envelopeError EnvelopeErrorField name)
     else if required \<and> a \<notin> set seen \<and> b \<notin> set seen then Inl (envelopeError EnvelopeErrorMissing name)
     else Inr ())"

definition validateDecodedFields :: "EnvelopeKind \<Rightarrow> nat list \<Rightarrow> err + unit" where
  "validateDecodedFields kind seen =
    (if \<not> set seen \<subseteq> set (allowedEnvelopeFields kind)
     then Inl (envelopeError EnvelopeErrorField ''record_shape'')
     else (case kind of
       EnvelopeKindPublicEvent \<Rightarrow>
         bindR (requireField seen tagIdentity) (\<lambda>_.
         bindR (exactlyOne seen tagPublicInline tagPublicReference ''public_body'' True) (\<lambda>_.
         exactlyOne seen tagRuntimeInline tagRuntimeReference ''runtime_body'' False))
     | EnvelopeKindRuntimeControl \<Rightarrow>
         bindR (requireField seen tagIdentity) (\<lambda>_.
         exactlyOne seen tagRuntimeInline tagRuntimeReference ''runtime_body'' True)
     | EnvelopeKindOpeningFence \<Rightarrow> requireField seen tagLeaseEpoch
     | EnvelopeKindApplicationPrefix \<Rightarrow>
         requireFields seen [tagIdentity, tagLeaseEpoch, tagRuntimeCommandID, tagCommandKind]
     | EnvelopeKindCommandDisposition \<Rightarrow>
         requireFields seen [tagIdentity, tagLeaseEpoch, tagRuntimeCommandID, tagCommandKind,
           tagAttemptID, tagAttemptJournalEpoch, tagDispositionKind]
     | EnvelopeKindOther _ \<Rightarrow> Inr ()))"

definition decodeField :: "core_lib \<Rightarrow> Envelope \<Rightarrow> nat \<Rightarrow> string \<Rightarrow> err + Envelope" where
  "decodeField c env tag v =
    (if tag = tagIdentity then
       (if length v > MaxIDBytes c then Inl (envelopeError EnvelopeErrorInvalid ''identity'')
        else (case en_Kind env of
           EnvelopeKindPublicEvent \<Rightarrow> Inr (env\<lparr>en_EventID := v\<rparr>)
         | EnvelopeKindApplicationPrefix \<Rightarrow> Inr (env\<lparr>en_CommandID := v\<rparr>)
         | EnvelopeKindCommandDisposition \<Rightarrow> Inr (env\<lparr>en_CommandID := v\<rparr>)
         | _ \<Rightarrow> Inr (env\<lparr>en_RecordID := v\<rparr>)))
     else if tag = tagPublicInline then
       (if length v > MaxInlineBodyBytes then Inl (envelopeError EnvelopeErrorTooLarge ''public_inline'')
        else Inr (env\<lparr>en_Public := (en_Public env)\<lparr>bs_Inline := Some v\<rparr>\<rparr>))
     else if tag = tagPublicReference then
       bindR (decodeBodyReference c v) (\<lambda>ref. Inr (env\<lparr>en_Public := (en_Public env)\<lparr>bs_Reference := Some ref\<rparr>\<rparr>))
     else if tag = tagRuntimeInline then
       (if length v > MaxInlineBodyBytes then Inl (envelopeError EnvelopeErrorTooLarge ''runtime_inline'')
        else Inr (env\<lparr>en_Runtime := (en_Runtime env)\<lparr>bs_Inline := Some v\<rparr>\<rparr>))
     else if tag = tagRuntimeReference then
       bindR (decodeBodyReference c v) (\<lambda>ref. Inr (env\<lparr>en_Runtime := (en_Runtime env)\<lparr>bs_Reference := Some ref\<rparr>\<rparr>))
     else if tag = tagLeaseEpoch then
       (if length v \<noteq> 8 then Inl (envelopeError EnvelopeErrorLength ''lease_epoch'')
        else Inr (env\<lparr>en_LeaseEpoch := word_of_nat (be_get v)\<rparr>))
     else if tag = tagRuntimeCommandID then
       (if length v \<noteq> 16 then Inl (envelopeError EnvelopeErrorLength ''runtime_command_id'')
        else Inr (env\<lparr>en_RuntimeCommandID := v\<rparr>))
     else if tag = tagCommandKind then
       (if length v > 64 then Inl (envelopeError EnvelopeErrorInvalid ''command_kind'')
        else Inr (env\<lparr>en_CommandKind := v\<rparr>))
     else if tag = tagAttemptID then
       (if length v > MaxIDBytes c then Inl (envelopeError EnvelopeErrorInvalid ''attempt_id'')
        else Inr (env\<lparr>en_AttemptID := v\<rparr>))
     else if tag = tagAttemptJournalEpoch then
       (if length v \<noteq> 8 then Inl (envelopeError EnvelopeErrorLength ''attempt_journal_epoch'')
        else Inr (env\<lparr>en_AttemptJournalEpoch := word_of_nat (be_get v)\<rparr>))
     else if tag = tagDispositionKind then
       (if length v > 64 then Inl (envelopeError EnvelopeErrorInvalid ''disposition_kind'')
        else Inr (env\<lparr>en_DispositionKind := v\<rparr>))
     else Inr env)"

text \<open>
  The field loop: \<open>n\<close> fields are still declared, \<open>prev\<close> is the last tag, \<open>seen\<close> the tags so far
  (\<^verbatim>\<open>fieldsSeen\<close>, a bit per tag) and \<open>rest\<close> the frame from the current offset on.
\<close>

fun decodeFields :: "core_lib \<Rightarrow> nat \<Rightarrow> nat \<Rightarrow> nat list \<Rightarrow> Envelope \<Rightarrow> string
    \<Rightarrow> err + (Envelope \<times> nat list \<times> string)" where
  "decodeFields c 0 prev seen env rest = Inr (env, seen, rest)"
| "decodeFields c (Suc n) prev seen env rest =
    (if length rest < 5 then Inl (envelopeError EnvelopeErrorLength ''field'')
     else (let tag = byte_of (hd rest) in
       if tag < tagIdentity \<or> tag > tagDispositionKind then Inl (envelopeError EnvelopeErrorField ''tag'')
       else if tag \<le> prev then Inl (envelopeError EnvelopeErrorOrder ''tag'')
       else (let len = be_get (take 4 (drop 1 rest)); rest1 = drop 5 rest in
         if len > MaxEnvelopeBytes then Inl (envelopeError EnvelopeErrorTooLarge (fieldName tag))
         else if len > length rest1 then Inl (envelopeError EnvelopeErrorLength (fieldName tag))
         else (let seen1 = seen @ [tag]; v = take len rest1; rest2 = drop len rest1 in
           if tag \<notin> set (allowedEnvelopeFields (en_Kind env)) then decodeFields c n tag seen1 env rest2
           else bindR (decodeField c env tag v) (\<lambda>env1. decodeFields c n tag seen1 env1 rest2)))))"

definition DecodeEnvelope :: "core_lib \<Rightarrow> string \<Rightarrow> err + Envelope" where
  "DecodeEnvelope c frame =
    (if length frame > MaxEnvelopeBytes then Inl (envelopeError EnvelopeErrorTooLarge ''frame'')
     else if frame = [] then Inl (envelopeError EnvelopeErrorMalformed ''frame'')
     else if length frame < envelopeHeaderBytes then Inl (envelopeError EnvelopeErrorLength ''header'')
     else if take 4 frame \<noteq> envelopeMagic then Inl (envelopeError EnvelopeErrorMalformed ''magic'')
     else if byte_of (frame ! 4) \<noteq> EnvelopeVersion then Inl (envelopeError EnvelopeErrorVersion ''version'')
     else (let kind = kind_of_byte (byte_of (frame ! 5)) in
       if \<not> knownEnvelopeKind kind then Inl (envelopeError EnvelopeErrorKind ''kind'')
       else (let fieldCount = be_get (take 2 (drop 6 frame)); fieldsBytes = be_get (take 4 (drop 8 frame)) in
         if fieldsBytes > MaxEnvelopeBytes - envelopeHeaderBytes
         then Inl (envelopeError EnvelopeErrorTooLarge ''frame'')
         else if envelopeHeaderBytes + fieldsBytes > length frame
         then Inl (envelopeError EnvelopeErrorLength ''fields'')
         else if envelopeHeaderBytes + fieldsBytes < length frame
         then Inl (envelopeError EnvelopeErrorTrailing ''frame'')
         else
          bindR (decodeFields c fieldCount 0 [] (zeroEnvelope kind) (drop 12 frame)) (\<lambda>(env, seen, rest).
          if rest \<noteq> [] then Inl (envelopeError EnvelopeErrorLength ''field_count'')
          else
            bindR (validateDecodedFields kind seen) (\<lambda>_.
            bindR (validateEnvelope c env) (\<lambda>_. Inr env))))))"

subsection \<open>Frames read back\<close>

lemma fieldsTotal_Inr: "fieldsTotal acc fs = Inr n \<Longrightarrow> n = acc + length (field_bytes fs)"
  by (induction acc fs rule: fieldsTotal.induct) (auto split: if_split_asm)

lemma fieldsTotal_short:
  "fieldsTotal acc fs = Inr n \<Longrightarrow> (tag, v) \<in> set fs \<Longrightarrow> length v \<le> MaxEnvelopeBytes"
  by (induction acc fs rule: fieldsTotal.induct) (auto split: if_split_asm)

lemma word_of_be_get [simp]: "word_of_nat (be_get (be_put 8 (unat w))) = (w :: u64)"
  using be_get_be_put [OF unat_u64_lt [of w]] by simp

lemma length_encodeUint64 [simp]: "length (encodeUint64 w) = 8"
  by (simp add: encodeUint64_def)

lemma encodeUint64_back [simp]: "word_of_nat (be_get (encodeUint64 w)) = w"
  by (simp add: encodeUint64_def)

lemma decodeBodyReference_parts:
  assumes "take 2 (drop 1 e) = be_put 2 n" and "n \<le> MaxIDBytes c" and "MaxIDBytes c < 65536"
    and "length e = 43 + n" and "byte_of (hd e) = bodyReferenceAlgorithmSHA256"
    and "take n (drop 3 e) = object" and "take 8 (drop (3 + n) e) = encodeUint64 sz"
    and "drop (11 + n) e = digest" and "reference_ok c \<lparr>or_ObjectID = object\<rparr>" and "\<not> isZeroDigest digest"
  shows "decodeBodyReference c e =
    Inr \<lparr>br_Reference = \<lparr>or_ObjectID = object\<rparr>, br_SizeBytes = sz, br_SHA256 = digest\<rparr>"
proof -
  have n: "be_get (be_put 2 n) = n" using assms(2,3) by (intro be_get_be_put) simp
  show ?thesis
    unfolding decodeBodyReference_def Let_def assms(1) n assms(6-8)
    using assms(2,4,5,9,10) by simp
qed

lemma decodeBodyReference_encode:
  assumes "reference_ok c (br_Reference ref)" and "length (br_SHA256 ref) = 32"
    and "\<not> isZeroDigest (br_SHA256 ref)" and "length (or_ObjectID (br_Reference ref)) \<le> MaxIDBytes c"
    and "MaxIDBytes c < 65536"
  shows "decodeBodyReference c (encodeBodyReference ref) = Inr ref"
proof -
  let ?o = "or_ObjectID (br_Reference ref)"
  let ?e = "encodeBodyReference ref"
  have tail: "drop 3 ?e = ?o @ encodeUint64 (br_SizeBytes ref) @ br_SHA256 ref"
    by (simp add: encodeBodyReference_def Let_def del: be_put.simps)
  have mid: "drop (3 + length ?o) ?e = encodeUint64 (br_SizeBytes ref) @ br_SHA256 ref"
    using drop_drop [of "length ?o" 3 ?e] by (simp add: tail add.commute)
  have "11 + length ?o = 8 + (3 + length ?o)" by simp
  then have "drop (11 + length ?o) ?e = drop 8 (drop (3 + length ?o) ?e)" by (simp only: drop_drop)
  with mid have "drop (11 + length ?o) ?e = br_SHA256 ref" by simp
  note parts = this
  have head: "take 2 (drop 1 ?e) = be_put 2 (length ?o)" "length ?e = 43 + length ?o"
      "byte_of (hd ?e) = bodyReferenceAlgorithmSHA256"
    using assms(2)
    by (simp_all add: encodeBodyReference_def Let_def bodyReferenceAlgorithmSHA256_def del: be_put.simps)
  have r: "reference_ok c \<lparr>or_ObjectID = ?o\<rparr>" using assms(1) by (cases "br_Reference ref") simp
  have "take (length ?o) (drop 3 ?e) = ?o" "take 8 (drop (3 + length ?o) ?e) = encodeUint64 (br_SizeBytes ref)"
    by (simp_all only: tail mid append_eq_conv_conj take_append) simp_all
  from decodeBodyReference_parts [OF head(1) assms(4,5) head(2,3) this parts r assms(3)]
  show ?thesis by (cases ref; cases "br_Reference ref") simp
qed

text \<open>One field of a frame, whatever follows it.\<close>

lemma decodeFields_step:
  assumes "prev < tag" and "tag \<le> 11" and "length v \<le> MaxEnvelopeBytes"
    and "tag \<in> set (allowedEnvelopeFields (en_Kind env))"
  shows "decodeFields c (Suc n) prev seen env (byte_char tag # be_put 4 (length v) @ v @ rest) =
    bindR (decodeField c env tag v) (\<lambda>env1. decodeFields c n tag (seen @ [tag]) env1 rest)"
proof -
  have "length v < 256 ^ 4" using assms(3) by (simp add: MaxEnvelopeBytes_def)
  then have len: "be_get (be_put 4 (length v)) = length v" by (rule be_get_be_put)
  have tag: "byte_of (byte_char tag) = tag" using assms(2) by simp
  show ?thesis
    using assms by (simp add: Let_def tag len tag_defs del: be_put.simps)
qed

lemma decodeFields_fields:
  assumes "prev < tag" and "tag \<le> 11" and "length v \<le> MaxEnvelopeBytes"
    and "tag \<in> set (allowedEnvelopeFields (en_Kind env))"
  shows "decodeFields c (Suc n) prev seen env (field_bytes ((tag, v) # fs)) =
    bindR (decodeField c env tag v) (\<lambda>env1. decodeFields c n tag (seen @ [tag]) env1 (field_bytes fs))"
  using decodeFields_step [OF assms] by simp

text \<open>
  What a caller of the encoder gives beyond Go's array types: digests of 32 bytes, runtime ids of
  16, and identifiers Core has bounded.
\<close>

definition slot_typed :: "core_lib \<Rightarrow> BodySlot \<Rightarrow> bool" where
  "slot_typed c s \<longleftrightarrow> (\<forall>ref. bs_Reference s = Some ref \<longrightarrow>
     length (br_SHA256 ref) = 32 \<and> length (or_ObjectID (br_Reference ref)) \<le> MaxIDBytes c)"

definition envelope_typed :: "core_lib \<Rightarrow> Envelope \<Rightarrow> bool" where
  "envelope_typed c env \<longleftrightarrow>
    slot_typed c (en_Public env) \<and> slot_typed c (en_Runtime env) \<and>
    length (en_RuntimeCommandID env) = 16 \<and>
    length (en_EventID env) \<le> MaxIDBytes c \<and> length (en_CommandID env) \<le> MaxIDBytes c \<and>
    MaxIDBytes c < 65536"

text \<open>A valid slot is empty, holds inline bytes, or holds a reference that reads back.\<close>

lemma valid_slot_cases:
  assumes "validateSlot c slot name = Inr ()" and "slot_typed c slot" and "MaxIDBytes c < 65536"
  obtains "slot = emptySlot"
  | b where "slot = \<lparr>bs_Inline = Some b, bs_Reference = None\<rparr>" and "length b \<le> MaxInlineBodyBytes"
  | ref where "slot = \<lparr>bs_Inline = None, bs_Reference = Some ref\<rparr>"
      and "decodeBodyReference c (encodeBodyReference ref) = Inr ref"
proof (cases "bs_Inline slot"; cases "bs_Reference slot")
  fix ref assume "bs_Inline slot = None" "bs_Reference slot = Some ref"
  with assms decodeBodyReference_encode [of c ref] that(3) [of ref] show thesis
    by (cases slot) (auto simp: validateSlot_def slot_typed_def split: if_split_asm)
next
  fix b assume "bs_Inline slot = Some b" "bs_Reference slot = None"
  with assms that(2) [of b] show thesis
    by (cases slot) (auto simp: validateSlot_def split: if_split_asm)
next
  assume "bs_Inline slot = None" "bs_Reference slot = None"
  with that(1) show thesis by (cases slot) (simp add: emptySlot_def)
next
  fix b ref assume "bs_Inline slot = Some b" "bs_Reference slot = Some ref"
  with assms(1) show thesis by (simp add: validateSlot_def)
qed

text \<open>
  What the field loop must return for a frame to decode: the envelope, and the tags of its fields.
\<close>

definition fields_read :: "core_lib \<Rightarrow> Envelope \<Rightarrow> bool" where
  "fields_read c env \<longleftrightarrow>
    decodeFields c (length (envelopeFields env)) 0 [] (zeroEnvelope (en_Kind env)) (field_bytes (envelopeFields env))
      = Inr (env, map fst (envelopeFields env), []) \<and>
    validateDecodedFields (en_Kind env) (map fst (envelopeFields env)) = Inr ()"

lemmas read_simps = fields_read_def envelopeFields_def bodyFields_def decodeFields_fields
  allowedEnvelopeFields_def tag_defs decodeField_def zeroEnvelope_def emptySlot_def
  validateDecodedFields_def requireField_def exactlyOne_def

lemma fields_read_fence:
  assumes "validateEnvelope c env = Inr ()" and "en_Kind env = EnvelopeKindOpeningFence"
  shows "fields_read c env"
  using assms
  by (cases env) (auto simp: read_simps validateEnvelope_def present_def no_attempt_def MaxEnvelopeBytes_def
      split: if_split_asm simp del: field_bytes.simps(2) decodeFields.simps(2))

lemma fields_read_commands:
  assumes "validateEnvelope c env = Inr ()" and "envelope_typed c env"
    and "en_Kind env = EnvelopeKindApplicationPrefix \<or> en_Kind env = EnvelopeKindCommandDisposition"
    and "\<forall>(t, v)\<in>set (envelopeFields env). length v \<le> MaxEnvelopeBytes"
  shows "fields_read c env"
  using assms(3)
proof
  assume "en_Kind env = EnvelopeKindApplicationPrefix"
  then show ?thesis using assms(1,2,4)
    by (cases env) (auto simp: read_simps validateEnvelope_def validateCommandCorrelation_def present_def
        no_attempt_def envelope_typed_def
      split: if_split_asm simp del: field_bytes.simps(2) decodeFields.simps(2))
next
  assume "en_Kind env = EnvelopeKindCommandDisposition"
  moreover have "length (outcome_text k) \<le> 64" if "outcome_valid k" for k
    using that by (auto simp: outcome_valid_def)
  then have short: "outcome_valid (outcome_of_text s) \<Longrightarrow> \<not> 64 < length s" for s
    by (metis outcome_text_of_text not_less)
  ultimately show ?thesis using assms(1,2,4)
    by (cases env) (auto simp: read_simps validateEnvelope_def validateCommandCorrelation_def present_def
        no_attempt_def envelope_typed_def short
      split: if_split_asm simp del: field_bytes.simps(2) decodeFields.simps(2))
qed

lemma event_shape:
  assumes "validateEnvelope c env = Inr ()" and "en_Kind env = EnvelopeKindPublicEvent"
  shows "env = (zeroEnvelope EnvelopeKindPublicEvent)
      \<lparr>en_EventID := en_EventID env, en_Public := en_Public env, en_Runtime := en_Runtime env\<rparr> \<and>
    present (en_Public env)"
  using assms by (cases env) (auto simp: validateEnvelope_def zeroEnvelope_def no_attempt_def split: if_split_asm)

lemma control_shape:
  assumes "validateEnvelope c env = Inr ()" and "en_Kind env = EnvelopeKindRuntimeControl"
  shows "env = (zeroEnvelope EnvelopeKindRuntimeControl)
      \<lparr>en_RecordID := en_RecordID env, en_Runtime := en_Runtime env\<rparr> \<and>
    present (en_Runtime env) \<and> length (en_RecordID env) \<le> MaxIDBytes c"
  using assms
  by (cases env) (auto simp: validateEnvelope_def zeroEnvelope_def no_attempt_def present_def emptySlot_def
      split: if_split_asm intro!: BodySlot.equality)

lemmas slot_read = fields_read_def envelopeFields_def bodyFields_def decodeFields_fields
  allowedEnvelopeFields_def tag_defs decodeField_def zeroEnvelope_def emptySlot_def
  validateDecodedFields_def requireField_def exactlyOne_def present_def

lemma fields_read_event:
  assumes valid: "validateEnvelope c env = Inr ()" and typed: "envelope_typed c env"
    and kind: "en_Kind env = EnvelopeKindPublicEvent"
    and short: "\<forall>(t, v)\<in>set (envelopeFields env). length v \<le> MaxEnvelopeBytes"
  shows "fields_read c env"
proof -
  obtain i pub run where env: "env = (zeroEnvelope EnvelopeKindPublicEvent)
      \<lparr>en_EventID := i, en_Public := pub, en_Runtime := run\<rparr>" and pub: "present pub"
    using event_shape [OF valid kind] by metis
  have slots: "validateSlot c pub ''public'' = Inr ()" "validateSlot c run ''runtime'' = Inr ()"
    and typed': "slot_typed c pub" "slot_typed c run" "MaxIDBytes c < 65536" "length i \<le> MaxIDBytes c"
    using valid typed by (auto simp: validateEnvelope_def envelope_typed_def env zeroEnvelope_def)
  note del = field_bytes.simps(2) decodeFields.simps(2)
  show ?thesis
  proof (rule valid_slot_cases [OF slots(1) typed'(1,3)])
    assume "pub = emptySlot" with pub show ?thesis by (simp add: present_def emptySlot_def)
  next
    fix b assume p: "pub = \<lparr>bs_Inline = Some b, bs_Reference = None\<rparr>" "length b \<le> MaxInlineBodyBytes"
    show ?thesis
      by (rule valid_slot_cases [OF slots(2) typed'(2,3)])
        (use p typed' short in \<open>simp_all add: env slot_read del: del\<close>)
  next
    fix ref assume p: "pub = \<lparr>bs_Inline = None, bs_Reference = Some ref\<rparr>"
      "decodeBodyReference c (encodeBodyReference ref) = Inr ref"
    show ?thesis
      by (rule valid_slot_cases [OF slots(2) typed'(2,3)])
        (use p typed' short in \<open>simp_all add: env slot_read del: del\<close>)
  qed
qed

lemma fields_read_control:
  assumes valid: "validateEnvelope c env = Inr ()" and typed: "envelope_typed c env"
    and kind: "en_Kind env = EnvelopeKindRuntimeControl"
    and short: "\<forall>(t, v)\<in>set (envelopeFields env). length v \<le> MaxEnvelopeBytes"
  shows "fields_read c env"
proof -
  obtain i run where env: "env = (zeroEnvelope EnvelopeKindRuntimeControl)
      \<lparr>en_RecordID := i, en_Runtime := run\<rparr>" and run: "present run" "length i \<le> MaxIDBytes c"
    using control_shape [OF valid kind] by metis
  have slots: "validateSlot c run ''runtime'' = Inr ()"
    and typed': "slot_typed c run" "MaxIDBytes c < 65536"
    using valid typed by (auto simp: validateEnvelope_def envelope_typed_def env zeroEnvelope_def)
  note del = field_bytes.simps(2) decodeFields.simps(2)
  show ?thesis
    by (rule valid_slot_cases [OF slots(1) typed'])
      (use run short in \<open>simp_all add: env slot_read del: del\<close>)
qed

lemma fields_read_valid:
  assumes "validateEnvelope c env = Inr ()" and "envelope_typed c env"
    and "\<forall>(t, v)\<in>set (envelopeFields env). length v \<le> MaxEnvelopeBytes"
  shows "fields_read c env"
proof (cases "en_Kind env")
  case (EnvelopeKindOther n)
  with assms(1) show ?thesis by (simp add: validateEnvelope_def)
qed (use assms fields_read_event fields_read_control fields_read_fence fields_read_commands in blast)+

lemma decode_encoded_envelope:
  assumes "EncodeEnvelope c env = Inr frame" and "envelope_typed c env"
  shows "DecodeEnvelope c frame = Inr env"
proof -
  let ?fs = "envelopeFields env"
  from assms(1) obtain n where valid: "validateEnvelope c env = Inr ()" and n: "fieldsTotal 0 ?fs = Inr n"
    and short: "12 + n \<le> MaxEnvelopeBytes"
    and frame: "frame = envelopeMagic @ [byte_char EnvelopeVersion, byte_char (kind_byte (en_Kind env))] @
              be_put 2 (length ?fs) @ be_put 4 n @ field_bytes ?fs"
    by (auto simp: EncodeEnvelope_def Let_def envelopeHeaderBytes_def split: if_split_asm)
  have len: "n = length (field_bytes ?fs)" using fieldsTotal_Inr [OF n] by simp
  have known: "knownEnvelopeKind (en_Kind env)" using valid by (auto simp: validateEnvelope_def split: if_split_asm)
  then have kind: "kind_of_byte (kind_byte (en_Kind env) mod 256) = en_Kind env"
    by (cases "en_Kind env") (simp_all add: kind_of_byte_def)
  have "length ?fs < 256 ^ 2"
    by (cases "en_Kind env") (auto simp: envelopeFields_def bodyFields_def split: option.split)
  then have count: "be_get (be_put 2 (length ?fs)) = length ?fs" by (rule be_get_be_put)
  have "n < 256 ^ 4" using short by (simp add: MaxEnvelopeBytes_def)
  then have total: "be_get (be_put 4 n) = n" by (rule be_get_be_put)
  have "fields_read c env"
    using valid assms(2) fieldsTotal_short [OF n] by (intro fields_read_valid) auto
  moreover from short have "\<not> MaxEnvelopeBytes - 12 < n" by linarith
  ultimately show ?thesis using short valid known
    by (simp add: DecodeEnvelope_def frame Let_def envelopeMagic_def EnvelopeVersion_def envelopeHeaderBytes_def
        kind count total len [symmetric] fields_read_def nth_append del: be_put.simps)
qed

text \<open>Two envelopes with one frame are of one kind.\<close>

lemma encoded_kind:
  assumes "EncodeEnvelope c env = Inr frame" and "EncodeEnvelope c env' = Inr frame"
  shows "en_Kind env = en_Kind env'"
proof -
  have "kind_of_byte (byte_of (frame ! 5)) = en_Kind e" if "EncodeEnvelope c e = Inr frame" for e
  proof -
    from that have "validateEnvelope c e = Inr ()" and "frame ! 5 = byte_char (kind_byte (en_Kind e))"
      by (auto simp: EncodeEnvelope_def Let_def envelopeMagic_def nth_append split: if_split_asm)
    moreover from this(1) have "knownEnvelopeKind (en_Kind e)" by (auto simp: validateEnvelope_def split: if_split_asm)
    ultimately show ?thesis by (cases "en_Kind e") (simp_all add: kind_of_byte_def)
  qed
  with assms show ?thesis by metis
qed

text \<open>
  C33. A journal frame is read back as the envelope it was written from: for each of the five record
  kinds, in every shape the encoder accepts, decoding an encoded frame returns the envelope.
\<close>

theorem envelope_round_trip:
  assumes "EncodeEnvelope c env = Inr frame" and "envelope_typed c env"
  shows "DecodeEnvelope c frame = Inr env"
  using assms by (rule decode_encoded_envelope)

end
