(* ===== verification/Inbox_Record.thy ===== *)
theory Inbox_Record
  imports Record_Codec
begin

text \<open>
  \<^verbatim>\<open>inbox.go\<close>, the record: the legacy command inbox's record, its canonical form, the rules of
  its states, and its JSON codec.
\<close>

definition InboxRecordVersion :: u8 where "InboxRecordVersion = 1"
definition MaxInboxPayloadBytes :: nat where "MaxInboxPayloadBytes = 64 * 1024"
definition MaxInboxRecordBytes :: nat where "MaxInboxRecordBytes = 256 * 1024"

datatype InboxState =
    InboxStatePending | InboxStateClaimed | InboxStateApplying | InboxStateApplied | InboxStateRejected
  | InboxStateOther string

fun terminal :: "InboxState \<Rightarrow> bool" where
  "terminal InboxStateApplied = True"
| "terminal InboxStateRejected = True"
| "terminal _ = False"

fun state_text :: "InboxState \<Rightarrow> string" where
  "state_text InboxStatePending = ''pending''"
| "state_text InboxStateClaimed = ''claimed''"
| "state_text InboxStateApplying = ''applying''"
| "state_text InboxStateApplied = ''applied''"
| "state_text InboxStateRejected = ''rejected''"
| "state_text (InboxStateOther s) = s"

definition state_of_text :: "string \<Rightarrow> InboxState" where
  "state_of_text s =
    (if s = ''pending'' then InboxStatePending else if s = ''claimed'' then InboxStateClaimed
     else if s = ''applying'' then InboxStateApplying else if s = ''applied'' then InboxStateApplied
     else if s = ''rejected'' then InboxStateRejected else InboxStateOther s)"

definition known_state :: "InboxState \<Rightarrow> bool" where
  "known_state q \<longleftrightarrow> (\<forall>s. q \<noteq> InboxStateOther s)"

lemma state_of_text_text [simp]: "known_state q \<Longrightarrow> state_of_text (state_text q) = q"
  by (cases q) (auto simp: known_state_def state_of_text_def)

lemma ValidString_state [simp]: "known_state q \<Longrightarrow> ValidString (state_text q)"
  by (cases q) (auto simp: known_state_def intro!: ValidString_ascii)

record CommandClaim =
  cc_LeaseEpoch :: u64
  cc_ExpiresAt :: gotime

record CommandResult =
  cr_CompletedAt :: gotime
  cr_EventID :: string
  cr_JournalSeq :: u64

record InboxRecord =
  ib_TenantID :: string
  ib_SessionID :: string
  ib_CommandID :: string
  ib_RuntimeCommandID :: string
  ib_Kind :: string
  ib_Payload :: string
  ib_PayloadRef :: object_reference
  ib_AcceptedAt :: gotime
  ib_ApplyDeadline :: gotime
  ib_State :: InboxState
  ib_Claim :: CommandClaim
  ib_Result :: CommandResult
  ib_Rejection :: "error_detail option"

definition zeroRef :: object_reference where "zeroRef = \<lparr>or_ObjectID = []\<rparr>"
definition zeroClaim :: CommandClaim where "zeroClaim = \<lparr>cc_LeaseEpoch = 0, cc_ExpiresAt = zeroTime\<rparr>"
definition zeroResult :: CommandResult where
  "zeroResult = \<lparr>cr_CompletedAt = zeroTime, cr_EventID = [], cr_JournalSeq = 0\<rparr>"

definition claim_isZero :: "CommandClaim \<Rightarrow> bool" where
  "claim_isZero c \<longleftrightarrow> cc_LeaseEpoch c = 0 \<and> IsZero (cc_ExpiresAt c)"

definition result_isZero :: "CommandResult \<Rightarrow> bool" where
  "result_isZero r \<longleftrightarrow> IsZero (cr_CompletedAt r) \<and> cr_EventID r = [] \<and> cr_JournalSeq r = 0"

subsection \<open>Validation\<close>

definition validateCommandClaim :: "CommandClaim \<Rightarrow> err + unit" where
  "validateCommandClaim claim =
    (if claim_isZero claim then Inr ()
     else if cc_LeaseEpoch claim = 0 \<or> \<not> rankableTime (cc_ExpiresAt claim)
     then Inl (inboxErr InboxErrorInvalid ''claim'')
     else Inr ())"

definition validateCommandResult :: "core_lib \<Rightarrow> CommandResult \<Rightarrow> err + unit" where
  "validateCommandResult c result =
    (if result_isZero result then Inr ()
     else if \<not> event_ok c (cr_EventID result) then Inl (inboxErr InboxErrorInvalid ''result'')
     else if cr_JournalSeq result = 0 \<or> \<not> rankableTime (cr_CompletedAt result)
     then Inl (inboxErr InboxErrorInvalid ''result'')
     else Inr ())"

definition validateCommandRejection :: "core_lib \<Rightarrow> error_detail option \<Rightarrow> err + unit" where
  "validateCommandRejection c rejection =
    (case rejection of
       None \<Rightarrow> Inr ()
     | Some e \<Rightarrow>
         if \<not> error_detail_ok c e then Inl (inboxErr InboxErrorInvalid ''rejection'')
         else validateProjectionText c (CoreErrorDetail e) ''rejection'' inboxInvalid)"

definition validateInboxState :: "InboxRecord \<Rightarrow> err + unit" where
  "validateInboxState r =
    (let claimed = \<not> claim_isZero (ib_Claim r);
         applied = \<not> result_isZero (ib_Result r);
         rejected = ib_Rejection r \<noteq> None;
         last = (if applied then Inl (inboxErr InboxErrorInvalid ''result'')
                 else if rejected then Inl (inboxErr InboxErrorInvalid ''rejection'')
                 else Inr ())
     in case ib_State r of
       InboxStatePending \<Rightarrow> if claimed then Inl (inboxErr InboxErrorInvalid ''claim'') else last
     | InboxStateClaimed \<Rightarrow> if \<not> claimed then Inl (inboxErr InboxErrorInvalid ''claim'') else last
     | InboxStateApplying \<Rightarrow> if \<not> claimed then Inl (inboxErr InboxErrorInvalid ''claim'') else last
     | InboxStateApplied \<Rightarrow>
         if \<not> claimed then Inl (inboxErr InboxErrorInvalid ''claim'')
         else if \<not> applied then Inl (inboxErr InboxErrorInvalid ''result'')
         else if rejected then Inl (inboxErr InboxErrorInvalid ''rejection'')
         else Inr ()
     | InboxStateRejected \<Rightarrow>
         if \<not> rejected then Inl (inboxErr InboxErrorInvalid ''rejection'')
         else if applied then Inl (inboxErr InboxErrorInvalid ''result'')
         else Inr ()
     | InboxStateOther _ \<Rightarrow> Inl (inboxErr InboxErrorInvalid ''state''))"

definition canonicalInboxRecord :: "core_lib \<Rightarrow> InboxRecord \<Rightarrow> err + InboxRecord" where
  "canonicalInboxRecord c r =
    bindR (ensureR (tenant_ok c (ib_TenantID r)) (inboxErr InboxErrorInvalid ''tenant_id'')) (\<lambda>_.
    bindR (ensureR (session_ok c (ib_SessionID r)) (inboxErr InboxErrorInvalid ''session_id'')) (\<lambda>_.
    bindR (ensureR (command_ok c (ib_CommandID r)) (inboxErr InboxErrorInvalid ''command_id'')) (\<lambda>_.
    bindR (validateOpaque c (ib_RuntimeCommandID r) ''runtime_command_id'' inboxInvalid) (\<lambda>_.
    bindR (validateOpaque c (ib_Kind r) ''kind'' inboxInvalid) (\<lambda>_.
    bindR (ensureR (\<not> length (ib_Payload r) > MaxInboxPayloadBytes) (inboxErr InboxErrorInvalid ''payload'')) (\<lambda>_.
    bindR (ensureR (\<not> (length (ib_Payload r) > 0 \<and> ib_PayloadRef r \<noteq> zeroRef)) (inboxErr InboxErrorInvalid ''payload'')) (\<lambda>_.
    bindR (ensureR (ib_PayloadRef r \<noteq> zeroRef \<longrightarrow> reference_ok c (ib_PayloadRef r)) (inboxErr InboxErrorInvalid ''payload_ref'')) (\<lambda>_.
    bindR (ensureR (rankableTime (ib_AcceptedAt r)) (inboxErr InboxErrorInvalid ''accepted_at'')) (\<lambda>_.
    bindR (ensureR (rankableTime (ib_ApplyDeadline r)) (inboxErr InboxErrorInvalid ''apply_deadline'')) (\<lambda>_.
    bindR (validateCommandClaim (ib_Claim r)) (\<lambda>_.
    bindR (validateCommandResult c (ib_Result r)) (\<lambda>_.
    bindR (validateCommandRejection c (ib_Rejection r)) (\<lambda>_.
    bindR (validateInboxState r) (\<lambda>_.
    Inr (r\<lparr>ib_AcceptedAt := UTC (ib_AcceptedAt r), ib_ApplyDeadline := UTC (ib_ApplyDeadline r),
           ib_Claim := (ib_Claim r)\<lparr>cc_ExpiresAt := UTC (cc_ExpiresAt (ib_Claim r))\<rparr>,
           ib_Result := (ib_Result r)\<lparr>cr_CompletedAt := UTC (cr_CompletedAt (ib_Result r))\<rparr>\<rparr>)))))))))))))))"

subsection \<open>The wire record\<close>

record inboxWire =
  iw_RecordVersion :: u8
  iw_TenantID :: string
  iw_SessionID :: string
  iw_CommandID :: string
  iw_RuntimeCommandID :: string
  iw_Kind :: string
  iw_Payload :: string
  iw_PayloadRef :: "object_reference option"
  iw_AcceptedAt :: gotime
  iw_ApplyDeadline :: gotime
  iw_State :: string
  iw_Claim :: "CommandClaim option"
  iw_Result :: "CommandResult option"
  iw_Rejection :: "error_detail option"

definition zeroInboxWire :: inboxWire where
  "zeroInboxWire = \<lparr>iw_RecordVersion = 0, iw_TenantID = [], iw_SessionID = [], iw_CommandID = [],
    iw_RuntimeCommandID = [], iw_Kind = [], iw_Payload = [], iw_PayloadRef = None,
    iw_AcceptedAt = zeroTime, iw_ApplyDeadline = zeroTime, iw_State = [], iw_Claim = None,
    iw_Result = None, iw_Rejection = None\<rparr>"

definition claim_json :: "CommandClaim \<Rightarrow> json" where
  "claim_json cl = JObj [(''lease_epoch'', ju64 (cc_LeaseEpoch cl)), (''expires_at'', jtime (cc_ExpiresAt cl))]"

definition claim_fields :: "CommandClaim field_table" where
  "claim_fields = [(''lease_epoch'', into dec_word cc_LeaseEpoch cc_LeaseEpoch_update),
    (''expires_at'', into dec_time cc_ExpiresAt cc_ExpiresAt_update)]"

definition result_json :: "CommandResult \<Rightarrow> json" where
  "result_json r = JObj [(''completed_at'', jtime (cr_CompletedAt r)), (''event_id'', jstr (cr_EventID r)),
    (''journal_seq'', ju64 (cr_JournalSeq r))]"

definition result_fields :: "CommandResult field_table" where
  "result_fields = [(''completed_at'', into dec_time cr_CompletedAt cr_CompletedAt_update),
    (''event_id'', into dec_string cr_EventID cr_EventID_update),
    (''journal_seq'', into dec_word cr_JournalSeq cr_JournalSeq_update)]"

definition inboxWire_json :: "inboxWire \<Rightarrow> json" where
  "inboxWire_json w = JObj (
    (''record_version'', ju8 (iw_RecordVersion w)) #
    [(''tenant_id'', jstr (iw_TenantID w)), (''session_id'', jstr (iw_SessionID w)),
     (''command_id'', jstr (iw_CommandID w)), (''runtime_command_id'', jstr (iw_RuntimeCommandID w)),
     (''kind'', jstr (iw_Kind w))] @
    omitempty (iw_Payload w = []) ''payload'' (jbytes (iw_Payload w)) @
    omitnil (\<lambda>r. JCore (CoreObjectReference r)) ''payload_ref'' (iw_PayloadRef w) @
    [(''accepted_at'', jtime (iw_AcceptedAt w)), (''apply_deadline'', jtime (iw_ApplyDeadline w)),
     (''state'', jstr (iw_State w))] @
    omitnil claim_json ''claim'' (iw_Claim w) @
    omitnil result_json ''result'' (iw_Result w) @
    omitnil (\<lambda>e. JCore (CoreErrorDetail e)) ''rejection'' (iw_Rejection w))"

definition inboxWire_fields :: "inboxWire field_table" where
  "inboxWire_fields =
    [(''record_version'', into dec_word iw_RecordVersion iw_RecordVersion_update),
     (''tenant_id'', into dec_string iw_TenantID iw_TenantID_update),
     (''session_id'', into dec_string iw_SessionID iw_SessionID_update),
     (''command_id'', into dec_string iw_CommandID iw_CommandID_update),
     (''runtime_command_id'', into dec_string iw_RuntimeCommandID iw_RuntimeCommandID_update),
     (''kind'', into dec_string iw_Kind iw_Kind_update),
     (''payload'', into dec_bytes iw_Payload iw_Payload_update),
     (''payload_ref'', into (dec_ptr zeroRef dec_reference) iw_PayloadRef iw_PayloadRef_update),
     (''accepted_at'', into dec_time iw_AcceptedAt iw_AcceptedAt_update),
     (''apply_deadline'', into dec_time iw_ApplyDeadline iw_ApplyDeadline_update),
     (''state'', into dec_string iw_State iw_State_update),
     (''claim'', into (dec_ptr zeroClaim (decode_struct True claim_fields)) iw_Claim iw_Claim_update),
     (''result'', into (dec_ptr zeroResult (decode_struct True result_fields)) iw_Result iw_Result_update),
     (''rejection'', into (dec_ptr [] dec_error_detail) iw_Rejection iw_Rejection_update)]"

definition inboxToWire :: "InboxRecord \<Rightarrow> inboxWire" where
  "inboxToWire r = \<lparr>iw_RecordVersion = InboxRecordVersion, iw_TenantID = ib_TenantID r,
    iw_SessionID = ib_SessionID r, iw_CommandID = ib_CommandID r,
    iw_RuntimeCommandID = ib_RuntimeCommandID r, iw_Kind = ib_Kind r, iw_Payload = ib_Payload r,
    iw_PayloadRef = (if ib_PayloadRef r \<noteq> zeroRef then Some (ib_PayloadRef r) else None),
    iw_AcceptedAt = ib_AcceptedAt r, iw_ApplyDeadline = ib_ApplyDeadline r,
    iw_State = state_text (ib_State r),
    iw_Claim = (if \<not> claim_isZero (ib_Claim r) then Some (ib_Claim r) else None),
    iw_Result = (if \<not> result_isZero (ib_Result r) then Some (ib_Result r) else None),
    iw_Rejection = ib_Rejection r\<rparr>"

definition inboxFromWire :: "inboxWire \<Rightarrow> InboxRecord" where
  "inboxFromWire w = \<lparr>ib_TenantID = iw_TenantID w, ib_SessionID = iw_SessionID w,
    ib_CommandID = iw_CommandID w, ib_RuntimeCommandID = iw_RuntimeCommandID w, ib_Kind = iw_Kind w,
    ib_Payload = iw_Payload w,
    ib_PayloadRef = (case iw_PayloadRef w of None \<Rightarrow> zeroRef | Some r \<Rightarrow> r),
    ib_AcceptedAt = iw_AcceptedAt w, ib_ApplyDeadline = iw_ApplyDeadline w,
    ib_State = state_of_text (iw_State w),
    ib_Claim = (case iw_Claim w of None \<Rightarrow> zeroClaim | Some cl \<Rightarrow> cl),
    ib_Result = (case iw_Result w of None \<Rightarrow> zeroResult | Some re \<Rightarrow> re),
    ib_Rejection = iw_Rejection w\<rparr>"

text \<open>Every time of a canonical record is in UTC, so \<^verbatim>\<open>json.Marshal\<close> does not fail on one.\<close>

definition encodeInboxRecord :: "core_lib \<Rightarrow> InboxRecord \<Rightarrow> err + stored_bytes \<times> InboxRecord" where
  "encodeInboxRecord c r0 =
    bindR (canonicalInboxRecord c r0) (\<lambda>r.
    let encoded = inboxWire_json (inboxToWire r) in
    if json_len c encoded > MaxInboxRecordBytes then Inl (inboxErr InboxErrorTooLarge ''record'')
    else Inr (Marshalled encoded, r))"

definition inboxRecordFields :: versionedRecordFields where
  "inboxRecordFields = \<lparr>vf_Record = ''record'', vf_Version = ''record_version''\<rparr>"

definition decodeInboxRecord :: "core_lib \<Rightarrow> stored_bytes \<Rightarrow> err + InboxRecord" where
  "decodeInboxRecord c v =
    bindR (decodeVersionedRecord c (\<lambda>j. decode_struct True inboxWire_fields j zeroInboxWire) v
      MaxInboxRecordBytes InboxRecordVersion inboxRecordFields inboxRecordFailure) (\<lambda>w.
    canonicalInboxRecord c (inboxFromWire w))"

subsection \<open>The canonical form\<close>

lemma validateProjectionText_unit: "validateProjectionText c v path fail = Inr u \<longleftrightarrow>
    (\<forall>pt \<in> set (core_texts c v). ValidString (snd pt))"
  by (auto simp: validateProjectionText_def find_None_iff find_Some_iff split: option.split)

lemma validateCommandClaim_UTC [simp]:
  "validateCommandClaim (cl\<lparr>cc_ExpiresAt := UTC (cc_ExpiresAt cl)\<rparr>) = validateCommandClaim cl"
  by (simp add: validateCommandClaim_def claim_isZero_def IsZero_def)

lemma validateCommandResult_UTC [simp]:
  "validateCommandResult c (re\<lparr>cr_CompletedAt := UTC (cr_CompletedAt re)\<rparr>) = validateCommandResult c re"
  by (simp add: validateCommandResult_def result_isZero_def IsZero_def)

lemma isZero_UTC [simp]:
  "claim_isZero (cl\<lparr>cc_ExpiresAt := UTC (cc_ExpiresAt cl)\<rparr>) = claim_isZero cl"
  "result_isZero (re\<lparr>cr_CompletedAt := UTC (cr_CompletedAt re)\<rparr>) = result_isZero re"
  by (simp_all add: claim_isZero_def result_isZero_def IsZero_def)

definition stampUTC :: "InboxRecord \<Rightarrow> InboxRecord" where
  "stampUTC r = r\<lparr>ib_AcceptedAt := UTC (ib_AcceptedAt r), ib_ApplyDeadline := UTC (ib_ApplyDeadline r),
     ib_Claim := (ib_Claim r)\<lparr>cc_ExpiresAt := UTC (cc_ExpiresAt (ib_Claim r))\<rparr>,
     ib_Result := (ib_Result r)\<lparr>cr_CompletedAt := UTC (cr_CompletedAt (ib_Result r))\<rparr>\<rparr>"

text \<open>What a canonical record satisfies.\<close>

definition inbox_valid :: "core_lib \<Rightarrow> InboxRecord \<Rightarrow> bool" where
  "inbox_valid c r \<longleftrightarrow>
    tenant_ok c (ib_TenantID r) \<and> session_ok c (ib_SessionID r) \<and> command_ok c (ib_CommandID r) \<and>
    validateOpaque c (ib_RuntimeCommandID r) ''runtime_command_id'' inboxInvalid = Inr () \<and>
    validateOpaque c (ib_Kind r) ''kind'' inboxInvalid = Inr () \<and>
    length (ib_Payload r) \<le> MaxInboxPayloadBytes \<and> (ib_Payload r = [] \<or> ib_PayloadRef r = zeroRef) \<and>
    (ib_PayloadRef r \<noteq> zeroRef \<longrightarrow> reference_ok c (ib_PayloadRef r)) \<and>
    rankableTime (ib_AcceptedAt r) \<and> rankableTime (ib_ApplyDeadline r) \<and>
    validateCommandClaim (ib_Claim r) = Inr () \<and> validateCommandResult c (ib_Result r) = Inr () \<and>
    validateCommandRejection c (ib_Rejection r) = Inr () \<and> validateInboxState r = Inr ()"

lemma canonicalInboxRecord_iff:
  "canonicalInboxRecord c r = Inr r' \<longleftrightarrow> inbox_valid c r \<and> r' = stampUTC r"
  by (auto simp: canonicalInboxRecord_def inbox_valid_def stampUTC_def not_less)

lemma inbox_valid_stampUTC [simp]: "inbox_valid c (stampUTC r) = inbox_valid c r"
  by (simp add: inbox_valid_def stampUTC_def validateInboxState_def Let_def)

lemma stampUTC_idem [simp]: "stampUTC (stampUTC r) = stampUTC r"
  by (simp add: stampUTC_def)

lemma canonicalInboxRecord_idem: "canonicalInboxRecord c r = Inr r' \<Longrightarrow> canonicalInboxRecord c r' = Inr r'"
  by (simp add: canonicalInboxRecord_iff)

lemma validateInboxState_known: "validateInboxState r = Inr u \<Longrightarrow> known_state (ib_State r)"
  by (cases "ib_State r") (auto simp: validateInboxState_def known_state_def Let_def)

subsection \<open>The record reads back\<close>

lemma claim_fields_read:
  assumes "minute_zone (cc_ExpiresAt cl)"
  shows "decode_struct True claim_fields (claim_json cl) old = Some cl"
  using assms
  by (cases cl) (simp add: claim_json_def claim_fields_def fold_name_plain plain_char_def)

lemma result_fields_read:
  assumes "minute_zone (cr_CompletedAt re)" and "ValidString (cr_EventID re)"
  shows "decode_struct True result_fields (result_json re) old = Some re"
  using assms
  by (cases re) (simp add: result_json_def result_fields_def fold_name_plain plain_char_def)

definition wire_readable :: "inboxWire \<Rightarrow> bool" where
  "wire_readable w \<longleftrightarrow>
    ValidString (iw_TenantID w) \<and> ValidString (iw_SessionID w) \<and> ValidString (iw_CommandID w) \<and>
    ValidString (iw_RuntimeCommandID w) \<and> ValidString (iw_Kind w) \<and> ValidString (iw_State w) \<and>
    minute_zone (iw_AcceptedAt w) \<and> minute_zone (iw_ApplyDeadline w) \<and>
    (\<forall>cl. iw_Claim w = Some cl \<longrightarrow> minute_zone (cc_ExpiresAt cl)) \<and>
    (\<forall>re. iw_Result w = Some re \<longrightarrow> minute_zone (cr_CompletedAt re) \<and> ValidString (cr_EventID re))"

lemma claim_json_not_null [simp]: "claim_json cl \<noteq> JNull" by (simp add: claim_json_def)
lemma result_json_not_null [simp]: "result_json re \<noteq> JNull" by (simp add: result_json_def)

lemma inboxWire_read:
  assumes "wire_readable w"
  shows "decode_struct True inboxWire_fields (inboxWire_json w) zeroInboxWire = Some w"
  using assms
  by (cases w)
    (simp add: inboxWire_json_def inboxWire_fields_def fold_name_plain plain_char_def
        wire_readable_def decode_omitnil decode_omitempty decode_omitnil_last zeroInboxWire_def
        dec_ptr_def claim_fields_read result_fields_read split: option.split)

lemma inboxFromWire_toWire:
  assumes "known_state (ib_State r)" and "claim_isZero (ib_Claim r) \<longrightarrow> ib_Claim r = zeroClaim"
    and "result_isZero (ib_Result r) \<longrightarrow> ib_Result r = zeroResult"
  shows "inboxFromWire (inboxToWire r) = r"
  using assms by (cases r) (auto simp: inboxFromWire_def inboxToWire_def)

lemma zero_stamped:
  "claim_isZero cl \<Longrightarrow> cl\<lparr>cc_ExpiresAt := UTC (cc_ExpiresAt cl)\<rparr> = zeroClaim"
  "result_isZero re \<Longrightarrow> re\<lparr>cr_CompletedAt := UTC (cr_CompletedAt re)\<rparr> = zeroResult"
  by (cases cl; simp add: claim_isZero_def zeroClaim_def IsZero_def zeroTime_def UTC_def)
    (cases re; simp add: result_isZero_def zeroResult_def IsZero_def zeroTime_def UTC_def)

lemma inbox_valid_readable:
  assumes "core_utf8 c" and "inbox_valid c r" and "stampUTC r = r"
  shows "wire_readable (inboxToWire r)"
proof -
  have utc: "ib_AcceptedAt r = UTC (ib_AcceptedAt r)" "ib_ApplyDeadline r = UTC (ib_ApplyDeadline r)"
      "cc_ExpiresAt (ib_Claim r) = UTC (cc_ExpiresAt (ib_Claim r))"
      "cr_CompletedAt (ib_Result r) = UTC (cr_CompletedAt (ib_Result r))"
    using assms(3) by (metis (no_types, lifting) CommandClaim.select_convs(2) CommandClaim.surjective
        CommandClaim.update_convs(2) CommandResult.select_convs(1) CommandResult.surjective
        CommandResult.update_convs(1) InboxRecord.ext_inject InboxRecord.surjective
        InboxRecord.update_convs(8) InboxRecord.update_convs(9) InboxRecord.update_convs(11)
        InboxRecord.update_convs(12) stampUTC_def)+
  have zone: "minute_zone (UTC t)" for t by (simp add: minute_zone_def)
  show ?thesis
    using assms(1,2) utc [THEN arg_cong [where f = minute_zone]] validateInboxState_known [of r "()"]
    by (auto simp: wire_readable_def inboxToWire_def inbox_valid_def core_utf8_def zone
        validateCommandResult_def split: if_split_asm)
qed

lemma inboxWire_version: "version_probe (inboxWire_json w) = Some (iw_RecordVersion w)"
  unfolding inboxWire_json_def
  by (rule version_probe_head)
    (auto simp: omitempty_def omitnil_def fold_name_plain plain_char_def split: option.split)

lemma decodeInboxRecord_encode:
  assumes "core_utf8 c" and "encodeInboxRecord c r0 = Inr (v, r)"
  shows "decodeInboxRecord c v = Inr r"
proof -
  from assms(2) have r: "inbox_valid c r0" "r = stampUTC r0"
    and v: "v = Marshalled (inboxWire_json (inboxToWire r))"
    and short: "json_len c (inboxWire_json (inboxToWire r)) \<le> MaxInboxRecordBytes"
    by (auto simp: encodeInboxRecord_def canonicalInboxRecord_iff Let_def split: if_split_asm)
  have valid: "inbox_valid c r" "stampUTC r = r" using r by simp_all
  obtain ms where ms: "inboxWire_json (inboxToWire r) = JObj ms" by (simp add: inboxWire_json_def)
  have "known_state (ib_State r)" using valid(1) validateInboxState_known by (auto simp: inbox_valid_def)
  then have wire: "inboxFromWire (inboxToWire r) = r"
    using zero_stamped by (intro inboxFromWire_toWire) (auto simp: r(2) stampUTC_def)
  have "decodeVersionedRecord c (\<lambda>j. decode_struct True inboxWire_fields j zeroInboxWire) v
      MaxInboxRecordBytes InboxRecordVersion inboxRecordFields inboxRecordFailure = Inr (inboxToWire r)"
    unfolding v ms decodeVersionedRecord_def
    by (rule decodeVersionedRecordOf_marshalled [where w = InboxRecordVersion])
      (use short ms inboxWire_version [of "inboxToWire r"] inboxWire_read [OF inbox_valid_readable [OF assms(1) valid]]
        in \<open>simp_all add: inboxToWire_def\<close>)
  then show ?thesis using valid by (simp add: decodeInboxRecord_def wire canonicalInboxRecord_iff)
qed

interpretation inbox_codec: record_codec
  "canonicalInboxRecord c" "encodeInboxRecord c" "decodeInboxRecord c" "\<lambda>_. core_utf8 c" for c
proof
  show "canonicalInboxRecord c r = Inr r' \<Longrightarrow> canonicalInboxRecord c r' = Inr r'" for r r'
    by (rule canonicalInboxRecord_idem)
  show "encodeInboxRecord c r = Inr (v, r') \<Longrightarrow> canonicalInboxRecord c r = Inr r'" for r v r'
    by (auto simp: encodeInboxRecord_def Let_def split: if_split_asm)
  show "canonicalInboxRecord c r = Inr r' \<Longrightarrow> encodeInboxRecord c r' = Inr (v, q) \<Longrightarrow>
      encodeInboxRecord c r = Inr (v, q)" for r r' v q
    using canonicalInboxRecord_idem by (simp add: encodeInboxRecord_def)
  show "decodeInboxRecord c v = Inr r \<Longrightarrow> canonicalInboxRecord c r = Inr r" for v r
    using canonicalInboxRecord_idem by (auto simp: decodeInboxRecord_def)
  show "core_utf8 c \<Longrightarrow> encodeInboxRecord c r = Inr (v, r') \<Longrightarrow> decodeInboxRecord c v = Inr r'" for r v r'
    by (rule decodeInboxRecord_encode)
qed

text \<open>
  C7. A stored legacy command is read back as the command that was stored: whatever record the
  encoder accepts, decoding its bytes returns the canonical record it was written from.
\<close>

theorem inbox_record_round_trip:
  assumes "core_utf8 c" and "encodeInboxRecord c r = Inr (v, r')"
  shows "decodeInboxRecord c v = Inr r' \<and> canonicalInboxRecord c r' = Inr r'"
  using inbox_codec.decode_encode [OF assms] inbox_codec.encode_result_canonical [OF assms(2)] by simp

end
