(* ===== verification/Inbox.thy ===== *)
theory Inbox
  imports Inbox_Record Ordered_Index Session_Binding
begin

text \<open>
  \<^verbatim>\<open>inbox.go\<close>, the operations: where a command is filed, what a stored row must say of itself, and
  the idempotent admission of a command.
\<close>

definition inboxNamespace :: string where "inboxNamespace = ''sessionstore/inbox''"

record InboxEntry =
  ie_Record :: InboxRecord
  ie_EntryRevision :: u64
  ie_AcceptedOrder :: u64

record AdmitCommandRequest =
  ac_TenantID :: string
  ac_SessionID :: string
  ac_CommandID :: string
  ac_ProposedRuntimeCommandID :: string
  ac_Kind :: string
  ac_Payload :: string
  ac_PayloadRef :: object_reference
  ac_AcceptedAt :: gotime
  ac_ApplyDeadline :: gotime

definition sameCommandAs :: "InboxRecord \<Rightarrow> InboxRecord \<Rightarrow> bool" where
  "sameCommandAs r other \<longleftrightarrow>
     ib_Kind r = ib_Kind other \<and> ib_Payload r = ib_Payload other \<and> ib_PayloadRef r = ib_PayloadRef other"

definition inboxID :: "sessionScope \<Rightarrow> string \<Rightarrow> ordered_id" where
  "inboxID scope command = \<lparr>oid_Namespace = shardNamespace inboxNamespace (sc_ControlShard scope),
     oid_OrderingScope = sc_SessionNamespace scope, oid_StableKey = command\<rparr>"

definition inboxDue :: "InboxRecord \<Rightarrow> due" where
  "inboxDue r =
    (if terminal (ib_State r) then NoDue
     else if \<not> claim_isZero (ib_Claim r) \<and> Before (cc_ExpiresAt (ib_Claim r)) (ib_ApplyDeadline r)
     then DueAt (UnixMilli (cc_ExpiresAt (ib_Claim r)))
     else DueAt (UnixMilli (ib_ApplyDeadline r)))"

definition inboxEntryFor ::
  "core_lib \<Rightarrow> ordered_record \<Rightarrow> sessionScope \<Rightarrow> string \<Rightarrow> string \<Rightarrow> string \<Rightarrow> err + InboxEntry" where
  "inboxEntryFor c stored scope tenant session command =
    (if rec_Deleted stored then Inl (inboxErr InboxErrorDeleted ''record'')
     else
      bindR (decodeInboxRecord c (rec_Value stored)) (\<lambda>r.
      if ib_TenantID r \<noteq> tenant \<or> ib_SessionID r \<noteq> session \<or> ib_CommandID r \<noteq> command
        then Inl (inboxErr InboxErrorIdentity ''record'')
      else if ib_CommandID r \<noteq> oid_StableKey (rec_ID stored)
        then Inl (inboxErr InboxErrorIdentity ''command_id'')
      else
        bindR (checkFiledScope stored (sc_SessionNamespace scope) (inboxDue r) inboxIdentity) (\<lambda>_.
        if rec_Order stored = 0 then Inl (inboxErr InboxErrorIdentity ''order'')
        else Inr \<lparr>ie_Record = r, ie_EntryRevision = rec_Revision stored, ie_AcceptedOrder = rec_Order stored\<rparr>)))"

definition AdmitCommand :: "'s store \<Rightarrow> AdmitCommandRequest \<Rightarrow> ('s, InboxEntry \<times> bool) store_op" where
  "AdmitCommand st req =
    bindE (liftE (deriveSessionScope st (ac_TenantID req) (ac_SessionID req))) (\<lambda>scope.
    let record = \<lparr>ib_TenantID = ac_TenantID req, ib_SessionID = ac_SessionID req,
        ib_CommandID = ac_CommandID req, ib_RuntimeCommandID = ac_ProposedRuntimeCommandID req,
        ib_Kind = ac_Kind req, ib_Payload = ac_Payload req, ib_PayloadRef = ac_PayloadRef req,
        ib_AcceptedAt = ac_AcceptedAt req, ib_ApplyDeadline = ac_ApplyDeadline req,
        ib_State = InboxStatePending, ib_Claim = zeroClaim, ib_Result = zeroResult, ib_Rejection = None\<rparr>
    in
    bindE (liftE (encodeInboxRecord (st_core st) record)) (\<lambda>(v, record).
    bindE (admitForeground st) (\<lambda>_.
    bindE (bindSessionScope st scope) (\<lambda>_.
    bindE (classifyE (\<lambda>e. classifyInboxOrderedError e ''create'')
      (oi_Create st (inboxID scope (ac_CommandID req)) (sc_SessionNamespace scope) v noRank (inboxDue record)))
      (\<lambda>(stored, created).
    bindE (liftE (inboxEntryFor (st_core st) stored scope (ac_TenantID req) (ac_SessionID req) (ac_CommandID req)))
      (\<lambda>entry.
    if created then
      (if rec_Value stored \<noteq> v then failE (inboxErr InboxErrorIdentity ''value'')
       else returnE (entry, True))
    else if \<not> sameCommandAs (ie_Record entry) record then failE (inboxErr InboxErrorCommandMismatch ''command'')
    else returnE (entry, False)))))))"

subsection \<open>What a row that answers for a command says\<close>

lemma inboxEntryFor_Inr:
  assumes "inboxEntryFor c stored scope tenant session command = Inr entry"
  shows "\<not> rec_Deleted stored" "decodeInboxRecord c (rec_Value stored) = Inr (ie_Record entry)"
    "ie_EntryRevision entry = rec_Revision stored" "ie_AcceptedOrder entry = rec_Order stored"
    "ib_TenantID (ie_Record entry) = tenant" "ib_SessionID (ie_Record entry) = session"
    "ib_CommandID (ie_Record entry) = command" "oid_StableKey (rec_ID stored) = command"
    "oid_OrderingScope (rec_ID stored) = sc_SessionNamespace scope"
    "rec_RankingScope stored = sc_SessionNamespace scope"
    "rec_Due stored = inboxDue (ie_Record entry)" "rec_Order stored \<noteq> 0"
  using assms by (auto simp: inboxEntryFor_def split: if_split_asm)

lemma inboxEntryFor_canonical:
  "inboxEntryFor c stored scope tenant session command = Inr entry \<Longrightarrow>
     canonicalInboxRecord c (ie_Record entry) = Inr (ie_Record entry)"
  using inboxEntryFor_Inr(2) inbox_codec.decode_canonical by blast

lemma keeps_extends_bindProtocolMode [extends_intros]:
  "oi_contract st hist \<Longrightarrow> extends hist (bindProtocolMode st scope mode)"
  unfolding bindProtocolMode_def putProtocolWitness_def by (intro extends_intros)

lemma extends_bindSessionScopeMode [extends_intros]:
  "oi_contract st hist \<Longrightarrow> extends hist (bindSessionScopeMode st scope mode)"
  unfolding bindSessionScopeMode_def by (intro extends_intros)

lemma extends_bindSessionScope [extends_intros]:
  "oi_contract st hist \<Longrightarrow> extends hist (bindSessionScope st scope)"
  unfolding bindSessionScope_def by (intro extends_intros)

text \<open>What a successful admission has done.\<close>

lemma AdmitCommand_InrE:
  assumes "AdmitCommand st req s = (Inr (entry, created), t)"
  obtains scope v rcd stored u where
    "deriveSessionScope st (ac_TenantID req) (ac_SessionID req) = Inr scope"
    "encodeInboxRecord (st_core st)
       \<lparr>ib_TenantID = ac_TenantID req, ib_SessionID = ac_SessionID req,
        ib_CommandID = ac_CommandID req, ib_RuntimeCommandID = ac_ProposedRuntimeCommandID req,
        ib_Kind = ac_Kind req, ib_Payload = ac_Payload req, ib_PayloadRef = ac_PayloadRef req,
        ib_AcceptedAt = ac_AcceptedAt req, ib_ApplyDeadline = ac_ApplyDeadline req,
        ib_State = InboxStatePending, ib_Claim = zeroClaim, ib_Result = zeroResult, ib_Rejection = None\<rparr>
       = Inr (v, rcd)"
    "oi_Create st (inboxID scope (ac_CommandID req)) (sc_SessionNamespace scope) v noRank (inboxDue rcd) u
       = (Inr (stored, created), t)"
    "inboxEntryFor (st_core st) stored scope (ac_TenantID req) (ac_SessionID req) (ac_CommandID req) = Inr entry"
    "bindSessionScope st scope s = (Inr (), u)"
    "created \<Longrightarrow> rec_Value stored = v" "\<not> created \<Longrightarrow> sameCommandAs (ie_Record entry) rcd"
  using assms
  by (auto simp: AdmitCommand_def Let_def elim!: bindE_InrE split: prod.split_asm if_split_asm)

text \<open>The record an admission offers, before it is put into canonical form.\<close>

definition offeredCommand :: "AdmitCommandRequest \<Rightarrow> InboxRecord" where
  "offeredCommand req = \<lparr>ib_TenantID = ac_TenantID req, ib_SessionID = ac_SessionID req,
     ib_CommandID = ac_CommandID req, ib_RuntimeCommandID = ac_ProposedRuntimeCommandID req,
     ib_Kind = ac_Kind req, ib_Payload = ac_Payload req, ib_PayloadRef = ac_PayloadRef req,
     ib_AcceptedAt = ac_AcceptedAt req, ib_ApplyDeadline = ac_ApplyDeadline req,
     ib_State = InboxStatePending, ib_Claim = zeroClaim, ib_Result = zeroResult, ib_Rejection = None\<rparr>"

text \<open>
  C21. Admission is idempotent: whoever admits a command, the command the caller gets back is the
  caller's (its tenant, session, id, kind, payload and payload reference), created or found, and is the
  stored row's at that row's revision and accepted order.  A caller told it created the row finds exactly the
  record it offered, pending, its times in UTC, at the first revision, where no row was stored before; a caller
  told it did not finds the runtime mapping, times, state and order the row has from its first admission or has moved to since.
\<close>

theorem admission_is_idempotent:
  assumes "oi_contract st hist" and "core_utf8 (st_core st)" and "AdmitCommand st req s = (Inr (entry, created), t)"
  shows "\<exists>scope row. deriveSessionScope st (ac_TenantID req) (ac_SessionID req) = Inr scope \<and>
    hist t (inboxID scope (ac_CommandID req)) (ie_EntryRevision entry) = Some row \<and>
    decodeInboxRecord (st_core st) (rec_Value row) = Inr (ie_Record entry) \<and>
    ie_AcceptedOrder entry = rec_Order row \<and> rec_Order row \<noteq> 0 \<and>
    ib_TenantID (ie_Record entry) = ac_TenantID req \<and> ib_SessionID (ie_Record entry) = ac_SessionID req \<and>
    ib_CommandID (ie_Record entry) = ac_CommandID req \<and>
    ib_Kind (ie_Record entry) = ac_Kind req \<and> ib_Payload (ie_Record entry) = ac_Payload req \<and>
    ib_PayloadRef (ie_Record entry) = ac_PayloadRef req \<and>
    (created \<longrightarrow> ie_EntryRevision entry = 1 \<and> hist s (inboxID scope (ac_CommandID req)) 1 = None \<and>
       ie_Record entry = stampUTC (offeredCommand req))"
  using assms(3)
proof (rule AdmitCommand_InrE)
  fix scope v rcd stored u
  assume scope: "deriveSessionScope st (ac_TenantID req) (ac_SessionID req) = Inr scope"
    and enc: "encodeInboxRecord (st_core st)
       \<lparr>ib_TenantID = ac_TenantID req, ib_SessionID = ac_SessionID req,
        ib_CommandID = ac_CommandID req, ib_RuntimeCommandID = ac_ProposedRuntimeCommandID req,
        ib_Kind = ac_Kind req, ib_Payload = ac_Payload req, ib_PayloadRef = ac_PayloadRef req,
        ib_AcceptedAt = ac_AcceptedAt req, ib_ApplyDeadline = ac_ApplyDeadline req,
        ib_State = InboxStatePending, ib_Claim = zeroClaim, ib_Result = zeroResult, ib_Rejection = None\<rparr>
       = Inr (v, rcd)"
    and create: "oi_Create st (inboxID scope (ac_CommandID req)) (sc_SessionNamespace scope) v noRank (inboxDue rcd) u
       = (Inr (stored, created), t)"
    and entry: "inboxEntryFor (st_core st) stored scope (ac_TenantID req) (ac_SessionID req) (ac_CommandID req) = Inr entry"
    and bind: "bindSessionScope st scope s = (Inr (), u)"
    and wrote: "created \<Longrightarrow> rec_Value stored = v"
    and same: "\<not> created \<Longrightarrow> sameCommandAs (ie_Record entry) rcd"
  note enc = enc [folded offeredCommand_def]
  from inboxEntryFor_Inr [OF entry] have row: "decodeInboxRecord (st_core st) (rec_Value stored) = Inr (ie_Record entry)"
      "ie_EntryRevision entry = rec_Revision stored" "ie_AcceptedOrder entry = rec_Order stored" "rec_Order stored \<noteq> 0"
      "ib_TenantID (ie_Record entry) = ac_TenantID req" "ib_SessionID (ie_Record entry) = ac_SessionID req"
      "ib_CommandID (ie_Record entry) = ac_CommandID req" by auto
  have rcd: "rcd = stampUTC (offeredCommand req)"
    using inbox_codec.encode_canonical [OF enc] by (simp add: canonicalInboxRecord_iff)
  then have kept: "ib_Kind rcd = ac_Kind req" "ib_Payload rcd = ac_Payload req" "ib_PayloadRef rcd = ac_PayloadRef req"
    by (simp_all add: stampUTC_def offeredCommand_def)
  show ?thesis
  proof (cases created)
    case True
    then have new: "created_row (inboxID scope (ac_CommandID req)) (sc_SessionNamespace scope) v noRank (inboxDue rcd) stored"
        "hist u (inboxID scope (ac_CommandID req)) 1 = None" "hist t (inboxID scope (ac_CommandID req)) 1 = Some stored"
      using oi_create_new [OF assms(1)] create by auto
    have "grows hist s u" by (rule extendsD [OF extends_bindSessionScope [OF assms(1)] bind])
    with new(2) have "hist s (inboxID scope (ac_CommandID req)) 1 = None"
      using growsD by (metis not_None_eq)
    moreover have "ie_Record entry = rcd"
      using row(1) wrote [OF True] inbox_codec.decode_encode [OF assms(2) enc] by simp
    ultimately show ?thesis using scope row new True kept rcd by (auto simp: created_row_def)
  next
    case False
    with oi_create_old [OF assms(1)] create
    have "hist t (inboxID scope (ac_CommandID req)) (rec_Revision stored) = Some stored" by auto
    with scope row False same kept show ?thesis by (auto simp: sameCommandAs_def)
  qed
qed

end
