(* ===== verification/Witnesses.thy ===== *)
theory Witnesses
  imports Evaluation Cursor Envelope Inbox
begin

text \<open>
  The properties at concrete inputs: for every property that has hypotheses, a run of the model on
  the in-memory provider (or a concrete record, frame or name) where all of them hold at once.
\<close>

definition isOK :: "'e + 'a \<Rightarrow> bool" where
  "isOK r = (case r of Inl _ \<Rightarrow> False | Inr _ \<Rightarrow> True)"

lemma isOK_D: "isOK r \<Longrightarrow> \<exists>x. r = Inr x"
  by (cases r) (simp_all add: isOK_def)

lemma isOK_E: "isOK r \<Longrightarrow> (\<And>x. r = Inr x \<Longrightarrow> P) \<Longrightarrow> P"
  by (cases r) (simp_all add: isOK_def)

lemma isOK_pairE: "isOK (fst p) \<Longrightarrow> (\<And>x t. p = (Inr x, t) \<Longrightarrow> P) \<Longrightarrow> P"
  by (cases p; cases "fst p") (auto simp: isOK_def)

lemma isOK_changedE:
  assumes "case p of (Inr (e, changed), t) \<Rightarrow> changed | _ \<Rightarrow> False"
  obtains e t where "p = (Inr (e, True), t)"
  using assms that by (cases p; cases "fst p") (auto split: prod.split_asm)

lemma isOK_unitE: "isOK (fst p) \<Longrightarrow> (\<And>t. p = (Inr (), t) \<Longrightarrow> P) \<Longrightarrow> P"
  by (cases p; cases "fst p") (auto simp: isOK_def)

definition w_t0 :: mem where "w_t0 = mem_start \<lparr>t_ns = 1700000000000000000, t_zone = 0\<rparr>"

definition w_scope :: sessionScope where
  "w_scope = projr (deriveSessionScope mem_store ''t1'' ''s1'')"

lemma w_scope: "deriveSessionScope mem_store ''t1'' ''s1'' = Inr w_scope"
proof -
  have "isOK (deriveSessionScope mem_store ''t1'' ''s1'')" by code_simp
  then show ?thesis by (auto simp: w_scope_def dest: isOK_D)
qed

text \<open>The names of the scope as they come out, so that evaluations need not derive them again.\<close>

definition w_named_scope :: sessionScope where
  "w_named_scope =
    (let tenant = ''tenants/edin6sr9dtn76t3fe9iiuqr5f4nncc9fehimsobeeg000002egog'';
      session = ''sessions/edq6usj55tlmau9feooiusr5edpmirre000000jk64000002ecog'';
      namespace = ''tenants/edin6sr9dtn76t3fe9iiuqr5f4nncc9fehimsobeeg000002egog/sessions/edq6usj55tlmau9feooiusr5edpmirre000000jk64000002ecog'' in
    \<lparr>sc_layout = layoutTenantV1, sc_TenantNamespace = tenant, sc_SessionNamespace = namespace,
      sc_LedgerName = namespace @ ''/journal'', sc_LeaseName = namespace @ ''/lease'', sc_CatalogKey = namespace @ ''/catalog'',
      sc_CatalogScope = tenant, sc_ControlShard = projr (controlShardOf mem_keys ''t1'' ''s1'' 16),
      sc_BlobPrefix = namespace @ ''/blobs/'', sc_JournalName = namespace @ ''/journal'',
      sc_tenantWitnessKey = ''sessionstore/witnesses/tenant/edin6sr9dtn76t3fe9iiuqr5f4nncc9fehimsobeeg000002egog'',
      sc_tenantWitness = projr (encodeWitness 1 [''t1'']),
      sc_sessionWitnessKey = ''sessionstore/witnesses/session/edq6usj55tlmau9feooiusr5edpmirre000000jk64000002ecog'',
      sc_sessionWitness = projr (encodeWitness 2 [''t1'', ''s1''])\<rparr>)"

lemma w_scope_code [code]: "w_scope = w_named_scope" by code_simp

lemma mem_digest32: "length (ks_digest (st_keys mem_store) x) = 32"
  by (simp add: mem_store_def mem_keys_def)

subsection \<open>Names\<close>

definition w_long :: string where "w_long = replicate 33 (CHR ''x'')"

definition w_ta :: string where "w_ta = CHR ''a'' # w_long"

definition w_tb :: string where "w_tb = CHR ''b'' # w_long"

theorem session_namespace_determines_session_witness:
  "\<exists>sc sc' f f'. deriveSessionScope mem_store w_ta w_long = Inr sc \<and> deriveSessionScope mem_store w_tb w_long = Inr sc' \<and>
     digestFrame ''looprig/sessionstore/key/v1/session'' [w_ta, w_long] = Inr f \<and>
     digestFrame ''looprig/sessionstore/key/v1/session'' [w_tb, w_long] = Inr f' \<and>
     f \<noteq> f' \<and> ks_digest (st_keys mem_store) f = ks_digest (st_keys mem_store) f'"
proof -
  have "isOK (deriveSessionScope mem_store w_ta w_long)" "isOK (deriveSessionScope mem_store w_tb w_long)"
    by code_simp+
  then obtain sc sc' where sc: "deriveSessionScope mem_store w_ta w_long = Inr sc"
    "deriveSessionScope mem_store w_tb w_long = Inr sc'" by (elim isOK_E)
  have "sc_SessionNamespace (projr (deriveSessionScope mem_store w_ta w_long)) =
    sc_SessionNamespace (projr (deriveSessionScope mem_store w_tb w_long))" by code_simp
  with sc have "sc_SessionNamespace sc = sc_SessionNamespace sc'" by simp
  then have "w_ta = w_tb \<and> w_long = w_long \<or>
    (\<exists>f f'. digestFrame ''looprig/sessionstore/key/v1/session'' [w_ta, w_long] = Inr f
      \<and> digestFrame ''looprig/sessionstore/key/v1/session'' [w_tb, w_long] = Inr f'
      \<and> f \<noteq> f' \<and> ks_digest (st_keys mem_store) f = ks_digest (st_keys mem_store) f')"
    by (rule session_namespace_determines_session [OF sc _ mem_digest32])
  moreover have "w_ta \<noteq> w_tb" by (simp add: w_ta_def w_tb_def)
  ultimately show ?thesis using sc by blast
qed

theorem layout_marker_fixes_configuration_witness:
  "\<exists>m m'. encodeLayoutMarker layoutTenantV1 [] 16 = Inr m \<and> encodeLayoutMarker layoutTenantV1 [] 32 = Inr m' \<and>
     compareLayoutMarker mem_core m m = Inr () \<and> compareLayoutMarker mem_core m m' \<noteq> Inr ()"
proof -
  have "isOK (encodeLayoutMarker layoutTenantV1 [] 16)" "isOK (encodeLayoutMarker layoutTenantV1 [] 32)"
    by code_simp+
  then obtain m m' where m: "encodeLayoutMarker layoutTenantV1 [] 16 = Inr m"
    "encodeLayoutMarker layoutTenantV1 [] 32 = Inr m'" by (elim isOK_E)
  from layout_marker_fixes_configuration [OF m(1) m(1), of mem_core]
    layout_marker_fixes_configuration [OF m(1) m(2), of mem_core] m
  show ?thesis by simp
qed

theorem protocol_mode_is_exclusive_witness:
  "\<exists>t. bindProtocolMode mem_store w_scope ProtocolModeDisposition w_t0 = (Inr (), t) \<and>
     bindProtocolMode mem_store w_scope ProtocolModeLegacy t \<noteq> (Inr (), t)"
proof -
  have "isOK (fst (bindProtocolMode mem_store w_scope ProtocolModeDisposition w_t0))" by code_simp
  then obtain t where t: "bindProtocolMode mem_store w_scope ProtocolModeDisposition w_t0 = (Inr (), t)"
    by (rule isOK_unitE)
  have "bindProtocolMode mem_store w_scope ProtocolModeLegacy t \<noteq> (Inr (), t)"
    using protocol_mode_is_exclusive [OF mem_kv_contract t, of t ProtocolModeLegacy t] by auto
  with t show ?thesis by blast
qed

subsection \<open>Cursors\<close>

lemma mem_store_digest32: "digest32 mem_store"
  by (simp add: digest32_def mem_digest32)

lemma w_cursor: "\<exists>c. sweepEncode dueCommandCursor mem_store 3 (-5) ''tok'' = Inr c"
proof -
  have "isOK (sweepEncode dueCommandCursor mem_store 3 (-5) ''tok'')" by code_simp
  then show ?thesis by (rule isOK_D)
qed

theorem sweep_cursor_round_trip_witness:
  "\<exists>c. sweepEncode dueCommandCursor mem_store 3 (-5) ''tok'' = Inr c \<and>
     sweepPosition dueCommandCursor mem_store 3 c zeroTime = Inr (-5, ''tok'')"
  using w_cursor sweep_cursor_round_trip [OF mem_store_digest32] by fastforce

theorem sweep_cursor_is_scoped_witness:
  "\<exists>c. sweepEncode dueCommandCursor mem_store 3 (-5) ''tok'' = Inr c \<and>
     isOK (sweepDecode dueCommandCursor mem_store 3 c) \<and> \<not> isOK (sweepDecode dueGateCursor mem_store 3 c)"
proof -
  obtain c where c: "sweepEncode dueCommandCursor mem_store 3 (-5) ''tok'' = Inr c" using w_cursor by blast
  have "isOK (sweepDecode dueCommandCursor mem_store 3 (projr (sweepEncode dueCommandCursor mem_store 3 (-5) ''tok'')))"
    by code_simp
  with c have "isOK (sweepDecode dueCommandCursor mem_store 3 c)" by simp
  moreover have "length (sk_magic dueGateCursor) = 4" "sk_magic dueGateCursor \<noteq> sk_magic dueCommandCursor"
    by code_simp+
  ultimately show ?thesis
    using c sweep_cursor_is_scoped [OF mem_store_digest32 c _ mem_store_digest32, of dueGateCursor 3] isOK_D by blast
qed

subsection \<open>Objects\<close>

definition w_reference :: object_reference where
  "w_reference = objectIDFor ObjectKindArtifact (encodeObjectGeneration (replicate 16 (CHR ''g'')))
     (hex_encode (replicate 32 (CHR ''d'')))"

definition w_metadata :: object_metadata where
  "w_metadata = \<lparr>om_Reference = w_reference, om_SizeBytes = 5,
     om_Digest = objectDigestPrefix @ hex_encode (replicate 32 (CHR ''d'')), om_MediaType = ''text/plain'', om_CreatedAt = zeroTime\<rparr>"

theorem object_reference_canonical_witness:
  "\<exists>parsed. parseObjectReference mem_core w_reference = Inr parsed \<and>
     w_reference = objectIDFor (po_kind parsed) (po_generation parsed) (hex_encode (po_digest parsed))"
proof -
  have "isOK (parseObjectReference mem_core w_reference)" by code_simp
  then obtain parsed where "parseObjectReference mem_core w_reference = Inr parsed" by (rule isOK_E)
  with object_reference_canonical [OF this] show ?thesis by blast
qed

theorem object_metadata_round_trip_witness:
  "\<exists>data parsed. encodeObjectMetadataRecord ''t1'' ''s1'' w_metadata = Inr data \<and>
     parseObjectMetadata mem_core w_metadata = Inr parsed \<and>
     decodeObjectMetadataRecord mem_core data
       \<lparr>gm_TenantID = ''t1'', gm_SessionID = ''s1'', gm_ExpectedKind = po_kind parsed,
        gm_Reference = w_reference\<rparr> = Inr w_metadata"
proof -
  have "isOK (encodeObjectMetadataRecord ''t1'' ''s1'' w_metadata)" "isOK (parseObjectMetadata mem_core w_metadata)"
    by code_simp+
  then obtain data parsed where *: "encodeObjectMetadataRecord ''t1'' ''s1'' w_metadata = Inr data"
    "parseObjectMetadata mem_core w_metadata = Inr parsed" by (elim isOK_E)
  have "om_CreatedAt w_metadata = zeroTime" "om_Reference w_metadata = w_reference"
    "length (or_ObjectID (om_Reference w_metadata)) \<le> 256" by code_simp+
  with object_metadata_round_trip [OF *] * show ?thesis by simp
qed

subsection \<open>Records and frames\<close>

definition w_envelope :: Envelope where
  "w_envelope = (zeroEnvelope EnvelopeKindOpeningFence)\<lparr>en_LeaseEpoch := 7\<rparr>"

lemma mem_core_utf8: "core_utf8 mem_core"
  by (simp add: core_utf8_def mem_core_def Let_def ValidString_ascii)

lemma mem_utf8: "core_utf8 (st_core mem_store)"
  using mem_core_utf8 by (simp add: mem_store_def)

definition w_admit :: AdmitCommandRequest where
  "w_admit = \<lparr>ac_TenantID = ''t1'', ac_SessionID = ''s1'', ac_CommandID = ''c1'',
     ac_ProposedRuntimeCommandID = ''0123456789abcdef'', ac_Kind = ''prompt'', ac_Payload = ''hi'',
     ac_PayloadRef = \<lparr>or_ObjectID = []\<rparr>, ac_AcceptedAt = \<lparr>t_ns = 1700000000000000000, t_zone = 3600\<rparr>,
     ac_ApplyDeadline = \<lparr>t_ns = 1700000600000000000, t_zone = 0\<rparr>\<rparr>"

definition w_pending :: InboxRecord where
  "w_pending = \<lparr>ib_TenantID = ''t1'', ib_SessionID = ''s1'', ib_CommandID = ''c1'',
     ib_RuntimeCommandID = ''0123456789abcdef'', ib_Kind = ''prompt'', ib_Payload = ''hi'',
     ib_PayloadRef = \<lparr>or_ObjectID = []\<rparr>, ib_AcceptedAt = \<lparr>t_ns = 1700000000000000000, t_zone = 3600\<rparr>,
     ib_ApplyDeadline = \<lparr>t_ns = 1700000600000000000, t_zone = 0\<rparr>, ib_State = InboxStatePending,
     ib_Claim = zeroClaim, ib_Result = zeroResult, ib_Rejection = None\<rparr>"

theorem inbox_record_round_trip_witness:
  "\<exists>v r'. encodeInboxRecord mem_core w_pending = Inr (v, r') \<and> decodeInboxRecord mem_core v = Inr r'"
proof -
  have "isOK (encodeInboxRecord mem_core w_pending)" by code_simp
  then obtain v r' where "encodeInboxRecord mem_core w_pending = Inr (v, r')" by (auto elim!: isOK_E)
  with inbox_record_round_trip [OF mem_core_utf8 this] show ?thesis by blast
qed

theorem admission_is_idempotent_witness:
  "\<exists>entry t. AdmitCommand mem_store w_admit w_t0 = (Inr (entry, True), t) \<and>
     ie_Record entry = stampUTC (offeredCommand w_admit) \<and> ib_Payload (ie_Record entry) = ''hi'' \<and> ie_AcceptedOrder entry \<noteq> 0"
proof -
  have "case AdmitCommand mem_store w_admit w_t0 of (Inr (e, changed), t) \<Rightarrow> changed | _ \<Rightarrow> False" by code_simp
  then obtain entry t where *: "AdmitCommand mem_store w_admit w_t0 = (Inr (entry, True), t)" by (rule isOK_changedE)
  have "ac_Payload w_admit = ''hi''" by (simp add: w_admit_def)
  with admission_is_idempotent [OF mem_oi_contract mem_utf8 *] * show ?thesis by auto
qed

theorem envelope_round_trip_witness:
  "\<exists>frame. EncodeEnvelope mem_core w_envelope = Inr frame \<and> DecodeEnvelope mem_core frame = Inr w_envelope"
proof -
  have "isOK (EncodeEnvelope mem_core w_envelope)" by code_simp
  then obtain frame where *: "EncodeEnvelope mem_core w_envelope = Inr frame" by (rule isOK_E)
  have "envelope_typed mem_core w_envelope"
    by (simp add: envelope_typed_def slot_typed_def w_envelope_def zeroEnvelope_def emptySlot_def zeroUUID_def
        mem_core_def Let_def)
  with envelope_round_trip [OF *] * show ?thesis by blast
qed

end
