(* ===== verification/Inbox_Recovery.thy ===== *)
theory Inbox_Recovery
  imports Inbox Envelope
begin

text \<open>
  \<^verbatim>\<open>inbox_recovery.go\<close>: what the journal proves of a command.  An application prefix for the command
  is resolved by the record that follows it: a public event committed it, an opening fence of a
  later lease abandoned it, anything else (or nothing) leaves it unresolved.
\<close>

datatype CommandApplicationOutcome =
    CommandApplicationAbsent | CommandApplicationCommitted | CommandApplicationAbandoned
  | CommandApplicationUnresolved | CommandApplicationConflicted

fun precedence :: "CommandApplicationOutcome \<Rightarrow> nat" where
  "precedence CommandApplicationConflicted = 4"
| "precedence CommandApplicationCommitted = 3"
| "precedence CommandApplicationUnresolved = 2"
| "precedence CommandApplicationAbandoned = 1"
| "precedence CommandApplicationAbsent = 0"

record CommandApplication =
  ca_CommandID :: string
  ca_RuntimeCommandID :: string
  ca_Outcome :: CommandApplicationOutcome
  ca_PrefixSeq :: u64
  ca_PrefixEpoch :: u64
  ca_EffectSeq :: u64
  ca_EffectEventID :: string
  ca_SupersedingEpoch :: u64
  ca_CapturedTip :: u64

record correlatedPrefix =
  cp_seq :: u64
  cp_epoch :: u64

record commandEffect =
  ce_seq :: u64
  ce_eventID :: string

definition noEffect :: commandEffect where "noEffect = \<lparr>ce_seq = 0, ce_eventID = []\<rparr>"

definition namesEffect :: "CommandApplication \<Rightarrow> CommandResult \<Rightarrow> bool" where
  "namesEffect a result \<longleftrightarrow> ca_Outcome a = CommandApplicationCommitted \<and>
     cr_EventID result = ca_EffectEventID a \<and> cr_JournalSeq result = ca_EffectSeq a"

definition provesNoEffect :: "CommandApplication \<Rightarrow> bool" where
  "provesNoEffect a \<longleftrightarrow> ca_Outcome a = CommandApplicationAbsent \<or> ca_Outcome a = CommandApplicationAbandoned"

definition fences :: "CommandApplication \<Rightarrow> u64 \<Rightarrow> bool" where
  "fences a epoch \<longleftrightarrow> ca_SupersedingEpoch a > epoch"

definition observe ::
  "CommandApplication \<Rightarrow> CommandApplicationOutcome \<Rightarrow> correlatedPrefix \<Rightarrow> commandEffect \<Rightarrow> CommandApplication" where
  "observe a outcome pre effect =
    (if precedence outcome < precedence (ca_Outcome a) then a
     else a\<lparr>ca_Outcome := outcome, ca_PrefixSeq := cp_seq pre, ca_PrefixEpoch := cp_epoch pre,
            ca_EffectSeq := ce_seq effect, ca_EffectEventID := ce_eventID effect\<rparr>)"

definition resolve :: "CommandApplication \<Rightarrow> correlatedPrefix \<Rightarrow> u64 \<Rightarrow> Envelope \<Rightarrow> CommandApplication" where
  "resolve a pre s env =
    (if en_Kind env = EnvelopeKindPublicEvent
     then observe a CommandApplicationCommitted pre \<lparr>ce_seq = s, ce_eventID = en_EventID env\<rparr>
     else if en_Kind env = EnvelopeKindOpeningFence \<and> en_LeaseEpoch env > cp_epoch pre
     then observe a CommandApplicationAbandoned pre noEffect
     else observe a CommandApplicationUnresolved pre noEffect)"

text \<open>
  One decoded record: \<open>pend\<close> is the prefix the previous record opened, \<open>before\<close> whether the
  previous record was a prefix of any command.
\<close>

definition scanStep ::
  "string \<Rightarrow> InboxRecord \<Rightarrow> u64 \<Rightarrow> Envelope \<Rightarrow> CommandApplication \<times> correlatedPrefix option \<times> bool
    \<Rightarrow> CommandApplication \<times> correlatedPrefix option \<times> bool" where
  "scanStep runtime r s env = (\<lambda>(app, pend, before).
    (let app1 = (if en_Kind env = EnvelopeKindOpeningFence \<and> en_LeaseEpoch env > ca_SupersedingEpoch app
                 then app\<lparr>ca_SupersedingEpoch := en_LeaseEpoch env\<rparr> else app);
         app2 = (case pend of None \<Rightarrow> app1 | Some pre \<Rightarrow> resolve app1 pre s env);
         isPrefix = (en_Kind env = EnvelopeKindApplicationPrefix)
     in if isPrefix \<and> en_CommandID env = ib_CommandID r then
          (let held = \<lparr>cp_seq = s, cp_epoch = en_LeaseEpoch env\<rparr> in
           if en_RuntimeCommandID env \<noteq> runtime \<or> en_CommandKind env \<noteq> ib_Kind r
           then (observe app2 CommandApplicationConflicted held noEffect, None, isPrefix)
           else if before then (observe app2 CommandApplicationUnresolved held noEffect, None, isPrefix)
           else (app2, Some held, isPrefix))
        else (app2, None, isPrefix)))"

text \<open>
  The read loop over what the cursor yields: it ends at the end of the journal, past the captured
  tip, or at the tip.  The last component is the sequence number of the last record within the tip.
\<close>

fun scanLoop ::
  "core_lib \<Rightarrow> string \<Rightarrow> InboxRecord \<Rightarrow> u64 \<Rightarrow> (ledger_error + ledger_record) list \<Rightarrow> u64
    \<Rightarrow> CommandApplication \<times> correlatedPrefix option \<times> bool
    \<Rightarrow> err + u64 \<times> (CommandApplication \<times> correlatedPrefix option \<times> bool)" where
  "scanLoop c runtime r tip [] lst acc = Inr (lst, acc)"
| "scanLoop c runtime r tip (Inl e # items) lst acc = Inl (journalErr JournalErrorBackend ''read'')"
| "scanLoop c runtime r tip (Inr stored # items) lst acc =
    (if lr_Seq stored > tip then Inr (lst, acc)
     else (case DecodeEnvelope c (lr_Payload stored) of
        Inl _ \<Rightarrow> Inl (journalErr JournalErrorIntegrity ''record'')
      | Inr env \<Rightarrow>
          (let acc1 = scanStep runtime r (lr_Seq stored) env acc in
           if lr_Seq stored = tip then Inr (lr_Seq stored, acc1)
           else scanLoop c runtime r tip items (lr_Seq stored) acc1)))"

definition scanCommandApplication ::
  "'s store \<Rightarrow> sessionScope \<Rightarrow> InboxRecord \<Rightarrow> ('s, CommandApplication) store_op" where
  "scanCommandApplication st scope r =
    (let app = \<lparr>ca_CommandID = ib_CommandID r, ca_RuntimeCommandID = ib_RuntimeCommandID r,
         ca_Outcome = CommandApplicationAbsent, ca_PrefixSeq = 0, ca_PrefixEpoch = 0, ca_EffectSeq = 0,
         ca_EffectEventID = [], ca_SupersedingEpoch = 0, ca_CapturedTip = 0\<rparr>;
         runtime = uuid_of (st_core st) (ib_RuntimeCommandID r)
     in
     bindE (classifyE (\<lambda>_. journalErr JournalErrorBackend ''tip'') (lg_Tip st (sc_JournalName scope))) (\<lambda>tip.
     let app = app\<lparr>ca_CapturedTip := tip\<rparr> in
     if tip = 0 then returnE app
     else
      bindE (classifyE (\<lambda>_. journalErr JournalErrorBackend ''read'') (lg_Read st (sc_JournalName scope) 1)) (\<lambda>items.
      bindE (liftE (scanLoop (st_core st) runtime r tip items 0 (app, None, False))) (\<lambda>(lst, app, pend, _).
      if lst < tip then failE (journalErr JournalErrorIntegrity ''read'')
      else (case pend of
         None \<Rightarrow> returnE app
       | Some pre \<Rightarrow> returnE (observe app CommandApplicationUnresolved pre noEffect))))))"

record FindCommandApplicationRequest =
  fa_TenantID :: string
  fa_SessionID :: string
  fa_CommandID :: string

subsection \<open>What the scan reads\<close>

text \<open>The decoded records the loop visits: those through the captured tip.\<close>

type_synonym walked_records = "(u64 \<times> Envelope) list"

fun walked :: "core_lib \<Rightarrow> u64 \<Rightarrow> (ledger_error + ledger_record) list \<Rightarrow> walked_records option" where
  "walked c tip [] = Some []"
| "walked c tip (Inl e # items) = None"
| "walked c tip (Inr stored # items) =
    (if lr_Seq stored > tip then Some []
     else (case DecodeEnvelope c (lr_Payload stored) of
        Inl _ \<Rightarrow> None
      | Inr env \<Rightarrow>
          if lr_Seq stored = tip then Some [(lr_Seq stored, env)]
          else map_option ((#) (lr_Seq stored, env)) (walked c tip items)))"

abbreviation scan_records ::
  "string \<Rightarrow> InboxRecord \<Rightarrow> walked_records \<Rightarrow> CommandApplication \<times> correlatedPrefix option \<times> bool
    \<Rightarrow> CommandApplication \<times> correlatedPrefix option \<times> bool" where
  "scan_records runtime r recs acc \<equiv> foldl (\<lambda>a x. scanStep runtime r (fst x) (snd x) a) acc recs"

lemma scanLoop_walked:
  "scanLoop c runtime r tip items lst acc = Inr (l, acc') \<longleftrightarrow>
    (\<exists>recs. walked c tip items = Some recs \<and> acc' = scan_records runtime r recs acc \<and>
            l = (if recs = [] then lst else fst (last recs)))"
proof (induction c runtime r tip items lst acc rule: scanLoop.induct)
  case (3 c runtime r tip stored items lst acc)
  let ?acc = "\<lambda>env. scanStep runtime r (lr_Seq stored) env acc"
  show ?case
  proof (cases "lr_Seq stored > tip")
    case False
    then show ?thesis
    proof (cases "DecodeEnvelope c (lr_Payload stored)")
      case (Inr env)
      show ?thesis
      proof (cases "lr_Seq stored = tip")
        case True
        with Inr show ?thesis by (auto simp: Let_def)
      next
        case neq: False
        have "scanLoop c runtime r tip items (lr_Seq stored) (?acc env) = Inr (l, acc') \<longleftrightarrow>
          (\<exists>recs. walked c tip items = Some recs \<and> acc' = scan_records runtime r recs (?acc env) \<and>
            l = (if recs = [] then lr_Seq stored else fst (last recs)))"
          by (rule "3.IH" [OF False Inr refl neq])
        with False Inr neq show ?thesis
          by (cases "walked c tip items") (simp_all add: Let_def)
      qed
    qed simp
  qed auto
qed auto

subsection \<open>The correlation as a specification\<close>

text \<open>
  The finding of every prefix that names the command, in the order of the journal: a broken mapping
  conflicts, a prefix stacked behind another prefix is unresolved, and otherwise the record right
  after it decides.
\<close>

definition follow_up :: "u64 \<Rightarrow> Envelope \<Rightarrow> CommandApplicationOutcome" where
  "follow_up epoch env =
    (if en_Kind env = EnvelopeKindPublicEvent then CommandApplicationCommitted
     else if en_Kind env = EnvelopeKindOpeningFence \<and> en_LeaseEpoch env > epoch then CommandApplicationAbandoned
     else CommandApplicationUnresolved)"

definition outcome_after :: "u64 \<Rightarrow> walked_records \<Rightarrow> CommandApplicationOutcome" where
  "outcome_after epoch rest = (case rest of [] \<Rightarrow> CommandApplicationUnresolved | x # _ \<Rightarrow> follow_up epoch (snd x))"

lemma outcome_after_simps [simp]:
  "outcome_after e [] = CommandApplicationUnresolved" "outcome_after e (x # rest) = follow_up e (snd x)"
  by (simp_all add: outcome_after_def)

definition names_command :: "InboxRecord \<Rightarrow> Envelope \<Rightarrow> bool" where
  "names_command r env \<longleftrightarrow> en_Kind env = EnvelopeKindApplicationPrefix \<and> en_CommandID env = ib_CommandID r"

definition correlated :: "string \<Rightarrow> InboxRecord \<Rightarrow> Envelope \<Rightarrow> bool" where
  "correlated runtime r env \<longleftrightarrow>
     names_command r env \<and> en_RuntimeCommandID env = runtime \<and> en_CommandKind env = ib_Kind r"

fun findings :: "string \<Rightarrow> InboxRecord \<Rightarrow> bool \<Rightarrow> walked_records \<Rightarrow> CommandApplicationOutcome list" where
  "findings runtime r stacked [] = []"
| "findings runtime r stacked (x # rest) =
    (if names_command r (snd x) then
       [if \<not> correlated runtime r (snd x) then CommandApplicationConflicted
        else if stacked then CommandApplicationUnresolved
        else outcome_after (en_LeaseEpoch (snd x)) rest]
     else []) @
    findings runtime r (en_Kind (snd x) = EnvelopeKindApplicationPrefix) rest"

definition settled :: "CommandApplication \<times> correlatedPrefix option \<times> bool \<Rightarrow> CommandApplication" where
  "settled = (\<lambda>(app, pend, _). case pend of None \<Rightarrow> app
     | Some pre \<Rightarrow> observe app CommandApplicationUnresolved pre noEffect)"

definition worst :: "CommandApplicationOutcome list \<Rightarrow> nat \<Rightarrow> nat" where
  "worst os p = foldr (\<lambda>o' m. max (precedence o') m) os p"

lemma worst_simps [simp]:
  "worst [] p = p" "worst (x # xs) p = max (precedence x) (worst xs p)"
  "worst (xs @ ys) p = worst xs (worst ys p)"
  by (simp_all add: worst_def)

lemma worst_max: "worst xs (max a b) = max a (worst xs b)"
  by (induction xs) auto

lemma worst_ge: "x \<in> set xs \<Longrightarrow> precedence x \<le> worst xs p" "p \<le> worst xs p"
  by (induction xs) auto

lemma worst_cases: "worst xs p = p \<or> (\<exists>x \<in> set xs. worst xs p = precedence x)"
  by (induction xs) (auto simp: max_def)

lemma observe_precedence [simp]:
  "precedence (ca_Outcome (observe a outcome pre effect)) = max (precedence outcome) (precedence (ca_Outcome a))"
  by (simp add: observe_def max_def)

lemma observe_marks [simp]:
  "ca_SupersedingEpoch (observe a outcome pre effect) = ca_SupersedingEpoch a"
  "ca_CapturedTip (observe a outcome pre effect) = ca_CapturedTip a"
  by (simp_all add: observe_def)

lemma resolve_precedence [simp]:
  "precedence (ca_Outcome (resolve a pre s env)) =
     max (precedence (follow_up (cp_epoch pre) env)) (precedence (ca_Outcome a))"
  by (simp add: resolve_def follow_up_def)

lemma resolve_marks [simp]: "ca_SupersedingEpoch (resolve a pre s env) = ca_SupersedingEpoch a"
  by (simp add: resolve_def)

text \<open>What one step leaves pending, and the precedence it leaves.\<close>

lemma scanStep_shape:
  assumes "scanStep runtime r s env (app, pend, stacked) = (app', pend', b)"
  shows "b = (en_Kind env = EnvelopeKindApplicationPrefix)"
    "pend' = (if correlated runtime r env \<and> \<not> stacked then Some \<lparr>cp_seq = s, cp_epoch = en_LeaseEpoch env\<rparr> else None)"
    "precedence (ca_Outcome app') =
      max (if \<not> names_command r env then 0 else if \<not> correlated runtime r env then 4 else if stacked then 2 else 0)
        (max (case pend of None \<Rightarrow> 0 | Some pre \<Rightarrow> precedence (follow_up (cp_epoch pre) env)) (precedence (ca_Outcome app)))"
proof -
  define app2 where "app2 =
    (let app1 = (if en_Kind env = EnvelopeKindOpeningFence \<and> en_LeaseEpoch env > ca_SupersedingEpoch app
                 then app\<lparr>ca_SupersedingEpoch := en_LeaseEpoch env\<rparr> else app)
     in case pend of None \<Rightarrow> app1 | Some pre \<Rightarrow> resolve app1 pre s env)"
  have 2: "precedence (ca_Outcome app2) =
    max (case pend of None \<Rightarrow> 0 | Some pre \<Rightarrow> precedence (follow_up (cp_epoch pre) env)) (precedence (ca_Outcome app))"
    by (auto simp: app2_def Let_def split: option.split)
  have step: "scanStep runtime r s env (app, pend, stacked) =
    (let isPrefix = (en_Kind env = EnvelopeKindApplicationPrefix); held = \<lparr>cp_seq = s, cp_epoch = en_LeaseEpoch env\<rparr>
     in if isPrefix \<and> en_CommandID env = ib_CommandID r then
          (if en_RuntimeCommandID env \<noteq> runtime \<or> en_CommandKind env \<noteq> ib_Kind r
           then (observe app2 CommandApplicationConflicted held noEffect, None, isPrefix)
           else if stacked then (observe app2 CommandApplicationUnresolved held noEffect, None, isPrefix)
           else (app2, Some held, isPrefix))
        else (app2, None, isPrefix))"
    by (simp add: scanStep_def app2_def Let_def)
  show "b = (en_Kind env = EnvelopeKindApplicationPrefix)"
    "pend' = (if correlated runtime r env \<and> \<not> stacked then Some \<lparr>cp_seq = s, cp_epoch = en_LeaseEpoch env\<rparr> else None)"
    using assms unfolding step by (auto simp: Let_def correlated_def names_command_def split: if_split_asm)
  show "precedence (ca_Outcome app') =
      max (if \<not> names_command r env then 0 else if \<not> correlated runtime r env then 4 else if stacked then 2 else 0)
        (max (case pend of None \<Rightarrow> 0 | Some pre \<Rightarrow> precedence (follow_up (cp_epoch pre) env)) (precedence (ca_Outcome app)))"
    unfolding 2 [symmetric]
    using assms unfolding step by (auto simp: Let_def correlated_def names_command_def split: if_split_asm)
qed

text \<open>The fold computes the worst of the findings.\<close>

lemma scan_worst:
  "precedence (ca_Outcome (settled (scan_records runtime r recs (app, pend, stacked)))) =
    max (case pend of None \<Rightarrow> 0 | Some pre \<Rightarrow> precedence (outcome_after (cp_epoch pre) recs))
        (worst (findings runtime r stacked recs) (precedence (ca_Outcome app)))"
proof (induction recs arbitrary: app pend stacked)
  case Nil
  show ?case by (simp add: settled_def split: option.split)
next
  case (Cons x recs)
  obtain app' pend' b where step: "scanStep runtime r (fst x) (snd x) (app, pend, stacked) = (app', pend', b)"
    by (metis prod_cases3)
  note shape = scanStep_shape [OF step]
  have "precedence (ca_Outcome (settled (scan_records runtime r (x # recs) (app, pend, stacked)))) =
    max (case pend' of None \<Rightarrow> 0 | Some pre \<Rightarrow> precedence (outcome_after (cp_epoch pre) recs))
        (worst (findings runtime r b recs) (precedence (ca_Outcome app')))"
    by (simp add: step Cons.IH)
  moreover define W where "W = worst (findings runtime r b recs) (precedence (ca_Outcome app))"
  moreover define F where "F = (case pend of None \<Rightarrow> 0 | Some pre \<Rightarrow> precedence (follow_up (cp_epoch pre) (snd x)))"
  ultimately have lhs: "precedence (ca_Outcome (settled (scan_records runtime r (x # recs) (app, pend, stacked)))) =
    max (case pend' of None \<Rightarrow> 0 | Some pre \<Rightarrow> precedence (outcome_after (cp_epoch pre) recs))
        (max (if \<not> names_command r (snd x) then 0 else if \<not> correlated runtime r (snd x) then 4
              else if stacked then 2 else 0) (max F W))"
    unfolding shape(3) worst_max by simp
  have rhs: "max (case pend of None \<Rightarrow> 0 | Some pre \<Rightarrow> precedence (outcome_after (cp_epoch pre) (x # recs)))
      (worst (findings runtime r stacked (x # recs)) (precedence (ca_Outcome app))) =
    max F (if \<not> names_command r (snd x) then W
           else max (precedence (if \<not> correlated runtime r (snd x) then CommandApplicationConflicted
              else if stacked then CommandApplicationUnresolved
              else outcome_after (en_LeaseEpoch (snd x)) recs)) W)"
    by (simp add: F_def W_def shape(1) split: option.split)
  have "correlated runtime r (snd x) \<Longrightarrow> names_command r (snd x)" by (simp add: correlated_def)
  then show ?case
    unfolding lhs rhs shape(2) by (auto simp: max.left_commute max.commute)
qed

text \<open>The highest fence the walk passed.\<close>

lemma scanStep_superseding:
  "ca_SupersedingEpoch (fst (scanStep runtime r s env (app, pend, b))) =
    (if en_Kind env = EnvelopeKindOpeningFence then max (en_LeaseEpoch env) (ca_SupersedingEpoch app)
     else ca_SupersedingEpoch app)"
  by (auto simp: scanStep_def Let_def max_def not_less split: option.split)

lemma scan_superseding:
  assumes "e < ca_SupersedingEpoch (fst (scan_records runtime r recs acc))" and "ca_SupersedingEpoch (fst acc) \<le> e"
  shows "\<exists>x \<in> set recs. en_Kind (snd x) = EnvelopeKindOpeningFence \<and> e < en_LeaseEpoch (snd x)"
  using assms
proof (induction recs arbitrary: acc)
  case Nil
  then show ?case by simp
next
  case (Cons x recs)
  obtain app pend b where acc: "acc = (app, pend, b)" by (cases acc) auto
  let ?acc' = "scanStep runtime r (fst x) (snd x) acc"
  show ?case
  proof (cases "ca_SupersedingEpoch (fst ?acc') \<le> e")
    case True
    with Cons.IH [of ?acc'] Cons.prems(1) show ?thesis by auto
  next
    case False
    with Cons.prems(2) have "en_Kind (snd x) = EnvelopeKindOpeningFence \<and> e < en_LeaseEpoch (snd x)"
      by (auto simp: acc scanStep_superseding max_def split: if_split_asm)
    then show ?thesis by auto
  qed
qed

text \<open>A committed finding names a correlated prefix and the public event right after it.\<close>

definition effect_in :: "string \<Rightarrow> InboxRecord \<Rightarrow> walked_records \<Rightarrow> u64 \<Rightarrow> string \<Rightarrow> bool" where
  "effect_in runtime r recs s eventID \<longleftrightarrow>
    (\<exists>i. Suc i < length recs \<and> correlated runtime r (snd (recs ! i)) \<and>
         en_Kind (snd (recs ! Suc i)) = EnvelopeKindPublicEvent \<and>
         fst (recs ! Suc i) = s \<and> en_EventID (snd (recs ! Suc i)) = eventID)"

definition scan_inv :: "string \<Rightarrow> InboxRecord \<Rightarrow> walked_records \<Rightarrow> CommandApplication \<times> correlatedPrefix option \<times> bool \<Rightarrow> bool" where
  "scan_inv runtime r ps = (\<lambda>(app, pend, b).
     (pend \<noteq> None \<longrightarrow> ps \<noteq> [] \<and> correlated runtime r (snd (last ps))) \<and>
     (ca_Outcome app = CommandApplicationCommitted \<longrightarrow>
        effect_in runtime r ps (ca_EffectSeq app) (ca_EffectEventID app)))"

lemma effect_in_snoc: "effect_in runtime r ps s e \<Longrightarrow> effect_in runtime r (ps @ [x]) s e"
  unfolding effect_in_def by (auto simp: nth_append)

lemma effect_in_last:
  "\<lbrakk>ps \<noteq> []; correlated runtime r (snd (last ps)); en_Kind env = EnvelopeKindPublicEvent\<rbrakk> \<Longrightarrow>
     effect_in runtime r (ps @ [(s, env)]) s (en_EventID env)"
  unfolding effect_in_def
  by (rule exI [of _ "length ps - 1"]) (auto simp: nth_append last_conv_nth)

lemma observe_committed:
  "ca_Outcome (observe a outcome pre effect) = CommandApplicationCommitted \<Longrightarrow>
     ca_Outcome a = CommandApplicationCommitted \<and> observe a outcome pre effect = a \<or>
     outcome = CommandApplicationCommitted \<and>
     ca_EffectSeq (observe a outcome pre effect) = ce_seq effect \<and>
     ca_EffectEventID (observe a outcome pre effect) = ce_eventID effect"
  by (auto simp: observe_def split: if_split_asm)

lemma scan_inv_step:
  assumes "scan_inv runtime r ps acc"
  shows "scan_inv runtime r (ps @ [(s, env)]) (scanStep runtime r s env acc)"
proof -
  obtain app pend b where acc: "acc = (app, pend, b)" by (cases acc) auto
  let ?app1 = "if en_Kind env = EnvelopeKindOpeningFence \<and> en_LeaseEpoch env > ca_SupersedingEpoch app
                 then app\<lparr>ca_SupersedingEpoch := en_LeaseEpoch env\<rparr> else app"
  let ?app2 = "case pend of None \<Rightarrow> ?app1 | Some pre \<Rightarrow> resolve ?app1 pre s env"
  let ?P = "\<lambda>a. ca_Outcome a = CommandApplicationCommitted \<longrightarrow>
     effect_in runtime r (ps @ [(s, env)]) (ca_EffectSeq a) (ca_EffectEventID a)"
  have 1: "?P ?app1" using assms by (auto simp: scan_inv_def acc intro: effect_in_snoc)
  have 2: "?P ?app2"
  proof (cases pend)
    case None
    with 1 show ?thesis by simp
  next
    case (Some pre)
    with assms have "ps \<noteq> []" "correlated runtime r (snd (last ps))" by (simp_all add: scan_inv_def acc)
    with 1 Some show ?thesis
      by (auto simp: resolve_def dest!: observe_committed intro: effect_in_last split: if_split_asm)
  qed
  have "?P (observe a outcome held noEffect)" if "?P a" "outcome \<noteq> CommandApplicationCommitted" for a outcome held
    using that by (auto dest!: observe_committed)
  note 3 = this [OF 2]
  show ?thesis
    using 2 3 by (auto simp: acc scan_inv_def scanStep_def Let_def correlated_def names_command_def)
qed

lemma scan_inv_records: "scan_inv runtime r ps acc \<Longrightarrow> scan_inv runtime r (ps @ recs) (scan_records runtime r recs acc)"
proof (induction recs arbitrary: ps acc)
  case (Cons x recs)
  from Cons.IH [OF scan_inv_step [OF Cons.prems, of "fst x" "snd x"]] show ?case by simp
qed simp

text \<open>The verdict over all findings: the least settleable one, a durable effect above an open attempt.\<close>

definition verdict :: "CommandApplicationOutcome list \<Rightarrow> CommandApplicationOutcome" where
  "verdict fs =
    (if CommandApplicationConflicted \<in> set fs then CommandApplicationConflicted
     else if CommandApplicationCommitted \<in> set fs then CommandApplicationCommitted
     else if CommandApplicationUnresolved \<in> set fs then CommandApplicationUnresolved
     else if CommandApplicationAbandoned \<in> set fs then CommandApplicationAbandoned
     else CommandApplicationAbsent)"

lemma precedence_inject: "precedence x = precedence y \<longleftrightarrow> x = y"
  by (cases x; cases y) simp_all

lemma precedence_le: "precedence x \<le> 4"
  by (cases x) simp_all

lemma worst_verdict: "worst fs 0 = precedence (verdict fs)"
proof (rule antisym)
  have "precedence x \<le> precedence (verdict fs)" if "x \<in> set fs" for x
    using that by - (cases x; auto simp: verdict_def)
  then show "worst fs 0 \<le> precedence (verdict fs)"
    using worst_cases [of fs 0] by auto
next
  have "verdict fs = CommandApplicationAbsent \<or> verdict fs \<in> set fs" by (auto simp: verdict_def)
  then show "precedence (verdict fs) \<le> worst fs 0"
    using worst_ge(1) by fastforce
qed

lemma findings_not_absent: "CommandApplicationAbsent \<notin> set (findings runtime r stacked recs)"
proof (induction recs arbitrary: stacked)
  case (Cons x recs)
  have "outcome_after e ys \<noteq> CommandApplicationAbsent" for e ys
    by (cases ys) (simp_all add: follow_up_def)
  with Cons show ?case by (auto simp: eq_commute)
qed simp

lemma verdict_no_effect:
  assumes "verdict fs = CommandApplicationAbsent \<or> verdict fs = CommandApplicationAbandoned"
    and "CommandApplicationAbsent \<notin> set fs"
  shows "set fs \<subseteq> {CommandApplicationAbandoned}"
proof
  fix x assume "x \<in> set fs"
  with assms show "x \<in> {CommandApplicationAbandoned}"
    by - (cases x; auto simp: verdict_def split: if_split_asm)
qed

text \<open>
  \<open>scan_reads st scope tip recs s t\<close>: the walk captured the tip, read the journal of the session from
  its first record, and visited \<open>recs\<close>, which reach the tip.
\<close>

definition scan_reads :: "'s store \<Rightarrow> sessionScope \<Rightarrow> u64 \<Rightarrow> walked_records \<Rightarrow> 's \<Rightarrow> 's \<Rightarrow> bool" where
  "scan_reads st scope tip recs s t \<longleftrightarrow>
    (\<exists>u. lg_Tip st (sc_JournalName scope) s = (Inr tip, u) \<and>
      (if tip = 0 then recs = [] \<and> t = u
       else (\<exists>items. lg_Read st (sc_JournalName scope) 1 u = (Inr items, t) \<and>
              walked (st_core st) tip items = Some recs \<and> recs \<noteq> [] \<and> tip \<le> fst (last recs))))"

lemma scan_settled:
  assumes "scan_records runtime r recs (app, None, False) = (app', pend, b)"
    and "app'' = settled (app', pend, b)" and "ca_Outcome app = CommandApplicationAbsent"
  shows "ca_Outcome app'' = verdict (findings runtime r False recs)"
    "ca_Outcome app'' = CommandApplicationCommitted \<Longrightarrow>
       effect_in runtime r recs (ca_EffectSeq app'') (ca_EffectEventID app'')"
    "\<lbrakk>e < ca_SupersedingEpoch app''; ca_SupersedingEpoch app = 0\<rbrakk> \<Longrightarrow>
       \<exists>x \<in> set recs. en_Kind (snd x) = EnvelopeKindOpeningFence \<and> e < en_LeaseEpoch (snd x)"
proof -
  have "precedence (ca_Outcome app'') = precedence (verdict (findings runtime r False recs))"
    using scan_worst [of runtime r app None False recs] assms by (simp add: worst_verdict)
  then show "ca_Outcome app'' = verdict (findings runtime r False recs)" by (simp add: precedence_inject)
  have "scan_inv runtime r [] (app, None, False)" using assms(3) by (simp add: scan_inv_def)
  from scan_inv_records [OF this, of recs] assms(1) have inv: "scan_inv runtime r recs (app', pend, b)" by simp
  show "effect_in runtime r recs (ca_EffectSeq app'') (ca_EffectEventID app'')"
    if "ca_Outcome app'' = CommandApplicationCommitted"
    using inv that assms(2) by (auto simp: scan_inv_def settled_def dest!: observe_committed split: option.split_asm)
  have "ca_SupersedingEpoch app'' = ca_SupersedingEpoch app'"
    using assms(2) by (simp add: settled_def split: option.split)
  then show "\<exists>x \<in> set recs. en_Kind (snd x) = EnvelopeKindOpeningFence \<and> e < en_LeaseEpoch (snd x)"
    if "e < ca_SupersedingEpoch app''" "ca_SupersedingEpoch app = 0"
    using scan_superseding [of e runtime r "(app, None, False)" recs] that assms(1) by simp
qed

lemma scan_verdict:
  assumes "scanCommandApplication st scope r s = (Inr app, t)"
  shows "\<exists>recs. scan_reads st scope (ca_CapturedTip app) recs s t \<and>
    ca_Outcome app = verdict (findings (uuid_of (st_core st) (ib_RuntimeCommandID r)) r False recs) \<and>
    (ca_Outcome app = CommandApplicationCommitted \<longrightarrow>
       effect_in (uuid_of (st_core st) (ib_RuntimeCommandID r)) r recs (ca_EffectSeq app) (ca_EffectEventID app)) \<and>
    (\<forall>e. fences app e \<longrightarrow> (\<exists>x \<in> set recs. en_Kind (snd x) = EnvelopeKindOpeningFence \<and> e < en_LeaseEpoch (snd x)))"
proof -
  let ?rt = "uuid_of (st_core st) (ib_RuntimeCommandID r)"
  define app0 where "app0 = \<lparr>ca_CommandID = ib_CommandID r, ca_RuntimeCommandID = ib_RuntimeCommandID r,
         ca_Outcome = CommandApplicationAbsent, ca_PrefixSeq = 0, ca_PrefixEpoch = 0, ca_EffectSeq = 0,
         ca_EffectEventID = [], ca_SupersedingEpoch = 0, ca_CapturedTip = 0\<rparr>"
  from assms obtain tip u where tip: "lg_Tip st (sc_JournalName scope) s = (Inr tip, u)"
    and rest: "(if tip = 0 then returnE (app0\<lparr>ca_CapturedTip := tip\<rparr>)
     else
      bindE (classifyE (\<lambda>_. journalErr JournalErrorBackend ''read'') (lg_Read st (sc_JournalName scope) 1)) (\<lambda>items.
      bindE (liftE (scanLoop (st_core st) ?rt r tip items 0 (app0\<lparr>ca_CapturedTip := tip\<rparr>, None, False))) (\<lambda>(lst, app, pend, _).
      if lst < tip then failE (journalErr JournalErrorIntegrity ''read'')
      else (case pend of
         None \<Rightarrow> returnE app
       | Some pre \<Rightarrow> returnE (observe app CommandApplicationUnresolved pre noEffect))))) u = (Inr app, t)"
    unfolding scanCommandApplication_def app0_def [symmetric] Let_def by (auto elim!: bindE_InrE)
  show ?thesis
  proof (cases "tip = 0")
    case True
    with rest tip show ?thesis
      by (auto simp: scan_reads_def app0_def verdict_def fences_def intro!: exI [of _ "[]"])
  next
    case False
    from rest obtain items where items: "lg_Read st (sc_JournalName scope) 1 u = (Inr items, t)"
      and loop': "(case scanLoop (st_core st) ?rt r tip items 0 (app0\<lparr>ca_CapturedTip := tip\<rparr>, None, False) of
        Inl e \<Rightarrow> False | Inr (lst, app', pend, b) \<Rightarrow> \<not> lst < tip \<and> app = settled (app', pend, b))"
      unfolding if_not_P [OF False]
      by (auto simp: settled_def elim!: bindE_InrE split: if_split_asm option.split_asm option.split)
    then obtain lst app' pend b where
      loop: "scanLoop (st_core st) ?rt r tip items 0 (app0\<lparr>ca_CapturedTip := tip\<rparr>, None, False) =
        Inr (lst, app', pend, b)"
      and lst: "\<not> lst < tip" and app: "app = settled (app', pend, b)"
      by (cases "scanLoop (st_core st) ?rt r tip items 0 (app0\<lparr>ca_CapturedTip := tip\<rparr>, None, False)") auto
    from scanLoop_walked [THEN iffD1, OF loop]
    obtain recs where recs: "walked (st_core st) tip items = Some recs"
      and scan': "(app', pend, b) = scan_records ?rt r recs (app0\<lparr>ca_CapturedTip := tip\<rparr>, None, False)"
      and lst': "lst = (if recs = [] then 0 else fst (last recs))" by blast
    note scan = scan' [symmetric]
    have reach: "\<not> (if recs = [] then 0 else fst (last recs)) < tip" using lst unfolding lst' .
    have keep: "ca_CapturedTip (fst (scan_records ?rt r recs acc)) = ca_CapturedTip (fst acc)" for acc
    proof (induction recs arbitrary: acc)
      case (Cons x recs)
      obtain a p q where "acc = (a, p, q)" by (cases acc) auto
      then show ?case
        by (simp add: Cons.IH) (simp add: scanStep_def Let_def resolve_def split: option.split)
    qed simp
    from keep [of "(app0\<lparr>ca_CapturedTip := tip\<rparr>, None, False)"] scan
    have "ca_CapturedTip app = tip" by (simp add: app settled_def split: option.split)
    moreover have "scan_reads st scope tip recs s t"
      using False tip items recs reach by (auto simp: scan_reads_def not_less split: if_split_asm)
    moreover note scan_settled [OF scan app]
    ultimately show ?thesis by (auto simp: app0_def fences_def)
  qed
qed

text \<open>
  C4. The recovery scan computes the specified verdict.  When it answers, it has read every record
  of the session's journal through the tip it reports, and its outcome is the verdict over the
  findings of all prefixes naming the command: conflict over committed over unresolved over
  abandoned, absent when no prefix names it.  A committed answer names the public event that directly
  follows a prefix with the stored runtime identity and kind, and every epoch it calls superseded is
  below an opening fence in the journal.
\<close>

theorem recovery_scan_computes_verdict:
  assumes "scanCommandApplication st scope r s = (Inr app, t)"
  shows "\<exists>recs. scan_reads st scope (ca_CapturedTip app) recs s t \<and>
    ca_Outcome app = verdict (findings (uuid_of (st_core st) (ib_RuntimeCommandID r)) r False recs) \<and>
    (ca_Outcome app = CommandApplicationCommitted \<longrightarrow>
       effect_in (uuid_of (st_core st) (ib_RuntimeCommandID r)) r recs (ca_EffectSeq app) (ca_EffectEventID app)) \<and>
    (\<forall>e. fences app e \<longrightarrow> (\<exists>x \<in> set recs. en_Kind (snd x) = EnvelopeKindOpeningFence \<and> e < en_LeaseEpoch (snd x)))"
  by (rule scan_verdict [OF assms])

end
