(* ===== verification/Inbox_Claim.thy ===== *)
theory Inbox_Claim
  imports Inbox_Recovery
begin

text \<open>
  \<^verbatim>\<open>inbox_claim.go\<close>: the transitions of an accepted legacy command (claim, begin applying, complete,
  reject), the read and the public status, and \<^verbatim>\<open>FindCommandApplication\<close> of
  \<^verbatim>\<open>inbox_recovery.go\<close>.  The lemmas give what one successful transition did to the row it named,
  and from it the edges of the lifecycle, the fence of lease epochs and the evidence a settlement rests on.
\<close>

definition MaxCommandClaimTTL :: int where "MaxCommandClaimTTL = Hour"

record ClaimCommandRequest =
  cl_TenantID :: string
  cl_SessionID :: string
  cl_CommandID :: string
  cl_ExpectedRevision :: u64
  cl_LeaseEpoch :: u64
  cl_ClaimExpiresAt :: gotime

record BeginApplyingCommandRequest =
  ba_TenantID :: string
  ba_SessionID :: string
  ba_CommandID :: string
  ba_ExpectedRevision :: u64
  ba_LeaseEpoch :: u64
  ba_ClaimExpiresAt :: gotime

record CompleteCommandRequest =
  co_TenantID :: string
  co_SessionID :: string
  co_CommandID :: string
  co_ExpectedRevision :: u64
  co_LeaseEpoch :: u64
  co_Result :: CommandResult

record RejectCommandRequest =
  rj_TenantID :: string
  rj_SessionID :: string
  rj_CommandID :: string
  rj_ExpectedRevision :: u64
  rj_LeaseEpoch :: u64
  rj_Rejection :: error_detail

record GetCommandRequest =
  gc_TenantID :: string
  gc_SessionID :: string
  gc_CommandID :: string

record inboxTransition =
  it_State :: InboxState
  it_Claim :: CommandClaim
  it_Result :: CommandResult
  it_Rejection :: "error_detail option"

subsection \<open>Shared steps\<close>

definition beginInboxTransition ::
  "'s store \<Rightarrow> string \<Rightarrow> string \<Rightarrow> string \<Rightarrow> u64 \<Rightarrow> u64 \<Rightarrow> bool \<Rightarrow> ('s, sessionScope \<times> gotime) store_op" where
  "beginInboxTransition st tenant session command expectedRevision leaseEpoch leaseRequired =
    bindE (liftE (deriveSessionScope st tenant session)) (\<lambda>scope.
    if \<not> command_ok (st_core st) command then failE (inboxErr InboxErrorInvalid ''command_id'')
    else if expectedRevision = 0 then failE (inboxErr InboxErrorInvalid ''expected_revision'')
    else if leaseRequired \<and> leaseEpoch = 0 then failE (inboxErr InboxErrorInvalid ''lease_epoch'')
    else bindE (askE (st_Now st)) (\<lambda>now. returnE (scope, now)))"

definition requestedClaim :: "u64 \<Rightarrow> gotime \<Rightarrow> gotime \<Rightarrow> err + CommandClaim" where
  "requestedClaim epoch expiresAt now =
    (let claim = \<lparr>cc_LeaseEpoch = epoch, cc_ExpiresAt = expiresAt\<rparr> in
     bindR (validateCommandClaim claim) (\<lambda>_.
     bindR (validateBoundedExpiry expiresAt now MaxCommandClaimTTL ''claim_expires_at'' inboxInvalid) (\<lambda>_.
     Inr claim)))"

definition claimLive :: "InboxRecord \<Rightarrow> gotime \<Rightarrow> bool" where
  "claimLive r now \<longleftrightarrow> \<not> claim_isZero (ib_Claim r) \<and> Before now (cc_ExpiresAt (ib_Claim r))"

definition commandEpochFence :: "InboxRecord \<Rightarrow> u64 \<Rightarrow> err + unit" where
  "commandEpochFence r epoch = epochFence (cc_LeaseEpoch (ib_Claim r)) epoch (inboxEpoch ''lease_epoch'')"

definition commandClaimFence :: "InboxRecord \<Rightarrow> u64 \<Rightarrow> err + unit" where
  "commandClaimFence r epoch =
    bindR (commandEpochFence r epoch) (\<lambda>_.
    if epoch \<noteq> cc_LeaseEpoch (ib_Claim r) then Inl (inboxErr InboxErrorClaimLost ''lease_epoch'') else Inr ())"

definition readInboxEntry ::
  "'s store \<Rightarrow> sessionScope \<Rightarrow> string \<Rightarrow> string \<Rightarrow> string \<Rightarrow> ('s, InboxEntry) store_op" where
  "readInboxEntry st scope tenant session command =
    bindE (verifySessionScope st scope) (\<lambda>_.
    bindE (classifyE (\<lambda>e. classifyInboxOrderedError e ''get'') (oi_Get st (inboxID scope command))) (\<lambda>stored.
    liftE (inboxEntryFor (st_core st) stored scope tenant session command)))"

definition currentInboxEntry ::
  "'s store \<Rightarrow> sessionScope \<Rightarrow> string \<Rightarrow> string \<Rightarrow> string \<Rightarrow> u64 \<Rightarrow> ('s, InboxEntry) store_op" where
  "currentInboxEntry st scope tenant session command expectedRevision =
    bindE (readInboxEntry st scope tenant session command) (\<lambda>current.
    bindE (bindProtocolMode st scope ProtocolModeLegacy) (\<lambda>_.
    if ie_EntryRevision current \<noteq> expectedRevision
      then failE (inboxConflict ''expected_revision'' (ie_EntryRevision current))
    else if terminal (ib_State (ie_Record current)) then failE (inboxErr InboxErrorTerminal ''state'')
    else returnE current))"

definition transitioned :: "InboxRecord \<Rightarrow> inboxTransition \<Rightarrow> InboxRecord" where
  "transitioned r next = r\<lparr>ib_State := it_State next, ib_Claim := it_Claim next,
     ib_Result := it_Result next, ib_Rejection := it_Rejection next\<rparr>"

definition commitInboxTransition ::
  "'s store \<Rightarrow> sessionScope \<Rightarrow> InboxEntry \<Rightarrow> inboxTransition \<Rightarrow> ('s, InboxEntry) store_op" where
  "commitInboxTransition st scope current next =
    bindE (liftE (encodeInboxRecord (st_core st) (transitioned (ie_Record current) next))) (\<lambda>(v, r).
    bindE (classifyE (\<lambda>e. classifyInboxOrderedError e ''update'')
      (oi_Update st (inboxID scope (ib_CommandID r)) (ie_EntryRevision current) v noRank (inboxDue r))) (\<lambda>stored.
    liftE (inboxEntryFor (st_core st) stored scope (ib_TenantID r) (ib_SessionID r) (ib_CommandID r))))"

subsection \<open>The operations\<close>

definition GetCommand :: "'s store \<Rightarrow> GetCommandRequest \<Rightarrow> ('s, InboxEntry) store_op" where
  "GetCommand st req =
    bindE (liftE (deriveSessionScope st (gc_TenantID req) (gc_SessionID req))) (\<lambda>scope.
    if \<not> command_ok (st_core st) (gc_CommandID req) then failE (inboxErr InboxErrorInvalid ''command_id'')
    else bindE (admitForeground st) (\<lambda>_.
      readInboxEntry st scope (gc_TenantID req) (gc_SessionID req) (gc_CommandID req)))"

definition ClaimCommand :: "'s store \<Rightarrow> ClaimCommandRequest \<Rightarrow> ('s, InboxEntry) store_op" where
  "ClaimCommand st req =
    bindE (beginInboxTransition st (cl_TenantID req) (cl_SessionID req) (cl_CommandID req)
      (cl_ExpectedRevision req) (cl_LeaseEpoch req) True) (\<lambda>(scope, now).
    bindE (liftE (requestedClaim (cl_LeaseEpoch req) (cl_ClaimExpiresAt req) now)) (\<lambda>claim.
    bindE (admitForeground st) (\<lambda>_.
    bindE (currentInboxEntry st scope (cl_TenantID req) (cl_SessionID req) (cl_CommandID req)
      (cl_ExpectedRevision req)) (\<lambda>current.
    if ib_State (ie_Record current) = InboxStateApplying then failE (inboxErr InboxErrorState ''state'')
    else bindE (liftE (commandEpochFence (ie_Record current) (cl_LeaseEpoch req))) (\<lambda>_.
    if \<not> Before now (ib_ApplyDeadline (ie_Record current))
      then failE (inboxErr InboxErrorDeadline ''apply_deadline'')
    else if claimLive (ie_Record current) now \<and> cl_LeaseEpoch req = cc_LeaseEpoch (ib_Claim (ie_Record current))
      then failE (inboxErr InboxErrorClaimHeld ''claim'')
    else commitInboxTransition st scope current
      \<lparr>it_State = InboxStateClaimed, it_Claim = claim, it_Result = zeroResult, it_Rejection = None\<rparr>)))))"

definition BeginApplyingCommand :: "'s store \<Rightarrow> BeginApplyingCommandRequest \<Rightarrow> ('s, InboxEntry) store_op" where
  "BeginApplyingCommand st req =
    bindE (beginInboxTransition st (ba_TenantID req) (ba_SessionID req) (ba_CommandID req)
      (ba_ExpectedRevision req) (ba_LeaseEpoch req) True) (\<lambda>(scope, now).
    bindE (liftE (requestedClaim (ba_LeaseEpoch req) (ba_ClaimExpiresAt req) now)) (\<lambda>claim.
    bindE (admitForeground st) (\<lambda>_.
    bindE (currentInboxEntry st scope (ba_TenantID req) (ba_SessionID req) (ba_CommandID req)
      (ba_ExpectedRevision req)) (\<lambda>current.
    if ib_State (ie_Record current) \<noteq> InboxStateClaimed then failE (inboxErr InboxErrorState ''state'')
    else bindE (liftE (commandClaimFence (ie_Record current) (ba_LeaseEpoch req))) (\<lambda>_.
    if \<not> claimLive (ie_Record current) now then failE (inboxErr InboxErrorClaimLost ''claim'')
    else commitInboxTransition st scope current
      \<lparr>it_State = InboxStateApplying, it_Claim = claim, it_Result = zeroResult, it_Rejection = None\<rparr>)))))"

definition CompleteCommand :: "'s store \<Rightarrow> CompleteCommandRequest \<Rightarrow> ('s, InboxEntry) store_op" where
  "CompleteCommand st req =
    bindE (beginInboxTransition st (co_TenantID req) (co_SessionID req) (co_CommandID req)
      (co_ExpectedRevision req) (co_LeaseEpoch req) True) (\<lambda>(scope, _).
    if result_isZero (co_Result req) then failE (inboxErr InboxErrorInvalid ''result'')
    else bindE (liftE (validateCommandResult (st_core st) (co_Result req))) (\<lambda>_.
    bindE (admitForeground st) (\<lambda>_.
    bindE (currentInboxEntry st scope (co_TenantID req) (co_SessionID req) (co_CommandID req)
      (co_ExpectedRevision req)) (\<lambda>current.
    if ib_State (ie_Record current) \<noteq> InboxStateApplying then failE (inboxErr InboxErrorState ''state'')
    else bindE (liftE (commandEpochFence (ie_Record current) (co_LeaseEpoch req))) (\<lambda>_.
    bindE (if co_LeaseEpoch req \<noteq> cc_LeaseEpoch (ib_Claim (ie_Record current)) then
             bindE (scanCommandApplication st scope (ie_Record current)) (\<lambda>application.
             if \<not> namesEffect application (co_Result req) then failE (inboxErr InboxErrorEvidence ''result'')
             else returnE ())
           else returnE ()) (\<lambda>_.
    commitInboxTransition st scope current
      \<lparr>it_State = InboxStateApplied, it_Claim = ib_Claim (ie_Record current), it_Result = co_Result req,
       it_Rejection = None\<rparr>))))))"

definition RejectCommand :: "'s store \<Rightarrow> RejectCommandRequest \<Rightarrow> ('s, InboxEntry) store_op" where
  "RejectCommand st req =
    bindE (beginInboxTransition st (rj_TenantID req) (rj_SessionID req) (rj_CommandID req)
      (rj_ExpectedRevision req) (rj_LeaseEpoch req) False) (\<lambda>(scope, now).
    bindE (liftE (validateCommandRejection (st_core st) (Some (rj_Rejection req)))) (\<lambda>_.
    bindE (admitForeground st) (\<lambda>_.
    bindE (currentInboxEntry st scope (rj_TenantID req) (rj_SessionID req) (rj_CommandID req)
      (rj_ExpectedRevision req)) (\<lambda>current.
    let r = ie_Record current; held = cc_LeaseEpoch (ib_Claim r) in
    bindE (if rj_LeaseEpoch req \<noteq> 0 then liftE (commandEpochFence r (rj_LeaseEpoch req)) else returnE ()) (\<lambda>_.
    bindE (if claimLive r now then
             (if rj_LeaseEpoch req \<noteq> held then failE (inboxErr InboxErrorClaimHeld ''claim'') else returnE False)
           else if ib_State r = InboxStateApplying then
             (if rj_LeaseEpoch req \<le> held then failE (inboxErr InboxErrorClaimLost ''claim'') else returnE True)
           else returnE False) (\<lambda>recovering.
    bindE (scanCommandApplication st scope r) (\<lambda>application.
    if \<not> provesNoEffect application then failE (inboxErr InboxErrorEvidence ''application'')
    else if recovering \<and> \<not> fences application held then failE (inboxErr InboxErrorEvidence ''applying_lease'')
    else commitInboxTransition st scope current
      \<lparr>it_State = InboxStateRejected, it_Claim = ib_Claim r, it_Result = zeroResult,
       it_Rejection = Some (rj_Rejection req)\<rparr>)))))))"

definition CommandStatus :: "core_lib \<Rightarrow> InboxEntry \<Rightarrow> err + command_status" where
  "CommandStatus c e =
    (let status = (\<lambda>s d. \<lparr>cs_CommandID = ib_CommandID (ie_Record e), cs_AcceptedOrder = ie_AcceptedOrder e,
                      cs_State = s, cs_Error = d\<rparr>)
     in bindR (case ib_State (ie_Record e) of
          InboxStatePending \<Rightarrow> Inr (status CommandStateAccepted None)
        | InboxStateClaimed \<Rightarrow> Inr (status CommandStatePending None)
        | InboxStateApplying \<Rightarrow> Inr (status CommandStatePending None)
        | InboxStateApplied \<Rightarrow> Inr (status CommandStateApplied None)
        | InboxStateRejected \<Rightarrow> Inr (status CommandStateRejected (ib_Rejection (ie_Record e)))
        | InboxStateOther _ \<Rightarrow> Inl (inboxErr InboxErrorInvalid ''state'')) (\<lambda>s.
        if \<not> command_status_ok c s then Inl (inboxErr InboxErrorInvalid ''status'') else Inr s))"

definition FindCommandApplication ::
  "'s store \<Rightarrow> FindCommandApplicationRequest \<Rightarrow> ('s, CommandApplication) store_op" where
  "FindCommandApplication st req =
    bindE (liftE (deriveSessionScope st (fa_TenantID req) (fa_SessionID req))) (\<lambda>scope.
    if \<not> command_ok (st_core st) (fa_CommandID req) then failE (inboxErr InboxErrorInvalid ''command_id'')
    else bindE (admitForeground st) (\<lambda>_.
    bindE (readInboxEntry st scope (fa_TenantID req) (fa_SessionID req) (fa_CommandID req)) (\<lambda>current.
    scanCommandApplication st scope (ie_Record current))))"

subsection \<open>What a successful transition did\<close>

lemma extends_readInboxEntry [extends_intros]:
  "oi_contract st hist \<Longrightarrow> extends hist (readInboxEntry st scope tenant session command)"
  unfolding readInboxEntry_def by (intro extends_intros)

lemma extends_currentInboxEntry [extends_intros]:
  "oi_contract st hist \<Longrightarrow> extends hist (currentInboxEntry st scope tenant session command n)"
  unfolding currentInboxEntry_def by (intro extends_intros)

lemma extends_scanCommandApplication [extends_intros]:
  "oi_contract st hist \<Longrightarrow> extends hist (scanCommandApplication st scope r)"
  unfolding scanCommandApplication_def Let_def by (intro extends_intros)

text \<open>
  \<open>inbox_write st hist s t scope cmd n r r'\<close>: between \<open>s\<close> and \<open>t\<close> the row of the command, holding
  the record \<open>r\<close> at revision \<open>n\<close>, was followed by a row holding \<open>r'\<close>, and no row had followed before.
\<close>

definition inbox_write ::
  "'s store \<Rightarrow> 's row_history \<Rightarrow> 's \<Rightarrow> 's \<Rightarrow> sessionScope \<Rightarrow> string \<Rightarrow> u64 \<Rightarrow> InboxRecord \<Rightarrow> InboxRecord \<Rightarrow> bool" where
  "inbox_write st hist s t scope command n r r' \<longleftrightarrow>
    hist s (inboxID scope command) (n + 1) = None \<and>
    (\<exists>old. hist t (inboxID scope command) n = Some old \<and> decodeInboxRecord (st_core st) (rec_Value old) = Inr r) \<and>
    (\<exists>row. hist t (inboxID scope command) (n + 1) = Some row \<and>
           decodeInboxRecord (st_core st) (rec_Value row) = Inr r')"

lemma currentInboxEntry_InrE:
  assumes "oi_contract st hist" and "currentInboxEntry st scope tenant session command n s = (Inr cur, t)"
  obtains row where "hist t (inboxID scope command) n = Some row" "rec_Revision row = n"
    "inboxEntryFor (st_core st) row scope tenant session command = Inr cur"
    "ie_EntryRevision cur = n" "\<not> terminal (ib_State (ie_Record cur))"
proof -
  from assms(2) obtain u w row where get: "oi_Get st (inboxID scope command) u = (Inr row, w)"
    and entry: "inboxEntryFor (st_core st) row scope tenant session command = Inr cur"
    and bind: "bindProtocolMode st scope ProtocolModeLegacy w = (Inr (), t)"
    and n: "ie_EntryRevision cur = n" and live: "\<not> terminal (ib_State (ie_Record cur))"
    by (auto simp: currentInboxEntry_def readInboxEntry_def elim!: bindE_InrE split: if_split_asm)
  from n inboxEntryFor_Inr(3) [OF entry] have "rec_Revision row = n" by simp
  moreover from oi_get [OF assms(1) get] have "hist w (inboxID scope command) (rec_Revision row) = Some row" by simp
  then have "hist t (inboxID scope command) (rec_Revision row) = Some row"
    using growsD [of hist w t] extendsD [OF keeps_extends_bindProtocolMode [OF assms(1)] bind] by blast
  ultimately show thesis using that entry n live by simp
qed

lemma commitInboxTransition_Inr:
  assumes "oi_contract st hist" and "core_utf8 (st_core st)"
    and "hist s (inboxID scope command) (rec_Revision row) = Some row"
    and "inboxEntryFor (st_core st) row scope tenant session command = Inr cur"
    and "commitInboxTransition st scope cur next s = (Inr entry, t)"
  shows "ie_Record entry = stampUTC (transitioned (ie_Record cur) next)"
    "ie_EntryRevision entry = rec_Revision row + 1"
    "inbox_write st hist s t scope command (rec_Revision row) (ie_Record cur) (ie_Record entry)"
proof -
  note cur = inboxEntryFor_Inr [OF assms(4)]
  from assms(5) obtain v r stored where enc: "encodeInboxRecord (st_core st) (transitioned (ie_Record cur) next) = Inr (v, r)"
    and upd: "oi_Update st (inboxID scope (ib_CommandID r)) (rec_Revision row) v noRank (inboxDue r) s = (Inr stored, t)"
    and entry: "inboxEntryFor (st_core st) stored scope (ib_TenantID r) (ib_SessionID r) (ib_CommandID r) = Inr entry"
    by (auto simp: commitInboxTransition_def cur(3) elim!: bindE_InrE split: prod.split_asm)
  from inbox_codec.encode_canonical [OF enc] have r: "r = stampUTC (transitioned (ie_Record cur) next)"
    by (simp add: canonicalInboxRecord_iff)
  then have cmd: "ib_CommandID r = command" using cur(7) by (simp add: stampUTC_def transitioned_def)
  note upd' = oi_update_of_read [OF assms(1,3) upd [unfolded cmd]]
  note new = inboxEntryFor_Inr [OF entry]
  from new(2) upd'(1) inbox_codec.decode_encode [OF assms(2) enc]
  have rec: "ie_Record entry = r" by (simp add: updated_row_def)
  with r show "ie_Record entry = stampUTC (transitioned (ie_Record cur) next)" by simp
  from new(3) upd'(1) show "ie_EntryRevision entry = rec_Revision row + 1" by (simp add: updated_row_def)
  show "inbox_write st hist s t scope command (rec_Revision row) (ie_Record cur) (ie_Record entry)"
    using upd'(2-4) cur(2) new(2) by (auto simp: inbox_write_def)
qed

lemma inbox_write_earlier:
  "grows hist s u \<Longrightarrow> inbox_write st hist u t scope command n r r' \<Longrightarrow> inbox_write st hist s t scope command n r r'"
  using growsD [of hist s u "inboxID scope command" "n + 1"]
  by (cases "hist s (inboxID scope command) (n + 1)") (auto simp: inbox_write_def)

subsection \<open>The lifecycle as a specification\<close>

definition sameInboxCommand :: "InboxRecord \<Rightarrow> InboxRecord \<Rightarrow> bool" where
  "sameInboxCommand r r' \<longleftrightarrow>
     r' = r\<lparr>ib_State := ib_State r', ib_Claim := ib_Claim r', ib_Result := ib_Result r', ib_Rejection := ib_Rejection r'\<rparr>"

lemma sameInboxCommand_trans: "sameInboxCommand p q \<Longrightarrow> sameInboxCommand q r \<Longrightarrow> sameInboxCommand p r"
  by (cases p; cases q; cases r) (simp add: sameInboxCommand_def)

inductive inbox_step :: "gotime \<Rightarrow> InboxRecord \<Rightarrow> InboxRecord \<Rightarrow> bool" for now where
  Claim: "\<lbrakk>ib_State r \<in> {InboxStatePending, InboxStateClaimed}; e \<noteq> 0; cc_LeaseEpoch (ib_Claim r) \<le> e;
     Before now (ib_ApplyDeadline r); \<not> (claimLive r now \<and> e = cc_LeaseEpoch (ib_Claim r));
     Before now x; t_ns x - t_ns now \<le> MaxCommandClaimTTL\<rbrakk> \<Longrightarrow>
   inbox_step now r (r\<lparr>ib_State := InboxStateClaimed, ib_Claim := \<lparr>cc_LeaseEpoch = e, cc_ExpiresAt = UTC x\<rparr>,
     ib_Result := zeroResult, ib_Rejection := None\<rparr>)"
| Begin: "\<lbrakk>ib_State r = InboxStateClaimed; claimLive r now; Before now x; t_ns x - t_ns now \<le> MaxCommandClaimTTL\<rbrakk> \<Longrightarrow>
   inbox_step now r (r\<lparr>ib_State := InboxStateApplying,
     ib_Claim := \<lparr>cc_LeaseEpoch = cc_LeaseEpoch (ib_Claim r), cc_ExpiresAt = UTC x\<rparr>,
     ib_Result := zeroResult, ib_Rejection := None\<rparr>)"
| Complete: "\<lbrakk>ib_State r = InboxStateApplying; \<not> result_isZero result\<rbrakk> \<Longrightarrow>
   inbox_step now r (r\<lparr>ib_State := InboxStateApplied, ib_Result := result, ib_Rejection := None\<rparr>)"
| Reject: "ib_State r \<in> {InboxStatePending, InboxStateClaimed, InboxStateApplying} \<Longrightarrow>
   inbox_step now r (r\<lparr>ib_State := InboxStateRejected, ib_Result := zeroResult, ib_Rejection := Some detail\<rparr>)"

inductive_cases inbox_stepE: "inbox_step now r r'"

lemma inbox_step_facts:
  assumes "inbox_step now r r'"
  shows "\<not> terminal (ib_State r)" "sameInboxCommand r r'" "cc_LeaseEpoch (ib_Claim r) \<le> cc_LeaseEpoch (ib_Claim r')"
    "ib_State r' = InboxStateApplied \<Longrightarrow> ib_State r = InboxStateApplying \<and> ib_Claim r' = ib_Claim r"
    "ib_State r' = InboxStateApplying \<Longrightarrow> ib_State r = InboxStateClaimed"
    "ib_State r' \<noteq> InboxStatePending"
  using assms by (auto elim!: inbox_stepE simp: sameInboxCommand_def)

lemma stampUTC_transitioned:
  assumes "stampUTC r = r"
  shows "stampUTC (transitioned r next) = r\<lparr>ib_State := it_State next,
     ib_Claim := (it_Claim next)\<lparr>cc_ExpiresAt := UTC (cc_ExpiresAt (it_Claim next))\<rparr>,
     ib_Result := (it_Result next)\<lparr>cr_CompletedAt := UTC (cr_CompletedAt (it_Result next))\<rparr>,
     ib_Rejection := it_Rejection next\<rparr>"
proof -
  from assms have "ib_AcceptedAt (stampUTC r) = ib_AcceptedAt r" "ib_ApplyDeadline (stampUTC r) = ib_ApplyDeadline r"
    by simp_all
  then show ?thesis by (simp add: stampUTC_def transitioned_def)
qed

lemma stampUTC_claim: "stampUTC r = r \<Longrightarrow> (ib_Claim r)\<lparr>cc_ExpiresAt := UTC (cc_ExpiresAt (ib_Claim r))\<rparr> = ib_Claim r"
  by (metis stampUTC_def InboxRecord.select_convs(11) InboxRecord.surjective InboxRecord.update_convs(8,9,11,12))

lemma inboxEntryFor_stamped:
  "inboxEntryFor c stored scope tenant session command = Inr entry \<Longrightarrow> stampUTC (ie_Record entry) = ie_Record entry"
  using inboxEntryFor_canonical by (metis canonicalInboxRecord_iff sum.inject(2))

lemma UTC_zero [simp]: "UTC zeroTime = zeroTime"
  by (simp add: UTC_def zeroTime_def)

lemma zeroResult_stamped [simp]: "zeroResult\<lparr>cr_CompletedAt := UTC (cr_CompletedAt zeroResult)\<rparr> = zeroResult"
  by (simp add: zeroResult_def)

lemma requestedClaim_Inr:
  "requestedClaim e x now = Inr claim \<Longrightarrow>
    claim = \<lparr>cc_LeaseEpoch = e, cc_ExpiresAt = x\<rparr> \<and> Before now x \<and> t_ns x - t_ns now \<le> MaxCommandClaimTTL"
  by (auto simp: requestedClaim_def Let_def MaxCommandClaimTTL_def Hour_def validateBoundedExpiry_Inr_iff Before_def)

text \<open>The common shape of the four operations, from the read of the current row to the write.\<close>

lemma transition_write:
  assumes "oi_contract st hist" and "core_utf8 (st_core st)"
    and "currentInboxEntry st scope tenant session command n s = (Inr cur, u)"
    and "grows hist u w" and "commitInboxTransition st scope cur next w = (Inr entry, t)"
  shows "inbox_write st hist s t scope command n (ie_Record cur) (ie_Record entry)"
    "ie_EntryRevision entry = n + 1" "\<not> terminal (ib_State (ie_Record cur))"
    "stampUTC (ie_Record cur) = ie_Record cur"
    "ie_Record entry = (ie_Record cur)\<lparr>ib_State := it_State next,
     ib_Claim := (it_Claim next)\<lparr>cc_ExpiresAt := UTC (cc_ExpiresAt (it_Claim next))\<rparr>,
     ib_Result := (it_Result next)\<lparr>cr_CompletedAt := UTC (cr_CompletedAt (it_Result next))\<rparr>,
     ib_Rejection := it_Rejection next\<rparr>"
proof -
  obtain row where row: "hist u (inboxID scope command) n = Some row" "rec_Revision row = n"
    and entry: "inboxEntryFor (st_core st) row scope tenant session command = Inr cur"
    and live: "\<not> terminal (ib_State (ie_Record cur))"
    using currentInboxEntry_InrE [OF assms(1,3)] by blast
  have "hist w (inboxID scope command) (rec_Revision row) = Some row"
    using row growsD [OF assms(4)] by simp
  note commit = commitInboxTransition_Inr [OF assms(1,2) this entry assms(5)]
  have "grows hist s w"
    using extendsD [OF extends_currentInboxEntry [OF assms(1)] assms(3)] assms(4) by (rule grows_trans)
  from inbox_write_earlier [OF this] commit(3) row(2)
  show "inbox_write st hist s t scope command n (ie_Record cur) (ie_Record entry)" by simp
  show "ie_EntryRevision entry = n + 1" using commit(2) row(2) by simp
  show "\<not> terminal (ib_State (ie_Record cur))" by (rule live)
  show stamped: "stampUTC (ie_Record cur) = ie_Record cur" by (rule inboxEntryFor_stamped [OF entry])
  show "ie_Record entry = (ie_Record cur)\<lparr>ib_State := it_State next,
     ib_Claim := (it_Claim next)\<lparr>cc_ExpiresAt := UTC (cc_ExpiresAt (it_Claim next))\<rparr>,
     ib_Result := (it_Result next)\<lparr>cr_CompletedAt := UTC (cr_CompletedAt (it_Result next))\<rparr>,
     ib_Rejection := it_Rejection next\<rparr>"
    using commit(1) stampUTC_transitioned [OF stamped] by simp
qed

subsection \<open>The operations take steps of the lifecycle\<close>

datatype inboxOp =
    ClaimOp ClaimCommandRequest | BeginOp BeginApplyingCommandRequest
  | CompleteOp CompleteCommandRequest | RejectOp RejectCommandRequest

fun runInboxOp :: "'s store \<Rightarrow> inboxOp \<Rightarrow> ('s, InboxEntry) store_op" where
  "runInboxOp st (ClaimOp req) = ClaimCommand st req"
| "runInboxOp st (BeginOp req) = BeginApplyingCommand st req"
| "runInboxOp st (CompleteOp req) = CompleteCommand st req"
| "runInboxOp st (RejectOp req) = RejectCommand st req"

fun op_revision :: "inboxOp \<Rightarrow> u64" where
  "op_revision (ClaimOp req) = cl_ExpectedRevision req"
| "op_revision (BeginOp req) = ba_ExpectedRevision req"
| "op_revision (CompleteOp req) = co_ExpectedRevision req"
| "op_revision (RejectOp req) = rj_ExpectedRevision req"

fun op_command :: "inboxOp \<Rightarrow> string \<times> string \<times> string" where
  "op_command (ClaimOp req) = (cl_TenantID req, cl_SessionID req, cl_CommandID req)"
| "op_command (BeginOp req) = (ba_TenantID req, ba_SessionID req, ba_CommandID req)"
| "op_command (CompleteOp req) = (co_TenantID req, co_SessionID req, co_CommandID req)"
| "op_command (RejectOp req) = (rj_TenantID req, rj_SessionID req, rj_CommandID req)"

lemma beginInboxTransition_iff:
  "beginInboxTransition st tenant session command n e req s = (Inr (scope, now), t) \<longleftrightarrow>
     deriveSessionScope st tenant session = Inr scope \<and> command_ok (st_core st) command \<and> n \<noteq> 0 \<and>
     (req \<longrightarrow> e \<noteq> 0) \<and> now = st_Now st s \<and> t = s"
  by (auto simp: beginInboxTransition_def bindE_Inr_iff)

text \<open>What each operation passed before it committed.\<close>

lemma ClaimCommand_InrE:
  assumes "ClaimCommand st req s = (Inr entry, t)"
  obtains scope claim cur u where
    "deriveSessionScope st (cl_TenantID req) (cl_SessionID req) = Inr scope" "cl_LeaseEpoch req \<noteq> 0"
    "requestedClaim (cl_LeaseEpoch req) (cl_ClaimExpiresAt req) (st_Now st s) = Inr claim"
    "currentInboxEntry st scope (cl_TenantID req) (cl_SessionID req) (cl_CommandID req) (cl_ExpectedRevision req) s
       = (Inr cur, u)"
    "ib_State (ie_Record cur) \<noteq> InboxStateApplying" "cc_LeaseEpoch (ib_Claim (ie_Record cur)) \<le> cl_LeaseEpoch req"
    "Before (st_Now st s) (ib_ApplyDeadline (ie_Record cur))"
    "\<not> (claimLive (ie_Record cur) (st_Now st s) \<and> cl_LeaseEpoch req = cc_LeaseEpoch (ib_Claim (ie_Record cur)))"
    "commitInboxTransition st scope cur
       \<lparr>it_State = InboxStateClaimed, it_Claim = claim, it_Result = zeroResult, it_Rejection = None\<rparr> u = (Inr entry, t)"
  using assms
  by (auto simp: ClaimCommand_def commandEpochFence_def beginInboxTransition_iff
      elim!: bindE_InrE split: prod.split_asm if_split_asm)

lemma BeginApplyingCommand_InrE:
  assumes "BeginApplyingCommand st req s = (Inr entry, t)"
  obtains scope claim cur u where
    "deriveSessionScope st (ba_TenantID req) (ba_SessionID req) = Inr scope" "ba_LeaseEpoch req \<noteq> 0"
    "requestedClaim (ba_LeaseEpoch req) (ba_ClaimExpiresAt req) (st_Now st s) = Inr claim"
    "currentInboxEntry st scope (ba_TenantID req) (ba_SessionID req) (ba_CommandID req) (ba_ExpectedRevision req) s
       = (Inr cur, u)"
    "ib_State (ie_Record cur) = InboxStateClaimed" "cc_LeaseEpoch (ib_Claim (ie_Record cur)) = ba_LeaseEpoch req"
    "claimLive (ie_Record cur) (st_Now st s)"
    "commitInboxTransition st scope cur
       \<lparr>it_State = InboxStateApplying, it_Claim = claim, it_Result = zeroResult, it_Rejection = None\<rparr> u = (Inr entry, t)"
  using assms
  by (auto simp: BeginApplyingCommand_def commandClaimFence_def commandEpochFence_def beginInboxTransition_iff
      elim!: bindE_InrE split: prod.split_asm if_split_asm)

lemma CompleteCommand_InrE:
  assumes "CompleteCommand st req s = (Inr entry, t)"
  obtains scope cur u w where
    "deriveSessionScope st (co_TenantID req) (co_SessionID req) = Inr scope"
    "\<not> result_isZero (co_Result req)"
    "currentInboxEntry st scope (co_TenantID req) (co_SessionID req) (co_CommandID req) (co_ExpectedRevision req) s
       = (Inr cur, u)"
    "ib_State (ie_Record cur) = InboxStateApplying" "cc_LeaseEpoch (ib_Claim (ie_Record cur)) \<le> co_LeaseEpoch req"
    "co_LeaseEpoch req = cc_LeaseEpoch (ib_Claim (ie_Record cur)) \<and> w = u \<or>
     (\<exists>app. scanCommandApplication st scope (ie_Record cur) u = (Inr app, w) \<and> namesEffect app (co_Result req))"
    "commitInboxTransition st scope cur \<lparr>it_State = InboxStateApplied, it_Claim = ib_Claim (ie_Record cur),
       it_Result = co_Result req, it_Rejection = None\<rparr> w = (Inr entry, t)"
  using assms
  by (auto simp: CompleteCommand_def commandEpochFence_def beginInboxTransition_iff
      elim!: bindE_InrE split: prod.split_asm if_split_asm) blast+

lemma RejectCommand_InrE:
  assumes "RejectCommand st req s = (Inr entry, t)"
  obtains scope cur u w app where
    "deriveSessionScope st (rj_TenantID req) (rj_SessionID req) = Inr scope"
    "currentInboxEntry st scope (rj_TenantID req) (rj_SessionID req) (rj_CommandID req) (rj_ExpectedRevision req) s
       = (Inr cur, u)"
    "scanCommandApplication st scope (ie_Record cur) u = (Inr app, w)" "provesNoEffect app"
    "claimLive (ie_Record cur) (st_Now st s) \<longrightarrow> rj_LeaseEpoch req = cc_LeaseEpoch (ib_Claim (ie_Record cur))"
    "\<not> claimLive (ie_Record cur) (st_Now st s) \<and> ib_State (ie_Record cur) = InboxStateApplying \<longrightarrow>
       cc_LeaseEpoch (ib_Claim (ie_Record cur)) < rj_LeaseEpoch req \<and> fences app (cc_LeaseEpoch (ib_Claim (ie_Record cur)))"
    "commitInboxTransition st scope cur \<lparr>it_State = InboxStateRejected, it_Claim = ib_Claim (ie_Record cur),
       it_Result = zeroResult, it_Rejection = Some (rj_Rejection req)\<rparr> w = (Inr entry, t)"
  using assms
  by (auto simp: RejectCommand_def commandEpochFence_def beginInboxTransition_iff Let_def not_le
      elim!: bindE_InrE split: prod.split_asm if_split_asm)

text \<open>Every operation takes one step of the lifecycle on the row it names.\<close>

definition op_refines :: "'s store \<Rightarrow> 's row_history \<Rightarrow> inboxOp \<Rightarrow> 's \<Rightarrow> InboxEntry \<Rightarrow> 's \<Rightarrow> bool" where
  "op_refines st hist p s entry t \<longleftrightarrow>
    (case op_command p of (tenant, session, command) \<Rightarrow>
      \<exists>scope r. deriveSessionScope st tenant session = Inr scope \<and>
        inbox_write st hist s t scope command (op_revision p) r (ie_Record entry) \<and>
        inbox_step (st_Now st s) r (ie_Record entry) \<and> ie_EntryRevision entry = op_revision p + 1)"

lemma ClaimOp_refines:
  assumes "oi_contract st hist" and "core_utf8 (st_core st)" and "ClaimCommand st req s = (Inr entry, t)"
  shows "op_refines st hist (ClaimOp req) s entry t"
  using assms(3)
proof (rule ClaimCommand_InrE)
  fix scope claim u and cur :: InboxEntry
  let ?r = "ie_Record cur"
  assume scope: "deriveSessionScope st (cl_TenantID req) (cl_SessionID req) = Inr scope"
    and e: "cl_LeaseEpoch req \<noteq> 0" "cc_LeaseEpoch (ib_Claim ?r) \<le> cl_LeaseEpoch req"
    and claim: "requestedClaim (cl_LeaseEpoch req) (cl_ClaimExpiresAt req) (st_Now st s) = Inr claim"
    and cur: "currentInboxEntry st scope (cl_TenantID req) (cl_SessionID req) (cl_CommandID req)
      (cl_ExpectedRevision req) s = (Inr cur, u)"
    and guards: "ib_State ?r \<noteq> InboxStateApplying" "Before (st_Now st s) (ib_ApplyDeadline ?r)"
      "\<not> (claimLive ?r (st_Now st s) \<and> cl_LeaseEpoch req = cc_LeaseEpoch (ib_Claim ?r))"
    and commit: "commitInboxTransition st scope cur
      \<lparr>it_State = InboxStateClaimed, it_Claim = claim, it_Result = zeroResult, it_Rejection = None\<rparr> u = (Inr entry, t)"
  note w = transition_write [OF assms(1,2) cur grows_refl commit]
  have known: "known_state (ib_State ?r)"
    using currentInboxEntry_InrE [OF assms(1) cur] inboxEntryFor_canonical validateInboxState_known
    by (metis canonicalInboxRecord_iff inbox_valid_def)
  then have "ib_State ?r \<in> {InboxStatePending, InboxStateClaimed}"
    using w(3) guards(1) by (cases "ib_State ?r") (auto simp: known_state_def)
  from inbox_step.Claim [OF this e guards(2,3), of "cl_ClaimExpiresAt req"] requestedClaim_Inr [OF claim] w(5)
  have "inbox_step (st_Now st s) ?r (ie_Record entry)" by simp
  with scope w(1,2) show ?thesis by (auto simp: op_refines_def)
qed

lemma BeginOp_refines:
  assumes "oi_contract st hist" and "core_utf8 (st_core st)" and "BeginApplyingCommand st req s = (Inr entry, t)"
  shows "op_refines st hist (BeginOp req) s entry t"
  using assms(3)
proof (rule BeginApplyingCommand_InrE)
  fix scope claim u and cur :: InboxEntry
  let ?r = "ie_Record cur"
  assume scope: "deriveSessionScope st (ba_TenantID req) (ba_SessionID req) = Inr scope"
    and claim: "requestedClaim (ba_LeaseEpoch req) (ba_ClaimExpiresAt req) (st_Now st s) = Inr claim"
    and cur: "currentInboxEntry st scope (ba_TenantID req) (ba_SessionID req) (ba_CommandID req)
      (ba_ExpectedRevision req) s = (Inr cur, u)"
    and guards: "ib_State ?r = InboxStateClaimed" "claimLive ?r (st_Now st s)"
    and e: "cc_LeaseEpoch (ib_Claim ?r) = ba_LeaseEpoch req"
    and commit: "commitInboxTransition st scope cur
      \<lparr>it_State = InboxStateApplying, it_Claim = claim, it_Result = zeroResult, it_Rejection = None\<rparr> u = (Inr entry, t)"
  note w = transition_write [OF assms(1,2) cur grows_refl commit]
  from inbox_step.Begin [OF guards, of "ba_ClaimExpiresAt req"] requestedClaim_Inr [OF claim] w(5) e
  have "inbox_step (st_Now st s) ?r (ie_Record entry)" by simp
  with scope w(1,2) show ?thesis by (auto simp: op_refines_def)
qed

lemma CompleteOp_refines:
  assumes "oi_contract st hist" and "core_utf8 (st_core st)" and "CompleteCommand st req s = (Inr entry, t)"
  shows "op_refines st hist (CompleteOp req) s entry t"
  using assms(3)
proof (rule CompleteCommand_InrE)
  fix scope u w and cur :: InboxEntry
  let ?r = "ie_Record cur"
  assume scope: "deriveSessionScope st (co_TenantID req) (co_SessionID req) = Inr scope"
    and result: "\<not> result_isZero (co_Result req)" and applying: "ib_State ?r = InboxStateApplying"
    and cur: "currentInboxEntry st scope (co_TenantID req) (co_SessionID req) (co_CommandID req)
      (co_ExpectedRevision req) s = (Inr cur, u)"
    and evidence: "co_LeaseEpoch req = cc_LeaseEpoch (ib_Claim (ie_Record cur)) \<and> w = u \<or>
     (\<exists>app. scanCommandApplication st scope (ie_Record cur) u = (Inr app, w) \<and> namesEffect app (co_Result req))"
    and commit: "commitInboxTransition st scope cur \<lparr>it_State = InboxStateApplied,
      it_Claim = ib_Claim (ie_Record cur), it_Result = co_Result req, it_Rejection = None\<rparr> w = (Inr entry, t)"
  have "grows hist u w"
    using evidence extendsD [OF extends_scanCommandApplication [OF assms(1)]] by auto
  note w = transition_write [OF assms(1,2) cur this commit]
  from inbox_step.Complete [OF applying, of "(co_Result req)\<lparr>cr_CompletedAt := UTC (cr_CompletedAt (co_Result req))\<rparr>"]
    result w(5) stampUTC_claim [OF w(4)]
  have "inbox_step (st_Now st s) ?r (ie_Record entry)" by simp
  with scope w(1,2) show ?thesis by (auto simp: op_refines_def)
qed

lemma RejectOp_refines:
  assumes "oi_contract st hist" and "core_utf8 (st_core st)" and "RejectCommand st req s = (Inr entry, t)"
  shows "op_refines st hist (RejectOp req) s entry t"
  using assms(3)
proof (rule RejectCommand_InrE)
  fix scope u w app and cur :: InboxEntry
  let ?r = "ie_Record cur"
  assume scope: "deriveSessionScope st (rj_TenantID req) (rj_SessionID req) = Inr scope"
    and cur: "currentInboxEntry st scope (rj_TenantID req) (rj_SessionID req) (rj_CommandID req)
      (rj_ExpectedRevision req) s = (Inr cur, u)"
    and scan: "scanCommandApplication st scope (ie_Record cur) u = (Inr app, w)"
    and commit: "commitInboxTransition st scope cur \<lparr>it_State = InboxStateRejected,
      it_Claim = ib_Claim (ie_Record cur), it_Result = zeroResult, it_Rejection = Some (rj_Rejection req)\<rparr> w = (Inr entry, t)"
  note w = transition_write [OF assms(1,2) cur extendsD [OF extends_scanCommandApplication [OF assms(1)] scan] commit]
  have known: "known_state (ib_State ?r)"
    using currentInboxEntry_InrE [OF assms(1) cur] inboxEntryFor_canonical validateInboxState_known
    by (metis canonicalInboxRecord_iff inbox_valid_def)
  then have "ib_State ?r \<in> {InboxStatePending, InboxStateClaimed, InboxStateApplying}"
    using w(3) by (cases "ib_State ?r") (auto simp: known_state_def)
  from inbox_step.Reject [OF this] w(5) stampUTC_claim [OF w(4)]
  have "inbox_step (st_Now st s) ?r (ie_Record entry)" by simp
  with scope w(1,2) show ?thesis by (auto simp: op_refines_def)
qed

lemma inboxOp_refines:
  assumes "oi_contract st hist" "core_utf8 (st_core st)" "runInboxOp st p s = (Inr entry, t)"
  shows "op_refines st hist p s entry t"
  using assms
  by (cases p) (simp_all add: ClaimOp_refines BeginOp_refines CompleteOp_refines RejectOp_refines)

subsection \<open>Runs of the operations on one command\<close>

lemma extends_inbox_transition [extends_intros]:
  "oi_contract st hist \<Longrightarrow> extends hist (commitInboxTransition st scope cur next)"
  "extends hist (beginInboxTransition st tenant session command n e q)"
  unfolding commitInboxTransition_def beginInboxTransition_def by (intro extends_intros; assumption)+

lemma extends_runInboxOp [extends_intros]:
  "oi_contract st hist \<Longrightarrow> extends hist (runInboxOp st p)"
  by (cases p) (simp_all add: ClaimCommand_def BeginApplyingCommand_def CompleteCommand_def RejectCommand_def Let_def,
      (intro extends_intros; assumption)+)

text \<open>
  \<open>legacy_stored st hist t scope command e\<close>: the entry is what the command's row holds at the entry's
  revision.  \<open>legacy_run st hist key t e u f\<close>: from the entry \<open>e\<close> at \<open>t\<close>, successful operations on the
  command \<open>key\<close> (tenant, session, command), each naming the revision of the entry before it, gave \<open>f\<close> at
  \<open>u\<close>; anything may be written between two of them.
\<close>

definition legacy_stored ::
  "'s store \<Rightarrow> 's row_history \<Rightarrow> 's \<Rightarrow> sessionScope \<Rightarrow> string \<Rightarrow> InboxEntry \<Rightarrow> bool" where
  "legacy_stored st hist t scope command e \<longleftrightarrow>
    (\<exists>row. hist t (inboxID scope command) (ie_EntryRevision e) = Some row \<and>
       decodeInboxRecord (st_core st) (rec_Value row) = Inr (ie_Record e))"

inductive legacy_run ::
  "'s store \<Rightarrow> 's row_history \<Rightarrow> string \<times> string \<times> string \<Rightarrow> 's \<Rightarrow> InboxEntry \<Rightarrow> 's \<Rightarrow> InboxEntry \<Rightarrow> bool"
  for st :: "'s store" and hist key t e where
  Start: "legacy_run st hist key t e t e"
| Op: "\<lbrakk>legacy_run st hist key t e u f; grows hist u v; op_command p = key; op_revision p = ie_EntryRevision f;
     runInboxOp st p v = (Inr g, w)\<rbrakk> \<Longrightarrow> legacy_run st hist key t e w g"

lemma GetCommand_stored:
  assumes "oi_contract st hist" "GetCommand st req s = (Inr e, t)"
  shows "\<exists>scope. deriveSessionScope st (gc_TenantID req) (gc_SessionID req) = Inr scope \<and>
    legacy_stored st hist t scope (gc_CommandID req) e"
proof -
  from assms(2) obtain scope w row where scope: "deriveSessionScope st (gc_TenantID req) (gc_SessionID req) = Inr scope"
    and get: "oi_Get st (inboxID scope (gc_CommandID req)) w = (Inr row, t)"
    and e: "inboxEntryFor (st_core st) row scope (gc_TenantID req) (gc_SessionID req) (gc_CommandID req) = Inr e"
    by (auto simp: GetCommand_def readInboxEntry_def elim!: bindE_InrE split: if_split_asm)
  from oi_get [OF assms(1) get] inboxEntryFor_Inr [OF e] scope show ?thesis by (auto simp: legacy_stored_def)
qed

lemma legacy_op_step:
  assumes "oi_contract st hist" "core_utf8 (st_core st)" "legacy_stored st hist u scope command f" "grows hist u v"
    and "deriveSessionScope st tenant session = Inr scope" "op_command p = (tenant, session, command)"
    and "op_revision p = ie_EntryRevision f" "runInboxOp st p v = (Inr g, w)"
  shows "inbox_step (st_Now st v) (ie_Record f) (ie_Record g)" "legacy_stored st hist w scope command g"
proof -
  obtain r where wr: "inbox_write st hist v w scope command (op_revision p) r (ie_Record g)"
    and step: "inbox_step (st_Now st v) r (ie_Record g)" and rev: "ie_EntryRevision g = op_revision p + 1"
    using inboxOp_refines [OF assms(1,2,8)] assms(5,6) by (auto simp: op_refines_def)
  obtain row where row: "hist u (inboxID scope command) (op_revision p) = Some row"
    "decodeInboxRecord (st_core st) (rec_Value row) = Inr (ie_Record f)"
    using assms(3,7) by (auto simp: legacy_stored_def)
  have "grows hist u w" using assms(4) extendsD [OF extends_runInboxOp [OF assms(1)] assms(8)] by (rule grows_trans)
  from growsD [OF this row(1)] row(2) wr have "r = ie_Record f" by (auto simp: inbox_write_def)
  with step show "inbox_step (st_Now st v) (ie_Record f) (ie_Record g)" by simp
  show "legacy_stored st hist w scope command g" using wr rev by (auto simp: legacy_stored_def inbox_write_def)
qed

lemma legacy_run_facts:
  assumes "oi_contract st hist" "core_utf8 (st_core st)" "legacy_run st hist key t e u f"
    and "key = (tenant, session, command)" "deriveSessionScope st tenant session = Inr scope"
    and "legacy_stored st hist t scope command e"
  shows "sameInboxCommand (ie_Record e) (ie_Record f)"
    "cc_LeaseEpoch (ib_Claim (ie_Record e)) \<le> cc_LeaseEpoch (ib_Claim (ie_Record f))"
    "terminal (ib_State (ie_Record e)) \<longrightarrow> f = e"
    "ib_State (ie_Record f) = InboxStateApplied \<and> f \<noteq> e \<longrightarrow> (\<exists>v q. legacy_run st hist key t e v q \<and>
       ib_State (ie_Record q) = InboxStateApplying \<and> ib_Claim (ie_Record f) = ib_Claim (ie_Record q))"
    "legacy_stored st hist u scope command f"
  using assms(3)
proof (induction rule: legacy_run.induct)
  case Start
  {
    case 1 show ?case by (simp add: sameInboxCommand_def)
  next
    case 2 show ?case by simp
  next
    case 3 show ?case by simp
  next
    case 4 show ?case by simp
  next
    case 5 show ?case by (rule assms(6))
  }
next
  case (Op u f v p g w)
  note s = legacy_op_step [OF assms(1,2) Op.IH(5) Op.hyps(2) assms(5) _ Op.hyps(4,5), unfolded Op.hyps(3), OF assms(4)]
  note f = inbox_step_facts [OF s(1)]
  {
    case 1 show ?case using Op.IH(1) f(2) by (rule sameInboxCommand_trans)
  next
    case 2 show ?case using Op.IH(2) f(3) by (rule order_trans)
  next
    case 3 show ?case using Op.IH(3) f(1) by auto
  next
    case 4 show ?case using Op.hyps(1) f(4) by blast
  next
    case 5 show ?case by (rule s(2))
  }
qed

text \<open>The fence of a command's claims, as an instance of the fence every mutable record has.\<close>

interpretation command_fence: fenced "\<lambda>r. cc_LeaseEpoch (ib_Claim r)" commandEpochFence
  by unfold_locales (auto simp: commandEpochFence_def epochFence_def split: if_split_asm)

text \<open>
  C1. The legacy inbox refines its lifecycle.  Whatever other processes write meanwhile, a
  successful claim, begin, complete or reject has replaced the row at the revision the caller named
  (which had no successor before) by a row at the next revision, and the two records are one step
  of the lifecycle: pending or claimed to claimed under a lease not below the stored one, a live
  claim to applying, applying to applied, and any open state to rejected; everything else of the
  command is kept.
\<close>

theorem legacy_inbox_refines_lifecycle:
  assumes "oi_contract st hist" "core_utf8 (st_core st)" "runInboxOp st p s = (Inr entry, t)"
    and "op_command p = (tenant, session, command)"
  shows "\<exists>scope r. deriveSessionScope st tenant session = Inr scope \<and>
    inbox_write st hist s t scope command (op_revision p) r (ie_Record entry) \<and>
    inbox_step (st_Now st s) r (ie_Record entry) \<and> ie_EntryRevision entry = op_revision p + 1"
  using inboxOp_refines [OF assms(1-3)] assms(4) by (simp add: op_refines_def)

text \<open>
  C6. What a legacy command can become.  Start from an entry that \<open>GetCommand\<close> returned and apply any
  successful claims, begins, completions and rejections, each naming the revision of the entry before it,
  with any other process writing in between.  The command keeps its identity, mapping, content and
  times; its lease epoch never decreases; a terminal command never changes again, because every
  operation on it fails; and an applied command has the claim of an applying entry of the same run.
\<close>

theorem legacy_lifecycle_invariants:
  assumes "oi_contract st hist" "core_utf8 (st_core st)" "GetCommand st req s = (Inr e, t)"
    and "legacy_run st hist (gc_TenantID req, gc_SessionID req, gc_CommandID req) t e u f"
  shows "sameInboxCommand (ie_Record e) (ie_Record f) \<and>
    cc_LeaseEpoch (ib_Claim (ie_Record e)) \<le> cc_LeaseEpoch (ib_Claim (ie_Record f)) \<and>
    (terminal (ib_State (ie_Record e)) \<longrightarrow> f = e) \<and>
    (ib_State (ie_Record f) = InboxStateApplied \<and> f \<noteq> e \<longrightarrow>
       (\<exists>v q. legacy_run st hist (gc_TenantID req, gc_SessionID req, gc_CommandID req) t e v q \<and>
          ib_State (ie_Record q) = InboxStateApplying \<and> ib_Claim (ie_Record f) = ib_Claim (ie_Record q)))"
proof -
  obtain scope where start: "deriveSessionScope st (gc_TenantID req) (gc_SessionID req) = Inr scope"
    "legacy_stored st hist t scope (gc_CommandID req) e"
    using GetCommand_stored [OF assms(1,3)] by blast
  note facts = legacy_run_facts [OF assms(1,2,4) refl start]
  show ?thesis
    using facts(1-4) by blast
qed

text \<open>
  C5. One winner per revision.  Once an operation on a command has succeeded, every operation that
  names the same command and the same revision fails, whatever ran in between; so of two competing
  writers at most one wins, and a stale writer loses.
\<close>

theorem legacy_transition_has_one_winner:
  assumes "oi_contract st hist" "core_utf8 (st_core st)"
    and "runInboxOp st p s = (Inr entry, t)" and "grows hist t u"
    and "op_command p = op_command q" and "op_revision p = op_revision q"
  shows "isl (fst (runInboxOp st q u))"
proof (cases "runInboxOp st q u")
  case (Pair res v)
  show ?thesis
  proof (cases res)
    case (Inr entry')
    obtain tenant session command where cmd: "op_command p = (tenant, session, command)" by (cases "op_command p") auto
    with inboxOp_refines [OF assms(1-3)] obtain scope r
      where 1: "deriveSessionScope st tenant session = Inr scope"
        "inbox_write st hist s t scope command (op_revision p) r (ie_Record entry)"
      by (auto simp: op_refines_def)
    from cmd inboxOp_refines [OF assms(1,2) Pair [unfolded Inr]] assms(5) 1(1) obtain r'
      where 2: "inbox_write st hist u v scope command (op_revision q) r' (ie_Record entry')"
      by (auto simp: op_refines_def)
    from 1(2) obtain row where "hist t (inboxID scope command) (op_revision p + 1) = Some row"
      by (auto simp: inbox_write_def)
    with growsD [OF assms(4)] 2 assms(6) have False by (fastforce simp: inbox_write_def)
    then show ?thesis ..
  qed (simp add: Pair)
qed

text \<open>
  C2. A command is rejected only when the journal proves it had no effect, and only by who may reject
  it.  A successful rejection has read every record of the session's journal through a captured tip, and
  there every prefix that names the command has the stored mapping and is followed directly by the
  opening fence of a later lease.  While the claim is live only the lease that holds it rejects, with no
  fence asked for; a command left applying under a claim that is no longer live is rejected only under a
  later lease, and only when the journal holds an opening fence above the claim's epoch, so that its
  writer can no longer append.
\<close>

theorem rejection_proves_no_effect:
  assumes "oi_contract st hist" "RejectCommand st req s = (Inr entry, t)"
  shows "\<exists>scope row r tip recs u w. deriveSessionScope st (rj_TenantID req) (rj_SessionID req) = Inr scope \<and>
    hist u (inboxID scope (rj_CommandID req)) (rj_ExpectedRevision req) = Some row \<and>
    decodeInboxRecord (st_core st) (rec_Value row) = Inr r \<and>
    scan_reads st scope tip recs u w \<and>
    set (findings (uuid_of (st_core st) (ib_RuntimeCommandID r)) r False recs) \<subseteq> {CommandApplicationAbandoned} \<and>
    (claimLive r (st_Now st s) \<longrightarrow> rj_LeaseEpoch req = cc_LeaseEpoch (ib_Claim r)) \<and>
    (ib_State r = InboxStateApplying \<and> \<not> claimLive r (st_Now st s) \<longrightarrow>
       cc_LeaseEpoch (ib_Claim r) < rj_LeaseEpoch req \<and>
       (\<exists>x \<in> set recs. en_Kind (snd x) = EnvelopeKindOpeningFence \<and>
          cc_LeaseEpoch (ib_Claim r) < en_LeaseEpoch (snd x)))"
  using assms(2)
proof (rule RejectCommand_InrE)
  fix scope u w app and cur :: InboxEntry
  let ?r = "ie_Record cur"
  assume scope: "deriveSessionScope st (rj_TenantID req) (rj_SessionID req) = Inr scope"
    and cur: "currentInboxEntry st scope (rj_TenantID req) (rj_SessionID req) (rj_CommandID req)
      (rj_ExpectedRevision req) s = (Inr cur, u)"
    and scan: "scanCommandApplication st scope ?r u = (Inr app, w)" and none: "provesNoEffect app"
    and holder: "claimLive ?r (st_Now st s) \<longrightarrow> rj_LeaseEpoch req = cc_LeaseEpoch (ib_Claim ?r)"
    and fence: "\<not> claimLive ?r (st_Now st s) \<and> ib_State ?r = InboxStateApplying \<longrightarrow>
       cc_LeaseEpoch (ib_Claim ?r) < rj_LeaseEpoch req \<and> fences app (cc_LeaseEpoch (ib_Claim ?r))"
  obtain row where row: "hist u (inboxID scope (rj_CommandID req)) (rj_ExpectedRevision req) = Some row"
    "decodeInboxRecord (st_core st) (rec_Value row) = Inr ?r"
    using currentInboxEntry_InrE [OF assms(1) cur] inboxEntryFor_Inr(2) by metis
  obtain recs where recs: "scan_reads st scope (ca_CapturedTip app) recs u w"
    "ca_Outcome app = verdict (findings (uuid_of (st_core st) (ib_RuntimeCommandID ?r)) ?r False recs)"
    "\<And>e. fences app e \<Longrightarrow> \<exists>x \<in> set recs. en_Kind (snd x) = EnvelopeKindOpeningFence \<and> e < en_LeaseEpoch (snd x)"
    using scan_verdict [OF scan] by blast
  from none recs(2) have "set (findings (uuid_of (st_core st) (ib_RuntimeCommandID ?r)) ?r False recs)
    \<subseteq> {CommandApplicationAbandoned}"
    using verdict_no_effect findings_not_absent unfolding provesNoEffect_def by metis
  with scope row recs(1,3) holder fence show ?thesis by blast
qed

text \<open>
  C3. A successor completes a command only with the effect the journal holds.  When the lease that
  completes is not the lease of the claim, the result it records names a public event that directly
  follows a prefix with the command's stored mapping, within the records read through the tip.
\<close>

theorem completion_by_successor_names_effect:
  assumes "oi_contract st hist" "CompleteCommand st req s = (Inr entry, t)"
  shows "\<exists>scope row r u. deriveSessionScope st (co_TenantID req) (co_SessionID req) = Inr scope \<and>
    hist u (inboxID scope (co_CommandID req)) (co_ExpectedRevision req) = Some row \<and>
    decodeInboxRecord (st_core st) (rec_Value row) = Inr r \<and> ib_State r = InboxStateApplying \<and>
    cc_LeaseEpoch (ib_Claim r) \<le> co_LeaseEpoch req \<and>
    (co_LeaseEpoch req \<noteq> cc_LeaseEpoch (ib_Claim r) \<longrightarrow>
       (\<exists>tip recs w. scan_reads st scope tip recs u w \<and>
          effect_in (uuid_of (st_core st) (ib_RuntimeCommandID r)) r recs
            (cr_JournalSeq (co_Result req)) (cr_EventID (co_Result req))))"
  using assms(2)
proof (rule CompleteCommand_InrE)
  fix scope u w and cur :: InboxEntry
  let ?r = "ie_Record cur"
  assume scope: "deriveSessionScope st (co_TenantID req) (co_SessionID req) = Inr scope"
    and cur: "currentInboxEntry st scope (co_TenantID req) (co_SessionID req) (co_CommandID req)
      (co_ExpectedRevision req) s = (Inr cur, u)"
    and state: "ib_State ?r = InboxStateApplying" "cc_LeaseEpoch (ib_Claim ?r) \<le> co_LeaseEpoch req"
    and evidence: "co_LeaseEpoch req = cc_LeaseEpoch (ib_Claim ?r) \<and> w = u \<or>
     (\<exists>app. scanCommandApplication st scope ?r u = (Inr app, w) \<and> namesEffect app (co_Result req))"
  obtain row where row: "hist u (inboxID scope (co_CommandID req)) (co_ExpectedRevision req) = Some row"
    "decodeInboxRecord (st_core st) (rec_Value row) = Inr ?r"
    using currentInboxEntry_InrE [OF assms(1) cur] inboxEntryFor_Inr(2) by metis
  have "\<exists>tip recs w. scan_reads st scope tip recs u w \<and>
          effect_in (uuid_of (st_core st) (ib_RuntimeCommandID ?r)) ?r recs
            (cr_JournalSeq (co_Result req)) (cr_EventID (co_Result req))"
    if "co_LeaseEpoch req \<noteq> cc_LeaseEpoch (ib_Claim ?r)"
    using that evidence scan_verdict [of st scope ?r u] by (auto simp: namesEffect_def) metis
  with scope row state show ?thesis by blast
qed

end
