(* ===== verification/Inbox_Witnesses.thy ===== *)
theory Inbox_Witnesses
  imports Witnesses Inbox_Claim
begin

text \<open>
  One legacy command on the in-memory provider: admitted, claimed under lease 5, applying, and then
  completed by lease 6 with the effect its journal holds; and, pending, rejected because the journal
  shows its one prefix was followed by a fence.
\<close>

definition w_prefix :: Envelope where
  "w_prefix = (zeroEnvelope EnvelopeKindApplicationPrefix)\<lparr>en_LeaseEpoch := 5, en_CommandID := ''c1'',
     en_RuntimeCommandID := ''0123456789abcdef'', en_CommandKind := ''prompt''\<rparr>"

definition w_event :: Envelope where
  "w_event = (zeroEnvelope EnvelopeKindPublicEvent)\<lparr>en_EventID := ''ev1'',
     en_Public := \<lparr>bs_Inline = Some ''{}'', bs_Reference = None\<rparr>\<rparr>"

definition w_fence :: Envelope where
  "w_fence = (zeroEnvelope EnvelopeKindOpeningFence)\<lparr>en_LeaseEpoch := 6\<rparr>"

definition w_frame :: "Envelope \<Rightarrow> string" where
  "w_frame env = projr (EncodeEnvelope mem_core env)"

definition w_expiry :: gotime where "w_expiry = \<lparr>t_ns = 1700000060000000000, t_zone = 0\<rparr>"

definition w_claim :: ClaimCommandRequest where
  "w_claim = \<lparr>cl_TenantID = ''t1'', cl_SessionID = ''s1'', cl_CommandID = ''c1'', cl_ExpectedRevision = 1,
     cl_LeaseEpoch = 5, cl_ClaimExpiresAt = w_expiry\<rparr>"

definition w_complete :: CompleteCommandRequest where
  "w_complete = \<lparr>co_TenantID = ''t1'', co_SessionID = ''s1'', co_CommandID = ''c1'', co_ExpectedRevision = 3,
     co_LeaseEpoch = 6, co_Result = \<lparr>cr_CompletedAt = w_expiry, cr_EventID = ''ev1'', cr_JournalSeq = 2\<rparr>\<rparr>"

definition w_reject :: RejectCommandRequest where
  "w_reject = \<lparr>rj_TenantID = ''t1'', rj_SessionID = ''s1'', rj_CommandID = ''c1'', rj_ExpectedRevision = 1,
     rj_LeaseEpoch = 0, rj_Rejection = ''late''\<rparr>"

definition w_get :: GetCommandRequest where
  "w_get = \<lparr>gc_TenantID = ''t1'', gc_SessionID = ''s1'', gc_CommandID = ''c1''\<rparr>"

definition w_t1 :: mem where "w_t1 = snd (AdmitCommand mem_store w_admit w_t0)"

text \<open>That state as it comes out: the witnesses of the scope and its mode, and the one pending row.\<close>

definition w_keys :: "ProtocolMode \<Rightarrow> (string \<times> string) list" where
  "w_keys mode = (let scope = w_scope in
     [(sc_sessionWitnessKey scope, sc_sessionWitness scope), (sc_tenantWitnessKey scope, sc_tenantWitness scope),
      (protocolKey scope, projr (encodeWitness 1 [sc_sessionWitness scope, mode_text mode]))])"

lemma w_t1_code [code]:
  "w_t1 = (let scope = w_scope; (v, r) = projr (encodeInboxRecord mem_core w_pending) in
     w_t0\<lparr>mem_kv := w_keys ProtocolModeLegacy,
       mem_rows := [\<lparr>rec_ID = inboxID scope ''c1'', rec_RankingScope = sc_SessionNamespace scope, rec_Value = v,
         rec_Revision = 1, rec_Order = 1, rec_Rank = noRank, rec_Due = inboxDue r, rec_Deleted = False\<rparr>]\<rparr>)"
  by code_simp

text \<open>The command at revision 3, applying under lease 5, with the effect in the journal.\<close>

definition w_applying :: InboxRecord where
  "w_applying = w_pending\<lparr>ib_AcceptedAt := UTC (ib_AcceptedAt w_pending), ib_State := InboxStateApplying,
     ib_Claim := \<lparr>cc_LeaseEpoch = 5, cc_ExpiresAt = w_expiry\<rparr>\<rparr>"

definition w_row :: ordered_record where
  "w_row = \<lparr>rec_ID = inboxID w_scope ''c1'', rec_RankingScope = sc_SessionNamespace w_scope,
     rec_Value = fst (projr (encodeInboxRecord mem_core w_applying)), rec_Revision = 3, rec_Order = 1,
     rec_Rank = noRank, rec_Due = inboxDue w_applying, rec_Deleted = False\<rparr>"

definition w_journal :: "string list" where "w_journal = [w_frame w_prefix, w_frame w_event]"

definition w_t3 :: mem where
  "w_t3 = w_t0\<lparr>mem_kv := w_keys ProtocolModeLegacy, mem_rows := [w_row], mem_journal := w_journal\<rparr>"

definition w_t1_fenced :: mem where
  "w_t1_fenced = w_t1\<lparr>mem_journal := [w_frame w_prefix, w_frame w_fence]\<rparr>"

lemma w_claims: "isOK (fst (ClaimCommand mem_store w_claim w_t1))" by code_simp
lemma w_gets:
  "(case GetCommand mem_store w_get w_t1 of (Inr e, t) \<Rightarrow> ie_EntryRevision e = 1 \<and> t = w_t1 | _ \<Rightarrow> False)" by code_simp
lemma w_completes: "isOK (fst (CompleteCommand mem_store w_complete w_t3))" by code_simp
lemma w_rejects: "isOK (fst (RejectCommand mem_store w_reject w_t1_fenced))" by code_simp

theorem legacy_inbox_refines_lifecycle_witness:
  "\<exists>entry t scope r. ClaimCommand mem_store w_claim w_t1 = (Inr entry, t) \<and>
    inbox_write mem_store mem_version w_t1 t scope ''c1'' 1 r (ie_Record entry) \<and>
    inbox_step (st_Now mem_store w_t1) r (ie_Record entry)"
proof -
  obtain entry t where run: "ClaimCommand mem_store w_claim w_t1 = (Inr entry, t)"
    using w_claims by (rule isOK_pairE)
  then have "runInboxOp mem_store (ClaimOp w_claim) w_t1 = (Inr entry, t)" by simp
  moreover have "op_command (ClaimOp w_claim) = (''t1'', ''s1'', ''c1'')" by (simp add: w_claim_def)
  moreover note mem_utf8
  moreover have "op_revision (ClaimOp w_claim) = 1" by (simp add: w_claim_def)
  ultimately show ?thesis using legacy_inbox_refines_lifecycle [OF mem_oi_contract] run by metis
qed

theorem legacy_lifecycle_invariants_witness:
  "\<exists>e f t. GetCommand mem_store w_get w_t1 = (Inr e, w_t1) \<and> ClaimCommand mem_store w_claim w_t1 = (Inr f, t) \<and>
     legacy_run mem_store mem_version (''t1'', ''s1'', ''c1'') w_t1 e t f \<and> sameInboxCommand (ie_Record e) (ie_Record f)"
proof -
  obtain e where get: "GetCommand mem_store w_get w_t1 = (Inr e, w_t1)" and e: "ie_EntryRevision e = 1"
    using w_gets by (auto split: prod.split_asm sum.split_asm)
  obtain f t where claim: "ClaimCommand mem_store w_claim w_t1 = (Inr f, t)" using w_claims by (rule isOK_pairE)
  have key: "(gc_TenantID w_get, gc_SessionID w_get, gc_CommandID w_get) = (''t1'', ''s1'', ''c1'')" by (simp add: w_get_def)
  have op: "op_command (ClaimOp w_claim) = (gc_TenantID w_get, gc_SessionID w_get, gc_CommandID w_get)"
    "op_revision (ClaimOp w_claim) = ie_EntryRevision e" by (simp_all add: w_claim_def w_get_def e)
  have run: "legacy_run mem_store mem_version (gc_TenantID w_get, gc_SessionID w_get, gc_CommandID w_get) w_t1 e t f"
    by (rule legacy_run.Op [OF legacy_run.Start grows_refl op]) (simp add: claim)
  from legacy_lifecycle_invariants [OF mem_oi_contract mem_utf8 get run] get claim run show ?thesis unfolding key by blast
qed

theorem legacy_transition_has_one_winner_witness:
  "\<exists>entry t. ClaimCommand mem_store w_claim w_t1 = (Inr entry, t) \<and> isl (fst (RejectCommand mem_store w_reject t))"
proof -
  obtain entry t where run: "ClaimCommand mem_store w_claim w_t1 = (Inr entry, t)"
    using w_claims by (rule isOK_pairE)
  then have "runInboxOp mem_store (ClaimOp w_claim) w_t1 = (Inr entry, t)" by simp
  moreover have "op_command (ClaimOp w_claim) = op_command (RejectOp w_reject)"
    "op_revision (ClaimOp w_claim) = op_revision (RejectOp w_reject)" by (simp_all add: w_claim_def w_reject_def)
  moreover note mem_utf8
  ultimately have "isl (fst (runInboxOp mem_store (RejectOp w_reject) t))"
    using legacy_transition_has_one_winner [OF mem_oi_contract] grows_refl by metis
  with run show ?thesis by simp
qed

theorem rejection_proves_no_effect_witness:
  "\<exists>entry t. RejectCommand mem_store w_reject w_t1_fenced = (Inr entry, t) \<and>
    (\<exists>scope tip recs u w. scan_reads mem_store scope tip recs u w)"
proof -
  obtain entry t where run: "RejectCommand mem_store w_reject w_t1_fenced = (Inr entry, t)"
    using w_rejects by (rule isOK_pairE)
  from rejection_proves_no_effect [OF mem_oi_contract run] run show ?thesis by blast
qed

theorem completion_by_successor_names_effect_witness:
  "\<exists>entry t r recs runtime. CompleteCommand mem_store w_complete w_t3 = (Inr entry, t) \<and>
    (cc_LeaseEpoch (ib_Claim r) = 6 \<or> effect_in runtime r recs 2 ''ev1'')"
proof -
  obtain entry t where run: "CompleteCommand mem_store w_complete w_t3 = (Inr entry, t)"
    using w_completes by (rule isOK_pairE)
  have "co_LeaseEpoch w_complete = 6" "cr_JournalSeq (co_Result w_complete) = 2"
    "cr_EventID (co_Result w_complete) = ''ev1''" by (simp_all add: w_complete_def)
  with completion_by_successor_names_effect [OF mem_oi_contract run] run show ?thesis by metis
qed

theorem recovery_scan_computes_verdict_witness:
  "\<exists>app t recs. scanCommandApplication mem_store w_scope w_pending (w_t0\<lparr>mem_journal := w_journal\<rparr>) = (Inr app, t) \<and>
    scan_reads mem_store w_scope (ca_CapturedTip app) recs (w_t0\<lparr>mem_journal := w_journal\<rparr>) t"
proof -
  have "isOK (fst (scanCommandApplication mem_store w_scope w_pending (w_t0\<lparr>mem_journal := w_journal\<rparr>)))" by code_simp
  then obtain app t where run: "scanCommandApplication mem_store w_scope w_pending (w_t0\<lparr>mem_journal := w_journal\<rparr>) = (Inr app, t)"
    by (rule isOK_pairE)
  with recovery_scan_computes_verdict [OF run] show ?thesis by blast
qed

end
