(* ===== verification/Placement.thy ===== *)
theory Placement
  imports Inbox_Record Session_Binding
begin

text \<open>
  \<^verbatim>\<open>placement.go\<close>: the opaque desired workload, its canonical form, and the generation counter every
  desired-state write advances.
\<close>

definition MaxDesiredWorkloadPayloadBytes :: nat where "MaxDesiredWorkloadPayloadBytes = 16 * 1024"

record DesiredWorkload =
  dw_PayloadVersion :: string
  dw_Payload :: string

definition zeroWorkload :: DesiredWorkload where "zeroWorkload = \<lparr>dw_PayloadVersion = [], dw_Payload = []\<rparr>"

definition workload_isZero :: "DesiredWorkload \<Rightarrow> bool" where
  "workload_isZero w \<longleftrightarrow> dw_PayloadVersion w = [] \<and> length (dw_Payload w) = 0"

definition canonicalDesiredWorkload :: "core_lib \<Rightarrow> DesiredWorkload \<Rightarrow> err + DesiredWorkload" where
  "canonicalDesiredWorkload c w =
    (if workload_isZero w then Inr zeroWorkload
     else bindR (validateOpaque c (dw_PayloadVersion w) ''desired_workload.payload_version'' catalogInvalid) (\<lambda>_.
       if length (dw_Payload w) = 0 then Inl (catalogErr CatalogErrorInvalid ''desired_workload.payload'')
       else if length (dw_Payload w) > MaxDesiredWorkloadPayloadBytes
       then Inl (catalogErr CatalogErrorTooLarge ''desired_workload.payload'')
       else Inr w))"

definition validateDesiredPlacement :: "core_lib \<Rightarrow> string \<Rightarrow> err + unit" where
  "validateDesiredPlacement c placement =
    (if placement = HostPlacementPooled c \<or> placement = HostPlacementDedicated c then Inr ()
     else Inl (catalogErr CatalogErrorInvalid ''desired_placement''))"

definition initialDesiredGeneration :: u64 where "initialDesiredGeneration = 1"

definition nextDesiredGeneration :: "u64 \<Rightarrow> err + u64" where
  "nextDesiredGeneration current =
    (if current = - 1 then Inl (catalogErr CatalogErrorSequence ''desired_generation'') else Inr (current + 1))"

definition workload_ok :: "core_lib \<Rightarrow> DesiredWorkload \<Rightarrow> bool" where
  "workload_ok c w \<longleftrightarrow> w = zeroWorkload \<or>
     dw_PayloadVersion w \<noteq> [] \<and> length (dw_PayloadVersion w) \<le> MaxIDBytes c \<and> ValidString (dw_PayloadVersion w) \<and>
     dw_Payload w \<noteq> [] \<and> length (dw_Payload w) \<le> MaxDesiredWorkloadPayloadBytes"

lemma canonicalDesiredWorkload_iff [simp]: "canonicalDesiredWorkload c w = Inr w' \<longleftrightarrow> workload_ok c w \<and> w' = w"
  by (cases w) (auto simp: canonicalDesiredWorkload_def workload_isZero_def zeroWorkload_def workload_ok_def not_less)

lemma workload_ok_valid: "workload_ok c w \<Longrightarrow> ValidString (dw_PayloadVersion w)"
  by (auto simp: workload_ok_def zeroWorkload_def)

lemma validateDesiredPlacement_Inr_iff [simp]:
  "validateDesiredPlacement c p = Inr u \<longleftrightarrow> p = HostPlacementPooled c \<or> p = HostPlacementDedicated c"
  by (auto simp: validateDesiredPlacement_def)

text \<open>A generation never wraps: its successor is above it, or the write is refused.\<close>

lemma nextDesiredGeneration_Inr:
  "nextDesiredGeneration g = Inr g' \<longleftrightarrow> g' = g + 1 \<and> unat g' = Suc (unat g)"
  by (auto simp: nextDesiredGeneration_def unat_Suc_less_max)

subsection \<open>Embedded structs on the wire\<close>

text \<open>A member of an embedded struct: its reader works on the part of the wire value it belongs to.\<close>

definition nested :: "('w \<Rightarrow> 'a) \<Rightarrow> (('a \<Rightarrow> 'a) \<Rightarrow> 'w \<Rightarrow> 'w) \<Rightarrow> 'a field_table \<Rightarrow> 'w field_table" where
  "nested get upd tbl = map (\<lambda>(k, f). (k, \<lambda>j w. map_option (\<lambda>x. upd (\<lambda>_. x) w) (f j (get w)))) tbl"

lemma map_of_nested: "map_of (nested get upd tbl) k =
    map_option (\<lambda>f j w. map_option (\<lambda>x. upd (\<lambda>_. x) w) (f j (get w))) (map_of tbl k)"
  by (induction tbl) (auto simp: nested_def)

lemma map_of_nested_append: "map_of tbl k = Some f \<Longrightarrow>
    map_of (pre @ nested get upd tbl @ post) k =
      (case map_of pre k of Some g \<Rightarrow> Some g | None \<Rightarrow> Some (\<lambda>j w. map_option (\<lambda>x. upd (\<lambda>_. x) w) (f j (get w))))"
  by (simp add: map_of_append map_add_def map_of_nested split: option.split)

text \<open>Members that all belong to the embedded struct are read into it.\<close>

lemma decode_nested:
  assumes laws: "\<And>f g w. upd f (upd g w) = upd (\<lambda>x. f (g x)) w" "\<And>f w. get (upd f w) = f (get w)"
      "\<And>w. upd (\<lambda>_. get w) w = w"
    and members: "list_all (\<lambda>m. \<exists>f. map_of sub (fold_name (fst m)) = Some f \<and>
      map_of tbl (fold_name (fst m)) = Some (\<lambda>j w. map_option (\<lambda>x. upd (\<lambda>_. x) w) (f j (get w)))) ms"
    and sub: "decode_members True sub ms (get w) = Some x"
  shows "decode_members True tbl ms w = Some (upd (\<lambda>_. x) w)"
  using members sub
proof (induction ms arbitrary: w)
  case Nil
  then show ?case using laws(3) by auto
next
  case (Cons m ms)
  obtain k v where m: "m = (k, v)" by force
  from Cons.prems(1) obtain f where f: "map_of sub (fold_name k) = Some f"
    "map_of tbl (fold_name k) = Some (\<lambda>j w. map_option (\<lambda>x. upd (\<lambda>_. x) w) (f j (get w)))"
    by (auto simp: m)
  from Cons.prems(2) f(1) obtain y where y: "f v (get w) = Some y" "decode_members True sub ms y = Some x"
    by (auto simp: m split: option.split_asm)
  have "decode_members True tbl ms (upd (\<lambda>_. y) w) = Some (upd (\<lambda>_. x) (upd (\<lambda>_. y) w))"
    using Cons.IH [of "upd (\<lambda>_. y) w"] Cons.prems(1) y(2) laws(2) by simp
  then show ?case by (simp add: m f y(1) laws(1))
qed

subsection \<open>The wire form of a workload\<close>

definition workload_json :: "DesiredWorkload \<Rightarrow> json" where
  "workload_json w = JObj [(''payload_version'', jstr (dw_PayloadVersion w)), (''payload'', jbytes (dw_Payload w))]"

definition workload_fields :: "DesiredWorkload field_table" where
  "workload_fields = [(''payload_version'', into dec_string dw_PayloadVersion dw_PayloadVersion_update),
    (''payload'', into dec_bytes dw_Payload dw_Payload_update)]"

lemma workload_read [simp]:
  "ValidString (dw_PayloadVersion w) \<Longrightarrow> decode_struct True workload_fields (workload_json w) old = Some w"
  by (cases w) (simp add: workload_json_def workload_fields_def fold_name_plain plain_char_def)

lemma workload_json_not_null [simp]: "workload_json w \<noteq> JNull"
  by (simp add: workload_json_def)

subsection \<open>The wire form of a binding\<close>

definition binding_json :: "SessionBinding \<Rightarrow> json" where
  "binding_json b = JObj [(''storage_binding_id'', jstr (sb_StorageBindingID b)),
    (''binding_version'', jstr (sb_BindingVersion b)), (''runtime_session_id'', jstr (sb_RuntimeSessionID b)),
    (''protocol_mode'', jstr (mode_text (sb_ProtocolMode b)))]"

definition dec_mode :: "json \<Rightarrow> ProtocolMode \<Rightarrow> ProtocolMode option" where
  "dec_mode j old = map_option mode_of_text (dec_string j (mode_text old))"

definition binding_fields :: "SessionBinding field_table" where
  "binding_fields = [(''storage_binding_id'', into dec_string sb_StorageBindingID sb_StorageBindingID_update),
    (''binding_version'', into dec_string sb_BindingVersion sb_BindingVersion_update),
    (''runtime_session_id'', into dec_string sb_RuntimeSessionID sb_RuntimeSessionID_update),
    (''protocol_mode'', into dec_mode sb_ProtocolMode sb_ProtocolMode_update)]"

lemma dec_mode_text [simp]:
  "m \<in> {ProtocolModeLegacy, ProtocolModeDisposition} \<Longrightarrow> dec_mode (jstr (mode_text m)) old = Some m"
proof -
  have "ValidString ''legacy''" "ValidString ''disposition''" by (rule ValidString_ascii, simp)+
  moreover have "ValidString s \<Longrightarrow> dec_mode (jstr s) old = Some (mode_of_text s)" for s
    by (simp add: dec_mode_def)
  moreover have "mode_of_text ''legacy'' = ProtocolModeLegacy" "mode_of_text ''disposition'' = ProtocolModeDisposition"
    by (simp_all add: mode_of_text_def)
  ultimately show "m \<in> {ProtocolModeLegacy, ProtocolModeDisposition} \<Longrightarrow> dec_mode (jstr (mode_text m)) old = Some m"
    by (elim insertE emptyE) simp_all
qed

lemma binding_read:
  assumes "validateBinding c b = Inr u"
  shows "decode_struct True binding_fields (binding_json b) old = Some b"
proof -
  have "ValidString (sb_StorageBindingID b)" "ValidString (sb_BindingVersion b)" "ValidString (sb_RuntimeSessionID b)"
    "\<And>old. dec_mode (jstr (mode_text (sb_ProtocolMode b))) old = Some (sb_ProtocolMode b)"
    using assms unfolding validateBinding_Inr_iff by (auto intro: dec_mode_text)
  then show ?thesis
    by (cases b) (simp add: binding_json_def binding_fields_def fold_name_plain plain_char_def)
qed

lemma binding_json_not_null [simp]: "binding_json b \<noteq> JNull"
  by (simp add: binding_json_def)

end
