(* ===== verification/Public_Create_Record.thy ===== *)
theory Public_Create_Record
  imports Placement
begin

text \<open>
  \<^verbatim>\<open>public_create.go\<close>, the record: the immutable reservation of a public session creation, its
  canonical form and its strict JSON codec (a reservation is read only from the bytes it is written
  as), where it is filed, and which stored row answers for an identity.
\<close>

definition PublicCreateReservationVersion :: u8 where "PublicCreateReservationVersion = 1"
definition MaxCatalogRecordBytes :: nat where "MaxCatalogRecordBytes = 256 * 1024"
definition publicCreateNamespace :: string where "publicCreateNamespace = ''sessionstore/public-create''"

record HostTargetKey =
  hk_AgentID :: string
  hk_RuntimeCompatibilityID :: string
  hk_Placement :: string

record PublicCreateIdentity =
  pi_TenantID :: string
  pi_SessionID :: string
  pi_CommandID :: string
  pi_Target :: HostTargetKey
  pi_Binding :: SessionBinding
  pi_Kind :: string
  pi_PayloadDigest :: string
  pi_PayloadSize :: u64

record PublicCreateReservation =
  pr_Identity :: PublicCreateIdentity
  pr_RuntimeCommandID :: string
  pr_AcceptedAt :: gotime
  pr_ApplyDeadline :: gotime
  pr_InitialWorkload :: DesiredWorkload

subsection \<open>Validation\<close>

definition validatePublicCreateIdentity :: "core_lib \<Rightarrow> PublicCreateIdentity \<Rightarrow> err + unit" where
  "validatePublicCreateIdentity c i =
    bindR (ensureR (tenant_ok c (pi_TenantID i)) (inboxInvalid ''tenant_id'')) (\<lambda>_.
    bindR (ensureR (session_ok c (pi_SessionID i)) (inboxInvalid ''session_id'')) (\<lambda>_.
    bindR (ensureR (command_ok c (pi_CommandID i)) (inboxInvalid ''command_id'')) (\<lambda>_.
    bindR (ensureR (agent_ok c (hk_AgentID (pi_Target i))) (inboxInvalid ''agent_id'')) (\<lambda>_.
    bindR (validateOpaque c (hk_RuntimeCompatibilityID (pi_Target i)) ''runtime_compatibility_id'' inboxInvalid) (\<lambda>_.
    bindR (validateDesiredPlacement c (hk_Placement (pi_Target i))) (\<lambda>_.
    bindR (validateOpaque c (pi_Kind i) ''kind'' inboxInvalid) (\<lambda>_.
    bindR (validateBinding c (pi_Binding i)) (\<lambda>_.
    bindR (ensureR (sb_ProtocolMode (pi_Binding i) = ProtocolModeDisposition) (inboxInvalid ''binding.protocol_mode'')) (\<lambda>_.
    bindR (ensureR (length (pi_PayloadDigest i) = 64) (inboxInvalid ''payload_digest'')) (\<lambda>_.
    bindR (case hex_decode (pi_PayloadDigest i) of
             None \<Rightarrow> Inl (inboxInvalid ''payload_digest'')
           | Some d \<Rightarrow> ensureR (length d = 32 \<and> hex_encode d = pi_PayloadDigest i \<and> d \<noteq> replicate 32 (CHR 0x00))
                         (inboxInvalid ''payload_digest'')) (\<lambda>_.
    if pi_PayloadSize i = 0 \<and> pi_PayloadDigest i \<noteq> hex_encode (Sum256 [])
    then Inl (inboxInvalid ''payload_digest'') else Inr ())))))))))))"

definition canonicalPublicCreate :: "core_lib \<Rightarrow> PublicCreateReservation \<Rightarrow> err + PublicCreateReservation" where
  "canonicalPublicCreate c r =
    bindR (validatePublicCreateIdentity c (pr_Identity r)) (\<lambda>_.
    let i = pr_Identity r in
    bindR (canonicalInboxRecord c \<lparr>ib_TenantID = pi_TenantID i, ib_SessionID = pi_SessionID i,
      ib_CommandID = pi_CommandID i, ib_RuntimeCommandID = pr_RuntimeCommandID r, ib_Kind = pi_Kind i,
      ib_Payload = [], ib_PayloadRef = zeroRef, ib_AcceptedAt = pr_AcceptedAt r,
      ib_ApplyDeadline = pr_ApplyDeadline r, ib_State = InboxStatePending, ib_Claim = zeroClaim,
      ib_Result = zeroResult, ib_Rejection = None\<rparr>) (\<lambda>base.
    bindR (canonicalDesiredWorkload c (pr_InitialWorkload r)) (\<lambda>w.
    Inr (r\<lparr>pr_AcceptedAt := ib_AcceptedAt base, pr_ApplyDeadline := ib_ApplyDeadline base,
           pr_InitialWorkload := w\<rparr>))))"

subsection \<open>Wire form\<close>

definition target_json :: "HostTargetKey \<Rightarrow> json" where
  "target_json t = JObj [(''agent_id'', jstr (hk_AgentID t)),
    (''runtime_compatibility_id'', jstr (hk_RuntimeCompatibilityID t)), (''placement'', jstr (hk_Placement t))]"

definition target_fields :: "HostTargetKey field_table" where
  "target_fields = [(''agent_id'', into dec_string hk_AgentID hk_AgentID_update),
    (''runtime_compatibility_id'', into dec_string hk_RuntimeCompatibilityID hk_RuntimeCompatibilityID_update),
    (''placement'', into dec_string hk_Placement hk_Placement_update)]"

definition identity_json :: "PublicCreateIdentity \<Rightarrow> json" where
  "identity_json i = JObj [(''tenant_id'', jstr (pi_TenantID i)), (''session_id'', jstr (pi_SessionID i)),
    (''command_id'', jstr (pi_CommandID i)), (''target'', target_json (pi_Target i)),
    (''binding'', binding_json (pi_Binding i)), (''kind'', jstr (pi_Kind i)),
    (''payload_digest'', jstr (pi_PayloadDigest i)), (''payload_size'', ju64 (pi_PayloadSize i))]"

definition identity_fields :: "PublicCreateIdentity field_table" where
  "identity_fields = [(''tenant_id'', into dec_string pi_TenantID pi_TenantID_update),
    (''session_id'', into dec_string pi_SessionID pi_SessionID_update),
    (''command_id'', into dec_string pi_CommandID pi_CommandID_update),
    (''target'', into (decode_struct True target_fields) pi_Target pi_Target_update),
    (''binding'', into (decode_struct True binding_fields) pi_Binding pi_Binding_update),
    (''kind'', into dec_string pi_Kind pi_Kind_update),
    (''payload_digest'', into dec_string pi_PayloadDigest pi_PayloadDigest_update),
    (''payload_size'', into dec_word pi_PayloadSize pi_PayloadSize_update)]"

text \<open>The members of a reservation: the body of the reservation record, and of the catalog's copy of it.\<close>

definition reservation_members :: "PublicCreateReservation \<Rightarrow> (string \<times> json) list" where
  "reservation_members r =
    [(''identity'', identity_json (pr_Identity r)), (''runtime_command_id'', jstr (pr_RuntimeCommandID r)),
     (''accepted_at'', jtime (pr_AcceptedAt r)), (''apply_deadline'', jtime (pr_ApplyDeadline r)),
     (''initial_workload'', workload_json (pr_InitialWorkload r))]"

definition reservation_fields :: "PublicCreateReservation field_table" where
  "reservation_fields = [(''identity'', into (decode_struct True identity_fields) pr_Identity pr_Identity_update),
    (''runtime_command_id'', into dec_string pr_RuntimeCommandID pr_RuntimeCommandID_update),
    (''accepted_at'', into dec_time pr_AcceptedAt pr_AcceptedAt_update),
    (''apply_deadline'', into dec_time pr_ApplyDeadline pr_ApplyDeadline_update),
    (''initial_workload'', into (decode_struct True workload_fields) pr_InitialWorkload pr_InitialWorkload_update)]"

definition zeroReservation :: PublicCreateReservation where
  "zeroReservation = \<lparr>pr_Identity = \<lparr>pi_TenantID = [], pi_SessionID = [], pi_CommandID = [],
      pi_Target = \<lparr>hk_AgentID = [], hk_RuntimeCompatibilityID = [], hk_Placement = []\<rparr>,
      pi_Binding = zeroBinding, pi_Kind = [], pi_PayloadDigest = [], pi_PayloadSize = 0\<rparr>,
    pr_RuntimeCommandID = [], pr_AcceptedAt = zeroTime, pr_ApplyDeadline = zeroTime,
    pr_InitialWorkload = zeroWorkload\<rparr>"

record publicCreateWire =
  pw_RecordVersion :: u8
  pw_Reservation :: PublicCreateReservation

definition publicCreateWire_json :: "publicCreateWire \<Rightarrow> json" where
  "publicCreateWire_json w = JObj ((''record_version'', ju8 (pw_RecordVersion w)) # reservation_members (pw_Reservation w))"

definition publicCreateWire_fields :: "publicCreateWire field_table" where
  "publicCreateWire_fields = (''record_version'', into dec_word pw_RecordVersion pw_RecordVersion_update) #
     nested pw_Reservation pw_Reservation_update reservation_fields"

definition encodePublicCreate :: "core_lib \<Rightarrow> PublicCreateReservation \<Rightarrow> err + stored_bytes \<times> PublicCreateReservation" where
  "encodePublicCreate c r0 =
    bindR (canonicalPublicCreate c r0) (\<lambda>r.
    let v = publicCreateWire_json \<lparr>pw_RecordVersion = PublicCreateReservationVersion, pw_Reservation = r\<rparr> in
    if json_len c v > MaxCatalogRecordBytes then Inl (inboxErr InboxErrorTooLarge ''reservation'')
    else Inr (Marshalled v, r))"

definition decodePublicCreate :: "core_lib \<Rightarrow> stored_bytes \<Rightarrow> err + PublicCreateReservation" where
  "decodePublicCreate c v =
    bindR (decodeVersionedRecord c (\<lambda>j. decode_struct True publicCreateWire_fields j
        \<lparr>pw_RecordVersion = 0, pw_Reservation = zeroReservation\<rparr>) v
      MaxCatalogRecordBytes PublicCreateReservationVersion
      \<lparr>vf_Record = ''reservation'', vf_Version = ''record_version''\<rparr> inboxRecordFailure) (\<lambda>w.
    bindR (encodePublicCreate c (pw_Reservation w)) (\<lambda>(canonical, r).
    if canonical \<noteq> v then Inl (inboxErr InboxErrorMalformed ''reservation'') else Inr r))"

subsection \<open>Where a reservation is filed, and which row answers\<close>

definition publicCreateID :: "sessionScope \<Rightarrow> string \<Rightarrow> ordered_id" where
  "publicCreateID scope command = \<lparr>oid_Namespace = publicCreateNamespace,
     oid_OrderingScope = sc_TenantNamespace scope, oid_StableKey = command\<rparr>"

definition publicCreateWinner ::
  "core_lib \<Rightarrow> ordered_record \<Rightarrow> sessionScope \<Rightarrow> PublicCreateIdentity \<Rightarrow> err + PublicCreateReservation" where
  "publicCreateWinner c stored scope identity =
    (if rec_Deleted stored then Inl (inboxErr InboxErrorDeleted ''reservation'')
     else bindR (decodePublicCreate c (rec_Value stored)) (\<lambda>r.
       if rec_ID stored \<noteq> publicCreateID scope (pi_CommandID identity) \<or> rec_Order stored = 0
          \<or> rec_Revision stored \<noteq> 1 \<or> pi_TenantID (pr_Identity r) \<noteq> pi_TenantID identity
          \<or> pi_CommandID (pr_Identity r) \<noteq> pi_CommandID identity
       then Inl (inboxErr InboxErrorIdentity ''reservation'')
       else bindR (checkFiledScope stored (sc_TenantNamespace scope) NoDue inboxIdentity) (\<lambda>_.
         if pr_Identity r \<noteq> identity then Inl (inboxErr InboxErrorCommandMismatch ''reservation'')
         else Inr r)))"

definition samePublicCreate :: "core_lib \<Rightarrow> PublicCreateReservation option \<Rightarrow> PublicCreateReservation option \<Rightarrow> bool" where
  "samePublicCreate c a b =
    (case (a, b) of
       (Some x, Some y) \<Rightarrow>
         (case (encodePublicCreate c x, encodePublicCreate c y) of
            (Inr (av, _), Inr (bv, _)) \<Rightarrow> av = bv
          | _ \<Rightarrow> False)
     | _ \<Rightarrow> a = None \<and> b = None)"

subsection \<open>The reservation reads back\<close>

definition reservation_valid :: "core_lib \<Rightarrow> PublicCreateReservation \<Rightarrow> bool" where
  "reservation_valid c r \<longleftrightarrow> validatePublicCreateIdentity c (pr_Identity r) = Inr () \<and>
     pr_RuntimeCommandID r \<noteq> [] \<and> length (pr_RuntimeCommandID r) \<le> MaxIDBytes c \<and> ValidString (pr_RuntimeCommandID r) \<and>
     rankableTime (pr_AcceptedAt r) \<and> rankableTime (pr_ApplyDeadline r) \<and>
     workload_ok c (pr_InitialWorkload r)"

definition reservation_stamped :: "PublicCreateReservation \<Rightarrow> PublicCreateReservation" where
  "reservation_stamped r = r\<lparr>pr_AcceptedAt := UTC (pr_AcceptedAt r), pr_ApplyDeadline := UTC (pr_ApplyDeadline r)\<rparr>"

lemma canonicalPublicCreate_iff:
  "canonicalPublicCreate c r = Inr r' \<longleftrightarrow> reservation_valid c r \<and> r' = reservation_stamped r"
proof -
  let ?i = "pr_Identity r"
  have ids: "validatePublicCreateIdentity c ?i = Inr () \<Longrightarrow> tenant_ok c (pi_TenantID ?i) \<and> session_ok c (pi_SessionID ?i) \<and>
     command_ok c (pi_CommandID ?i) \<and> pi_Kind ?i \<noteq> [] \<and> length (pi_Kind ?i) \<le> MaxIDBytes c \<and> ValidString (pi_Kind ?i)"
    by (auto simp: validatePublicCreateIdentity_def)
  have base: "inbox_valid c \<lparr>ib_TenantID = pi_TenantID ?i, ib_SessionID = pi_SessionID ?i,
      ib_CommandID = pi_CommandID ?i, ib_RuntimeCommandID = pr_RuntimeCommandID r, ib_Kind = pi_Kind ?i,
      ib_Payload = [], ib_PayloadRef = zeroRef, ib_AcceptedAt = pr_AcceptedAt r,
      ib_ApplyDeadline = pr_ApplyDeadline r, ib_State = InboxStatePending, ib_Claim = zeroClaim,
      ib_Result = zeroResult, ib_Rejection = None\<rparr> \<longleftrightarrow>
    pr_RuntimeCommandID r \<noteq> [] \<and> length (pr_RuntimeCommandID r) \<le> MaxIDBytes c \<and> ValidString (pr_RuntimeCommandID r) \<and>
     rankableTime (pr_AcceptedAt r) \<and> rankableTime (pr_ApplyDeadline r)"
    if "validatePublicCreateIdentity c ?i = Inr ()"
    using ids [OF that]
    by (auto simp: inbox_valid_def validateInboxState_def validateCommandClaim_def
        validateCommandResult_def validateCommandRejection_def zeroClaim_def zeroResult_def claim_isZero_def
        result_isZero_def IsZero_def zeroTime_def)
  show ?thesis
  proof (cases "validatePublicCreateIdentity c ?i = Inr ()")
    case True
    with base [OF True] show ?thesis
      by (cases r) (auto simp: canonicalPublicCreate_def canonicalInboxRecord_iff reservation_valid_def
          reservation_stamped_def stampUTC_def Let_def)
  next
    case False
    then show ?thesis by (auto simp: canonicalPublicCreate_def reservation_valid_def)
  qed
qed

lemma reservation_stamped_simps [simp]:
  "reservation_valid c (reservation_stamped r) = reservation_valid c r"
  "reservation_stamped (reservation_stamped r) = reservation_stamped r"
  by (simp_all add: reservation_valid_def reservation_stamped_def)

lemma ValidString_hex_encode: "ValidString (hex_encode s)"
proof (rule ValidString_ascii)
  have "byte_of (hex_digit n) < 128" if "n < 16" for n
    using that by (simp add: hex_digit_def)
  moreover have "byte_of c div 16 < 16" for c :: char using byte_of_lt [of c] by linarith
  ultimately show "\<forall>c \<in> set (hex_encode s). byte_of c < 128" by (induction s) simp_all
qed

definition identity_readable :: "PublicCreateIdentity \<Rightarrow> bool" where
  "identity_readable i \<longleftrightarrow> ValidString (pi_TenantID i) \<and> ValidString (pi_SessionID i) \<and> ValidString (pi_CommandID i) \<and>
     ValidString (hk_AgentID (pi_Target i)) \<and> ValidString (hk_RuntimeCompatibilityID (pi_Target i)) \<and>
     ValidString (hk_Placement (pi_Target i)) \<and> ValidString (pi_Kind i) \<and> ValidString (pi_PayloadDigest i) \<and>
     (\<forall>old. decode_struct True binding_fields (binding_json (pi_Binding i)) old = Some (pi_Binding i))"

lemma identity_valid_readable:
  assumes "core_utf8 c" and "validatePublicCreateIdentity c i = Inr ()"
  shows "identity_readable i"
proof -
  from assms(2) have digest: "\<exists>d. hex_encode d = pi_PayloadDigest i" and bind: "validateBinding c (pi_Binding i) = Inr ()"
    by (auto simp: validatePublicCreateIdentity_def split: option.split_asm)
  from digest have "ValidString (pi_PayloadDigest i)" using ValidString_hex_encode by metis
  with assms show ?thesis
    unfolding identity_readable_def
    by (auto simp: validatePublicCreateIdentity_def core_utf8_def binding_read [OF bind])
qed

lemma target_read [simp]:
  "\<lbrakk>ValidString (hk_AgentID t); ValidString (hk_RuntimeCompatibilityID t); ValidString (hk_Placement t)\<rbrakk> \<Longrightarrow>
     decode_struct True target_fields (target_json t) old = Some t"
  by (cases t) (simp add: target_json_def target_fields_def fold_name_plain plain_char_def)

lemma identity_read:
  assumes "identity_readable i"
  shows "decode_struct True identity_fields (identity_json i) old = Some i"
  using assms
  by (cases i) (simp add: identity_readable_def identity_json_def identity_fields_def fold_name_plain plain_char_def)

definition reservation_readable :: "PublicCreateReservation \<Rightarrow> bool" where
  "reservation_readable r \<longleftrightarrow> (\<forall>old. decode_struct True identity_fields (identity_json (pr_Identity r)) old = Some (pr_Identity r)) \<and>
     ValidString (pr_RuntimeCommandID r) \<and> minute_zone (pr_AcceptedAt r) \<and> minute_zone (pr_ApplyDeadline r) \<and>
     ValidString (dw_PayloadVersion (pr_InitialWorkload r))"

lemma reservation_valid_readable:
  assumes "core_utf8 c" and "reservation_valid c r" and "reservation_stamped r = r"
  shows "reservation_readable r"
proof -
  have "minute_zone (UTC t)" for t by (simp add: minute_zone_def)
  moreover have "pr_AcceptedAt (reservation_stamped r) = UTC (pr_AcceptedAt r)"
    "pr_ApplyDeadline (reservation_stamped r) = UTC (pr_ApplyDeadline r)"
    by (simp_all add: reservation_stamped_def)
  ultimately have "minute_zone (pr_AcceptedAt r)" "minute_zone (pr_ApplyDeadline r)" using assms(3) by metis+
  with assms(1,2) identity_read [OF identity_valid_readable] show ?thesis
    by (auto simp: reservation_readable_def reservation_valid_def workload_ok_valid)
qed

lemma reservation_members_read:
  assumes "reservation_readable r"
  shows "decode_members True reservation_fields (reservation_members r) old = Some r"
  using assms
  by (cases r; cases old) (simp add: reservation_members_def reservation_fields_def reservation_readable_def
      fold_name_plain plain_char_def)

lemma publicCreateWire_read:
  assumes "reservation_readable (pw_Reservation w)"
  shows "decode_struct True publicCreateWire_fields (publicCreateWire_json w) old = Some w"
proof -
  let ?old = "old\<lparr>pw_RecordVersion := pw_RecordVersion w\<rparr>"
  have "list_all (\<lambda>m. \<exists>f. map_of reservation_fields (fold_name (fst m)) = Some f \<and>
      map_of publicCreateWire_fields (fold_name (fst m)) =
        Some (\<lambda>j w. map_option (\<lambda>x. pw_Reservation_update (\<lambda>_. x) w) (f j (pw_Reservation w))))
      (reservation_members (pw_Reservation w))"
    by (simp add: reservation_members_def reservation_fields_def publicCreateWire_fields_def nested_def
        fold_name_plain plain_char_def)
  then have "decode_members True publicCreateWire_fields (reservation_members (pw_Reservation w)) ?old =
    Some (pw_Reservation_update (\<lambda>_. pw_Reservation w) ?old)"
    by (intro decode_nested [where get = pw_Reservation and upd = pw_Reservation_update and sub = reservation_fields])
      (simp_all add: comp_def reservation_members_read [OF assms])
  then show ?thesis
    by (cases w) (simp add: publicCreateWire_json_def publicCreateWire_fields_def fold_name_plain plain_char_def)
qed

lemma publicCreateWire_version: "version_probe (publicCreateWire_json w) = Some (pw_RecordVersion w)"
  unfolding publicCreateWire_json_def
  by (rule version_probe_head) (auto simp: reservation_members_def fold_name_plain plain_char_def)

lemma encodePublicCreate_Inr:
  "encodePublicCreate c r0 = Inr (v, r) \<longleftrightarrow> reservation_valid c r0 \<and> r = reservation_stamped r0 \<and>
     v = Marshalled (publicCreateWire_json \<lparr>pw_RecordVersion = PublicCreateReservationVersion, pw_Reservation = r\<rparr>) \<and>
     bytes_len c v \<le> MaxCatalogRecordBytes"
  by (auto simp: encodePublicCreate_def canonicalPublicCreate_iff Let_def)

lemma decodePublicCreate_encode:
  assumes "core_utf8 c" and "encodePublicCreate c r0 = Inr (v, r)"
  shows "decodePublicCreate c v = Inr r"
proof -
  let ?w = "\<lparr>pw_RecordVersion = PublicCreateReservationVersion, pw_Reservation = r\<rparr>"
  from assms(2) have r: "reservation_valid c r" "reservation_stamped r = r"
    and v: "v = Marshalled (publicCreateWire_json ?w)" and short: "bytes_len c v \<le> MaxCatalogRecordBytes"
    and again: "encodePublicCreate c r = Inr (v, r)"
    by (auto simp: encodePublicCreate_Inr)
  obtain ms where ms: "publicCreateWire_json ?w = JObj ms" by (simp add: publicCreateWire_json_def)
  have "decodeVersionedRecord c (\<lambda>j. decode_struct True publicCreateWire_fields j
        \<lparr>pw_RecordVersion = 0, pw_Reservation = zeroReservation\<rparr>) v
      MaxCatalogRecordBytes PublicCreateReservationVersion
      \<lparr>vf_Record = ''reservation'', vf_Version = ''record_version''\<rparr> inboxRecordFailure = Inr ?w"
    unfolding v ms decodeVersionedRecord_def
    by (rule decodeVersionedRecordOf_marshalled [where w = PublicCreateReservationVersion])
      (use short v ms publicCreateWire_version [of ?w]
         publicCreateWire_read [of ?w, simplified, OF reservation_valid_readable [OF assms(1) r]] in simp_all)
  then show ?thesis using again by (simp add: decodePublicCreate_def)
qed

lemma decodePublicCreate_strict: "decodePublicCreate c v = Inr r \<Longrightarrow> encodePublicCreate c r = Inr (v, r)"
  by (auto simp: decodePublicCreate_def encodePublicCreate_Inr split: prod.split_asm if_split_asm)

interpretation reservation_codec: strict_codec
  "canonicalPublicCreate c" "encodePublicCreate c" "decodePublicCreate c" "\<lambda>_. core_utf8 c" for c
  by unfold_locales
    (auto simp: canonicalPublicCreate_iff encodePublicCreate_Inr
       dest: decodePublicCreate_strict intro: decodePublicCreate_encode)

text \<open>
  C28. A reservation and its stored bytes determine each other: the encoder's bytes decode to the
  canonical reservation, and bytes decode only if they are exactly what the encoder writes for what
  they decode to.
\<close>

theorem public_create_codec_is_strict:
  assumes "core_utf8 c"
  shows "decodePublicCreate c v = Inr r \<longleftrightarrow> encodePublicCreate c r = Inr (v, r)"
  by (rule reservation_codec.decode_iff [OF assms])

text \<open>
  C29. What a reservation row answers for: the row accepted for an identity holds a reservation of
  exactly that identity, under a session binding of the disposition protocol, at the first revision.
\<close>

theorem public_create_winner_identity:
  assumes "publicCreateWinner c stored scope identity = Inr r"
  shows "pr_Identity r = identity \<and> sb_ProtocolMode (pi_Binding identity) = ProtocolModeDisposition \<and>
    rec_Revision stored = 1 \<and> \<not> rec_Deleted stored \<and> rec_ID stored = publicCreateID scope (pi_CommandID identity) \<and>
    encodePublicCreate c r = Inr (rec_Value stored, r) \<and>
    (pi_PayloadSize identity = 0 \<longrightarrow> pi_PayloadDigest identity = hex_encode (Sum256 []))"
proof -
  from assms have dec: "decodePublicCreate c (rec_Value stored) = Inr r" and id: "pr_Identity r = identity"
    and row: "rec_Revision stored = 1" "\<not> rec_Deleted stored" "rec_ID stored = publicCreateID scope (pi_CommandID identity)"
    by (auto simp: publicCreateWinner_def split: if_split_asm)
  from decodePublicCreate_strict [OF dec] have enc: "encodePublicCreate c r = Inr (rec_Value stored, r)" .
  then have "validatePublicCreateIdentity c identity = Inr ()"
    using id by (simp add: encodePublicCreate_Inr reservation_valid_def)
  then have "sb_ProtocolMode (pi_Binding identity) = ProtocolModeDisposition"
    "pi_PayloadSize identity = 0 \<longrightarrow> pi_PayloadDigest identity = hex_encode (Sum256 [])"
    by (auto simp: validatePublicCreateIdentity_def split: if_split_asm)
  with id row enc show ?thesis by simp
qed

end
