(* ===== verification/Catalog_Record.thy ===== *)
theory Catalog_Record
  imports Public_Create_Record "HOL-Library.List_Lexorder" "HOL-Library.Product_Lexorder"
begin

text \<open>
  \<^verbatim>\<open>catalog.go\<close>, the record: the replay-free projection of a session, its canonical form (UTC
  times, gates in their order) and its JSON codec with the three record versions: unbound, bound,
  and created publicly.
\<close>

definition CatalogRecordVersion :: u8 where "CatalogRecordVersion = 1"
definition CatalogBindingRecordVersion :: u8 where "CatalogBindingRecordVersion = 2"
definition CatalogPublicCreateRecordVersion :: u8 where "CatalogPublicCreateRecordVersion = 3"
definition MaxCatalogOpenGates :: nat where "MaxCatalogOpenGates = 16"

record CheckpointSummary =
  cp_JournalSeq :: u64
  cp_Reference :: object_reference
  cp_CapturedAt :: gotime

definition zeroCheckpoint :: CheckpointSummary where
  "zeroCheckpoint = \<lparr>cp_JournalSeq = 0, cp_Reference = zeroRef, cp_CapturedAt = zeroTime\<rparr>"

definition checkpoint_isZero :: "CheckpointSummary \<Rightarrow> bool" where
  "checkpoint_isZero x \<longleftrightarrow> cp_JournalSeq x = 0 \<and> or_ObjectID (cp_Reference x) = [] \<and> IsZero (cp_CapturedAt x)"

record CatalogRecord =
  ct_PublicCreate :: "PublicCreateReservation option"
  ct_Binding :: SessionBinding
  ct_TenantID :: string
  ct_SessionID :: string
  ct_AgentID :: string
  ct_RuntimeCompatibilityID :: string
  ct_CreatedAt :: gotime
  ct_LastActiveAt :: gotime
  ct_State :: string
  ct_Residency :: string
  ct_DesiredPlacement :: string
  ct_LastJournalSeq :: u64
  ct_LastEventID :: string
  ct_Checkpoint :: CheckpointSummary
  ct_OpenGates :: "gate_projection list"
  ct_LeaseEpoch :: u64
  ct_DesiredIdempotencyKey :: string
  ct_DesiredGeneration :: u64
  ct_DesiredWorkload :: DesiredWorkload

subsection \<open>Canonical gates\<close>

text \<open>\<^verbatim>\<open>strconv.Itoa\<close> on a list index.\<close>

fun itoa :: "nat \<Rightarrow> string" where
  "itoa n = (if n < 10 then [byte_char (48 + n)] else itoa (n div 10) @ [byte_char (48 + n mod 10)])"

declare itoa.simps [simp del]

definition gate_UTC :: "gate_projection \<Rightarrow> gate_projection" where
  "gate_UTC g = g\<lparr>gp_Deadline := UTC (gp_Deadline g)\<rparr>"

fun validateGates :: "core_lib \<Rightarrow> nat \<Rightarrow> gate_projection list \<Rightarrow> err + gate_projection list" where
  "validateGates c i [] = Inr []"
| "validateGates c i (g # gs) =
    (if \<not> gate_ok c g then Inl (catalogErr CatalogErrorInvalid ''open_gates'')
     else bindR (validateProjectionText c (CoreGateProjection g) (''open_gates['' @ itoa i @ '']'') catalogInvalid) (\<lambda>_.
       bindR (validateGates c (Suc i) gs) (\<lambda>gs'. Inr (gate_UTC g # gs'))))"

text \<open>
  The order of \<^verbatim>\<open>slices.SortFunc\<close>: by opening sequence, then by the bytes of the id.  Gates that
  tie in both are refused below, so the order among them is not observed.
\<close>

definition gate_key :: "gate_projection \<Rightarrow> nat \<times> nat list" where
  "gate_key g = (unat (gp_OpenedJournalSeq g), map byte_of (gp_GateID g))"

fun adjacent_repeat :: "gate_projection list \<Rightarrow> bool" where
  "adjacent_repeat (g # h # gs) \<longleftrightarrow> gp_GateID h = gp_GateID g \<or> adjacent_repeat (h # gs)"
| "adjacent_repeat _ = False"

definition canonicalGates :: "core_lib \<Rightarrow> gate_projection list \<Rightarrow> err + gate_projection list" where
  "canonicalGates c open =
    (if open = [] then Inr []
     else bindR (validateGates c 0 open) (\<lambda>gates.
       let gates = sort_key gate_key gates in
       if adjacent_repeat gates then Inl (catalogErr CatalogErrorInvalid ''open_gates'') else Inr gates))"

subsection \<open>The canonical record\<close>

definition canonicalPublicMember :: "core_lib \<Rightarrow> CatalogRecord \<Rightarrow> err + CatalogRecord" where
  "canonicalPublicMember c r =
    (case ct_PublicCreate r of
       None \<Rightarrow> Inr r
     | Some p \<Rightarrow>
         (case canonicalPublicCreate c p of
            Inl _ \<Rightarrow> Inl (catalogInvalid ''public_create'')
          | Inr q \<Rightarrow>
              (let i = pr_Identity q in
               if pi_TenantID i \<noteq> ct_TenantID r \<or> pi_SessionID i \<noteq> ct_SessionID r
                  \<or> hk_AgentID (pi_Target i) \<noteq> ct_AgentID r \<or> pi_Binding i \<noteq> ct_Binding r
                  \<or> \<not> EqualT (pr_AcceptedAt q) (ct_CreatedAt r)
               then Inl (catalogErr CatalogErrorIdentity ''public_create'')
               else Inr (r\<lparr>ct_PublicCreate := Some q\<rparr>))))"

definition canonicalCatalogRecord :: "core_lib \<Rightarrow> CatalogRecord \<Rightarrow> err + CatalogRecord" where
  "canonicalCatalogRecord c r0 =
    bindR (canonicalPublicMember c r0) (\<lambda>r.
    bindR (if ct_Binding r \<noteq> zeroBinding then validateBinding c (ct_Binding r) else Inr ()) (\<lambda>_.
    bindR (ensureR (tenant_ok c (ct_TenantID r)) (catalogErr CatalogErrorInvalid ''tenant_id'')) (\<lambda>_.
    bindR (ensureR (session_ok c (ct_SessionID r)) (catalogErr CatalogErrorInvalid ''session_id'')) (\<lambda>_.
    bindR (ensureR (agent_ok c (ct_AgentID r)) (catalogErr CatalogErrorInvalid ''agent_id'')) (\<lambda>_.
    bindR (validateOptionalOpaque c (ct_RuntimeCompatibilityID r) ''runtime_compatibility_id'' catalogInvalid) (\<lambda>_.
    bindR (validateOpaque c (ct_State r) ''state'' catalogInvalid) (\<lambda>_.
    bindR (validateOpaque c (ct_Residency r) ''residency'' catalogInvalid) (\<lambda>_.
    bindR (validateDesiredPlacement c (ct_DesiredPlacement r)) (\<lambda>_.
    bindR (ensureR (ct_DesiredGeneration r \<noteq> 0) (catalogErr CatalogErrorInvalid ''desired_generation'')) (\<lambda>_.
    bindR (canonicalDesiredWorkload c (ct_DesiredWorkload r)) (\<lambda>workload.
    bindR (ensureR (rankableTime (ct_CreatedAt r)) (catalogErr CatalogErrorInvalid ''created_at'')) (\<lambda>_.
    bindR (ensureR (rankableTime (ct_LastActiveAt r)) (catalogErr CatalogErrorInvalid ''last_active_at'')) (\<lambda>_.
    bindR (ensureR (ct_LastEventID r \<noteq> [] \<longrightarrow> event_ok c (ct_LastEventID r)) (catalogErr CatalogErrorInvalid ''last_event_id'')) (\<lambda>_.
    bindR (validateOptionalOpaque c (ct_DesiredIdempotencyKey r) ''desired_idempotency_key'' catalogInvalid) (\<lambda>_.
    bindR (if \<not> checkpoint_isZero (ct_Checkpoint r) then
             bindR (ensureR (reference_ok c (cp_Reference (ct_Checkpoint r))) (catalogErr CatalogErrorInvalid ''checkpoint.reference'')) (\<lambda>_.
             ensureR (rankableTime (cp_CapturedAt (ct_Checkpoint r))) (catalogErr CatalogErrorInvalid ''checkpoint.captured_at''))
           else Inr ()) (\<lambda>_.
    bindR (ensureR (\<not> length (ct_OpenGates r) > MaxCatalogOpenGates) (catalogErr CatalogErrorInvalid ''open_gates'')) (\<lambda>_.
    bindR (canonicalGates c (ct_OpenGates r)) (\<lambda>gates.
    Inr (r\<lparr>ct_DesiredWorkload := workload, ct_CreatedAt := UTC (ct_CreatedAt r),
           ct_LastActiveAt := UTC (ct_LastActiveAt r),
           ct_Checkpoint := (ct_Checkpoint r)\<lparr>cp_CapturedAt := UTC (cp_CapturedAt (ct_Checkpoint r))\<rparr>,
           ct_OpenGates := gates\<rparr>)))))))))))))))))))"

subsection \<open>Wire form\<close>

record catalogWire =
  cw_RecordVersion :: u8
  cw_TenantID :: string
  cw_SessionID :: string
  cw_AgentID :: string
  cw_RuntimeCompatibilityID :: string
  cw_CreatedAt :: gotime
  cw_LastActiveAt :: gotime
  cw_State :: string
  cw_Residency :: string
  cw_DesiredPlacement :: string
  cw_LastJournalSeq :: u64
  cw_LastEventID :: string
  cw_Checkpoint :: "CheckpointSummary option"
  cw_OpenGates :: "gate_projection list"
  cw_LeaseEpoch :: u64
  cw_DesiredIdempotencyKey :: string
  cw_DesiredGeneration :: u64
  cw_DesiredWorkload :: "DesiredWorkload option"

record catalogBindingWire =
  cb_Wire :: catalogWire
  cb_Binding :: SessionBinding

record catalogPublicCreateWire =
  cq_Bound :: catalogBindingWire
  cq_PublicCreate :: PublicCreateReservation

definition zeroCatalogWire :: catalogWire where
  "zeroCatalogWire = \<lparr>cw_RecordVersion = 0, cw_TenantID = [], cw_SessionID = [], cw_AgentID = [],
    cw_RuntimeCompatibilityID = [], cw_CreatedAt = zeroTime, cw_LastActiveAt = zeroTime, cw_State = [],
    cw_Residency = [], cw_DesiredPlacement = [], cw_LastJournalSeq = 0, cw_LastEventID = [],
    cw_Checkpoint = None, cw_OpenGates = [], cw_LeaseEpoch = 0, cw_DesiredIdempotencyKey = [],
    cw_DesiredGeneration = 0, cw_DesiredWorkload = None\<rparr>"

definition checkpoint_json :: "CheckpointSummary \<Rightarrow> json" where
  "checkpoint_json x = JObj [(''journal_seq'', ju64 (cp_JournalSeq x)),
    (''reference'', JCore (CoreObjectReference (cp_Reference x))), (''captured_at'', jtime (cp_CapturedAt x))]"

definition checkpoint_fields :: "CheckpointSummary field_table" where
  "checkpoint_fields = [(''journal_seq'', into dec_word cp_JournalSeq cp_JournalSeq_update),
    (''reference'', into dec_reference cp_Reference cp_Reference_update),
    (''captured_at'', into dec_time cp_CapturedAt cp_CapturedAt_update)]"

definition catalogWire_members :: "catalogWire \<Rightarrow> (string \<times> json) list" where
  "catalogWire_members w =
    [(''tenant_id'', jstr (cw_TenantID w)), (''session_id'', jstr (cw_SessionID w)), (''agent_id'', jstr (cw_AgentID w))] @
    omitempty (cw_RuntimeCompatibilityID w = []) ''runtime_compatibility_id'' (jstr (cw_RuntimeCompatibilityID w)) @
    [(''created_at'', jtime (cw_CreatedAt w)), (''last_active_at'', jtime (cw_LastActiveAt w)),
     (''state'', jstr (cw_State w)), (''residency'', jstr (cw_Residency w)),
     (''desired_placement'', jstr (cw_DesiredPlacement w)), (''last_journal_seq'', ju64 (cw_LastJournalSeq w))] @
    omitempty (cw_LastEventID w = []) ''last_event_id'' (jstr (cw_LastEventID w)) @
    omitnil checkpoint_json ''checkpoint'' (cw_Checkpoint w) @
    omitempty (cw_OpenGates w = []) ''open_gates'' (JArr (map (\<lambda>g. JCore (CoreGateProjection g)) (cw_OpenGates w))) @
    [(''lease_epoch'', ju64 (cw_LeaseEpoch w))] @
    omitempty (cw_DesiredIdempotencyKey w = []) ''desired_idempotency_key'' (jstr (cw_DesiredIdempotencyKey w)) @
    [(''desired_generation'', ju64 (cw_DesiredGeneration w))] @
    omitnil workload_json ''desired_workload'' (cw_DesiredWorkload w)"

definition catalogWire_json :: "catalogWire \<Rightarrow> json" where
  "catalogWire_json w = JObj ((''record_version'', ju8 (cw_RecordVersion w)) # catalogWire_members w)"

definition catalogBindingWire_json :: "catalogBindingWire \<Rightarrow> json" where
  "catalogBindingWire_json w = JObj ((''record_version'', ju8 (cw_RecordVersion (cb_Wire w))) #
     catalogWire_members (cb_Wire w) @ [(''binding'', binding_json (cb_Binding w))])"

definition catalogPublicCreateWire_json :: "catalogPublicCreateWire \<Rightarrow> json" where
  "catalogPublicCreateWire_json w = JObj ((''record_version'', ju8 (cw_RecordVersion (cb_Wire (cq_Bound w)))) #
     catalogWire_members (cb_Wire (cq_Bound w)) @ [(''binding'', binding_json (cb_Binding (cq_Bound w))),
       (''public_create'', JObj (reservation_members (cq_PublicCreate w)))])"

definition catalogWire_fields :: "catalogWire field_table" where
  "catalogWire_fields =
    [(''record_version'', into dec_word cw_RecordVersion cw_RecordVersion_update),
     (''tenant_id'', into dec_string cw_TenantID cw_TenantID_update),
     (''session_id'', into dec_string cw_SessionID cw_SessionID_update),
     (''agent_id'', into dec_string cw_AgentID cw_AgentID_update),
     (''runtime_compatibility_id'', into dec_string cw_RuntimeCompatibilityID cw_RuntimeCompatibilityID_update),
     (''created_at'', into dec_time cw_CreatedAt cw_CreatedAt_update),
     (''last_active_at'', into dec_time cw_LastActiveAt cw_LastActiveAt_update),
     (''state'', into dec_string cw_State cw_State_update),
     (''residency'', into dec_string cw_Residency cw_Residency_update),
     (''desired_placement'', into dec_string cw_DesiredPlacement cw_DesiredPlacement_update),
     (''last_journal_seq'', into dec_word cw_LastJournalSeq cw_LastJournalSeq_update),
     (''last_event_id'', into dec_string cw_LastEventID cw_LastEventID_update),
     (''checkpoint'', into (dec_ptr zeroCheckpoint (decode_struct True checkpoint_fields)) cw_Checkpoint cw_Checkpoint_update),
     (''open_gates'', into (dec_list dec_gate) cw_OpenGates cw_OpenGates_update),
     (''lease_epoch'', into dec_word cw_LeaseEpoch cw_LeaseEpoch_update),
     (''desired_idempotency_key'', into dec_string cw_DesiredIdempotencyKey cw_DesiredIdempotencyKey_update),
     (''desired_generation'', into dec_word cw_DesiredGeneration cw_DesiredGeneration_update),
     (''desired_workload'', into (dec_ptr zeroWorkload (decode_struct True workload_fields)) cw_DesiredWorkload cw_DesiredWorkload_update)]"

definition catalogBindingWire_fields :: "catalogBindingWire field_table" where
  "catalogBindingWire_fields = nested cb_Wire cb_Wire_update catalogWire_fields @
     [(''binding'', into (decode_struct True binding_fields) cb_Binding cb_Binding_update)]"

definition catalogPublicCreateWire_fields :: "catalogPublicCreateWire field_table" where
  "catalogPublicCreateWire_fields = nested cq_Bound cq_Bound_update catalogBindingWire_fields @
     [(''public_create'', into (decode_struct True reservation_fields) cq_PublicCreate cq_PublicCreate_update)]"

definition catalogToWire :: "CatalogRecord \<Rightarrow> u8 \<Rightarrow> catalogWire" where
  "catalogToWire r version = \<lparr>cw_RecordVersion = version, cw_TenantID = ct_TenantID r, cw_SessionID = ct_SessionID r,
    cw_AgentID = ct_AgentID r, cw_RuntimeCompatibilityID = ct_RuntimeCompatibilityID r,
    cw_CreatedAt = ct_CreatedAt r, cw_LastActiveAt = ct_LastActiveAt r, cw_State = ct_State r,
    cw_Residency = ct_Residency r, cw_DesiredPlacement = ct_DesiredPlacement r,
    cw_LastJournalSeq = ct_LastJournalSeq r, cw_LastEventID = ct_LastEventID r,
    cw_Checkpoint = (if \<not> checkpoint_isZero (ct_Checkpoint r) then Some (ct_Checkpoint r) else None),
    cw_OpenGates = ct_OpenGates r, cw_LeaseEpoch = ct_LeaseEpoch r,
    cw_DesiredIdempotencyKey = ct_DesiredIdempotencyKey r, cw_DesiredGeneration = ct_DesiredGeneration r,
    cw_DesiredWorkload = (if \<not> workload_isZero (ct_DesiredWorkload r) then Some (ct_DesiredWorkload r) else None)\<rparr>"

definition catalogFromWire :: "catalogWire \<Rightarrow> SessionBinding \<Rightarrow> PublicCreateReservation option \<Rightarrow> CatalogRecord" where
  "catalogFromWire w binding public = \<lparr>ct_PublicCreate = public, ct_Binding = binding, ct_TenantID = cw_TenantID w,
    ct_SessionID = cw_SessionID w, ct_AgentID = cw_AgentID w,
    ct_RuntimeCompatibilityID = cw_RuntimeCompatibilityID w, ct_CreatedAt = cw_CreatedAt w,
    ct_LastActiveAt = cw_LastActiveAt w, ct_State = cw_State w, ct_Residency = cw_Residency w,
    ct_DesiredPlacement = cw_DesiredPlacement w, ct_LastJournalSeq = cw_LastJournalSeq w,
    ct_LastEventID = cw_LastEventID w,
    ct_Checkpoint = (case cw_Checkpoint w of None \<Rightarrow> zeroCheckpoint | Some x \<Rightarrow> x),
    ct_OpenGates = cw_OpenGates w, ct_LeaseEpoch = cw_LeaseEpoch w,
    ct_DesiredIdempotencyKey = cw_DesiredIdempotencyKey w, ct_DesiredGeneration = cw_DesiredGeneration w,
    ct_DesiredWorkload = (case cw_DesiredWorkload w of None \<Rightarrow> zeroWorkload | Some x \<Rightarrow> x)\<rparr>"

text \<open>The payload \<^verbatim>\<open>json.Marshal\<close> is given: the widest wire type the record needs.\<close>

definition catalogPayload :: "CatalogRecord \<Rightarrow> json" where
  "catalogPayload r =
    (case ct_PublicCreate r of
       Some p \<Rightarrow> catalogPublicCreateWire_json \<lparr>cq_Bound = \<lparr>cb_Wire = catalogToWire r CatalogPublicCreateRecordVersion,
                    cb_Binding = ct_Binding r\<rparr>, cq_PublicCreate = p\<rparr>
     | None \<Rightarrow>
         if ct_Binding r \<noteq> zeroBinding
         then catalogBindingWire_json \<lparr>cb_Wire = catalogToWire r CatalogBindingRecordVersion, cb_Binding = ct_Binding r\<rparr>
         else catalogWire_json (catalogToWire r CatalogRecordVersion))"

definition encodeCatalogRecord :: "core_lib \<Rightarrow> CatalogRecord \<Rightarrow> err + stored_bytes" where
  "encodeCatalogRecord c r0 =
    bindR (canonicalCatalogRecord c r0) (\<lambda>r.
    let encoded = catalogPayload r in
    if json_len c encoded > MaxCatalogRecordBytes then Inl (catalogErr CatalogErrorTooLarge ''record'')
    else Inr (Marshalled encoded))"

definition catalogRecordFields :: versionedRecordFields where
  "catalogRecordFields = \<lparr>vf_Record = ''record'', vf_Version = ''record_version''\<rparr>"

text \<open>The lenient probe that picks the wire type; a value it cannot read counts as version 0.\<close>

definition catalogProbe :: "core_lib \<Rightarrow> stored_bytes \<Rightarrow> u8" where
  "catalogProbe c v =
    (if bytes_len c v \<le> MaxCatalogRecordBytes then
       (case bytes_doc v of None \<Rightarrow> 0 | Some j \<Rightarrow> (case version_probe j of None \<Rightarrow> 0 | Some p \<Rightarrow> p))
     else 0)"

definition decodeCatalogWire ::
  "core_lib \<Rightarrow> stored_bytes \<Rightarrow> err + catalogWire \<times> SessionBinding \<times> PublicCreateReservation option" where
  "decodeCatalogWire c v =
    (if catalogProbe c v = CatalogPublicCreateRecordVersion then
       bindR (decodeVersionedRecord c (\<lambda>j. decode_struct True catalogPublicCreateWire_fields j
           \<lparr>cq_Bound = \<lparr>cb_Wire = zeroCatalogWire, cb_Binding = zeroBinding\<rparr>, cq_PublicCreate = zeroReservation\<rparr>) v
         MaxCatalogRecordBytes CatalogPublicCreateRecordVersion catalogRecordFields catalogRecordFailure) (\<lambda>w.
       Inr (cb_Wire (cq_Bound w), cb_Binding (cq_Bound w), Some (cq_PublicCreate w)))
     else if catalogProbe c v = CatalogBindingRecordVersion then
       bindR (decodeVersionedRecord c (\<lambda>j. decode_struct True catalogBindingWire_fields j
           \<lparr>cb_Wire = zeroCatalogWire, cb_Binding = zeroBinding\<rparr>) v
         MaxCatalogRecordBytes CatalogBindingRecordVersion catalogRecordFields catalogRecordFailure) (\<lambda>w.
       bindR (validateBinding c (cb_Binding w)) (\<lambda>_. Inr (cb_Wire w, cb_Binding w, None)))
     else
       bindR (decodeVersionedRecord c (\<lambda>j. decode_struct True catalogWire_fields j zeroCatalogWire) v
         MaxCatalogRecordBytes CatalogRecordVersion catalogRecordFields catalogRecordFailure) (\<lambda>w.
       Inr (w, zeroBinding, None)))"

definition decodeCatalogRecord :: "core_lib \<Rightarrow> stored_bytes \<Rightarrow> err + CatalogRecord" where
  "decodeCatalogRecord c v =
    bindR (decodeCatalogWire c v) (\<lambda>(wire, binding, public).
    bindR (canonicalCatalogRecord c (catalogFromWire wire binding public)) (\<lambda>canonical.
    if public \<noteq> None then
      bindR (encodeCatalogRecord c canonical) (\<lambda>encoded.
      if encoded \<noteq> v then Inl (catalogErr CatalogErrorMalformed ''record'') else Inr canonical)
    else Inr canonical))"

end
