(* ===== verification/Catalog_Codec.thy ===== *)
theory Catalog_Codec
  imports Catalog_Record "HOL-Library.Multiset"
begin

text \<open>
  What the catalog codec guarantees: which records are canonical, that the stored bytes of every
  record the encoder accepts read back as its canonical form in each of the three versions, and what
  the canonical gate list says of its gate ids.
\<close>

subsection \<open>Canonical gates\<close>

definition gates_valid :: "core_lib \<Rightarrow> gate_projection list \<Rightarrow> bool" where
  "gates_valid c gs \<longleftrightarrow> (\<forall>g \<in> set gs. gate_ok c g \<and> (\<forall>pt \<in> set (core_texts c (CoreGateProjection g)). ValidString (snd pt)))"

definition sorted_gates :: "gate_projection list \<Rightarrow> gate_projection list" where
  "sorted_gates gs = sort_key gate_key (map gate_UTC gs)"

lemma validateGates_iff: "validateGates c i gs = Inr gs' \<longleftrightarrow> gates_valid c gs \<and> gs' = map gate_UTC gs"
proof (induction gs arbitrary: i gs')
  case (Cons g gs)
  then show ?case by (auto simp: gates_valid_def validateProjectionText_unit)
qed (auto simp: gates_valid_def)

lemma canonicalGates_iff:
  "canonicalGates c gs = Inr gs' \<longleftrightarrow> gates_valid c gs \<and> \<not> adjacent_repeat (sorted_gates gs) \<and> gs' = sorted_gates gs"
  by (auto simp: canonicalGates_def validateGates_iff Let_def sorted_gates_def gates_valid_def)

lemma gate_UTC_simps [simp]: "gate_UTC (gate_UTC g) = gate_UTC g" "gate_key (gate_UTC g) = gate_key g"
  by (simp_all add: gate_UTC_def gate_key_def)

lemma set_sorted_gates [simp]: "set (sorted_gates gs) = gate_UTC ` set gs"
  by (simp add: sorted_gates_def)

lemma length_sorted_gates [simp]: "length (sorted_gates gs) = length gs"
  by (simp add: sorted_gates_def)

lemma sorted_gates_idem [simp]: "sorted_gates (sorted_gates gs) = sorted_gates gs"
proof -
  have "map gate_UTC (sorted_gates gs) = sorted_gates gs" by (rule map_idI) auto
  moreover have "sorted (map gate_key (sorted_gates gs))" by (simp add: sorted_gates_def)
  then have "sort_key gate_key (sorted_gates gs) = sorted_gates gs" by (rule sort_key_id_if_sorted)
  ultimately show ?thesis by (simp add: sorted_gates_def)
qed

text \<open>What Core's reading of a gate does not look at: the zone its deadline is written in.\<close>

definition core_instants :: "core_lib \<Rightarrow> bool" where
  "core_instants c \<longleftrightarrow> (\<forall>g. gate_ok c (gate_UTC g) = gate_ok c g) \<and>
     (\<forall>g. core_texts c (CoreGateProjection (gate_UTC g)) = core_texts c (CoreGateProjection g))"

lemma gates_valid_sorted: "core_instants c \<Longrightarrow> gates_valid c (sorted_gates gs) = gates_valid c gs"
  by (auto simp: gates_valid_def core_instants_def)

subsection \<open>Canonical records\<close>

definition public_member_valid :: "core_lib \<Rightarrow> CatalogRecord \<Rightarrow> bool" where
  "public_member_valid c r \<longleftrightarrow> (\<forall>p. ct_PublicCreate r = Some p \<longrightarrow> reservation_valid c p \<and>
     pi_TenantID (pr_Identity p) = ct_TenantID r \<and> pi_SessionID (pr_Identity p) = ct_SessionID r \<and>
     hk_AgentID (pi_Target (pr_Identity p)) = ct_AgentID r \<and> pi_Binding (pr_Identity p) = ct_Binding r \<and>
     EqualT (pr_AcceptedAt p) (ct_CreatedAt r))"

definition checkpoint_valid :: "core_lib \<Rightarrow> CheckpointSummary \<Rightarrow> bool" where
  "checkpoint_valid c x \<longleftrightarrow> checkpoint_isZero x \<or> reference_ok c (cp_Reference x) \<and> rankableTime (cp_CapturedAt x)"

definition catalog_valid :: "core_lib \<Rightarrow> CatalogRecord \<Rightarrow> bool" where
  "catalog_valid c r \<longleftrightarrow> public_member_valid c r \<and>
     (ct_Binding r \<noteq> zeroBinding \<longrightarrow> validateBinding c (ct_Binding r) = Inr ()) \<and>
     tenant_ok c (ct_TenantID r) \<and> session_ok c (ct_SessionID r) \<and> agent_ok c (ct_AgentID r) \<and>
     validateOptionalOpaque c (ct_RuntimeCompatibilityID r) [] catalogInvalid = Inr () \<and>
     validateOpaque c (ct_State r) [] catalogInvalid = Inr () \<and>
     validateOpaque c (ct_Residency r) [] catalogInvalid = Inr () \<and>
     validateDesiredPlacement c (ct_DesiredPlacement r) = Inr () \<and> ct_DesiredGeneration r \<noteq> 0 \<and>
     workload_ok c (ct_DesiredWorkload r) \<and> rankableTime (ct_CreatedAt r) \<and> rankableTime (ct_LastActiveAt r) \<and>
     (ct_LastEventID r \<noteq> [] \<longrightarrow> event_ok c (ct_LastEventID r)) \<and>
     validateOptionalOpaque c (ct_DesiredIdempotencyKey r) [] catalogInvalid = Inr () \<and>
     checkpoint_valid c (ct_Checkpoint r) \<and>
     length (ct_OpenGates r) \<le> MaxCatalogOpenGates \<and> gates_valid c (ct_OpenGates r) \<and>
     \<not> adjacent_repeat (sorted_gates (ct_OpenGates r))"

definition catalog_stamped :: "CatalogRecord \<Rightarrow> CatalogRecord" where
  "catalog_stamped r = r\<lparr>ct_PublicCreate := map_option reservation_stamped (ct_PublicCreate r),
     ct_CreatedAt := UTC (ct_CreatedAt r), ct_LastActiveAt := UTC (ct_LastActiveAt r),
     ct_Checkpoint := (ct_Checkpoint r)\<lparr>cp_CapturedAt := UTC (cp_CapturedAt (ct_Checkpoint r))\<rparr>,
     ct_OpenGates := sorted_gates (ct_OpenGates r)\<rparr>"

lemma canonicalPublicMember_iff:
  "canonicalPublicMember c r = Inr r' \<longleftrightarrow> public_member_valid c r \<and>
     r' = r\<lparr>ct_PublicCreate := map_option reservation_stamped (ct_PublicCreate r)\<rparr>"
proof (cases "ct_PublicCreate r")
  case None
  then show ?thesis by (cases r) (auto simp: canonicalPublicMember_def public_member_valid_def)
next
  case (Some p)
  show ?thesis
  proof (cases "canonicalPublicCreate c p")
    case (Inl e)
    then have "\<not> reservation_valid c p" using canonicalPublicCreate_iff [of c p] by auto
    with Inl Some show ?thesis by (simp add: canonicalPublicMember_def public_member_valid_def)
  next
    case (Inr q)
    then have q: "reservation_valid c p" "q = reservation_stamped p" by (auto simp: canonicalPublicCreate_iff)
    have "pr_Identity q = pr_Identity p" "EqualT (pr_AcceptedAt q) t = EqualT (pr_AcceptedAt p) t" for t
      by (simp_all add: q(2) reservation_stamped_def EqualT_def)
    with Inr Some q show ?thesis
      by (auto simp: canonicalPublicMember_def public_member_valid_def Let_def)
  qed
qed

lemma canonicalCatalogRecord_iff:
  "canonicalCatalogRecord c r = Inr r' \<longleftrightarrow> catalog_valid c r \<and> r' = catalog_stamped r"
  by (auto simp: canonicalCatalogRecord_def canonicalPublicMember_iff catalog_valid_def catalog_stamped_def
      canonicalGates_iff checkpoint_valid_def not_less)

lemma checkpoint_UTC [simp]:
  "checkpoint_isZero (x\<lparr>cp_CapturedAt := UTC (cp_CapturedAt x)\<rparr>) = checkpoint_isZero x"
  "checkpoint_valid c (x\<lparr>cp_CapturedAt := UTC (cp_CapturedAt x)\<rparr>) = checkpoint_valid c x"
  by (simp_all add: checkpoint_valid_def checkpoint_isZero_def IsZero_def)

lemma public_member_stamped: "public_member_valid c (catalog_stamped r) = public_member_valid c r"
  by (cases "ct_PublicCreate r")
    (auto simp: public_member_valid_def catalog_stamped_def reservation_stamped_def reservation_valid_def EqualT_def)

lemma catalog_stamped_idem [simp]: "catalog_stamped (catalog_stamped r) = catalog_stamped r"
  by (simp add: catalog_stamped_def option.map_comp comp_def)

lemma catalog_valid_stamped:
  assumes "core_instants c"
  shows "catalog_valid c (catalog_stamped r) = catalog_valid c r"
  using gates_valid_sorted [OF assms, of "ct_OpenGates r"]
  by (simp add: catalog_valid_def public_member_stamped) (simp add: catalog_stamped_def)

subsection \<open>The record reads back\<close>

definition catalogWire_readable :: "catalogWire \<Rightarrow> bool" where
  "catalogWire_readable w \<longleftrightarrow> ValidString (cw_TenantID w) \<and> ValidString (cw_SessionID w) \<and> ValidString (cw_AgentID w) \<and>
     ValidString (cw_RuntimeCompatibilityID w) \<and> minute_zone (cw_CreatedAt w) \<and> minute_zone (cw_LastActiveAt w) \<and>
     ValidString (cw_State w) \<and> ValidString (cw_Residency w) \<and> ValidString (cw_DesiredPlacement w) \<and>
     ValidString (cw_LastEventID w) \<and> (\<forall>x. cw_Checkpoint w = Some x \<longrightarrow> minute_zone (cp_CapturedAt x)) \<and>
     ValidString (cw_DesiredIdempotencyKey w) \<and>
     (\<forall>x. cw_DesiredWorkload w = Some x \<longrightarrow> ValidString (dw_PayloadVersion x))"

lemma checkpoint_read:
  "minute_zone (cp_CapturedAt x) \<Longrightarrow> decode_struct True checkpoint_fields (checkpoint_json x) old = Some x"
  by (cases x) (simp add: checkpoint_json_def checkpoint_fields_def fold_name_plain plain_char_def)

lemma checkpoint_json_not_null [simp]: "checkpoint_json x \<noteq> JNull"
  by (simp add: checkpoint_json_def)

text \<open>Optional members that are present or absent leave the same value, when absent means the zero value.\<close>

lemma decode_omit_string:
  assumes "list_all plain_char k" and "map_of tbl k = Some (into dec_string get upd)"
    and "ValidString x" and "upd (\<lambda>_. []) w = w"
  shows "decode_members strict tbl (omitempty (x = []) k (jstr x) @ ms) w = decode_members strict tbl ms (upd (\<lambda>_. x) w)"
  using assms by (simp add: decode_omitempty [where f = "into dec_string get upd"])

lemma decode_omit_list:
  assumes "list_all plain_char k" and "map_of tbl k = Some (into (dec_list dec) get upd)"
    and "\<And>y. dec (enc y) = Some y" and "upd (\<lambda>_. []) w = w"
  shows "decode_members strict tbl (omitempty (xs = []) k (JArr (map enc xs)) @ ms) w =
    decode_members strict tbl ms (upd (\<lambda>_. xs) w)"
proof -
  have "dec_list dec (JArr (map enc xs)) (get w) = Some xs"
    using assms(3) by (induction xs) (simp_all add: dec_list_def)
  then show ?thesis
    using assms by (simp add: decode_omitempty [where f = "into (dec_list dec) get upd"])
qed

lemma decode_omit_ptr:
  assumes "list_all plain_char k" and "map_of tbl k = Some (into (dec_ptr z dec) get upd)"
    and "\<And>y old. x = Some y \<Longrightarrow> dec (enc y) old = Some y \<and> enc y \<noteq> JNull" and "upd (\<lambda>_. None) w = w"
  shows "decode_members strict tbl (omitnil enc k x @ ms) w = decode_members strict tbl ms (upd (\<lambda>_. x) w)"
  using assms by (cases x) (simp_all add: decode_omitnil [where f = "into (dec_ptr z dec) get upd"] dec_ptr_def into_def split: option.split)

lemmas decode_omit_ptr_last = decode_omit_ptr [where ms = "[]", simplified]

lemma catalogWire_members_read:
  assumes "catalogWire_readable w"
  shows "decode_members True catalogWire_fields (catalogWire_members w) (zeroCatalogWire\<lparr>cw_RecordVersion := cw_RecordVersion w\<rparr>) = Some w"
  using assms
  by (cases w)
    (simp add: catalogWire_members_def catalogWire_fields_def fold_name_plain plain_char_def
        catalogWire_readable_def decode_omit_string decode_omit_list decode_omit_ptr decode_omit_ptr_last zeroCatalogWire_def
        checkpoint_read)

text \<open>Every known member of an embedded struct that comes first is read into it.\<close>

lemma decode_members_known:
  "decode_members True sub ms w = Some x \<Longrightarrow> list_all (\<lambda>m. \<exists>f. map_of sub (fold_name (fst m)) = Some f) ms"
  by (induction True sub ms w rule: decode_members.induct) (auto split: option.split_asm)

lemma decode_nested_first:
  assumes laws: "\<And>f g w. upd f (upd g w) = upd (\<lambda>x. f (g x)) w" "\<And>f w. get (upd f w) = f (get w)"
      "\<And>w. upd (\<lambda>_. get w) w = w"
    and sub: "decode_members True sub ms (get w) = Some x"
  shows "decode_members True (nested get upd sub @ post) ms w = Some (upd (\<lambda>_. x) w)"
proof -
  have "list_all (\<lambda>m. \<exists>f. map_of sub (fold_name (fst m)) = Some f \<and>
      map_of (nested get upd sub @ post) (fold_name (fst m)) = Some (\<lambda>j w. map_option (\<lambda>x. upd (\<lambda>_. x) w) (f j (get w)))) ms"
    (is "list_all ?P ms")
    unfolding list_all_iff
  proof
    fix m assume "m \<in> set ms"
    with decode_members_known [OF sub] obtain f where f: "map_of sub (fold_name (fst m)) = Some f"
      by (auto simp: list_all_iff)
    from map_of_nested_append [where pre = "[]", OF this] f show "?P m" by simp
  qed
  with laws sub show ?thesis by (intro decode_nested [where get = get and upd = upd and sub = sub]) blast+
qed

lemma catalogWire_body_read:
  assumes "catalogWire_readable w"
  shows "decode_members True catalogWire_fields ((''record_version'', ju8 (cw_RecordVersion w)) # catalogWire_members w)
    zeroCatalogWire = Some w"
proof -
  have version: "map_of catalogWire_fields ''record_version'' = Some (into dec_word cw_RecordVersion cw_RecordVersion_update)"
    by (simp add: catalogWire_fields_def)
  have "decode_members True catalogWire_fields ((''record_version'', ju8 (cw_RecordVersion w)) # catalogWire_members w) zeroCatalogWire
    = decode_members True catalogWire_fields (catalogWire_members w) (zeroCatalogWire\<lparr>cw_RecordVersion := cw_RecordVersion w\<rparr>)"
    by (subst decode_members_one [OF _ version]) (simp_all add: plain_char_def)
  with catalogWire_members_read [OF assms] show ?thesis by simp
qed

lemma catalogWire_read:
  assumes "catalogWire_readable w"
  shows "decode_struct True catalogWire_fields (catalogWire_json w) zeroCatalogWire = Some w"
  unfolding catalogWire_json_def decode_struct.simps by (rule catalogWire_body_read [OF assms])

lemma catalogBindingWire_body_read:
  assumes "catalogWire_readable w" and "\<And>old. decode_struct True binding_fields (binding_json b) old = Some b"
  shows "decode_members True catalogBindingWire_fields
     ((''record_version'', ju8 (cw_RecordVersion w)) # catalogWire_members w @ [(''binding'', binding_json b)])
     \<lparr>cb_Wire = zeroCatalogWire, cb_Binding = zeroBinding\<rparr> = Some \<lparr>cb_Wire = w, cb_Binding = b\<rparr>"
proof -
  let ?ms = "(''record_version'', ju8 (cw_RecordVersion w)) # catalogWire_members w"
  have "decode_members True catalogBindingWire_fields ?ms \<lparr>cb_Wire = zeroCatalogWire, cb_Binding = zeroBinding\<rparr>
      = Some (cb_Wire_update (\<lambda>_. w) \<lparr>cb_Wire = zeroCatalogWire, cb_Binding = zeroBinding\<rparr>)"
    unfolding catalogBindingWire_fields_def
    by (rule decode_nested_first) (simp_all add: comp_def catalogWire_body_read [OF assms(1)] del: decode_members.simps)
  moreover have "map_of catalogBindingWire_fields ''binding''
      = Some (into (decode_struct True binding_fields) cb_Binding cb_Binding_update)"
    by (simp add: catalogBindingWire_fields_def map_of_append map_add_def map_of_nested catalogWire_fields_def)
  ultimately show ?thesis
    unfolding append_Cons [symmetric] decode_members_append
    by (simp add: decode_members_one plain_char_def assms(2) del: decode_members.simps(2))
qed

lemma catalogPublicCreateWire_body_read:
  assumes "catalogWire_readable w" and "\<And>old. decode_struct True binding_fields (binding_json b) old = Some b"
    and "reservation_readable p"
  shows "decode_members True catalogPublicCreateWire_fields
     ((''record_version'', ju8 (cw_RecordVersion w)) # catalogWire_members w @ [(''binding'', binding_json b),
        (''public_create'', JObj (reservation_members p))])
     \<lparr>cq_Bound = \<lparr>cb_Wire = zeroCatalogWire, cb_Binding = zeroBinding\<rparr>, cq_PublicCreate = zeroReservation\<rparr>
     = Some \<lparr>cq_Bound = \<lparr>cb_Wire = w, cb_Binding = b\<rparr>, cq_PublicCreate = p\<rparr>"
proof -
  let ?ms = "(''record_version'', ju8 (cw_RecordVersion w)) # catalogWire_members w @ [(''binding'', binding_json b)]"
  let ?old = "\<lparr>cq_Bound = \<lparr>cb_Wire = zeroCatalogWire, cb_Binding = zeroBinding\<rparr>, cq_PublicCreate = zeroReservation\<rparr>"
  have "decode_members True catalogPublicCreateWire_fields ?ms ?old = Some (cq_Bound_update (\<lambda>_. \<lparr>cb_Wire = w, cb_Binding = b\<rparr>) ?old)"
    unfolding catalogPublicCreateWire_fields_def
    by (rule decode_nested_first)
      (simp_all add: comp_def catalogBindingWire_body_read [OF assms(1,2)] del: decode_members.simps)
  moreover have "map_of catalogPublicCreateWire_fields ''public_create''
      = Some (into (decode_struct True reservation_fields) cq_PublicCreate cq_PublicCreate_update)"
    by (simp add: catalogPublicCreateWire_fields_def map_of_append map_add_def map_of_nested catalogBindingWire_fields_def
        catalogWire_fields_def)
  moreover have "decode_struct True reservation_fields (JObj (reservation_members p)) old = Some p" for old
    using reservation_members_read [OF assms(3)] by simp
  ultimately have "decode_members True catalogPublicCreateWire_fields (?ms @ [(''public_create'', JObj (reservation_members p))]) ?old
    = Some \<lparr>cq_Bound = \<lparr>cb_Wire = w, cb_Binding = b\<rparr>, cq_PublicCreate = p\<rparr>"
    unfolding decode_members_append
    by (simp add: decode_members_one plain_char_def del: decode_members.simps(2) decode_struct.simps)
  then show ?thesis by simp
qed

subsection \<open>Round trip\<close>

lemma catalog_valid_readable:
  assumes "core_utf8 c" and "catalog_valid c r" and "catalog_stamped r = r"
  shows "catalogWire_readable (catalogToWire r version)"
proof -
  have "minute_zone (ct_CreatedAt (catalog_stamped r))" "minute_zone (ct_LastActiveAt (catalog_stamped r))"
    "minute_zone (cp_CapturedAt (ct_Checkpoint (catalog_stamped r)))"
    by (simp_all add: catalog_stamped_def minute_zone_def)
  then have zones: "minute_zone (ct_CreatedAt r)" "minute_zone (ct_LastActiveAt r)" "minute_zone (cp_CapturedAt (ct_Checkpoint r))"
    by (simp_all only: assms(3))
  have parts: "tenant_ok c (ct_TenantID r)" "session_ok c (ct_SessionID r)" "agent_ok c (ct_AgentID r)"
    "validateOptionalOpaque c (ct_RuntimeCompatibilityID r) [] catalogInvalid = Inr ()"
    "validateOpaque c (ct_State r) [] catalogInvalid = Inr ()" "validateOpaque c (ct_Residency r) [] catalogInvalid = Inr ()"
    "validateDesiredPlacement c (ct_DesiredPlacement r) = Inr ()" "workload_ok c (ct_DesiredWorkload r)"
    "ct_LastEventID r \<noteq> [] \<longrightarrow> event_ok c (ct_LastEventID r)"
    "validateOptionalOpaque c (ct_DesiredIdempotencyKey r) [] catalogInvalid = Inr ()"
    using assms(2) unfolding catalog_valid_def by iprover+
  have optional: "ValidString x" if "validateOptionalOpaque c x f g = Inr ()" for x f g
    using that by auto
  have "ValidString (ct_LastEventID r)"
    using assms(1) parts(9) by (cases "ct_LastEventID r = []") (simp_all add: core_utf8_def)
  moreover have "ValidString (ct_DesiredPlacement r)" using assms(1) parts(7) by (auto simp: core_utf8_def)
  ultimately show ?thesis
    using assms(1) zones parts(1-3,5,6) optional [OF parts(4)] optional [OF parts(10)] workload_ok_valid [OF parts(8)]
    by (simp add: catalogWire_readable_def catalogToWire_def core_utf8_def)
qed

lemma catalogFromWire_toWire:
  assumes "catalog_valid c r" and "catalog_stamped r = r"
  shows "catalogFromWire (catalogToWire r version) (ct_Binding r) (ct_PublicCreate r) = r"
proof -
  have "ct_Checkpoint (catalog_stamped r) = (ct_Checkpoint r)\<lparr>cp_CapturedAt := UTC (cp_CapturedAt (ct_Checkpoint r))\<rparr>"
    by (simp add: catalog_stamped_def)
  then have "cp_CapturedAt (ct_Checkpoint r) = UTC (cp_CapturedAt (ct_Checkpoint r))"
    using assms(2) by (metis CheckpointSummary.select_convs(3) CheckpointSummary.surjective CheckpointSummary.update_convs(3))
  moreover have "t = zeroTime" if "t = UTC t" "IsZero t" for t
    using that by (cases t) (simp add: UTC_def IsZero_def zeroTime_def)
  ultimately have "checkpoint_isZero (ct_Checkpoint r) \<Longrightarrow> ct_Checkpoint r = zeroCheckpoint"
    by (cases "ct_Checkpoint r", cases "cp_Reference (ct_Checkpoint r)")
      (simp add: checkpoint_isZero_def zeroCheckpoint_def zeroRef_def)
  moreover have "workload_isZero (ct_DesiredWorkload r) \<Longrightarrow> ct_DesiredWorkload r = zeroWorkload"
    by (cases "ct_DesiredWorkload r") (simp add: workload_isZero_def zeroWorkload_def)
  ultimately show ?thesis by (cases r) (auto simp: catalogFromWire_def catalogToWire_def)
qed

lemma catalogPayload_version:
  obtains ms v where "catalogPayload r = JObj ms" "version_probe (catalogPayload r) = Some v"
    "v = (if ct_PublicCreate r \<noteq> None then CatalogPublicCreateRecordVersion
          else if ct_Binding r \<noteq> zeroBinding then CatalogBindingRecordVersion else CatalogRecordVersion)"
proof -
  have "not_version (catalogWire_members w)" for w
    by (auto simp: catalogWire_members_def omitempty_def omitnil_def fold_name_plain plain_char_def split: option.split)
  then have "version_probe (catalogPayload r) = Some (if ct_PublicCreate r \<noteq> None then CatalogPublicCreateRecordVersion
          else if ct_Binding r \<noteq> zeroBinding then CatalogBindingRecordVersion else CatalogRecordVersion)"
    by (auto simp: catalogPayload_def catalogWire_json_def catalogBindingWire_json_def catalogPublicCreateWire_json_def
        catalogToWire_def fold_name_plain plain_char_def version_probe_head split: option.split)
  moreover have "\<exists>ms. catalogPayload r = JObj ms"
    by (auto simp: catalogPayload_def catalogWire_json_def catalogBindingWire_json_def catalogPublicCreateWire_json_def
        split: option.split)
  ultimately show thesis using that by blast
qed

lemma encodeCatalogRecord_Inr:
  "encodeCatalogRecord c r = Inr v \<longleftrightarrow> catalog_valid c r \<and> v = Marshalled (catalogPayload (catalog_stamped r)) \<and>
     bytes_len c v \<le> MaxCatalogRecordBytes"
  by (auto simp: encodeCatalogRecord_def canonicalCatalogRecord_iff Let_def)

lemma decodeCatalogWire_payload:
  assumes "core_utf8 c" and "catalog_valid c r" and "catalog_stamped r = r"
    and v: "v = Marshalled (catalogPayload r)" and short: "bytes_len c v \<le> MaxCatalogRecordBytes"
  shows "\<exists>version. decodeCatalogWire c v = Inr (catalogToWire r version, ct_Binding r, ct_PublicCreate r)"
proof -
  note wire = catalog_valid_readable [OF assms(1-3)]
  obtain ms version where ms: "catalogPayload r = JObj ms" and probe: "version_probe (catalogPayload r) = Some version"
    and version: "version = (if ct_PublicCreate r \<noteq> None then CatalogPublicCreateRecordVersion
          else if ct_Binding r \<noteq> zeroBinding then CatalogBindingRecordVersion else CatalogRecordVersion)"
    by (rule catalogPayload_version)
  have probed: "catalogProbe c v = version" using short probe by (simp add: catalogProbe_def v)
  have read: "decodeVersionedRecord c dec v MaxCatalogRecordBytes version catalogRecordFields catalogRecordFailure = Inr x"
    if "dec (catalogPayload r) = Some x" for dec and x :: 'x
    unfolding v ms decodeVersionedRecord_def
    by (rule decodeVersionedRecordOf_marshalled [where w = version]) (use short v ms probe that in simp_all)
  have binding: "ct_Binding r \<noteq> zeroBinding \<Longrightarrow> validateBinding c (ct_Binding r) = Inr ()"
    using assms(2) unfolding catalog_valid_def by iprover
  consider (public) p where "ct_PublicCreate r = Some p"
    | (bound) "ct_PublicCreate r = None" "ct_Binding r \<noteq> zeroBinding"
    | (plain) "ct_PublicCreate r = None" "ct_Binding r = zeroBinding"
    by (cases "ct_PublicCreate r") auto
  then have "decodeCatalogWire c v = Inr (catalogToWire r version, ct_Binding r, ct_PublicCreate r)"
  proof cases
    case public
    with assms(2) have p: "reservation_valid c p" and same: "pi_Binding (pr_Identity p) = ct_Binding r"
      unfolding catalog_valid_def public_member_valid_def by auto
    then have bind: "validateBinding c (ct_Binding r) = Inr ()"
      by (auto simp: reservation_valid_def validatePublicCreateIdentity_def)
    have "ct_PublicCreate (catalog_stamped r) = map_option reservation_stamped (ct_PublicCreate r)"
      by (simp add: catalog_stamped_def)
    with public assms(3) have "reservation_stamped p = p" by simp
    note readable = reservation_valid_readable [OF assms(1) p this]
    have "version = CatalogPublicCreateRecordVersion" using version public by simp
    moreover note read [of "\<lambda>j. decode_struct True catalogPublicCreateWire_fields j
           \<lparr>cq_Bound = \<lparr>cb_Wire = zeroCatalogWire, cb_Binding = zeroBinding\<rparr>, cq_PublicCreate = zeroReservation\<rparr>"]
      catalogPublicCreateWire_body_read [OF wire binding_read [OF bind] readable]
    ultimately show ?thesis
      using probed public
      by (simp add: decodeCatalogWire_def catalogPayload_def catalogPublicCreateWire_json_def del: decode_members.simps)
  next
    case bound
    have "version = CatalogBindingRecordVersion" using version bound by simp
    moreover note read [of "\<lambda>j. decode_struct True catalogBindingWire_fields j
           \<lparr>cb_Wire = zeroCatalogWire, cb_Binding = zeroBinding\<rparr>"]
      catalogBindingWire_body_read [OF wire binding_read [OF binding [OF bound(2)]]]
    ultimately show ?thesis
      using probed bound binding
      by (simp add: decodeCatalogWire_def catalogPayload_def catalogBindingWire_json_def CatalogBindingRecordVersion_def
          CatalogPublicCreateRecordVersion_def del: decode_members.simps)
  next
    case plain
    have "version = CatalogRecordVersion" using version plain by simp
    moreover note read [of "\<lambda>j. decode_struct True catalogWire_fields j zeroCatalogWire"]
      catalogWire_read [OF wire]
    ultimately show ?thesis
      using probed plain
      by (simp add: decodeCatalogWire_def catalogPayload_def CatalogRecordVersion_def CatalogBindingRecordVersion_def
          CatalogPublicCreateRecordVersion_def del: decode_struct.simps)
  qed
  then show ?thesis by blast
qed

lemma catalog_record_trip:
  assumes "core_utf8 c" and "core_instants c" and "encodeCatalogRecord c r0 = Inr v"
  shows "decodeCatalogRecord c v = Inr (catalog_stamped r0)"
proof -
  define r where "r = catalog_stamped r0"
  from assms(3) have valid0: "catalog_valid c r0" and v: "v = Marshalled (catalogPayload r)"
    and short: "bytes_len c v \<le> MaxCatalogRecordBytes"
    unfolding encodeCatalogRecord_Inr r_def by auto
  have stamped: "catalog_stamped r = r" by (simp add: r_def)
  have valid: "catalog_valid c r" using valid0 catalog_valid_stamped [OF assms(2)] by (simp add: r_def)
  have canonical: "canonicalCatalogRecord c r = Inr r" using valid stamped by (simp add: canonicalCatalogRecord_iff)
  have again: "encodeCatalogRecord c r = Inr v" using valid short v stamped by (simp add: encodeCatalogRecord_Inr)
  obtain version where "decodeCatalogWire c v = Inr (catalogToWire r version, ct_Binding r, ct_PublicCreate r)"
    using decodeCatalogWire_payload [OF assms(1) valid stamped v short] by blast
  then show ?thesis
    using again canonical catalogFromWire_toWire [OF valid stamped, of version] by (simp add: decodeCatalogRecord_def r_def)
qed

text \<open>
  C26. A stored session record is read back as the record that was stored: whatever record the encoder
  accepts, of whichever version, decoding its bytes returns the canonical record it was written from.
\<close>

theorem catalog_record_round_trip:
  assumes "core_utf8 c" and "core_instants c" and "encodeCatalogRecord c r0 = Inr v"
  shows "\<exists>r. canonicalCatalogRecord c r0 = Inr r \<and> canonicalCatalogRecord c r = Inr r \<and> decodeCatalogRecord c v = Inr r"
  using catalog_record_trip [OF assms] assms(3) catalog_valid_stamped [OF assms(2)]
  by (auto simp: canonicalCatalogRecord_iff encodeCatalogRecord_Inr)

subsection \<open>What a canonical gate list says\<close>

lemma gate_key_id: "gp_GateID g \<noteq> gp_GateID h \<Longrightarrow> gate_key g \<noteq> gate_key h"
proof
  assume "gp_GateID g \<noteq> gp_GateID h" "gate_key g = gate_key h"
  then have "map byte_char (map byte_of (gp_GateID g)) = map byte_char (map byte_of (gp_GateID h))"
    by (simp add: gate_key_def)
  then have "gp_GateID g = gp_GateID h" by (simp add: comp_def)
  with \<open>gp_GateID g \<noteq> gp_GateID h\<close> show False by simp
qed

lemma strictly_ordered_gates:
  "sorted (map gate_key gs) \<Longrightarrow> \<not> adjacent_repeat gs \<Longrightarrow> sorted_wrt (\<lambda>g h. gate_key g < gate_key h) gs"
proof (induction gs rule: adjacent_repeat.induct)
  case (1 g h gs)
  then have "gate_key g < gate_key h" using gate_key_id [of g h] by (auto simp: less_le)
  with 1 show ?case by (auto intro: less_le_trans)
qed auto

text \<open>
  The open gates of a canonical record are the gates the caller gave, with their deadlines in UTC,
  strictly ascending by opening sequence and then by the bytes of the id; and every list of gates of
  valid content, none following another of the same id in that order, is accepted.
\<close>

theorem canonical_gates_ordered:
  shows "(\<forall>gs'. canonicalGates c gs = Inr gs' \<longrightarrow>
      sorted_wrt (\<lambda>g h. gate_key g < gate_key h) gs' \<and> mset gs' = image_mset gate_UTC (mset gs) \<and> gates_valid c gs)
    \<and> (gates_valid c gs \<and> distinct (map gp_GateID gs) \<longrightarrow> canonicalGates c gs = Inr (sorted_gates gs))"
proof (intro conjI allI impI)
  fix gs' assume "canonicalGates c gs = Inr gs'"
  then have ok: "gates_valid c gs" "\<not> adjacent_repeat gs'" "gs' = sorted_gates gs" by (simp_all add: canonicalGates_iff)
  then show "gates_valid c gs" by simp
  show "mset gs' = image_mset gate_UTC (mset gs)" by (simp add: ok(3) sorted_gates_def)
  have "sorted (map gate_key gs')" by (simp add: ok(3) sorted_gates_def)
  then show "sorted_wrt (\<lambda>g h. gate_key g < gate_key h) gs'" using ok(2) by (rule strictly_ordered_gates)
next
  assume *: "gates_valid c gs \<and> distinct (map gp_GateID gs)"
  have "\<not> adjacent_repeat hs" if "distinct (map gp_GateID hs)" for hs
    using that by (induction hs rule: adjacent_repeat.induct) auto
  moreover have "mset (map gp_GateID (sorted_gates gs)) = mset (map gp_GateID gs)"
    by (simp add: sorted_gates_def comp_def gate_UTC_def multiset.map_comp)
  then have "distinct (map gp_GateID (sorted_gates gs))" using * mset_eq_imp_distinct_iff by blast
  ultimately show "canonicalGates c gs = Inr (sorted_gates gs)" using * by (simp add: canonicalGates_iff)
qed

text \<open>
  C39. A list in which another gate stands between two openings of one id is accepted: the check compares
  neighbours only, so ids of a canonical list may repeat.
\<close>

theorem canonical_gates_may_repeat_an_id:
  assumes "gates_valid c [g1, h2, g3]" and "gp_GateID g3 = gp_GateID g1" "gp_GateID h2 \<noteq> gp_GateID g1"
    and "gp_OpenedJournalSeq g1 < gp_OpenedJournalSeq h2" "gp_OpenedJournalSeq h2 < gp_OpenedJournalSeq g3"
  shows "\<exists>gs. canonicalGates c [g1, h2, g3] = Inr gs \<and> \<not> distinct (map gp_GateID gs)"
proof -
  have "gate_key g1 < gate_key h2" "gate_key h2 < gate_key g3"
    using assms(4,5) by (simp_all add: gate_key_def word_less_nat_alt)
  then have "sorted_gates [g1, h2, g3] = [gate_UTC g1, gate_UTC h2, gate_UTC g3]"
    unfolding sorted_gates_def by (intro trans [OF sort_key_id_if_sorted]) auto
  with assms(1-3) show ?thesis by (simp add: canonicalGates_iff gate_UTC_def)
qed

end
