(* ===== verification/Row_Write.thy ===== *)
theory Row_Write
  imports Inbox
begin

text \<open>
  One committed write of a record kind, over the history of rows: the record that was stored at a
  revision, and the record that follows it.  Every read-modify-write of the Store has this shape.
\<close>

definition row_write ::
  "'s row_history \<Rightarrow> (stored_bytes \<Rightarrow> err + 'r) \<Rightarrow> 's \<Rightarrow> 's \<Rightarrow> ordered_id \<Rightarrow> u64 \<Rightarrow> 'r \<Rightarrow> 'r \<Rightarrow> bool" where
  "row_write hist dec s t i n r r' \<longleftrightarrow>
    hist s i (n + 1) = None \<and>
    (\<exists>old. hist t i n = Some old \<and> dec (rec_Value old) = Inr r) \<and>
    (\<exists>row. hist t i (n + 1) = Some row \<and> dec (rec_Value row) = Inr r')"

lemma row_write_earlier:
  "grows hist s u \<Longrightarrow> row_write hist dec u t i n r r' \<Longrightarrow> row_write hist dec s t i n r r'"
  using growsD [of hist s u i "n + 1"]
  by (cases "hist s i (n + 1)") (auto simp: row_write_def)

text \<open>An update of a row that was read writes over exactly that row.\<close>

lemma row_write_of_update:
  assumes "oi_contract st hist" and "hist s i (rec_Revision row) = Some row" and "dec (rec_Value row) = Inr r"
    and "oi_Update st i (rec_Revision row) v rk due s = (Inr stored, t)" and "dec v = Inr r'"
  shows "row_write hist dec s t i (rec_Revision row) r r'" "rec_Value stored = v" "rec_Revision stored = rec_Revision row + 1"
    "rec_ID stored = rec_ID row" "rec_Order stored = rec_Order row" "rec_Due stored = due" "rec_Rank stored = rk"
    "rec_RankingScope stored = rec_RankingScope row" "rec_Deleted stored = rec_Deleted row"
proof -
  note upd = oi_update_of_read [OF assms(1,2,4)]
  then show "rec_Value stored = v" "rec_Revision stored = rec_Revision row + 1"
    "rec_ID stored = rec_ID row" "rec_Order stored = rec_Order row" "rec_Due stored = due" "rec_Rank stored = rk"
    "rec_RankingScope stored = rec_RankingScope row" "rec_Deleted stored = rec_Deleted row"
    by (simp_all add: updated_row_def)
  with upd assms(3,5) show "row_write hist dec s t i (rec_Revision row) r r'"
    by (auto simp: row_write_def)
qed

text \<open>Two writes over one revision of one row are one write.\<close>

lemma row_write_once:
  assumes "row_write hist dec s t i n r r'" and "grows hist t u" and "row_write hist dec u w i n q q'"
  shows False
proof -
  from assms(1) obtain row where "hist t i (n + 1) = Some row" by (auto simp: row_write_def)
  with growsD [OF assms(2)] have "hist u i (n + 1) = Some row" by blast
  with assms(3) show False by (simp add: row_write_def)
qed

end
