(* ===== verification/Catalog.thy ===== *)
theory Catalog
  imports Catalog_Codec Row_Write Cursor
begin

text \<open>
  \<^verbatim>\<open>catalog.go\<close>, the operations: creation, read, the two writers of a record (the Host that holds
  the lease, the Factory that names what is desired), the projections, and the listing of a tenant.
\<close>

definition catalogNamespace :: string where "catalogNamespace = ''sessionstore/catalog''"

record CatalogEntry =
  ca_Record :: CatalogRecord
  ca_Revision :: u64

record CreateCatalogEntryRequest =
  cn_Binding :: SessionBinding
  cn_TenantID :: string
  cn_SessionID :: string
  cn_AgentID :: string
  cn_RuntimeCompatibilityID :: string
  cn_CreatedAt :: gotime
  cn_LastActiveAt :: gotime
  cn_State :: string
  cn_Residency :: string
  cn_DesiredPlacement :: string
  cn_DesiredWorkload :: DesiredWorkload
  cn_IdempotencyKey :: string

record GetCatalogEntryRequest =
  cg_TenantID :: string
  cg_SessionID :: string

record ListSessionsRequest =
  cx_TenantID :: string
  cx_Cursor :: string
  cx_Limit :: int

record UpdateCatalogHostStateRequest =
  uh_TenantID :: string
  uh_SessionID :: string
  uh_LeaseEpoch :: u64
  uh_State :: string
  uh_Residency :: string
  uh_LastActiveAt :: gotime
  uh_LastJournalSeq :: u64
  uh_LastEventID :: string
  uh_Checkpoint :: CheckpointSummary
  uh_OpenGates :: "gate_projection list"

record UpdateCatalogDesiredStateRequest =
  ud_TenantID :: string
  ud_SessionID :: string
  ud_ExpectedRevision :: u64
  ud_IdempotencyKey :: string
  ud_DesiredPlacement :: string
  ud_RuntimeCompatibilityID :: string
  ud_DesiredWorkload :: DesiredWorkload

record SessionPage =
  sp_Sessions :: "session_summary list"
  sp_NextCursor :: string
  sp_UnreadableSkipped :: nat

subsection \<open>Filing\<close>

definition catalogID :: "sessionScope \<Rightarrow> string \<Rightarrow> ordered_id" where
  "catalogID scope session = \<lparr>oid_Namespace = catalogNamespace, oid_OrderingScope = sc_CatalogScope scope,
     oid_StableKey = session\<rparr>"

definition catalogRank :: "CatalogRecord \<Rightarrow> rank" where
  "catalogRank r = \<lparr>rk_Ranked = True, rk_Value = UnixNano (ct_LastActiveAt r)\<rparr>"

definition catalogEntry :: "core_lib \<Rightarrow> ordered_record \<Rightarrow> string \<Rightarrow> string \<Rightarrow> err + CatalogEntry" where
  "catalogEntry c stored tenant session =
    (if rec_Deleted stored then Inl (catalogErr CatalogErrorDeleted ''record'')
     else bindR (decodeCatalogRecord c (rec_Value stored)) (\<lambda>r.
       if ct_TenantID r \<noteq> tenant \<or> ct_SessionID r \<noteq> session then Inl (catalogErr CatalogErrorIdentity ''record'')
       else Inr \<lparr>ca_Record = r, ca_Revision = rec_Revision stored\<rparr>))"

definition readCatalogEntry :: "'s store \<Rightarrow> sessionScope \<Rightarrow> string \<Rightarrow> string \<Rightarrow> ('s, CatalogEntry) store_op" where
  "readCatalogEntry st scope tenant session =
    bindE (verifySessionScope st scope) (\<lambda>_.
    bindE (classifyE (\<lambda>e. classifyCatalogOrderedError e ''get'') (oi_Get st (catalogID scope session))) (\<lambda>stored.
    liftE (catalogEntry (st_core st) stored tenant session)))"

definition writeCatalogRecord :: "'s store \<Rightarrow> sessionScope \<Rightarrow> CatalogRecord \<Rightarrow> u64 \<Rightarrow> ('s, CatalogEntry) store_op" where
  "writeCatalogRecord st scope r expectedRevision =
    bindE (liftE (encodeCatalogRecord (st_core st) r)) (\<lambda>v.
    bindE (classifyE (\<lambda>e. classifyCatalogOrderedError e ''update'')
      (oi_Update st (catalogID scope (ct_SessionID r)) expectedRevision v (catalogRank r) NoDue)) (\<lambda>stored.
    liftE (catalogEntry (st_core st) stored (ct_TenantID r) (ct_SessionID r))))"

subsection \<open>Creation and read\<close>

definition catalogRecordForCreate :: "CreateCatalogEntryRequest \<Rightarrow> CatalogRecord" where
  "catalogRecordForCreate req = \<lparr>ct_PublicCreate = None, ct_Binding = cn_Binding req, ct_TenantID = cn_TenantID req,
    ct_SessionID = cn_SessionID req, ct_AgentID = cn_AgentID req,
    ct_RuntimeCompatibilityID = cn_RuntimeCompatibilityID req, ct_CreatedAt = cn_CreatedAt req,
    ct_LastActiveAt = cn_LastActiveAt req, ct_State = cn_State req, ct_Residency = cn_Residency req,
    ct_DesiredPlacement = cn_DesiredPlacement req, ct_LastJournalSeq = 0, ct_LastEventID = [],
    ct_Checkpoint = zeroCheckpoint, ct_OpenGates = [], ct_LeaseEpoch = 0,
    ct_DesiredIdempotencyKey = cn_IdempotencyKey req, ct_DesiredGeneration = initialDesiredGeneration,
    ct_DesiredWorkload = cn_DesiredWorkload req\<rparr>"

definition bindingConflict :: "CreateCatalogEntryRequest \<Rightarrow> CatalogRecord \<Rightarrow> bool" where
  "bindingConflict req r \<longleftrightarrow> (cn_Binding req \<noteq> zeroBinding \<or> ct_Binding r \<noteq> zeroBinding)
     \<and> (cn_Binding req \<noteq> ct_Binding r \<or> cn_AgentID req \<noteq> ct_AgentID r)"

definition createCatalogEntry ::
  "'s store \<Rightarrow> CreateCatalogEntryRequest \<Rightarrow> PublicCreateReservation option \<Rightarrow> ('s, CatalogEntry \<times> bool) store_op" where
  "createCatalogEntry st req public =
    bindE (liftE (deriveSessionScope st (cn_TenantID req) (cn_SessionID req))) (\<lambda>scope.
    let r = (catalogRecordForCreate req)\<lparr>ct_PublicCreate := public\<rparr> in
    bindE (liftE (encodeCatalogRecord (st_core st) r)) (\<lambda>v.
    bindE (admitForeground st) (\<lambda>_.
    bindE (bindSessionScopeMode st scope (protocolModeOrLegacy (cn_Binding req))) (\<lambda>_.
    bindE (classifyE (\<lambda>e. classifyCatalogOrderedError e ''create'')
      (oi_Create st (catalogID scope (cn_SessionID req)) (sc_CatalogScope scope) v (catalogRank r) NoDue))
      (\<lambda>(stored, created).
    bindE (liftE (catalogEntry (st_core st) stored (cn_TenantID req) (cn_SessionID req))) (\<lambda>entry.
    if \<not> samePublicCreate (st_core st) public (ct_PublicCreate (ca_Record entry))
      then failE (catalogConflict ''public_create'' (ca_Revision entry))
    else if bindingConflict req (ca_Record entry)
      then failE (catalogConflict ''binding'' (ca_Revision entry))
    else returnE (entry, created)))))))"

definition CreateCatalogEntry :: "'s store \<Rightarrow> CreateCatalogEntryRequest \<Rightarrow> ('s, CatalogEntry \<times> bool) store_op" where
  "CreateCatalogEntry st req = createCatalogEntry st req None"

definition GetCatalogEntry :: "'s store \<Rightarrow> GetCatalogEntryRequest \<Rightarrow> ('s, CatalogEntry) store_op" where
  "GetCatalogEntry st req =
    bindE (liftE (deriveSessionScope st (cg_TenantID req) (cg_SessionID req))) (\<lambda>scope.
    bindE (admitForeground st) (\<lambda>_.
    readCatalogEntry st scope (cg_TenantID req) (cg_SessionID req)))"

subsection \<open>The two writers\<close>

definition catalogEpochRefusal :: "u64 \<Rightarrow> err" where
  "catalogEpochRefusal committed =
     CatalogError \<lparr>ce_Code = CatalogErrorEpoch, ce_Field = ''lease_epoch'', ce_Epoch = committed, ce_Revision = 0\<rparr>"

definition hostEpochFence :: "CatalogRecord \<Rightarrow> u64 \<Rightarrow> err + unit" where
  "hostEpochFence current epoch =
    (if sb_ProtocolMode (ct_Binding current) = ProtocolModeDisposition then Inl (catalogInvalid ''binding.protocol_mode'')
     else epochFence (ct_LeaseEpoch current) epoch catalogEpochRefusal)"

definition UpdateCatalogHostState :: "'s store \<Rightarrow> UpdateCatalogHostStateRequest \<Rightarrow> ('s, CatalogEntry) store_op" where
  "UpdateCatalogHostState st req =
    bindE (liftE (deriveSessionScope st (uh_TenantID req) (uh_SessionID req))) (\<lambda>scope.
    if uh_LeaseEpoch req = 0 then failE (catalogErr CatalogErrorInvalid ''lease_epoch'')
    else bindE (admitForeground st) (\<lambda>_.
    bindE (readCatalogEntry st scope (uh_TenantID req) (uh_SessionID req)) (\<lambda>current.
    bindE (liftE (hostEpochFence (ca_Record current) (uh_LeaseEpoch req))) (\<lambda>_.
    if uh_LastJournalSeq req < ct_LastJournalSeq (ca_Record current)
      then failE (catalogErr CatalogErrorSequence ''last_journal_seq'')
    else writeCatalogRecord st scope
      ((ca_Record current)\<lparr>ct_LeaseEpoch := uh_LeaseEpoch req, ct_State := uh_State req,
         ct_Residency := uh_Residency req, ct_LastActiveAt := uh_LastActiveAt req,
         ct_LastJournalSeq := uh_LastJournalSeq req, ct_LastEventID := uh_LastEventID req,
         ct_Checkpoint := uh_Checkpoint req, ct_OpenGates := uh_OpenGates req\<rparr>) (ca_Revision current)))))"

definition applyDesiredState :: "CatalogRecord \<Rightarrow> UpdateCatalogDesiredStateRequest \<Rightarrow> err + CatalogRecord" where
  "applyDesiredState current req =
    bindR (nextDesiredGeneration (ct_DesiredGeneration current)) (\<lambda>generation.
    Inr (current\<lparr>ct_DesiredPlacement := ud_DesiredPlacement req,
      ct_RuntimeCompatibilityID := ud_RuntimeCompatibilityID req, ct_DesiredWorkload := ud_DesiredWorkload req,
      ct_DesiredIdempotencyKey := ud_IdempotencyKey req, ct_DesiredGeneration := generation\<rparr>))"

definition UpdateCatalogDesiredState :: "'s store \<Rightarrow> UpdateCatalogDesiredStateRequest \<Rightarrow> ('s, CatalogEntry) store_op" where
  "UpdateCatalogDesiredState st req =
    bindE (liftE (deriveSessionScope st (ud_TenantID req) (ud_SessionID req))) (\<lambda>scope.
    if ud_IdempotencyKey req = [] then failE (catalogErr CatalogErrorInvalid ''idempotency_key'')
    else bindE (admitForeground st) (\<lambda>_.
    bindE (readCatalogEntry st scope (ud_TenantID req) (ud_SessionID req)) (\<lambda>current.
    if ct_DesiredIdempotencyKey (ca_Record current) = ud_IdempotencyKey req then returnE current
    else if ud_ExpectedRevision req \<noteq> ca_Revision current
      then failE (catalogConflict ''expected_revision'' (ca_Revision current))
    else bindE (liftE (applyDesiredState (ca_Record current) req)) (\<lambda>next.
      writeCatalogRecord st scope next (ca_Revision current)))))"

subsection \<open>Projections\<close>

record PlacementIntent =
  pl_TenantID :: string
  pl_SessionID :: string
  pl_AgentID :: string
  pl_RuntimeCompatibilityID :: string
  pl_Placement :: string
  pl_Workload :: DesiredWorkload
  pl_Generation :: u64

definition intentOf :: "core_lib \<Rightarrow> CatalogRecord \<Rightarrow> err + PlacementIntent" where
  "intentOf c r0 =
    bindR (canonicalCatalogRecord c r0) (\<lambda>r.
    Inr \<lparr>pl_TenantID = ct_TenantID r, pl_SessionID = ct_SessionID r, pl_AgentID = ct_AgentID r,
      pl_RuntimeCompatibilityID = ct_RuntimeCompatibilityID r, pl_Placement = ct_DesiredPlacement r,
      pl_Workload = ct_DesiredWorkload r, pl_Generation = ct_DesiredGeneration r\<rparr>)"

definition Summary :: "core_lib \<Rightarrow> CatalogRecord \<Rightarrow> err + session_summary" where
  "Summary c r0 =
    bindR (canonicalCatalogRecord c r0) (\<lambda>r.
    let summary = \<lparr>ss_SessionID = ct_SessionID r, ss_AgentID = ct_AgentID r, ss_State = ct_State r,
          ss_CreatedAt = UTC (ct_CreatedAt r), ss_LastActiveAt = UTC (ct_LastActiveAt r)\<rparr>
    in if \<not> summary_ok c summary then Inl (catalogErr CatalogErrorInvalid ''summary'') else Inr summary)"

definition Status :: "core_lib \<Rightarrow> CatalogRecord \<Rightarrow> err + session_status" where
  "Status c r0 =
    bindR (canonicalCatalogRecord c r0) (\<lambda>r.
    let status = \<lparr>sst_SessionID = ct_SessionID r, sst_AgentID = ct_AgentID r, sst_State = ct_State r,
          sst_Residency = ct_Residency r,
          sst_WaitingGateID = (case ct_OpenGates r of [] \<Rightarrow> [] | g # _ \<Rightarrow> gp_GateID g),
          sst_JournalTip = ct_LastJournalSeq r, sst_UpdatedAt = UTC (ct_LastActiveAt r)\<rparr>
    in if \<not> status_ok c status then Inl (catalogErr CatalogErrorInvalid ''status'') else Inr status)"

subsection \<open>Listing a tenant\<close>

text \<open>One row of a page: its summary, or nothing when the row cannot be shown.\<close>

definition listedSummary :: "core_lib \<Rightarrow> string \<Rightarrow> ordered_record \<Rightarrow> err + session_summary" where
  "listedSummary c tenant stored =
    bindR (catalogEntry c stored tenant (oid_StableKey (rec_ID stored))) (\<lambda>entry. Summary c (ca_Record entry))"

fun collectSessions :: "core_lib \<Rightarrow> string \<Rightarrow> ordered_record list \<Rightarrow> session_summary list \<times> nat" where
  "collectSessions c tenant [] = ([], 0)"
| "collectSessions c tenant (stored # rows) =
    (case (listedSummary c tenant stored, collectSessions c tenant rows) of
       (Inl _, (xs, n)) \<Rightarrow> (xs, Suc n)
     | (Inr x, (xs, n)) \<Rightarrow> (x # xs, n))"

definition ListSessions :: "'s store \<Rightarrow> ListSessionsRequest \<Rightarrow> ('s, SessionPage) store_op" where
  "ListSessions st req =
    (case pageLimit st (cx_Limit req) of
       None \<Rightarrow> failE (catalogErr CatalogErrorInvalid ''limit'')
     | Some limit \<Rightarrow>
        bindE (liftE (deriveTenantScope st (cx_TenantID req))) (\<lambda>scope.
        bindE (if cx_Cursor req \<noteq> [] then liftE (decodeCatalogCursor st (cx_TenantID req) (cx_Cursor req)) else returnE [])
          (\<lambda>after.
        bindE (admitForeground st) (\<lambda>_.
        bindE (classifyE (\<lambda>e. classifyCatalogOrderedError e ''list'')
          (oi_ListRanked st catalogNamespace (ts_CatalogScope scope) after limit)) (\<lambda>ranked.
        let (sessions, skipped) = collectSessions (st_core st) (cx_TenantID req) (rp_Records ranked) in
        bindE (if rp_NextCursor ranked \<noteq> [] then liftE (encodeCatalogCursor st (cx_TenantID req) (rp_NextCursor ranked))
               else returnE []) (\<lambda>next.
        if \<not> session_page_ok (st_core st) sessions next then failE (catalogErr CatalogErrorBackend ''sessions'')
        else returnE \<lparr>sp_Sessions = sessions, sp_NextCursor = next, sp_UnreadableSkipped = skipped\<rparr>))))))"

subsection \<open>What a successful operation has read and written\<close>

lemma extends_readCatalogEntry [extends_intros]:
  "oi_contract st hist \<Longrightarrow> extends hist (readCatalogEntry st scope tenant session)"
  unfolding readCatalogEntry_def by (intro extends_intros)

lemma catalogEntry_Inr:
  assumes "catalogEntry c stored tenant session = Inr entry"
  shows "\<not> rec_Deleted stored" "decodeCatalogRecord c (rec_Value stored) = Inr (ca_Record entry)"
    "ca_Revision entry = rec_Revision stored" "ct_TenantID (ca_Record entry) = tenant" "ct_SessionID (ca_Record entry) = session"
  using assms by (auto simp: catalogEntry_def split: if_split_asm)

lemma decodeCatalogRecord_stamped: "decodeCatalogRecord c v = Inr r \<Longrightarrow> catalog_stamped r = r"
  by (auto simp: decodeCatalogRecord_def canonicalCatalogRecord_iff split: prod.split_asm if_split_asm)

lemma readCatalogEntry_InrE:
  assumes "oi_contract st hist" and "readCatalogEntry st scope tenant session s = (Inr cur, t)"
  obtains row where "hist t (catalogID scope session) (rec_Revision row) = Some row"
    "catalogEntry (st_core st) row tenant session = Inr cur"
proof -
  from assms(2) obtain row u where "oi_Get st (catalogID scope session) u = (Inr row, t)"
    "catalogEntry (st_core st) row tenant session = Inr cur"
    by (auto simp: readCatalogEntry_def elim!: bindE_InrE)
  with that oi_get [OF assms(1)] show thesis by blast
qed

lemma writeCatalogRecord_Inr:
  assumes "oi_contract st hist" and "core_utf8 (st_core st)" and "core_instants (st_core st)"
    and "hist s (catalogID scope session) (rec_Revision row) = Some row"
    and "catalogEntry (st_core st) row tenant session = Inr cur"
    and "ct_SessionID r = session"
    and "writeCatalogRecord st scope r (ca_Revision cur) s = (Inr entry, t)"
  shows "ca_Record entry = catalog_stamped r" "ca_Revision entry = ca_Revision cur + 1"
    "row_write hist (decodeCatalogRecord (st_core st)) s t (catalogID scope session) (ca_Revision cur)
       (ca_Record cur) (ca_Record entry)"
proof -
  note cur = catalogEntry_Inr [OF assms(5)]
  from assms(7) obtain v stored where enc: "encodeCatalogRecord (st_core st) r = Inr v"
    and upd: "oi_Update st (catalogID scope session) (rec_Revision row) v (catalogRank r) NoDue s = (Inr stored, t)"
    and entry: "catalogEntry (st_core st) stored (ct_TenantID r) session = Inr entry"
    by (auto simp: writeCatalogRecord_def cur(3) assms(6) elim!: bindE_InrE)
  from catalog_record_trip [OF assms(2,3) enc] have dec: "decodeCatalogRecord (st_core st) v = Inr (catalog_stamped r)" .
  note w = row_write_of_update [OF assms(1,4) cur(2) upd dec]
  note new = catalogEntry_Inr [OF entry]
  from new(2) w(2) dec show rec: "ca_Record entry = catalog_stamped r" by simp
  from new(3) w(3) cur(3) show "ca_Revision entry = ca_Revision cur + 1" by simp
  from w(1) rec cur(3) show "row_write hist (decodeCatalogRecord (st_core st)) s t (catalogID scope session) (ca_Revision cur)
       (ca_Record cur) (ca_Record entry)" by simp
qed

subsection \<open>The writers as a specification\<close>

inductive catalog_step :: "CatalogRecord \<Rightarrow> CatalogRecord \<Rightarrow> bool" where
  Host: "\<lbrakk>sb_ProtocolMode (ct_Binding r) \<noteq> ProtocolModeDisposition; e \<noteq> 0; ct_LeaseEpoch r \<le> e; ct_LastJournalSeq r \<le> n\<rbrakk> \<Longrightarrow>
   catalog_step r (r\<lparr>ct_LeaseEpoch := e, ct_State := state, ct_Residency := residency, ct_LastActiveAt := UTC active,
     ct_LastJournalSeq := n, ct_LastEventID := event,
     ct_Checkpoint := checkpoint\<lparr>cp_CapturedAt := UTC (cp_CapturedAt checkpoint)\<rparr>, ct_OpenGates := sorted_gates gates\<rparr>)"
| Desired: "\<lbrakk>key \<noteq> []; key \<noteq> ct_DesiredIdempotencyKey r; unat g = Suc (unat (ct_DesiredGeneration r))\<rbrakk> \<Longrightarrow>
   catalog_step r (r\<lparr>ct_DesiredPlacement := placement, ct_RuntimeCompatibilityID := runtime, ct_DesiredWorkload := workload,
     ct_DesiredIdempotencyKey := key, ct_DesiredGeneration := g\<rparr>)"

inductive_cases catalog_stepE: "catalog_step r r'"

lemma catalog_stamped_update:
  assumes "catalog_stamped r = r"
  shows "catalog_stamped (r\<lparr>ct_LeaseEpoch := e, ct_State := state, ct_Residency := residency, ct_LastActiveAt := active,
     ct_LastJournalSeq := n, ct_LastEventID := event, ct_Checkpoint := checkpoint, ct_OpenGates := gates\<rparr>)
   = r\<lparr>ct_LeaseEpoch := e, ct_State := state, ct_Residency := residency, ct_LastActiveAt := UTC active,
     ct_LastJournalSeq := n, ct_LastEventID := event,
     ct_Checkpoint := checkpoint\<lparr>cp_CapturedAt := UTC (cp_CapturedAt checkpoint)\<rparr>, ct_OpenGates := sorted_gates gates\<rparr>"
    "catalog_stamped (r\<lparr>ct_DesiredPlacement := placement, ct_RuntimeCompatibilityID := runtime, ct_DesiredWorkload := workload,
     ct_DesiredIdempotencyKey := key, ct_DesiredGeneration := g\<rparr>)
   = r\<lparr>ct_DesiredPlacement := placement, ct_RuntimeCompatibilityID := runtime, ct_DesiredWorkload := workload,
     ct_DesiredIdempotencyKey := key, ct_DesiredGeneration := g\<rparr>"
proof -
  have fields: "ct_PublicCreate (catalog_stamped r) = map_option reservation_stamped (ct_PublicCreate r)"
    "ct_CreatedAt (catalog_stamped r) = UTC (ct_CreatedAt r)" "ct_LastActiveAt (catalog_stamped r) = UTC (ct_LastActiveAt r)"
    "ct_Checkpoint (catalog_stamped r) = (ct_Checkpoint r)\<lparr>cp_CapturedAt := UTC (cp_CapturedAt (ct_Checkpoint r))\<rparr>"
    "ct_OpenGates (catalog_stamped r) = sorted_gates (ct_OpenGates r)"
    by (simp_all add: catalog_stamped_def)
  note same = fields [unfolded assms, symmetric]
  show "catalog_stamped (r\<lparr>ct_LeaseEpoch := e, ct_State := state, ct_Residency := residency, ct_LastActiveAt := active,
     ct_LastJournalSeq := n, ct_LastEventID := event, ct_Checkpoint := checkpoint, ct_OpenGates := gates\<rparr>)
   = r\<lparr>ct_LeaseEpoch := e, ct_State := state, ct_Residency := residency, ct_LastActiveAt := UTC active,
     ct_LastJournalSeq := n, ct_LastEventID := event,
     ct_Checkpoint := checkpoint\<lparr>cp_CapturedAt := UTC (cp_CapturedAt checkpoint)\<rparr>, ct_OpenGates := sorted_gates gates\<rparr>"
    by (simp add: catalog_stamped_def same)
  show "catalog_stamped (r\<lparr>ct_DesiredPlacement := placement, ct_RuntimeCompatibilityID := runtime, ct_DesiredWorkload := workload,
     ct_DesiredIdempotencyKey := key, ct_DesiredGeneration := g\<rparr>)
   = r\<lparr>ct_DesiredPlacement := placement, ct_RuntimeCompatibilityID := runtime, ct_DesiredWorkload := workload,
     ct_DesiredIdempotencyKey := key, ct_DesiredGeneration := g\<rparr>"
    by (simp add: catalog_stamped_def same)
qed

lemma UpdateCatalogHostState_InrE:
  assumes "UpdateCatalogHostState st req s = (Inr entry, t)"
  obtains scope cur u where "deriveSessionScope st (uh_TenantID req) (uh_SessionID req) = Inr scope"
    "readCatalogEntry st scope (uh_TenantID req) (uh_SessionID req) s = (Inr cur, u)" "uh_LeaseEpoch req \<noteq> 0"
    "hostEpochFence (ca_Record cur) (uh_LeaseEpoch req) = Inr ()"
    "ct_LastJournalSeq (ca_Record cur) \<le> uh_LastJournalSeq req"
    "writeCatalogRecord st scope
      ((ca_Record cur)\<lparr>ct_LeaseEpoch := uh_LeaseEpoch req, ct_State := uh_State req,
         ct_Residency := uh_Residency req, ct_LastActiveAt := uh_LastActiveAt req,
         ct_LastJournalSeq := uh_LastJournalSeq req, ct_LastEventID := uh_LastEventID req,
         ct_Checkpoint := uh_Checkpoint req, ct_OpenGates := uh_OpenGates req\<rparr>) (ca_Revision cur) u = (Inr entry, t)"
  using assms by (auto simp: UpdateCatalogHostState_def not_less elim!: bindE_InrE split: if_split_asm)

lemma hostEpochFence_Inr_iff [simp]:
  "hostEpochFence r e = Inr u \<longleftrightarrow> sb_ProtocolMode (ct_Binding r) \<noteq> ProtocolModeDisposition \<and> ct_LeaseEpoch r \<le> e"
  by (auto simp: hostEpochFence_def)

lemma host_update_writes:
  assumes "oi_contract st hist" and "core_utf8 (st_core st)" and "core_instants (st_core st)"
    and "UpdateCatalogHostState st req s = (Inr entry, t)"
  shows "\<exists>scope cur u. deriveSessionScope st (uh_TenantID req) (uh_SessionID req) = Inr scope \<and>
    readCatalogEntry st scope (uh_TenantID req) (uh_SessionID req) s = (Inr cur, u) \<and>
    row_write hist (decodeCatalogRecord (st_core st)) s t (catalogID scope (uh_SessionID req)) (ca_Revision cur)
      (ca_Record cur) (ca_Record entry) \<and>
    ca_Revision entry = ca_Revision cur + 1 \<and> catalog_step (ca_Record cur) (ca_Record entry) \<and>
    ct_LeaseEpoch (ca_Record entry) = uh_LeaseEpoch req \<and>
    ct_DesiredGeneration (ca_Record entry) = ct_DesiredGeneration (ca_Record cur)"
  using assms(4)
proof (rule UpdateCatalogHostState_InrE)
  fix scope u and cur :: CatalogEntry
  let ?next = "(ca_Record cur)\<lparr>ct_LeaseEpoch := uh_LeaseEpoch req, ct_State := uh_State req,
         ct_Residency := uh_Residency req, ct_LastActiveAt := uh_LastActiveAt req,
         ct_LastJournalSeq := uh_LastJournalSeq req, ct_LastEventID := uh_LastEventID req,
         ct_Checkpoint := uh_Checkpoint req, ct_OpenGates := uh_OpenGates req\<rparr>"
  assume scope: "deriveSessionScope st (uh_TenantID req) (uh_SessionID req) = Inr scope"
    and get: "readCatalogEntry st scope (uh_TenantID req) (uh_SessionID req) s = (Inr cur, u)"
    and epoch: "uh_LeaseEpoch req \<noteq> 0" and fence: "hostEpochFence (ca_Record cur) (uh_LeaseEpoch req) = Inr ()"
    and tip: "ct_LastJournalSeq (ca_Record cur) \<le> uh_LastJournalSeq req"
    and put: "writeCatalogRecord st scope ?next (ca_Revision cur) u = (Inr entry, t)"
  note grow = extendsD [OF extends_readCatalogEntry [OF assms(1)] get]
  obtain row where row: "hist u (catalogID scope (uh_SessionID req)) (rec_Revision row) = Some row"
    and cur: "catalogEntry (st_core st) row (uh_TenantID req) (uh_SessionID req) = Inr cur"
    by (rule readCatalogEntry_InrE [OF assms(1) get])
  have "ct_SessionID ?next = uh_SessionID req" using catalogEntry_Inr(5) [OF cur] by simp
  note w = writeCatalogRecord_Inr [OF assms(1-3) row cur this put]
  have "catalog_stamped (ca_Record cur) = ca_Record cur"
    by (rule decodeCatalogRecord_stamped [OF catalogEntry_Inr(2) [OF cur]])
  note new = w(1) [unfolded catalog_stamped_update(1) [OF this]]
  have "catalog_step (ca_Record cur) (ca_Record entry)"
    unfolding new using epoch fence tip by (intro catalog_step.Host) simp_all
  with scope get row_write_earlier [OF grow w(3)] w(2) new show ?thesis by auto
qed

text \<open>
  C23. A successful host write replaces the record at the revision it read by one host step: the
  lease epoch and the journal tip do not go back, the session is not of the disposition protocol, and
  everything the Host does not own is as it was.
\<close>

theorem host_update_is_a_step:
  assumes "oi_contract st hist" and "core_utf8 (st_core st)" and "core_instants (st_core st)"
    and "UpdateCatalogHostState st req s = (Inr entry, t)"
  shows "\<exists>scope n r. deriveSessionScope st (uh_TenantID req) (uh_SessionID req) = Inr scope \<and>
    row_write hist (decodeCatalogRecord (st_core st)) s t (catalogID scope (uh_SessionID req)) n r (ca_Record entry) \<and>
    ca_Revision entry = n + 1 \<and> catalog_step r (ca_Record entry) \<and> ct_LeaseEpoch (ca_Record entry) = uh_LeaseEpoch req \<and>
    ct_DesiredGeneration (ca_Record entry) = ct_DesiredGeneration r"
  using host_update_writes [OF assms] by blast

lemma applyDesiredState_Inr:
  "applyDesiredState r req = Inr nxt \<Longrightarrow> \<exists>g. unat g = Suc (unat (ct_DesiredGeneration r)) \<and>
     nxt = r\<lparr>ct_DesiredPlacement := ud_DesiredPlacement req,
      ct_RuntimeCompatibilityID := ud_RuntimeCompatibilityID req, ct_DesiredWorkload := ud_DesiredWorkload req,
      ct_DesiredIdempotencyKey := ud_IdempotencyKey req, ct_DesiredGeneration := g\<rparr>"
  unfolding applyDesiredState_def by (fastforce simp: nextDesiredGeneration_Inr)

lemma UpdateCatalogDesiredState_InrE:
  assumes "UpdateCatalogDesiredState st req s = (Inr entry, t)"
  obtains (found) scope where "deriveSessionScope st (ud_TenantID req) (ud_SessionID req) = Inr scope"
      "readCatalogEntry st scope (ud_TenantID req) (ud_SessionID req) s = (Inr entry, t)"
      "ct_DesiredIdempotencyKey (ca_Record entry) = ud_IdempotencyKey req"
  | (written) scope cur u nxt where "deriveSessionScope st (ud_TenantID req) (ud_SessionID req) = Inr scope"
      "readCatalogEntry st scope (ud_TenantID req) (ud_SessionID req) s = (Inr cur, u)" "ud_IdempotencyKey req \<noteq> []"
      "ct_DesiredIdempotencyKey (ca_Record cur) \<noteq> ud_IdempotencyKey req" "ca_Revision cur = ud_ExpectedRevision req"
      "applyDesiredState (ca_Record cur) req = Inr nxt"
      "writeCatalogRecord st scope nxt (ca_Revision cur) u = (Inr entry, t)"
  using assms by (auto simp: UpdateCatalogDesiredState_def elim!: bindE_InrE split: if_split_asm)

text \<open>The record a desired-state write leaves: what the Factory owns is the caller's, the generation is \<open>g\<close>, the rest is as it was.\<close>

definition desiredRecord :: "UpdateCatalogDesiredStateRequest \<Rightarrow> u64 \<Rightarrow> CatalogRecord \<Rightarrow> CatalogRecord" where
  "desiredRecord req g r = r\<lparr>ct_DesiredPlacement := ud_DesiredPlacement req,
     ct_RuntimeCompatibilityID := ud_RuntimeCompatibilityID req, ct_DesiredWorkload := ud_DesiredWorkload req,
     ct_DesiredIdempotencyKey := ud_IdempotencyKey req, ct_DesiredGeneration := g\<rparr>"

lemma desired_update_writes:
  assumes "oi_contract st hist" and "core_utf8 (st_core st)" and "core_instants (st_core st)"
    and "UpdateCatalogDesiredState st req s = (Inr entry, t)"
  shows "\<exists>scope cur u. deriveSessionScope st (ud_TenantID req) (ud_SessionID req) = Inr scope \<and>
    readCatalogEntry st scope (ud_TenantID req) (ud_SessionID req) s = (Inr cur, u) \<and>
    (if ct_DesiredIdempotencyKey (ca_Record cur) = ud_IdempotencyKey req then entry = cur \<and> t = u
     else ca_Revision cur = ud_ExpectedRevision req \<and> ca_Revision entry = ud_ExpectedRevision req + 1 \<and>
       row_write hist (decodeCatalogRecord (st_core st)) s t (catalogID scope (ud_SessionID req))
         (ud_ExpectedRevision req) (ca_Record cur) (ca_Record entry) \<and>
       ud_IdempotencyKey req \<noteq> [] \<and>
       (\<exists>g. unat g = Suc (unat (ct_DesiredGeneration (ca_Record cur))) \<and> ca_Record entry = desiredRecord req g (ca_Record cur)))"
  using assms(4)
proof (cases rule: UpdateCatalogDesiredState_InrE)
  case (found scope)
  then show ?thesis by auto
next
  case (written scope cur u nxt)
  note scope = written(1) and get = written(2) and key = written(3) and new_key = written(4) and rev = written(5)
    and applied = written(6) and put = written(7)
  note grow = extendsD [OF extends_readCatalogEntry [OF assms(1)] get]
  obtain row where row: "hist u (catalogID scope (ud_SessionID req)) (rec_Revision row) = Some row"
    and cur: "catalogEntry (st_core st) row (ud_TenantID req) (ud_SessionID req) = Inr cur"
    by (rule readCatalogEntry_InrE [OF assms(1) get])
  note facts = catalogEntry_Inr [OF cur]
  from applied obtain g where g: "unat g = Suc (unat (ct_DesiredGeneration (ca_Record cur)))"
    and nxt: "nxt = desiredRecord req g (ca_Record cur)"
    using applyDesiredState_Inr unfolding desiredRecord_def by blast
  have "ct_SessionID nxt = ud_SessionID req" using facts(5) by (simp add: nxt desiredRecord_def)
  note w = writeCatalogRecord_Inr [OF assms(1-3) row cur this put]
  have "catalog_stamped (ca_Record cur) = ca_Record cur" by (rule decodeCatalogRecord_stamped [OF facts(2)])
  note stamp = catalog_stamped_update(2) [OF this]
  have new: "ca_Record entry = nxt" unfolding w(1) nxt desiredRecord_def by (rule stamp)
  have "row_write hist (decodeCatalogRecord (st_core st)) s t (catalogID scope (ud_SessionID req))
         (ud_ExpectedRevision req) (ca_Record cur) (ca_Record entry)"
    using row_write_earlier [OF grow w(3)] rev by simp
  with new_key nxt show ?thesis using scope get key w(2) rev new g by (intro exI [of _ scope] exI [of _ cur] exI [of _ u]) auto
qed

text \<open>
  C24. A successful desired-state write is decided by the record it reads first.  If that record holds the
  caller's idempotency key already, the operation is that read and nothing else: it returns the entry read, in the
  state the read left.  Otherwise the record read was at exactly the revision the caller expected, and the one
  stored at the next revision, where there was none, is that record with the caller's placement, runtime,
  workload and key and with the next generation, which has not wrapped; nothing else of it changed.
\<close>

theorem desired_update_is_idempotent_step:
  assumes "oi_contract st hist" and "core_utf8 (st_core st)" and "core_instants (st_core st)"
    and "UpdateCatalogDesiredState st req s = (Inr entry, t)"
  shows "\<exists>scope cur u. deriveSessionScope st (ud_TenantID req) (ud_SessionID req) = Inr scope \<and>
    readCatalogEntry st scope (ud_TenantID req) (ud_SessionID req) s = (Inr cur, u) \<and>
    (if ct_DesiredIdempotencyKey (ca_Record cur) = ud_IdempotencyKey req then entry = cur \<and> t = u
     else ca_Revision cur = ud_ExpectedRevision req \<and> ca_Revision entry = ud_ExpectedRevision req + 1 \<and>
       row_write hist (decodeCatalogRecord (st_core st)) s t (catalogID scope (ud_SessionID req))
         (ud_ExpectedRevision req) (ca_Record cur) (ca_Record entry) \<and>
       (\<exists>g. unat g = Suc (unat (ct_DesiredGeneration (ca_Record cur))) \<and> ca_Record entry = desiredRecord req g (ca_Record cur)))"
  using desired_update_writes [OF assms] by (auto split: if_split_asm)

subsection \<open>Invariants of the writers\<close>

lemma catalog_step_facts:
  assumes "catalog_step r r'"
  shows "ct_PublicCreate r' = ct_PublicCreate r" "ct_Binding r' = ct_Binding r" "ct_TenantID r' = ct_TenantID r"
    "ct_SessionID r' = ct_SessionID r" "ct_AgentID r' = ct_AgentID r" "ct_CreatedAt r' = ct_CreatedAt r"
    "ct_LeaseEpoch r \<le> ct_LeaseEpoch r'" "ct_LastJournalSeq r \<le> ct_LastJournalSeq r'"
    "ct_DesiredGeneration r \<le> ct_DesiredGeneration r'"
    "ct_DesiredGeneration r' = ct_DesiredGeneration r \<Longrightarrow> ct_DesiredPlacement r' = ct_DesiredPlacement r \<and>
       ct_DesiredWorkload r' = ct_DesiredWorkload r \<and> ct_RuntimeCompatibilityID r' = ct_RuntimeCompatibilityID r"
    "sb_ProtocolMode (ct_Binding r) = ProtocolModeDisposition \<Longrightarrow> ct_State r' = ct_State r \<and> ct_OpenGates r' = ct_OpenGates r \<and>
       ct_LeaseEpoch r' = ct_LeaseEpoch r \<and> ct_LastJournalSeq r' = ct_LastJournalSeq r"
  using assms by (auto elim!: catalog_stepE simp: word_le_nat_alt)

text \<open>
  A run of the writers of one session's record: each writer that succeeded had read the entry the one before
  returned, and any other calls came in between.
\<close>

inductive catalog_run :: "'s store \<Rightarrow> string \<Rightarrow> string \<Rightarrow> CatalogEntry \<Rightarrow> CatalogEntry \<Rightarrow> bool"
  for st :: "'s store" and tenant session :: string and e :: CatalogEntry where
  Start: "catalog_run st tenant session e e"
| HostWrite: "\<lbrakk>catalog_run st tenant session e f; deriveSessionScope st tenant session = Inr scope;
     readCatalogEntry st scope tenant session s = (Inr f, u); uh_TenantID req = tenant; uh_SessionID req = session;
     UpdateCatalogHostState st req s = (Inr g, t)\<rbrakk> \<Longrightarrow> catalog_run st tenant session e g"
| DesiredWrite: "\<lbrakk>catalog_run st tenant session e f; deriveSessionScope st tenant session = Inr scope;
     readCatalogEntry st scope tenant session s = (Inr f, u); ud_TenantID req = tenant; ud_SessionID req = session;
     UpdateCatalogDesiredState st req s = (Inr g, t)\<rbrakk> \<Longrightarrow> catalog_run st tenant session e g"

lemma desiredRecord_step:
  "unat g = Suc (unat (ct_DesiredGeneration r)) \<Longrightarrow> ud_IdempotencyKey req \<noteq> [] \<Longrightarrow>
     ct_DesiredIdempotencyKey r \<noteq> ud_IdempotencyKey req \<Longrightarrow> catalog_step r (desiredRecord req g r)"
  unfolding desiredRecord_def by (rule catalog_step.Desired) simp_all

lemma catalog_run_steps:
  assumes "oi_contract st hist" and "core_utf8 (st_core st)" and "core_instants (st_core st)"
    and "catalog_run st tenant session e f"
  shows "catalog_step\<^sup>*\<^sup>* (ca_Record e) (ca_Record f)"
  using assms(4)
proof (induction rule: catalog_run.induct)
  case Start
  show ?case by simp
next
  case (HostWrite f scope s u req g t)
  with host_update_writes [OF assms(1-3) HostWrite(6)] have "catalog_step (ca_Record f) (ca_Record g)" by auto
  with HostWrite.IH show ?case by simp
next
  case (DesiredWrite f scope s u req g t)
  with desired_update_writes [OF assms(1-3) DesiredWrite(6)]
  have "g = f \<or> catalog_step (ca_Record f) (ca_Record g)" by (auto simp: desiredRecord_step split: if_split_asm)
  with DesiredWrite.IH show ?case by auto
qed

lemma catalog_steps_facts:
  assumes "catalog_step\<^sup>*\<^sup>* r r'"
  shows "ct_PublicCreate r' = ct_PublicCreate r \<and> ct_Binding r' = ct_Binding r \<and> ct_TenantID r' = ct_TenantID r \<and>
    ct_SessionID r' = ct_SessionID r \<and> ct_AgentID r' = ct_AgentID r \<and> ct_CreatedAt r' = ct_CreatedAt r \<and>
    ct_LeaseEpoch r \<le> ct_LeaseEpoch r' \<and> ct_LastJournalSeq r \<le> ct_LastJournalSeq r' \<and>
    ct_DesiredGeneration r \<le> ct_DesiredGeneration r' \<and>
    (ct_DesiredGeneration r' = ct_DesiredGeneration r \<longrightarrow> ct_DesiredPlacement r' = ct_DesiredPlacement r \<and>
       ct_DesiredWorkload r' = ct_DesiredWorkload r \<and> ct_RuntimeCompatibilityID r' = ct_RuntimeCompatibilityID r) \<and>
    (sb_ProtocolMode (ct_Binding r) = ProtocolModeDisposition \<longrightarrow> ct_State r' = ct_State r \<and> ct_OpenGates r' = ct_OpenGates r \<and>
       ct_LeaseEpoch r' = ct_LeaseEpoch r \<and> ct_LastJournalSeq r' = ct_LastJournalSeq r)"
  using assms
proof (induction rule: rtranclp_induct)
  case base
  show ?case by simp
next
  case (step q r')
  note last_step = catalog_step_facts [OF step.hyps(2)]
  from step.IH have order: "ct_LeaseEpoch r \<le> ct_LeaseEpoch q" "ct_LastJournalSeq r \<le> ct_LastJournalSeq q"
    "ct_DesiredGeneration r \<le> ct_DesiredGeneration q" by simp_all
  have "ct_LeaseEpoch r \<le> ct_LeaseEpoch r'" "ct_LastJournalSeq r \<le> ct_LastJournalSeq r'"
    "ct_DesiredGeneration r \<le> ct_DesiredGeneration r'"
    by (rule order_trans [OF order(1) last_step(7)] order_trans [OF order(2) last_step(8)] order_trans [OF order(3) last_step(9)])+
  moreover have "ct_DesiredGeneration q = ct_DesiredGeneration r" if "ct_DesiredGeneration r' = ct_DesiredGeneration r"
    using order(3) last_step(9) that by (simp add: order_antisym)
  ultimately show ?case using step.IH last_step(1-6,10,11) by simp
qed

text \<open>
  C25. Along any run of host and desired-state writes of a session, each over the entry the write before it left,
  the identity of the session (tenant, session, agent, creation time, binding, public reservation) never changes;
  its lease epoch, journal tip and desired generation never decrease; the desired placement, workload and runtime
  change only together with the generation; and a session of the disposition protocol keeps its host state.
\<close>

theorem catalog_writers_invariants:
  assumes "oi_contract st hist" and "core_utf8 (st_core st)" and "core_instants (st_core st)"
    and "catalog_run st tenant session e f"
  shows "ct_PublicCreate (ca_Record f) = ct_PublicCreate (ca_Record e) \<and> ct_Binding (ca_Record f) = ct_Binding (ca_Record e) \<and>
    ct_TenantID (ca_Record f) = ct_TenantID (ca_Record e) \<and> ct_SessionID (ca_Record f) = ct_SessionID (ca_Record e) \<and>
    ct_AgentID (ca_Record f) = ct_AgentID (ca_Record e) \<and> ct_CreatedAt (ca_Record f) = ct_CreatedAt (ca_Record e) \<and>
    ct_LeaseEpoch (ca_Record e) \<le> ct_LeaseEpoch (ca_Record f) \<and>
    ct_LastJournalSeq (ca_Record e) \<le> ct_LastJournalSeq (ca_Record f) \<and>
    ct_DesiredGeneration (ca_Record e) \<le> ct_DesiredGeneration (ca_Record f) \<and>
    (ct_DesiredGeneration (ca_Record f) = ct_DesiredGeneration (ca_Record e) \<longrightarrow>
       ct_DesiredPlacement (ca_Record f) = ct_DesiredPlacement (ca_Record e) \<and>
       ct_DesiredWorkload (ca_Record f) = ct_DesiredWorkload (ca_Record e) \<and>
       ct_RuntimeCompatibilityID (ca_Record f) = ct_RuntimeCompatibilityID (ca_Record e)) \<and>
    (sb_ProtocolMode (ct_Binding (ca_Record e)) = ProtocolModeDisposition \<longrightarrow>
       ct_State (ca_Record f) = ct_State (ca_Record e) \<and> ct_OpenGates (ca_Record f) = ct_OpenGates (ca_Record e) \<and>
       ct_LeaseEpoch (ca_Record f) = ct_LeaseEpoch (ca_Record e) \<and>
       ct_LastJournalSeq (ca_Record f) = ct_LastJournalSeq (ca_Record e))"
  by (rule catalog_steps_facts [OF catalog_run_steps [OF assms]])

subsection \<open>Creation\<close>

lemma createCatalogEntry_InrE:
  assumes "createCatalogEntry st req public s = (Inr (entry, created), t)"
  obtains scope v stored u where
    "deriveSessionScope st (cn_TenantID req) (cn_SessionID req) = Inr scope"
    "encodeCatalogRecord (st_core st) ((catalogRecordForCreate req)\<lparr>ct_PublicCreate := public\<rparr>) = Inr v"
    "bindSessionScopeMode st scope (protocolModeOrLegacy (cn_Binding req)) s = (Inr (), u)"
    "oi_Create st (catalogID scope (cn_SessionID req)) (sc_CatalogScope scope) v
       (catalogRank ((catalogRecordForCreate req)\<lparr>ct_PublicCreate := public\<rparr>)) NoDue u = (Inr (stored, created), t)"
    "catalogEntry (st_core st) stored (cn_TenantID req) (cn_SessionID req) = Inr entry"
    "samePublicCreate (st_core st) public (ct_PublicCreate (ca_Record entry))"
    "\<not> bindingConflict req (ca_Record entry)"
  using assms
  by (auto simp: createCatalogEntry_def Let_def elim!: bindE_InrE split: prod.split_asm if_split_asm)

text \<open>
  C22. A session is created once: whoever creates it, the entry returned is the stored row, under the
  binding and the public reservation the caller named (and its agent, when bound); a caller told it
  created the session finds exactly its own canonical record at the first revision, and no row was
  stored there before; every later caller gets the row as it has become.
\<close>

theorem catalog_creation_is_idempotent:
  assumes "oi_contract st hist" and "core_utf8 (st_core st)" and "core_instants (st_core st)"
    and "createCatalogEntry st req public s = (Inr (entry, created), t)"
  shows "\<exists>scope row. deriveSessionScope st (cn_TenantID req) (cn_SessionID req) = Inr scope \<and>
    hist t (catalogID scope (cn_SessionID req)) (ca_Revision entry) = Some row \<and>
    decodeCatalogRecord (st_core st) (rec_Value row) = Inr (ca_Record entry) \<and>
    ct_TenantID (ca_Record entry) = cn_TenantID req \<and> ct_SessionID (ca_Record entry) = cn_SessionID req \<and>
    ct_Binding (ca_Record entry) = cn_Binding req \<and>
    (cn_Binding req \<noteq> zeroBinding \<longrightarrow> ct_AgentID (ca_Record entry) = cn_AgentID req) \<and>
    samePublicCreate (st_core st) public (ct_PublicCreate (ca_Record entry)) \<and>
    (created \<longrightarrow> ca_Revision entry = 1 \<and> hist s (catalogID scope (cn_SessionID req)) 1 = None \<and>
       ca_Record entry = catalog_stamped ((catalogRecordForCreate req)\<lparr>ct_PublicCreate := public\<rparr>))"
  using assms(4)
proof (rule createCatalogEntry_InrE)
  fix scope v stored u
  let ?r = "(catalogRecordForCreate req)\<lparr>ct_PublicCreate := public\<rparr>" and ?i = "catalogID scope (cn_SessionID req)"
  assume scope: "deriveSessionScope st (cn_TenantID req) (cn_SessionID req) = Inr scope"
    and enc: "encodeCatalogRecord (st_core st) ?r = Inr v"
    and bind: "bindSessionScopeMode st scope (protocolModeOrLegacy (cn_Binding req)) s = (Inr (), u)"
    and create: "oi_Create st ?i (sc_CatalogScope scope) v (catalogRank ?r) NoDue u = (Inr (stored, created), t)"
    and entry: "catalogEntry (st_core st) stored (cn_TenantID req) (cn_SessionID req) = Inr entry"
    and same: "samePublicCreate (st_core st) public (ct_PublicCreate (ca_Record entry))"
    and agree: "\<not> bindingConflict req (ca_Record entry)"
  note facts = catalogEntry_Inr [OF entry]
  have same: "samePublicCreate (st_core st) public (ct_PublicCreate (ca_Record entry))"
      "ct_Binding (ca_Record entry) = cn_Binding req"
      "cn_Binding req \<noteq> zeroBinding \<longrightarrow> ct_AgentID (ca_Record entry) = cn_AgentID req"
    using same agree by (auto simp: bindingConflict_def)
  show ?thesis
  proof (cases created)
    case True
    then have new: "created_row ?i (sc_CatalogScope scope) v (catalogRank ?r) NoDue stored" "hist u ?i 1 = None" "hist t ?i 1 = Some stored"
      using oi_create_new [OF assms(1)] create by auto
    have "hist s ?i 1 = None"
      using growsD [OF extendsD [OF extends_bindSessionScopeMode [OF assms(1)] bind], of ?i 1] new(2)
      by (cases "hist s ?i 1") auto
    moreover have "ca_Record entry = catalog_stamped ?r"
      using facts(2) new(1) catalog_record_trip [OF assms(2,3) enc] by (simp add: created_row_def)
    ultimately show ?thesis using scope new facts same by (auto simp: created_row_def)
  next
    case False
    with oi_create_old [OF assms(1)] create have "hist t ?i (rec_Revision stored) = Some stored" by auto
    with scope facts same False show ?thesis by auto
  qed
qed

subsection \<open>Listing\<close>

lemma collectSessions_eq:
  "collectSessions c tenant rows =
     (map projr (filter (\<lambda>x. \<not> isl x) (map (listedSummary c tenant) rows)),
      length (filter isl (map (listedSummary c tenant) rows)))"
  by (induction rows) (auto split: sum.splits)

lemma encodeCatalogCursor_nonempty: "encodeCatalogCursor st tenant next = Inr cursor \<Longrightarrow> cursor \<noteq> []"
  by (auto simp: encodeCatalogCursor_def encodeCursorEnvelope_def catalogCursorMagic_def split: if_split_asm)

text \<open>
  A page of sessions accounts for every row the provider returned: the sessions are the summaries
  of the readable rows in the provider's order, each naming the session its row is filed under, and
  the rest are counted as skipped.
\<close>

theorem session_page_accounts_for_every_row:
  assumes "ListSessions st req s = (Inr page, t)"
  shows "\<exists>scope limit after ranked. deriveTenantScope st (cx_TenantID req) = Inr scope \<and>
    pageLimit st (cx_Limit req) = Some limit \<and>
    oi_ListRanked st catalogNamespace (ts_CatalogScope scope) after limit s = (Inr ranked, t) \<and>
    length (sp_Sessions page) + sp_UnreadableSkipped page = length (rp_Records ranked) \<and>
    sp_Sessions page =
      map projr (filter (\<lambda>x. \<not> isl x) (map (listedSummary (st_core st) (cx_TenantID req)) (rp_Records ranked))) \<and>
    (\<forall>row \<in> set (rp_Records ranked). \<forall>x. listedSummary (st_core st) (cx_TenantID req) row = Inr x \<longrightarrow>
       ss_SessionID x = oid_StableKey (rec_ID row)) \<and>
    (sp_NextCursor page = [] \<longleftrightarrow> rp_NextCursor ranked = [])"
proof -
  obtain scope limit after ranked where
    call: "deriveTenantScope st (cx_TenantID req) = Inr scope" "pageLimit st (cx_Limit req) = Some limit"
      "oi_ListRanked st catalogNamespace (ts_CatalogScope scope) after limit s = (Inr ranked, t)"
      and page: "collectSessions (st_core st) (cx_TenantID req) (rp_Records ranked) = (sp_Sessions page, sp_UnreadableSkipped page)"
      "if rp_NextCursor ranked = [] then sp_NextCursor page = []
       else encodeCatalogCursor st (cx_TenantID req) (rp_NextCursor ranked) = Inr (sp_NextCursor page)"
    using assms
    by (auto simp: ListSessions_def Let_def elim!: bindE_InrE split: option.split_asm prod.split_asm if_split_asm)
  have "ss_SessionID x = oid_StableKey (rec_ID row)"
    if "listedSummary (st_core st) (cx_TenantID req) row = Inr x" for row x
    using that catalogEntry_Inr
    by (fastforce simp: listedSummary_def Summary_def Let_def canonicalCatalogRecord_iff catalog_stamped_def split: if_split_asm)
  moreover have "length xs + n = length rows" if "collectSessions c tenant rows = (xs, n)" for c tenant rows xs n
    using that by (induction rows arbitrary: xs n) (auto split: sum.split_asm prod.split_asm)
  then have "length (sp_Sessions page) + sp_UnreadableSkipped page = length (rp_Records ranked)" using page(1) by blast
  moreover have "sp_NextCursor page = [] \<longleftrightarrow> rp_NextCursor ranked = []"
    using page(2) encodeCatalogCursor_nonempty by (auto split: if_split_asm)
  ultimately show ?thesis
    using call page(1) by (intro exI conjI; (assumption)?) (auto simp: collectSessions_eq)
qed

end
