(* ===== verification/Residency.thy ===== *)
theory Residency
  imports Catalog
begin

text \<open>
  \<^verbatim>\<open>residency.go\<close>: the grant a Host holds while a session of the disposition protocol is resident
  with it, and what a grant proves of the session an operation names.  A grant is a mutable object;
  here it is its present value, and a release returns the value it leaves.  The callbacks that release
  a grant when the Store shuts down, and the lock that serialises two releases, are not modelled.
  Also the authority a gate transition runs under (\<^verbatim>\<open>catalog.go\<close>): a lease epoch or a grant.
\<close>

record ResidencyGrant =
  rg_store :: nat
  rg_tenant :: string
  rg_session :: string
  rg_lease :: nat
  rg_epoch :: u64
  rg_released :: bool

record AcquireResidencyRequest =
  ar_TenantID :: string
  ar_SessionID :: string

subsection \<open>What a grant proves\<close>

definition issuedFor :: "ResidencyGrant option \<Rightarrow> 's store \<Rightarrow> string \<Rightarrow> string \<Rightarrow> u64 option" where
  "issuedFor grant st tenant session =
    (case grant of
       None \<Rightarrow> None
     | Some g \<Rightarrow>
         if rg_store g \<noteq> st_ident st \<or> rg_tenant g \<noteq> tenant \<or> rg_session g \<noteq> session then None
         else if rg_released g then None
         else Some (rg_epoch g))"

definition residencyFor :: "ResidencyGrant option \<Rightarrow> 's store \<Rightarrow> string \<Rightarrow> string \<Rightarrow> err + u64" where
  "residencyFor grant st tenant session =
    (case issuedFor grant st tenant session of
       None \<Rightarrow> Inl (inboxInvalid ''residency'')
     | Some epoch \<Rightarrow> Inr epoch)"

subsection \<open>Acquiring and releasing\<close>

text \<open>A release reports the provider's refusal and leaves the grant as it was.\<close>

definition releaseResidency :: "'s store \<Rightarrow> ResidencyGrant \<Rightarrow> ('s, ResidencyGrant) store_op" where
  "releaseResidency st g =
    (if rg_released g then returnE g
     else bindE (classifyE (\<lambda>_. ResidencyError ''release'') (le_Release st (rg_lease g))) (\<lambda>_.
       returnE (g\<lparr>rg_released := True\<rparr>)))"

text \<open>A grant that cannot be used is given back, and the caller learns when that failed too.\<close>

definition refuseResidency :: "'s store \<Rightarrow> ResidencyGrant \<Rightarrow> err \<Rightarrow> ('s, ResidencyGrant) store_op" where
  "refuseResidency st g refusal = (\<lambda>s.
    case releaseResidency st g s of
      (Inl _, t) \<Rightarrow> (Inl (ResidencyAcquireCleanupError refusal), t)
    | (Inr _, t) \<Rightarrow> (Inl refusal, t))"

definition AcquireResidency :: "'s store \<Rightarrow> AcquireResidencyRequest \<Rightarrow> ('s, ResidencyGrant) store_op" where
  "AcquireResidency st req =
    bindE (liftE (deriveSessionScope st (ar_TenantID req) (ar_SessionID req))) (\<lambda>scope.
    bindE (admitForeground st) (\<lambda>_.
    bindE (readCatalogEntry st scope (ar_TenantID req) (ar_SessionID req)) (\<lambda>entry.
    if sb_ProtocolMode (ct_Binding (ca_Record entry)) \<noteq> ProtocolModeDisposition
      then failE (catalogInvalid ''binding.protocol_mode'')
    else bindE (bindSessionScopeMode st scope ProtocolModeDisposition) (\<lambda>_.
    bindE (classifyE (\<lambda>_. ResidencyError ''acquire'') (le_Acquire st (sc_SessionNamespace scope @ ''/residency/lease'')))
      (\<lambda>(lease, epoch).
    let g = \<lparr>rg_store = st_ident st, rg_tenant = ar_TenantID req, rg_session = ar_SessionID req,
             rg_lease = lease, rg_epoch = epoch, rg_released = False\<rparr> in
    bindE (askE (st_closing st)) (\<lambda>closing.
    bindE (askE (st_CtxErr st)) (\<lambda>done.
    if closing then refuseResidency st g StoreClosedError
    else if done then refuseResidency st g ContextError
    else returnE g)))))))"

subsection \<open>The authority of a gate transition\<close>

record gateAuthority =
  ga_leaseEpoch :: u64
  ga_residency :: u64
  ga_granted :: bool

definition gateAuthorityFor ::
  "'s store \<Rightarrow> string \<Rightarrow> string \<Rightarrow> u64 \<Rightarrow> ResidencyGrant option \<Rightarrow> err + gateAuthority" where
  "gateAuthorityFor st tenant session leaseEpoch grant =
    (if grant = None then
       (if leaseEpoch = 0 then Inl (catalogErr CatalogErrorInvalid ''lease_epoch'')
        else Inr \<lparr>ga_leaseEpoch = leaseEpoch, ga_residency = 0, ga_granted = False\<rparr>)
     else if leaseEpoch \<noteq> 0 then Inl (catalogInvalid ''lease_epoch'')
     else (case issuedFor grant st tenant session of
             None \<Rightarrow> Inl (catalogInvalid ''residency'')
           | Some residency \<Rightarrow>
               if residency = 0 then Inl (catalogInvalid ''residency'')
               else Inr \<lparr>ga_leaseEpoch = 0, ga_residency = residency, ga_granted = True\<rparr>))"

definition gateEpochFence :: "CatalogRecord \<Rightarrow> gateAuthority \<Rightarrow> err + u64" where
  "gateEpochFence current auth =
    (if sb_ProtocolMode (ct_Binding current) \<noteq> ProtocolModeDisposition then
       (if ga_granted auth then Inl (catalogInvalid ''binding.protocol_mode'')
        else bindR (hostEpochFence current (ga_leaseEpoch auth)) (\<lambda>_. Inr (ga_leaseEpoch auth)))
     else if \<not> ga_granted auth then Inl (catalogInvalid ''residency'')
     else bindR (epochFence (ct_LeaseEpoch current) (ga_residency auth) catalogEpochRefusal) (\<lambda>_. Inr (ga_residency auth)))"

definition holdsJournalTip :: "CatalogRecord \<Rightarrow> bool" where
  "holdsJournalTip r \<longleftrightarrow> sb_ProtocolMode (ct_Binding r) \<noteq> ProtocolModeDisposition"

subsection \<open>What the authority guarantees\<close>

lemma issuedFor_Some:
  "issuedFor grant st tenant session = Some e \<longleftrightarrow>
     (\<exists>g. grant = Some g \<and> rg_store g = st_ident st \<and> rg_tenant g = tenant \<and> rg_session g = session \<and>
        \<not> rg_released g \<and> rg_epoch g = e)"
  by (auto simp: issuedFor_def split: option.split)

lemma residencyFor_Inr [simp]: "residencyFor grant st tenant session = Inr e \<longleftrightarrow> issuedFor grant st tenant session = Some e"
  by (auto simp: residencyFor_def split: option.split)

text \<open>The mark a gate write presents is never below the record's, in either protocol.\<close>

lemma gateEpochFence_Inr:
  "gateEpochFence r auth = Inr m \<Longrightarrow> ct_LeaseEpoch r \<le> m \<and>
     (ga_granted auth \<longleftrightarrow> sb_ProtocolMode (ct_Binding r) = ProtocolModeDisposition) \<and>
     m = (if ga_granted auth then ga_residency auth else ga_leaseEpoch auth)"
  by (auto simp: gateEpochFence_def split: if_split_asm)

interpretation host_fence: fenced "ct_LeaseEpoch" "\<lambda>r m. epochFence (ct_LeaseEpoch r) m catalogEpochRefusal"
  by unfold_locales (auto simp: epochFence_Inl_iff)

lemma extends_releaseResidency [extends_intros]:
  "oi_contract st hist \<Longrightarrow> extends hist (releaseResidency st g)"
  unfolding releaseResidency_def by (intro extends_intros)

text \<open>
  C27. A residency grant that is handed out is for a session whose catalog record, read during the
  acquisition, is of the disposition protocol; it proves its own epoch for exactly that session of
  that Store, until it is released, and nothing afterwards.
\<close>

theorem residency_grant_proves_its_session:
  assumes "oi_contract st hist" and "AcquireResidency st req s = (Inr g, t)"
  shows "(\<exists>scope row r. deriveSessionScope st (ar_TenantID req) (ar_SessionID req) = Inr scope \<and>
      hist t (catalogID scope (ar_SessionID req)) (rec_Revision row) = Some row \<and>
      decodeCatalogRecord (st_core st) (rec_Value row) = Inr r \<and>
      sb_ProtocolMode (ct_Binding r) = ProtocolModeDisposition) \<and>
    (\<forall>st' :: 's store. \<forall>tenant session. issuedFor (Some g) st' tenant session =
      (if st_ident st' = st_ident st \<and> tenant = ar_TenantID req \<and> session = ar_SessionID req then Some (rg_epoch g) else None)) \<and>
    (\<forall>u g' w. releaseResidency st g u = (Inr g', w) \<longrightarrow> issuedFor (Some g') st (ar_TenantID req) (ar_SessionID req) = None)"
proof -
  have refuse: "refuseResidency st h e u \<noteq> (Inr g', w)" for h e u g' w
    by (auto simp: refuseResidency_def split: prod.split sum.split)
  from assms(2) obtain scope cur u v lease epoch where scope: "deriveSessionScope st (ar_TenantID req) (ar_SessionID req) = Inr scope"
    and get: "readCatalogEntry st scope (ar_TenantID req) (ar_SessionID req) s = (Inr cur, u)"
    and mode: "sb_ProtocolMode (ct_Binding (ca_Record cur)) = ProtocolModeDisposition"
    and bind: "bindSessionScopeMode st scope ProtocolModeDisposition u = (Inr (), v)"
    and lease: "le_Acquire st (sc_SessionNamespace scope @ ''/residency/lease'') v = (Inr (lease, epoch), t)"
    and g: "g = \<lparr>rg_store = st_ident st, rg_tenant = ar_TenantID req, rg_session = ar_SessionID req,
             rg_lease = lease, rg_epoch = epoch, rg_released = False\<rparr>"
    by (auto simp: AcquireResidency_def Let_def refuse elim!: bindE_InrE split: if_split_asm prod.split_asm)
  obtain row where row: "hist u (catalogID scope (ar_SessionID req)) (rec_Revision row) = Some row"
    and entry: "catalogEntry (st_core st) row (ar_TenantID req) (ar_SessionID req) = Inr cur"
    by (rule readCatalogEntry_InrE [OF assms(1) get])
  have "grows hist u t"
    using extendsD [OF extends_bindSessionScopeMode [OF assms(1)] bind] extendsD [OF extends_provider(9) [OF assms(1)] lease]
    by (rule grows_trans)
  from growsD [OF this row] have stored: "hist t (catalogID scope (ar_SessionID req)) (rec_Revision row) = Some row" .
  have "releaseResidency st g u = (Inr g', w) \<Longrightarrow> rg_released g'" for u g' w
    unfolding releaseResidency_def by (cases "rg_released g") (auto elim!: bindE_InrE)
  then have released: "releaseResidency st g u = (Inr g', w) \<Longrightarrow> issuedFor (Some g') st (ar_TenantID req) (ar_SessionID req) = None" for u g' w
    by (simp add: issuedFor_def)
  have proves: "issuedFor (Some g) st' tenant session =
      (if st_ident st' = st_ident st \<and> tenant = ar_TenantID req \<and> session = ar_SessionID req then Some (rg_epoch g) else None)"
    for st' :: "'s store" and tenant session
    by (auto simp: issuedFor_def g)
  show ?thesis
    using scope stored catalogEntry_Inr(2) [OF entry] mode proves released by (intro conjI allI impI) blast+
qed

end
