(* ===== verification/Catalog_Witnesses.thy ===== *)
theory Catalog_Witnesses
  imports Inbox_Witnesses Residency
begin

text \<open>
  A session on the in-memory provider: created, written by its Host and by the Factory, listed; one
  of the disposition protocol, and the residency grant acquired for it.
\<close>

definition w_time :: gotime where "w_time = \<lparr>t_ns = 1700000000000000000, t_zone = 3600\<rparr>"

definition w_create :: CreateCatalogEntryRequest where
  "w_create = \<lparr>cn_Binding = zeroBinding, cn_TenantID = ''t1'', cn_SessionID = ''s1'', cn_AgentID = ''a1'',
     cn_RuntimeCompatibilityID = ''rt'', cn_CreatedAt = w_time, cn_LastActiveAt = w_time, cn_State = ''idle'',
     cn_Residency = ''cold'', cn_DesiredPlacement = ''pooled'', cn_DesiredWorkload = zeroWorkload, cn_IdempotencyKey = ''k0''\<rparr>"

definition w_binding :: SessionBinding where
  "w_binding = \<lparr>sb_StorageBindingID = ''b1'', sb_BindingVersion = ''v1'', sb_RuntimeSessionID = ''r1'',
     sb_ProtocolMode = ProtocolModeDisposition\<rparr>"

definition w_gate :: "string \<Rightarrow> u64 \<Rightarrow> gate_projection" where
  "w_gate i n = \<lparr>gp_GateID = i, gp_OpenedJournalSeq = n, gp_Deadline = w_time, gp_Rest = []\<rparr>"

definition w_session :: mem where "w_session = snd (CreateCatalogEntry mem_store w_create w_t0)"

definition w_host :: UpdateCatalogHostStateRequest where
  "w_host = \<lparr>uh_TenantID = ''t1'', uh_SessionID = ''s1'', uh_LeaseEpoch = 3, uh_State = ''running'', uh_Residency = ''warm'',
     uh_LastActiveAt = w_time, uh_LastJournalSeq = 4, uh_LastEventID = ''ev1'', uh_Checkpoint = zeroCheckpoint,
     uh_OpenGates = [w_gate ''g1'' 2]\<rparr>"

definition w_desire :: UpdateCatalogDesiredStateRequest where
  "w_desire = \<lparr>ud_TenantID = ''t1'', ud_SessionID = ''s1'', ud_ExpectedRevision = 1, ud_IdempotencyKey = ''k1'',
     ud_DesiredPlacement = ''dedicated'', ud_RuntimeCompatibilityID = ''rt2'', ud_DesiredWorkload = zeroWorkload\<rparr>"

definition w_list :: ListSessionsRequest where
  "w_list = \<lparr>cx_TenantID = ''t1'', cx_Cursor = [], cx_Limit = 0\<rparr>"

definition w_grant_req :: AcquireResidencyRequest where
  "w_grant_req = \<lparr>ar_TenantID = ''t1'', ar_SessionID = ''s1''\<rparr>"

definition w_bound :: mem where
  "w_bound = snd (CreateCatalogEntry mem_store (w_create\<lparr>cn_Binding := w_binding\<rparr>) w_t0)"

text \<open>The two states as they come out: the witnesses of the scope and its mode, and the one catalog row.\<close>

definition w_catalog_state :: "SessionBinding \<Rightarrow> mem" where
  "w_catalog_state b = (let scope = w_scope; r = catalogRecordForCreate (w_create\<lparr>cn_Binding := b\<rparr>) in
    w_t0\<lparr>mem_kv := w_keys (protocolModeOrLegacy b),
      mem_rows := [\<lparr>rec_ID = catalogID scope ''s1'', rec_RankingScope = sc_CatalogScope scope,
        rec_Value = projr (encodeCatalogRecord mem_core r), rec_Revision = 1, rec_Order = 1,
        rec_Rank = catalogRank r, rec_Due = NoDue, rec_Deleted = False\<rparr>]\<rparr>)"

lemma w_session_code [code]: "w_session = w_catalog_state zeroBinding" by code_simp
lemma w_bound_code [code]: "w_bound = w_catalog_state w_binding" by code_simp

lemma w_creates: "isOK (fst (createCatalogEntry mem_store w_create None w_t0))" by code_simp
lemma w_hosts: "isOK (fst (UpdateCatalogHostState mem_store w_host w_session))" by code_simp
lemma w_desires: "isOK (fst (UpdateCatalogDesiredState mem_store w_desire w_session))" by code_simp
lemma w_reads:
  "(case readCatalogEntry mem_store w_scope ''t1'' ''s1'' w_session of (Inr e, t) \<Rightarrow>
     t = w_session \<and> ct_DesiredIdempotencyKey (ca_Record e) = ''k0'' \<and> ct_DesiredGeneration (ca_Record e) = 1 | _ \<Rightarrow> False)"
  by code_simp
lemma w_lists: "isOK (fst (ListSessions mem_store w_list w_session))" by code_simp
lemma w_resides: "isOK (fst (AcquireResidency mem_store w_grant_req w_bound))" by code_simp

lemma mem_instants: "core_instants (st_core mem_store)"
  by (simp add: core_instants_def mem_store_def mem_core_def Let_def)

theorem catalog_record_round_trip_witness:
  "\<exists>v r. encodeCatalogRecord (st_core mem_store) (catalogRecordForCreate w_create) = Inr v \<and>
     decodeCatalogRecord (st_core mem_store) v = Inr r"
proof -
  have "isOK (encodeCatalogRecord (st_core mem_store) (catalogRecordForCreate w_create))" by code_simp
  then obtain v where "encodeCatalogRecord (st_core mem_store) (catalogRecordForCreate w_create) = Inr v" by (rule isOK_E)
  with catalog_record_round_trip [OF mem_utf8 mem_instants this] show ?thesis by blast
qed

theorem canonical_gates_ordered_witness:
  "canonicalGates mem_core [w_gate ''g2'' 5, w_gate ''g1'' 2] = Inr (sorted_gates [w_gate ''g2'' 5, w_gate ''g1'' 2])"
proof -
  have "gates_valid mem_core [w_gate ''g2'' 5, w_gate ''g1'' 2]" by code_simp
  then show ?thesis
    by (intro canonical_gates_ordered [THEN conjunct2, rule_format] conjI) (simp_all add: w_gate_def)
qed

theorem canonical_gates_may_repeat_an_id_witness:
  "\<exists>gs. canonicalGates mem_core [w_gate ''g1'' 2, w_gate ''g2'' 3, w_gate ''g1'' 4] = Inr gs \<and> \<not> distinct (map gp_GateID gs)"
proof -
  have "gates_valid mem_core [w_gate ''g1'' 2, w_gate ''g2'' 3, w_gate ''g1'' 4]" by code_simp
  then show ?thesis by (rule canonical_gates_may_repeat_an_id) (simp_all add: w_gate_def)
qed

theorem catalog_creation_is_idempotent_witness:
  "\<exists>entry created t. createCatalogEntry mem_store w_create None w_t0 = (Inr (entry, created), t) \<and>
     ct_TenantID (ca_Record entry) = ''t1''"
proof -
  obtain entry created t where *: "createCatalogEntry mem_store w_create None w_t0 = (Inr (entry, created), t)"
    using w_creates by (auto elim!: isOK_pairE)
  have "cn_TenantID w_create = ''t1''" by (simp add: w_create_def)
  with catalog_creation_is_idempotent [OF mem_oi_contract mem_utf8 mem_instants *] * show ?thesis by auto
qed

theorem host_update_is_a_step_witness:
  "\<exists>entry t r. UpdateCatalogHostState mem_store w_host w_session = (Inr entry, t) \<and> catalog_step r (ca_Record entry) \<and>
     ct_LeaseEpoch (ca_Record entry) = 3"
proof -
  obtain entry t where *: "UpdateCatalogHostState mem_store w_host w_session = (Inr entry, t)"
    using w_hosts by (rule isOK_pairE)
  have "uh_LeaseEpoch w_host = 3" by (simp add: w_host_def)
  with host_update_is_a_step [OF mem_oi_contract mem_utf8 mem_instants *] * show ?thesis by auto
qed

theorem desired_update_is_idempotent_step_witness:
  "\<exists>entry t. UpdateCatalogDesiredState mem_store w_desire w_session = (Inr entry, t) \<and>
     ct_DesiredIdempotencyKey (ca_Record entry) = ''k1'' \<and> ca_Revision entry = 2"
proof -
  obtain entry t where *: "UpdateCatalogDesiredState mem_store w_desire w_session = (Inr entry, t)"
    using w_desires by (rule isOK_pairE)
  obtain cur where cur: "readCatalogEntry mem_store w_scope ''t1'' ''s1'' w_session = (Inr cur, w_session)"
    "ct_DesiredIdempotencyKey (ca_Record cur) = ''k0''" using w_reads by (auto split: prod.split_asm sum.split_asm)
  have req: "ud_IdempotencyKey w_desire = ''k1''" "ud_TenantID w_desire = ''t1''" "ud_SessionID w_desire = ''s1''"
    "ud_ExpectedRevision w_desire = 1" by (simp_all add: w_desire_def)
  from desired_update_is_idempotent_step [OF mem_oi_contract mem_utf8 mem_instants *] cur w_scope
  have "ca_Revision entry = 2 \<and> (\<exists>g. ca_Record entry = desiredRecord w_desire g (ca_Record cur))"
    unfolding req by (auto split: if_split_asm)
  with * req(1) show ?thesis by (auto simp: desiredRecord_def)
qed

theorem catalog_writers_invariants_witness:
  "\<exists>cur entry t. readCatalogEntry mem_store w_scope ''t1'' ''s1'' w_session = (Inr cur, w_session) \<and>
     UpdateCatalogHostState mem_store w_host w_session = (Inr entry, t) \<and>
     catalog_run mem_store ''t1'' ''s1'' cur entry \<and> ct_AgentID (ca_Record entry) = ct_AgentID (ca_Record cur)"
proof -
  obtain entry t where host: "UpdateCatalogHostState mem_store w_host w_session = (Inr entry, t)"
    using w_hosts by (rule isOK_pairE)
  obtain cur where cur: "readCatalogEntry mem_store w_scope ''t1'' ''s1'' w_session = (Inr cur, w_session)"
    using w_reads by (auto split: prod.split_asm sum.split_asm)
  have "catalog_run mem_store ''t1'' ''s1'' cur entry"
    by (rule catalog_run.HostWrite [OF catalog_run.Start w_scope cur _ _ host]) (simp_all add: w_host_def)
  with catalog_writers_invariants [OF mem_oi_contract mem_utf8 mem_instants this] host cur show ?thesis by blast
qed

theorem session_page_accounts_for_every_row_witness:
  "\<exists>page t. \<exists>ranked :: ranked_page. ListSessions mem_store w_list w_session = (Inr page, t) \<and>
     length (sp_Sessions page) + sp_UnreadableSkipped page = length (rp_Records ranked)"
proof -
  obtain page t where *: "ListSessions mem_store w_list w_session = (Inr page, t)"
    using w_lists by (rule isOK_pairE)
  from session_page_accounts_for_every_row [OF *] obtain ranked :: ranked_page
    where "length (sp_Sessions page) + sp_UnreadableSkipped page = length (rp_Records ranked)" by (elim exE conjE)
  with * show ?thesis by (intro exI conjI)
qed

theorem residency_grant_proves_its_session_witness:
  "\<exists>g t. AcquireResidency mem_store w_grant_req w_bound = (Inr g, t) \<and> issuedFor (Some g) mem_store ''t1'' ''s1'' = Some (rg_epoch g)"
proof -
  obtain g t where *: "AcquireResidency mem_store w_grant_req w_bound = (Inr g, t)"
    using w_resides by (rule isOK_pairE)
  have "ar_TenantID w_grant_req = ''t1''" "ar_SessionID w_grant_req = ''s1''" by (simp_all add: w_grant_req_def)
  with residency_grant_proves_its_session [where 's = mem, OF mem_oi_contract *] * show ?thesis by auto
qed

text \<open>The digest of the empty payload is computed only where the size is zero.\<close>

lemma validatePublicCreateIdentity_code [code]:
  "validatePublicCreateIdentity c i =
    bindR (ensureR (tenant_ok c (pi_TenantID i)) (inboxInvalid ''tenant_id'')) (\<lambda>_.
    bindR (ensureR (session_ok c (pi_SessionID i)) (inboxInvalid ''session_id'')) (\<lambda>_.
    bindR (ensureR (command_ok c (pi_CommandID i)) (inboxInvalid ''command_id'')) (\<lambda>_.
    bindR (ensureR (agent_ok c (hk_AgentID (pi_Target i))) (inboxInvalid ''agent_id'')) (\<lambda>_.
    bindR (validateOpaque c (hk_RuntimeCompatibilityID (pi_Target i)) ''runtime_compatibility_id'' inboxInvalid) (\<lambda>_.
    bindR (validateDesiredPlacement c (hk_Placement (pi_Target i))) (\<lambda>_.
    bindR (validateOpaque c (pi_Kind i) ''kind'' inboxInvalid) (\<lambda>_.
    bindR (validateBinding c (pi_Binding i)) (\<lambda>_.
    bindR (ensureR (sb_ProtocolMode (pi_Binding i) = ProtocolModeDisposition) (inboxInvalid ''binding.protocol_mode'')) (\<lambda>_.
    bindR (ensureR (length (pi_PayloadDigest i) = 64) (inboxInvalid ''payload_digest'')) (\<lambda>_.
    bindR (case hex_decode (pi_PayloadDigest i) of
             None \<Rightarrow> Inl (inboxInvalid ''payload_digest'')
           | Some d \<Rightarrow> ensureR (length d = 32 \<and> hex_encode d = pi_PayloadDigest i \<and> d \<noteq> replicate 32 (CHR 0x00))
                         (inboxInvalid ''payload_digest'')) (\<lambda>_.
    if pi_PayloadSize i = 0 then
      (if pi_PayloadDigest i \<noteq> hex_encode (Sum256 []) then Inl (inboxInvalid ''payload_digest'') else Inr ())
    else Inr ())))))))))))"
  by (simp add: validatePublicCreateIdentity_def)

definition w_reservation :: PublicCreateReservation where
  "w_reservation = \<lparr>pr_Identity = \<lparr>pi_TenantID = ''t1'', pi_SessionID = ''s1'', pi_CommandID = ''c1'',
      pi_Target = \<lparr>hk_AgentID = ''a1'', hk_RuntimeCompatibilityID = ''rt'', hk_Placement = ''pooled''\<rparr>,
      pi_Binding = w_binding, pi_Kind = ''create'', pi_PayloadDigest = replicate 64 (CHR ''a''), pi_PayloadSize = 2\<rparr>,
    pr_RuntimeCommandID = ''0123456789abcdef'', pr_AcceptedAt = w_time, pr_ApplyDeadline = w_time,
    pr_InitialWorkload = zeroWorkload\<rparr>"

definition w_reserved :: ordered_record where
  "w_reserved = \<lparr>rec_ID = publicCreateID w_scope ''c1'', rec_RankingScope = sc_TenantNamespace w_scope,
     rec_Value = fst (projr (encodePublicCreate mem_core w_reservation)), rec_Revision = 1, rec_Order = 1,
     rec_Rank = noRank, rec_Due = NoDue, rec_Deleted = False\<rparr>"

theorem public_create_codec_is_strict_witness:
  "\<exists>v r. encodePublicCreate mem_core w_reservation = Inr (v, r) \<and> decodePublicCreate mem_core v = Inr r"
proof -
  have "isOK (encodePublicCreate mem_core w_reservation)" by code_simp
  then obtain v r where enc: "encodePublicCreate mem_core w_reservation = Inr (v, r)" by (auto elim!: isOK_E)
  have "isOK (encodePublicCreate mem_core (snd (projr (encodePublicCreate mem_core w_reservation)))) \<and>
    encodePublicCreate mem_core (snd (projr (encodePublicCreate mem_core w_reservation))) = encodePublicCreate mem_core w_reservation"
    by code_simp
  with enc have "encodePublicCreate mem_core r = Inr (v, r)" by simp
  with enc public_create_codec_is_strict [OF mem_core_utf8] show ?thesis by blast
qed

theorem public_create_winner_identity_witness:
  "\<exists>r. publicCreateWinner mem_core w_reserved w_scope (pr_Identity w_reservation) = Inr r \<and> pr_Identity r = pr_Identity w_reservation"
proof -
  have "isOK (publicCreateWinner mem_core w_reserved w_scope (pr_Identity w_reservation))" by code_simp
  then obtain r where "publicCreateWinner mem_core w_reserved w_scope (pr_Identity w_reservation) = Inr r" by (rule isOK_E)
  with public_create_winner_identity [OF this] show ?thesis by blast
qed

end
