(* ===== verification/Disposition_Record.thy ===== *)
theory Disposition_Record
  imports Catalog_Codec
begin

text \<open>
  \<^verbatim>\<open>disposition_inbox.go\<close> and \<^verbatim>\<open>disposition_settlement.go\<close>, the record: a command of the disposition
  protocol, its descriptor, its claim, attempt and outcome, the rules of its states, and its strict
  codec.  A metadata map is its members in key order, the empty list being the nil map.  The wire
  structs have the members of the records, copied one by one; one record stands for both.
\<close>

definition DispositionInboxRecordVersion :: u8 where "DispositionInboxRecordVersion = 2"
definition DispositionInboxRecordVersionAttributed :: u8 where "DispositionInboxRecordVersionAttributed = 3"
definition dispositionInboxNamespace :: string where "dispositionInboxNamespace = ''sessionstore/disposition-inbox''"

record DispositionCommandDescriptor =
  dd_PublicCreate :: bool
  dd_TenantID :: string
  dd_SessionID :: string
  dd_CommandID :: string
  dd_Binding :: SessionBinding
  dd_RuntimeCommandID :: string
  dd_Kind :: string
  dd_PayloadDigest :: string
  dd_PayloadSize :: u64
  dd_Payload :: string
  dd_PayloadObject :: "object_metadata option"
  dd_Principal :: "principal option"
  dd_Metadata :: message_metadata

record DispositionClaim =
  dc_ResidencyEpoch :: u64
  dc_ExpiresAt :: gotime

record DispositionOutcome =
  do_Kind :: DispositionOutcomeKind
  do_AttemptID :: string
  do_AttemptJournalEpoch :: u64
  do_AuthorJournalEpoch :: u64
  do_DispositionSeq :: u64
  do_AuthorFenceSeq :: u64
  do_EventID :: string
  do_EventSeq :: u64
  do_SettlingResidencyEpoch :: u64
  do_SettledAt :: gotime

record DispositionInboxRecord =
  di_Descriptor :: DispositionCommandDescriptor
  di_AcceptedAt :: gotime
  di_ApplyDeadline :: gotime
  di_State :: InboxState
  di_Claim :: "DispositionClaim option"
  di_Attempt :: "DispositionAttempt option"
  di_Outcome :: "DispositionOutcome option"

definition dispositionInboxRecordVersionFor :: "DispositionCommandDescriptor \<Rightarrow> u8" where
  "dispositionInboxRecordVersionFor d =
    (if dd_Principal d \<noteq> None \<or> length (dd_Metadata d) \<noteq> 0 then DispositionInboxRecordVersionAttributed
     else DispositionInboxRecordVersion)"

definition terminalState :: "DispositionOutcomeKind \<Rightarrow> InboxState" where
  "terminalState k =
    (if k = DispositionRefused \<or> k = DispositionNotApplied then InboxStateRejected else InboxStateApplied)"

subsection \<open>Validation\<close>

definition validateDispositionClaim :: "DispositionClaim \<Rightarrow> err + unit" where
  "validateDispositionClaim cl =
    (if dc_ResidencyEpoch cl = 0 then Inl (inboxInvalid ''residency_epoch'')
     else if \<not> rankableTime (dc_ExpiresAt cl) then Inl (inboxInvalid ''claim_expires_at'')
     else Inr ())"

definition validateDispositionAttempt :: "core_lib \<Rightarrow> DispositionAttempt \<Rightarrow> err + unit" where
  "validateDispositionAttempt c a =
    bindR (validateOpaque c (da_AttemptID a) ''attempt_id'' inboxInvalid) (\<lambda>_.
    if da_JournalEpoch a = 0 then Inl (inboxInvalid ''journal_epoch'')
    else if da_ResidencyEpoch a = 0 then Inl (inboxInvalid ''residency_epoch'')
    else if \<not> rankableTime (da_StartedAt a) then Inl (inboxInvalid ''started_at'')
    else Inr ())"

definition validateDispositionOutcome ::
  "DispositionOutcome \<Rightarrow> DispositionAttempt option \<Rightarrow> InboxState \<Rightarrow> err + unit" where
  "validateDispositionOutcome out attempt state =
    (if \<not> outcome_valid (do_Kind out) \<or> terminalState (do_Kind out) \<noteq> state then Inl (inboxInvalid ''outcome.kind'')
     else case attempt of
       None \<Rightarrow> Inl (inboxInvalid ''outcome.attempt_id'')
     | Some a \<Rightarrow>
         if do_AttemptID out \<noteq> da_AttemptID a \<or> do_AttemptJournalEpoch out \<noteq> da_JournalEpoch a
           then Inl (inboxInvalid ''outcome.attempt_id'')
         else if do_AuthorJournalEpoch out = 0 \<or> do_DispositionSeq out = 0 \<or> do_SettlingResidencyEpoch out = 0
           then Inl (inboxInvalid ''outcome'')
         else if \<not> rankableTime (do_SettledAt out) then Inl (inboxInvalid ''outcome.settled_at'')
         else if (if do_Kind out = DispositionNotApplied
                  then do_AuthorJournalEpoch out \<le> do_AttemptJournalEpoch out \<or> do_AuthorFenceSeq out = 0
                       \<or> do_AuthorFenceSeq out \<ge> do_DispositionSeq out
                  else do_AuthorJournalEpoch out \<noteq> do_AttemptJournalEpoch out \<or> do_AuthorFenceSeq out \<noteq> 0)
           then Inl (inboxInvalid ''outcome.author_journal_epoch'')
         else if do_EventID out \<noteq> [] \<or> do_EventSeq out \<noteq> 0 then Inl (inboxInvalid ''outcome.event'')
         else Inr ())"

text \<open>The last switch: what each state requires of claim, attempt and outcome.\<close>

definition dispositionStateRule :: "DispositionInboxRecord \<Rightarrow> err + unit" where
  "dispositionStateRule r =
    (let bad = Inl (inboxInvalid ''state'');
         unsettled = (if di_Outcome r \<noteq> None then Inl (inboxInvalid ''outcome'') else Inr ());
         settled = (if di_Attempt r = None then
                      (if di_State r \<noteq> InboxStateRejected \<or> di_Outcome r \<noteq> None then bad else Inr ())
                    else if di_Claim r = None \<or> di_Outcome r = None then bad
                    else Inr ())
     in case di_State r of
       InboxStatePending \<Rightarrow> if di_Claim r \<noteq> None \<or> di_Attempt r \<noteq> None then bad else unsettled
     | InboxStateClaimed \<Rightarrow> if di_Claim r = None \<or> di_Attempt r \<noteq> None then bad else unsettled
     | InboxStateApplying \<Rightarrow> if di_Claim r = None \<or> di_Attempt r = None then bad else unsettled
     | InboxStateApplied \<Rightarrow> settled
     | InboxStateRejected \<Rightarrow> settled
     | InboxStateOther _ \<Rightarrow> bad)"

definition validateDispositionState :: "core_lib \<Rightarrow> DispositionInboxRecord \<Rightarrow> err + unit" where
  "validateDispositionState c r =
    bindR (case di_Claim r of None \<Rightarrow> Inr () | Some cl \<Rightarrow> validateDispositionClaim cl) (\<lambda>_.
    bindR (case di_Attempt r of None \<Rightarrow> Inr () | Some a \<Rightarrow> validateDispositionAttempt c a) (\<lambda>_.
    bindR (case di_Outcome r of None \<Rightarrow> Inr () | Some out \<Rightarrow> validateDispositionOutcome out (di_Attempt r) (di_State r)) (\<lambda>_.
    bindR (case (di_Claim r, di_Attempt r) of
             (Some cl, Some a) \<Rightarrow> ensureR (da_ResidencyEpoch a = dc_ResidencyEpoch cl) (inboxInvalid ''attempt.residency_epoch'')
           | _ \<Rightarrow> Inr ()) (\<lambda>_.
    dispositionStateRule r))))"

definition commandKindCarriesMessage :: "string \<Rightarrow> bool" where
  "commandKindCarriesMessage kind \<longleftrightarrow> kind = ''create'' \<or> kind = ''input''"

definition validateDispositionAttribution :: "core_lib \<Rightarrow> DispositionCommandDescriptor \<Rightarrow> err + unit" where
  "validateDispositionAttribution c d =
    bindR (case dd_Principal d of None \<Rightarrow> Inr () | Some p \<Rightarrow> ensureR (principal_ok c p) (inboxInvalid ''principal'')) (\<lambda>_.
    if length (dd_Metadata d) = 0 then Inr ()
    else if \<not> commandKindCarriesMessage (dd_Kind d) then Inl (inboxInvalid ''metadata'')
    else if \<not> metadata_ok c (dd_Metadata d) then Inl (inboxInvalid ''metadata'')
    else Inr ())"

text \<open>The payload a descriptor names is the payload it carries, inline or as a committed object.\<close>

definition validateDispositionPayload :: "core_lib \<Rightarrow> DispositionCommandDescriptor \<Rightarrow> err + unit" where
  "validateDispositionPayload c d =
    (if length (dd_Payload d) > MaxInboxPayloadBytes then Inl (inboxInvalid ''payload'')
     else case dd_PayloadObject d of
       None \<Rightarrow>
         if dd_PayloadSize d \<noteq> word_of_nat (length (dd_Payload d)) \<or> dd_PayloadDigest d \<noteq> hex_encode (Sum256 (dd_Payload d))
         then Inl (inboxInvalid ''payload_identity'') else Inr ()
     | Some m \<Rightarrow>
         bindR (parseObjectMetadata c m) (\<lambda>parsed.
         if length (dd_Payload d) \<noteq> 0 \<or> po_kind parsed \<noteq> ObjectKindCommandPayload
            \<or> dd_PayloadDigest d \<noteq> hex_encode (po_digest parsed) \<or> dd_PayloadSize d \<noteq> om_SizeBytes m
            \<or> \<not> IsZero (om_CreatedAt m)
         then Inl (inboxInvalid ''payload_object'') else Inr ()))"

definition dispositionBase :: "DispositionInboxRecord \<Rightarrow> InboxRecord" where
  "dispositionBase r = (let d = di_Descriptor r in
     \<lparr>ib_TenantID = dd_TenantID d, ib_SessionID = dd_SessionID d, ib_CommandID = dd_CommandID d,
      ib_RuntimeCommandID = dd_RuntimeCommandID d, ib_Kind = dd_Kind d, ib_Payload = [], ib_PayloadRef = zeroRef,
      ib_AcceptedAt = di_AcceptedAt r, ib_ApplyDeadline = di_ApplyDeadline r, ib_State = InboxStatePending,
      ib_Claim = zeroClaim, ib_Result = zeroResult, ib_Rejection = None\<rparr>)"

definition canonicalDispositionInboxRecord :: "core_lib \<Rightarrow> DispositionInboxRecord \<Rightarrow> err + DispositionInboxRecord" where
  "canonicalDispositionInboxRecord c r =
    bindR (canonicalInboxRecord c (dispositionBase r)) (\<lambda>base.
    bindR (validateBinding c (dd_Binding (di_Descriptor r))) (\<lambda>_.
    bindR (ensureR (sb_ProtocolMode (dd_Binding (di_Descriptor r)) = ProtocolModeDisposition) (inboxInvalid ''protocol_state'')) (\<lambda>_.
    bindR (validateDispositionState c r) (\<lambda>_.
    bindR (validateDispositionPayload c (di_Descriptor r)) (\<lambda>_.
    bindR (validateDispositionAttribution c (di_Descriptor r)) (\<lambda>_.
    Inr (r\<lparr>di_AcceptedAt := ib_AcceptedAt base, di_ApplyDeadline := ib_ApplyDeadline base\<rparr>)))))))"

subsection \<open>Wire form\<close>

definition dec_state :: "json \<Rightarrow> InboxState \<Rightarrow> InboxState option" where
  "dec_state j old = map_option state_of_text (dec_string j (state_text old))"

definition dec_outcome_kind :: "json \<Rightarrow> DispositionOutcomeKind \<Rightarrow> DispositionOutcomeKind option" where
  "dec_outcome_kind j old = map_option outcome_of_text (dec_string j (outcome_text old))"

definition descriptor_json :: "DispositionCommandDescriptor \<Rightarrow> json" where
  "descriptor_json d = JObj (
    omitempty (\<not> dd_PublicCreate d) ''public_create'' (JBool (dd_PublicCreate d)) @
    [(''tenant_id'', jstr (dd_TenantID d)), (''session_id'', jstr (dd_SessionID d)),
     (''command_id'', jstr (dd_CommandID d)), (''binding'', binding_json (dd_Binding d)),
     (''runtime_command_id'', jstr (dd_RuntimeCommandID d)), (''kind'', jstr (dd_Kind d)),
     (''payload_digest'', jstr (dd_PayloadDigest d)), (''payload_size'', ju64 (dd_PayloadSize d))] @
    omitempty (dd_Payload d = []) ''payload'' (jbytes (dd_Payload d)) @
    omitnil (\<lambda>m. JCore (CoreObjectMetadata m)) ''payload_object'' (dd_PayloadObject d) @
    omitnil (\<lambda>p. JCore (CorePrincipal p)) ''principal'' (dd_Principal d) @
    omitempty (dd_Metadata d = []) ''metadata'' (JCore (CoreMessageMetadata (dd_Metadata d))))"

definition zeroObjectMetadata :: object_metadata where
  "zeroObjectMetadata = \<lparr>om_Reference = zeroRef, om_SizeBytes = 0, om_Digest = [], om_MediaType = [], om_CreatedAt = zeroTime\<rparr>"

definition descriptor_fields :: "DispositionCommandDescriptor field_table" where
  "descriptor_fields =
    [(''public_create'', into dec_bool dd_PublicCreate dd_PublicCreate_update),
     (''tenant_id'', into dec_string dd_TenantID dd_TenantID_update),
     (''session_id'', into dec_string dd_SessionID dd_SessionID_update),
     (''command_id'', into dec_string dd_CommandID dd_CommandID_update),
     (''binding'', into (decode_struct True binding_fields) dd_Binding dd_Binding_update),
     (''runtime_command_id'', into dec_string dd_RuntimeCommandID dd_RuntimeCommandID_update),
     (''kind'', into dec_string dd_Kind dd_Kind_update),
     (''payload_digest'', into dec_string dd_PayloadDigest dd_PayloadDigest_update),
     (''payload_size'', into dec_word dd_PayloadSize dd_PayloadSize_update),
     (''payload'', into dec_bytes dd_Payload dd_Payload_update),
     (''payload_object'', into (dec_ptr zeroObjectMetadata dec_object_metadata) dd_PayloadObject dd_PayloadObject_update),
     (''principal'', into (dec_ptr [] dec_principal) dd_Principal dd_Principal_update),
     (''metadata'', into dec_message_metadata dd_Metadata dd_Metadata_update)]"

definition zeroDescriptor :: DispositionCommandDescriptor where
  "zeroDescriptor = \<lparr>dd_PublicCreate = False, dd_TenantID = [], dd_SessionID = [], dd_CommandID = [],
    dd_Binding = zeroBinding, dd_RuntimeCommandID = [], dd_Kind = [], dd_PayloadDigest = [], dd_PayloadSize = 0,
    dd_Payload = [], dd_PayloadObject = None, dd_Principal = None, dd_Metadata = []\<rparr>"

definition dispositionClaim_json :: "DispositionClaim \<Rightarrow> json" where
  "dispositionClaim_json cl =
     JObj [(''residency_epoch'', ju64 (dc_ResidencyEpoch cl)), (''expires_at'', jtime (dc_ExpiresAt cl))]"

definition dispositionClaim_fields :: "DispositionClaim field_table" where
  "dispositionClaim_fields = [(''residency_epoch'', into dec_word dc_ResidencyEpoch dc_ResidencyEpoch_update),
    (''expires_at'', into dec_time dc_ExpiresAt dc_ExpiresAt_update)]"

definition attempt_json :: "DispositionAttempt \<Rightarrow> json" where
  "attempt_json a = JObj [(''attempt_id'', jstr (da_AttemptID a)), (''journal_epoch'', ju64 (da_JournalEpoch a)),
     (''residency_epoch'', ju64 (da_ResidencyEpoch a)), (''started_at'', jtime (da_StartedAt a))]"

definition attempt_fields :: "DispositionAttempt field_table" where
  "attempt_fields = [(''attempt_id'', into dec_string da_AttemptID da_AttemptID_update),
    (''journal_epoch'', into dec_word da_JournalEpoch da_JournalEpoch_update),
    (''residency_epoch'', into dec_word da_ResidencyEpoch da_ResidencyEpoch_update),
    (''started_at'', into dec_time da_StartedAt da_StartedAt_update)]"

definition outcome_json :: "DispositionOutcome \<Rightarrow> json" where
  "outcome_json out = JObj [(''kind'', jstr (outcome_text (do_Kind out))), (''attempt_id'', jstr (do_AttemptID out)),
     (''attempt_journal_epoch'', ju64 (do_AttemptJournalEpoch out)), (''author_journal_epoch'', ju64 (do_AuthorJournalEpoch out)),
     (''disposition_seq'', ju64 (do_DispositionSeq out)), (''author_fence_seq'', ju64 (do_AuthorFenceSeq out)),
     (''event_id'', jstr (do_EventID out)), (''event_seq'', ju64 (do_EventSeq out)),
     (''settling_residency_epoch'', ju64 (do_SettlingResidencyEpoch out)), (''settled_at'', jtime (do_SettledAt out))]"

definition outcome_fields :: "DispositionOutcome field_table" where
  "outcome_fields = [(''kind'', into dec_outcome_kind do_Kind do_Kind_update),
    (''attempt_id'', into dec_string do_AttemptID do_AttemptID_update),
    (''attempt_journal_epoch'', into dec_word do_AttemptJournalEpoch do_AttemptJournalEpoch_update),
    (''author_journal_epoch'', into dec_word do_AuthorJournalEpoch do_AuthorJournalEpoch_update),
    (''disposition_seq'', into dec_word do_DispositionSeq do_DispositionSeq_update),
    (''author_fence_seq'', into dec_word do_AuthorFenceSeq do_AuthorFenceSeq_update),
    (''event_id'', into dec_string do_EventID do_EventID_update),
    (''event_seq'', into dec_word do_EventSeq do_EventSeq_update),
    (''settling_residency_epoch'', into dec_word do_SettlingResidencyEpoch do_SettlingResidencyEpoch_update),
    (''settled_at'', into dec_time do_SettledAt do_SettledAt_update)]"

definition zeroDispositionClaim :: DispositionClaim where
  "zeroDispositionClaim = \<lparr>dc_ResidencyEpoch = 0, dc_ExpiresAt = zeroTime\<rparr>"
definition zeroAttempt :: DispositionAttempt where
  "zeroAttempt = \<lparr>da_AttemptID = [], da_JournalEpoch = 0, da_ResidencyEpoch = 0, da_StartedAt = zeroTime\<rparr>"
definition zeroOutcome :: DispositionOutcome where
  "zeroOutcome = \<lparr>do_Kind = DispositionKindOther [], do_AttemptID = [], do_AttemptJournalEpoch = 0,
    do_AuthorJournalEpoch = 0, do_DispositionSeq = 0, do_AuthorFenceSeq = 0, do_EventID = [], do_EventSeq = 0,
    do_SettlingResidencyEpoch = 0, do_SettledAt = zeroTime\<rparr>"
definition zeroDisposition :: DispositionInboxRecord where
  "zeroDisposition = \<lparr>di_Descriptor = zeroDescriptor, di_AcceptedAt = zeroTime, di_ApplyDeadline = zeroTime,
    di_State = InboxStateOther [], di_Claim = None, di_Attempt = None, di_Outcome = None\<rparr>"

definition disposition_members :: "DispositionInboxRecord \<Rightarrow> (string \<times> json) list" where
  "disposition_members r =
    [(''descriptor'', descriptor_json (di_Descriptor r)), (''accepted_at'', jtime (di_AcceptedAt r)),
     (''apply_deadline'', jtime (di_ApplyDeadline r)), (''state'', jstr (state_text (di_State r)))] @
    omitnil dispositionClaim_json ''claim'' (di_Claim r) @
    omitnil attempt_json ''attempt'' (di_Attempt r) @
    omitnil outcome_json ''outcome'' (di_Outcome r)"

definition disposition_fields :: "DispositionInboxRecord field_table" where
  "disposition_fields =
    [(''descriptor'', into (decode_struct True descriptor_fields) di_Descriptor di_Descriptor_update),
     (''accepted_at'', into dec_time di_AcceptedAt di_AcceptedAt_update),
     (''apply_deadline'', into dec_time di_ApplyDeadline di_ApplyDeadline_update),
     (''state'', into dec_state di_State di_State_update),
     (''claim'', into (dec_ptr zeroDispositionClaim (decode_struct True dispositionClaim_fields)) di_Claim di_Claim_update),
     (''attempt'', into (dec_ptr zeroAttempt (decode_struct True attempt_fields)) di_Attempt di_Attempt_update),
     (''outcome'', into (dec_ptr zeroOutcome (decode_struct True outcome_fields)) di_Outcome di_Outcome_update)]"

record dispositionInboxWire =
  dw_RecordVersion :: u8
  dw_Record :: DispositionInboxRecord

definition dispositionInboxWire_json :: "dispositionInboxWire \<Rightarrow> json" where
  "dispositionInboxWire_json w = JObj ((''record_version'', ju8 (dw_RecordVersion w)) # disposition_members (dw_Record w))"

definition dispositionInboxWire_fields :: "dispositionInboxWire field_table" where
  "dispositionInboxWire_fields = (''record_version'', into dec_word dw_RecordVersion dw_RecordVersion_update) #
     nested dw_Record dw_Record_update disposition_fields"

text \<open>
  The times of a claim, an attempt and an outcome are stored in the zone they came in, and
  \<^verbatim>\<open>json.Marshal\<close> fails on an offset of a day or more.
\<close>

definition dispositionMarshals :: "DispositionInboxRecord \<Rightarrow> bool" where
  "dispositionMarshals r \<longleftrightarrow>
    (case di_Claim r of None \<Rightarrow> True | Some cl \<Rightarrow> time_marshals (dc_ExpiresAt cl)) \<and>
    (case di_Attempt r of None \<Rightarrow> True | Some a \<Rightarrow> time_marshals (da_StartedAt a)) \<and>
    (case di_Outcome r of None \<Rightarrow> True | Some out \<Rightarrow> time_marshals (do_SettledAt out))"

definition encodeDispositionInboxRecord ::
  "core_lib \<Rightarrow> DispositionInboxRecord \<Rightarrow> err + stored_bytes \<times> DispositionInboxRecord" where
  "encodeDispositionInboxRecord c r0 =
    bindR (canonicalDispositionInboxRecord c r0) (\<lambda>r.
    if \<not> dispositionMarshals r then Inl (inboxInvalid ''record'')
    else let v = dispositionInboxWire_json \<lparr>dw_RecordVersion = dispositionInboxRecordVersionFor (di_Descriptor r), dw_Record = r\<rparr> in
    if json_len c v > MaxInboxRecordBytes then Inl (inboxErr InboxErrorTooLarge ''record'')
    else Inr (Marshalled v, r))"

definition decodeDispositionInboxRecord :: "core_lib \<Rightarrow> stored_bytes \<Rightarrow> err + DispositionInboxRecord" where
  "decodeDispositionInboxRecord c v =
    bindR (decodeVersionedRecordOf c (\<lambda>j. decode_struct True dispositionInboxWire_fields j
        \<lparr>dw_RecordVersion = 0, dw_Record = zeroDisposition\<rparr>) v MaxInboxRecordBytes
      [DispositionInboxRecordVersion, DispositionInboxRecordVersionAttributed]
      \<lparr>vf_Record = ''record'', vf_Version = ''record_version''\<rparr> inboxRecordFailure) (\<lambda>w.
    if dw_RecordVersion w \<noteq> dispositionInboxRecordVersionFor (di_Descriptor (dw_Record w))
      then Inl (inboxErr InboxErrorMalformed ''record_version'')
    else bindR (encodeDispositionInboxRecord c (dw_Record w)) (\<lambda>(canonical, r).
      if canonical \<noteq> v then Inl (inboxErr InboxErrorMalformed ''record'') else Inr r))"

end
