(* ===== verification/Disposition_Codec.thy ===== *)
theory Disposition_Codec
  imports Disposition_Record
begin

text \<open>
  The canonical form of a disposition command record and its strict codec: what the decoder accepts
  is exactly what the encoder writes, and the encoder's bytes read back when the times of the claim,
  attempt and outcome are in zones of whole minutes.
\<close>

subsection \<open>The canonical form\<close>

definition disposition_valid :: "core_lib \<Rightarrow> DispositionInboxRecord \<Rightarrow> bool" where
  "disposition_valid c r \<longleftrightarrow>
    inbox_valid c (dispositionBase r) \<and> validateBinding c (dd_Binding (di_Descriptor r)) = Inr () \<and>
    sb_ProtocolMode (dd_Binding (di_Descriptor r)) = ProtocolModeDisposition \<and>
    validateDispositionState c r = Inr () \<and> validateDispositionPayload c (di_Descriptor r) = Inr () \<and>
    validateDispositionAttribution c (di_Descriptor r) = Inr ()"

definition disposition_stamped :: "DispositionInboxRecord \<Rightarrow> DispositionInboxRecord" where
  "disposition_stamped r = r\<lparr>di_AcceptedAt := UTC (di_AcceptedAt r), di_ApplyDeadline := UTC (di_ApplyDeadline r)\<rparr>"

definition disposition_zones :: "DispositionInboxRecord \<Rightarrow> bool" where
  "disposition_zones r \<longleftrightarrow> (\<forall>cl. di_Claim r = Some cl \<longrightarrow> minute_zone (dc_ExpiresAt cl)) \<and>
    (\<forall>a. di_Attempt r = Some a \<longrightarrow> minute_zone (da_StartedAt a)) \<and>
    (\<forall>out. di_Outcome r = Some out \<longrightarrow> minute_zone (do_SettledAt out))"

lemma canonicalDispositionInboxRecord_iff:
  "canonicalDispositionInboxRecord c r = Inr r' \<longleftrightarrow> disposition_valid c r \<and> r' = disposition_stamped r"
  by (auto simp: canonicalDispositionInboxRecord_def disposition_valid_def disposition_stamped_def
      canonicalInboxRecord_iff stampUTC_def dispositionBase_def Let_def)

lemma disposition_stamped_simps [simp]:
  "di_Descriptor (disposition_stamped r) = di_Descriptor r" "di_State (disposition_stamped r) = di_State r"
  "di_Claim (disposition_stamped r) = di_Claim r" "di_Attempt (disposition_stamped r) = di_Attempt r"
  "di_Outcome (disposition_stamped r) = di_Outcome r"
  "di_AcceptedAt (disposition_stamped r) = UTC (di_AcceptedAt r)"
  "di_ApplyDeadline (disposition_stamped r) = UTC (di_ApplyDeadline r)"
  "disposition_stamped (disposition_stamped r) = disposition_stamped r"
  by (simp_all add: disposition_stamped_def)

lemma disposition_stamped_valid [simp]: "disposition_valid c (disposition_stamped r) = disposition_valid c r"
proof -
  have "dispositionBase (disposition_stamped r) = stampUTC (dispositionBase r)"
    by (simp add: dispositionBase_def stampUTC_def zeroClaim_def zeroResult_def zeroTime_def UTC_def Let_def)
  moreover have "validateDispositionState c (disposition_stamped r) = validateDispositionState c r"
    unfolding validateDispositionState_def dispositionStateRule_def disposition_stamped_simps ..
  ultimately show ?thesis by (simp add: disposition_valid_def)
qed

lemma encodeDispositionInboxRecord_Inr:
  "encodeDispositionInboxRecord c r0 = Inr (v, r) \<longleftrightarrow> disposition_valid c r0 \<and> r = disposition_stamped r0 \<and>
     dispositionMarshals r \<and>
     v = Marshalled (dispositionInboxWire_json
       \<lparr>dw_RecordVersion = dispositionInboxRecordVersionFor (di_Descriptor r), dw_Record = r\<rparr>) \<and>
     bytes_len c v \<le> MaxInboxRecordBytes"
  by (auto simp: encodeDispositionInboxRecord_def canonicalDispositionInboxRecord_iff Let_def)

lemma decodeDispositionInboxRecord_strict:
  "decodeDispositionInboxRecord c v = Inr r \<Longrightarrow> encodeDispositionInboxRecord c r = Inr (v, r)"
  by (auto simp: decodeDispositionInboxRecord_def encodeDispositionInboxRecord_Inr split: prod.split_asm if_split_asm)

lemma disposition_zones_marshal: "disposition_zones r \<Longrightarrow> dispositionMarshals r"
  by (auto simp: disposition_zones_def dispositionMarshals_def minute_zone_marshals split: option.split)

subsection \<open>The record reads back\<close>

lemma dispositionClaim_read:
  "minute_zone (dc_ExpiresAt cl) \<Longrightarrow>
     decode_struct True dispositionClaim_fields (dispositionClaim_json cl) old = Some cl"
  by (cases cl) (simp add: dispositionClaim_json_def dispositionClaim_fields_def fold_name_plain plain_char_def)

lemma attempt_read:
  "\<lbrakk>ValidString (da_AttemptID a); minute_zone (da_StartedAt a)\<rbrakk> \<Longrightarrow>
     decode_struct True attempt_fields (attempt_json a) old = Some a"
  by (cases a) (simp add: attempt_json_def attempt_fields_def fold_name_plain plain_char_def)

lemma dec_outcome_kind_jstr [simp]: "outcome_valid k \<Longrightarrow> dec_outcome_kind (jstr (outcome_text k)) old = Some k"
proof -
  assume "outcome_valid k"
  then have "ValidString (outcome_text k)"
    by (auto simp: outcome_valid_def intro!: ValidString_ascii)
  with \<open>outcome_valid k\<close> show ?thesis by (simp add: dec_outcome_kind_def)
qed

lemma dec_state_jstr [simp]: "known_state q \<Longrightarrow> dec_state (jstr (state_text q)) old = Some q"
  by (simp add: dec_state_def)

lemma outcome_read:
  "\<lbrakk>outcome_valid (do_Kind out); ValidString (do_AttemptID out); ValidString (do_EventID out); minute_zone (do_SettledAt out)\<rbrakk> \<Longrightarrow>
     decode_struct True outcome_fields (outcome_json out) old = Some out"
  by (cases out) (simp add: outcome_json_def outcome_fields_def fold_name_plain plain_char_def)

lemma disposition_json_not_null [simp]:
  "dispositionClaim_json cl \<noteq> JNull" "attempt_json a \<noteq> JNull" "outcome_json out \<noteq> JNull"
  by (simp_all add: dispositionClaim_json_def attempt_json_def outcome_json_def)

definition descriptor_readable :: "core_lib \<Rightarrow> DispositionCommandDescriptor \<Rightarrow> bool" where
  "descriptor_readable c d \<longleftrightarrow> ValidString (dd_TenantID d) \<and> ValidString (dd_SessionID d) \<and> ValidString (dd_CommandID d) \<and>
     validateBinding c (dd_Binding d) = Inr () \<and> ValidString (dd_RuntimeCommandID d) \<and> ValidString (dd_Kind d) \<and>
     ValidString (dd_PayloadDigest d)"

lemma decode_omit_bytes:
  assumes "list_all plain_char k" and "map_of tbl k = Some (into dec_bytes get upd)" and "upd (\<lambda>_. []) w = w"
  shows "decode_members strict tbl (omitempty (x = []) k (jbytes x) @ ms) w = decode_members strict tbl ms (upd (\<lambda>_. x) w)"
  using assms by (simp add: decode_omitempty [where f = "into dec_bytes get upd"])

lemma descriptor_read:
  assumes "descriptor_readable c d"
  shows "decode_struct True descriptor_fields (descriptor_json d) zeroDescriptor = Some d"
proof -
  have binding: "decode_struct True binding_fields (binding_json (dd_Binding d)) old = Some (dd_Binding d)" for old
    using assms binding_read by (auto simp: descriptor_readable_def)
  show ?thesis
    using assms binding
    by (cases d)
      (simp add: descriptor_json_def descriptor_fields_def fold_name_plain plain_char_def descriptor_readable_def
        decode_omitempty decode_omitempty_last decode_omit_bytes decode_omit_ptr decode_omit_ptr_last zeroDescriptor_def
        zeroBinding_def)
qed

definition disposition_readable :: "DispositionInboxRecord \<Rightarrow> bool" where
  "disposition_readable r \<longleftrightarrow>
     decode_struct True descriptor_fields (descriptor_json (di_Descriptor r)) zeroDescriptor = Some (di_Descriptor r) \<and>
     minute_zone (di_AcceptedAt r) \<and> minute_zone (di_ApplyDeadline r) \<and> known_state (di_State r) \<and>
     (\<forall>cl old. di_Claim r = Some cl \<longrightarrow> decode_struct True dispositionClaim_fields (dispositionClaim_json cl) old = Some cl) \<and>
     (\<forall>a old. di_Attempt r = Some a \<longrightarrow> decode_struct True attempt_fields (attempt_json a) old = Some a) \<and>
     (\<forall>out old. di_Outcome r = Some out \<longrightarrow> decode_struct True outcome_fields (outcome_json out) old = Some out)"

lemma disposition_valid_facts:
  assumes "disposition_valid c r"
  shows "known_state (di_State r)"
    "di_Claim r = Some cl \<Longrightarrow> dc_ResidencyEpoch cl \<noteq> 0 \<and> rankableTime (dc_ExpiresAt cl)"
    "di_Attempt r = Some a \<Longrightarrow> ValidString (da_AttemptID a) \<and> da_JournalEpoch a \<noteq> 0 \<and> da_ResidencyEpoch a \<noteq> 0"
    "di_Outcome r = Some out \<Longrightarrow> validateDispositionOutcome out (di_Attempt r) (di_State r) = Inr ()"
    "di_Claim r = Some cl \<Longrightarrow> di_Attempt r = Some a \<Longrightarrow> da_ResidencyEpoch a = dc_ResidencyEpoch cl"
    "dispositionStateRule r = Inr ()"
proof -
  have state: "validateDispositionState c r = Inr ()" using assms unfolding disposition_valid_def by iprover
  then show rule: "dispositionStateRule r = Inr ()" unfolding validateDispositionState_def by simp
  show "known_state (di_State r)"
    using rule by (cases "di_State r") (simp_all add: dispositionStateRule_def known_state_def)
  from state show "di_Claim r = Some cl \<Longrightarrow> dc_ResidencyEpoch cl \<noteq> 0 \<and> rankableTime (dc_ExpiresAt cl)"
    "di_Attempt r = Some a \<Longrightarrow> ValidString (da_AttemptID a) \<and> da_JournalEpoch a \<noteq> 0 \<and> da_ResidencyEpoch a \<noteq> 0"
    "di_Outcome r = Some out \<Longrightarrow> validateDispositionOutcome out (di_Attempt r) (di_State r) = Inr ()"
    "di_Claim r = Some cl \<Longrightarrow> di_Attempt r = Some a \<Longrightarrow> da_ResidencyEpoch a = dc_ResidencyEpoch cl"
    by (auto simp: validateDispositionState_def validateDispositionClaim_def validateDispositionAttempt_def
        split: if_split_asm)
qed

lemma validateDispositionOutcome_Inr:
  "validateDispositionOutcome out attempt state = Inr u \<longleftrightarrow>
    outcome_valid (do_Kind out) \<and> terminalState (do_Kind out) = state \<and>
    (\<exists>a. attempt = Some a \<and> do_AttemptID out = da_AttemptID a \<and> do_AttemptJournalEpoch out = da_JournalEpoch a) \<and>
    do_AuthorJournalEpoch out \<noteq> 0 \<and> do_DispositionSeq out \<noteq> 0 \<and> do_SettlingResidencyEpoch out \<noteq> 0 \<and>
    rankableTime (do_SettledAt out) \<and>
    (if do_Kind out = DispositionNotApplied
     then do_AttemptJournalEpoch out < do_AuthorJournalEpoch out \<and> do_AuthorFenceSeq out \<noteq> 0 \<and>
       do_AuthorFenceSeq out < do_DispositionSeq out
     else do_AuthorJournalEpoch out = do_AttemptJournalEpoch out \<and> do_AuthorFenceSeq out = 0) \<and>
    do_EventID out = [] \<and> do_EventSeq out = 0"
  by (cases attempt) (auto simp: validateDispositionOutcome_def not_le)

lemma descriptor_valid_readable:
  assumes "core_utf8 c" and "disposition_valid c r"
  shows "descriptor_readable c (di_Descriptor r)"
proof -
  let ?d = "di_Descriptor r"
  have parts: "inbox_valid c (dispositionBase r)" "validateBinding c (dd_Binding ?d) = Inr ()"
    "validateDispositionPayload c ?d = Inr ()"
    using assms(2) unfolding disposition_valid_def by iprover+
  from parts(3) have "\<exists>x. dd_PayloadDigest ?d = hex_encode x"
    unfolding validateDispositionPayload_def by (auto split: if_split_asm option.split_asm)
  then have "ValidString (dd_PayloadDigest ?d)" using ValidString_hex_encode by metis
  with parts(1,2) assms(1) show ?thesis
    by (simp add: descriptor_readable_def inbox_valid_def dispositionBase_def core_utf8_def Let_def)
qed

lemma disposition_valid_readable:
  assumes "core_utf8 c" and "disposition_valid c r" and "disposition_stamped r = r" and "disposition_zones r"
  shows "disposition_readable r"
proof -
  have "minute_zone (UTC t)" for t by (simp add: minute_zone_def)
  then have "minute_zone (di_AcceptedAt r)" "minute_zone (di_ApplyDeadline r)"
    using assms(3) by (metis disposition_stamped_simps(6), metis disposition_stamped_simps(7))
  moreover note facts = disposition_valid_facts [OF assms(2)]
  moreover have "decode_struct True outcome_fields (outcome_json out) old = Some out" if "di_Outcome r = Some out" for out old
  proof (rule outcome_read)
    note out = facts(4) [OF that]
    show "minute_zone (do_SettledAt out)" using assms(4) that by (simp add: disposition_zones_def)
    obtain a where a: "di_Attempt r = Some a" "do_AttemptID out = da_AttemptID a"
      and "outcome_valid (do_Kind out)" "do_EventID out = []"
      using out unfolding validateDispositionOutcome_Inr by blast
    then show "outcome_valid (do_Kind out)" "ValidString (do_EventID out)" by simp_all
    show "ValidString (do_AttemptID out)" using facts(3) [OF a(1)] a(2) by simp
  qed
  ultimately show ?thesis
    using assms(4) descriptor_read [OF descriptor_valid_readable [OF assms(1,2)]]
    unfolding disposition_readable_def disposition_zones_def
    by (intro conjI allI impI) (blast intro: dispositionClaim_read attempt_read)+
qed

lemma disposition_members_read:
  assumes "disposition_readable r"
  shows "decode_members True disposition_fields (disposition_members r) zeroDisposition = Some r"
proof -
  have parts: "decode_struct True descriptor_fields (descriptor_json (di_Descriptor r)) zeroDescriptor = Some (di_Descriptor r)"
     "minute_zone (di_AcceptedAt r)" "minute_zone (di_ApplyDeadline r)" "known_state (di_State r)"
     "\<And>cl old. di_Claim r = Some cl \<Longrightarrow> decode_struct True dispositionClaim_fields (dispositionClaim_json cl) old = Some cl"
     "\<And>a old. di_Attempt r = Some a \<Longrightarrow> decode_struct True attempt_fields (attempt_json a) old = Some a"
     "\<And>out old. di_Outcome r = Some out \<Longrightarrow> decode_struct True outcome_fields (outcome_json out) old = Some out"
    using assms unfolding disposition_readable_def by iprover+
  show ?thesis
    using parts
    by (cases r) (simp add: disposition_members_def disposition_fields_def fold_name_plain plain_char_def
        decode_omit_ptr decode_omit_ptr_last zeroDisposition_def)
qed

lemma dispositionInboxWire_read:
  assumes "disposition_readable (dw_Record w)"
  shows "decode_struct True dispositionInboxWire_fields (dispositionInboxWire_json w)
    \<lparr>dw_RecordVersion = 0, dw_Record = zeroDisposition\<rparr> = Some w"
proof -
  let ?old = "\<lparr>dw_RecordVersion = dw_RecordVersion w, dw_Record = zeroDisposition\<rparr>"
  have sub: "decode_members True disposition_fields (disposition_members (dw_Record w)) (dw_Record ?old) = Some (dw_Record w)"
    using disposition_members_read [OF assms] by simp
  have "list_all (\<lambda>m. \<exists>f. map_of disposition_fields (fold_name (fst m)) = Some f \<and>
      map_of dispositionInboxWire_fields (fold_name (fst m)) =
        Some (\<lambda>j w. map_option (\<lambda>x. dw_Record_update (\<lambda>_. x) w) (f j (dw_Record w))))
      (disposition_members (dw_Record w))"
    by (auto simp: disposition_members_def disposition_fields_def dispositionInboxWire_fields_def nested_def
        fold_name_plain plain_char_def omitnil_def split: option.split)
  then have "decode_members True dispositionInboxWire_fields (disposition_members (dw_Record w)) ?old =
    Some (dw_Record_update (\<lambda>_. dw_Record w) ?old)"
    by (intro decode_nested [where get = dw_Record and upd = dw_Record_update and sub = disposition_fields])
      (simp_all add: comp_def sub [simplified])
  moreover have version: "map_of dispositionInboxWire_fields ''record_version'' = Some (into dec_word dw_RecordVersion dw_RecordVersion_update)"
    by (simp add: dispositionInboxWire_fields_def)
  ultimately show ?thesis
    unfolding dispositionInboxWire_json_def decode_struct.simps
    by (subst decode_members_one [OF _ version]) (simp_all add: plain_char_def)
qed

lemma dispositionInboxWire_version: "version_probe (dispositionInboxWire_json w) = Some (dw_RecordVersion w)"
  unfolding dispositionInboxWire_json_def
  by (rule version_probe_head)
    (auto simp: disposition_members_def omitnil_def fold_name_plain plain_char_def split: option.split)

lemma decodeDispositionInboxRecord_encode:
  assumes "core_utf8 c \<and> disposition_zones r" and "encodeDispositionInboxRecord c r0 = Inr (v, r)"
  shows "decodeDispositionInboxRecord c v = Inr r"
proof -
  let ?n = "dispositionInboxRecordVersionFor (di_Descriptor r)"
  let ?w = "\<lparr>dw_RecordVersion = ?n, dw_Record = r\<rparr>"
  from assms(2) have r: "disposition_valid c r" "disposition_stamped r = r"
    and v: "v = Marshalled (dispositionInboxWire_json ?w)" and short: "bytes_len c v \<le> MaxInboxRecordBytes"
    and again: "encodeDispositionInboxRecord c r = Inr (v, r)"
    by (auto simp: encodeDispositionInboxRecord_Inr)
  obtain ms where ms: "dispositionInboxWire_json ?w = JObj ms" by (simp add: dispositionInboxWire_json_def)
  have read: "decode_struct True dispositionInboxWire_fields (dispositionInboxWire_json ?w)
      \<lparr>dw_RecordVersion = 0, dw_Record = zeroDisposition\<rparr> = Some ?w"
    using assms(1) r by (intro dispositionInboxWire_read) (auto intro: disposition_valid_readable)
  have "?n \<in> set [DispositionInboxRecordVersion, DispositionInboxRecordVersionAttributed]"
    by (simp add: dispositionInboxRecordVersionFor_def)
  then have "decodeVersionedRecordOf c (\<lambda>j. decode_struct True dispositionInboxWire_fields j
        \<lparr>dw_RecordVersion = 0, dw_Record = zeroDisposition\<rparr>) v MaxInboxRecordBytes
      [DispositionInboxRecordVersion, DispositionInboxRecordVersionAttributed]
      \<lparr>vf_Record = ''record'', vf_Version = ''record_version''\<rparr> inboxRecordFailure = Inr ?w"
    unfolding v ms
    by (intro decodeVersionedRecordOf_marshalled [where w = ?n])
      (use short v ms dispositionInboxWire_version [of ?w] read in simp_all)
  then show ?thesis using again by (simp add: decodeDispositionInboxRecord_def)
qed

interpretation disposition_codec: strict_codec
  "canonicalDispositionInboxRecord c" "encodeDispositionInboxRecord c" "decodeDispositionInboxRecord c"
  "\<lambda>r. core_utf8 c \<and> disposition_zones r" for c
  by unfold_locales
    (auto simp: canonicalDispositionInboxRecord_iff encodeDispositionInboxRecord_Inr
       dest: decodeDispositionInboxRecord_strict intro: decodeDispositionInboxRecord_encode)

lemma expiry_as_written:
  "decode_struct True dispositionClaim_fields (dispositionClaim_json cl) zeroDispositionClaim = Some x \<Longrightarrow>
     dec_time (jtime (dc_ExpiresAt cl)) zeroTime = Some (dc_ExpiresAt x)"
  "decode_struct True attempt_fields (attempt_json a) zeroAttempt = Some y \<Longrightarrow>
     dec_time (jtime (da_StartedAt a)) zeroTime = Some (da_StartedAt y)"
  "decode_struct True outcome_fields (outcome_json out) zeroOutcome = Some z \<Longrightarrow>
     dec_time (jtime (do_SettledAt out)) zeroTime = Some (do_SettledAt z)"
  by (auto simp: dispositionClaim_json_def dispositionClaim_fields_def zeroDispositionClaim_def into_def
      attempt_json_def attempt_fields_def zeroAttempt_def outcome_json_def outcome_fields_def zeroOutcome_def
      fold_name_plain plain_char_def split: option.split_asm)

lemma times_as_written:
  assumes "decode_members True dispositionInboxWire_fields ((''record_version'', ju8 n) # disposition_members r)
      \<lparr>dw_RecordVersion = 0, dw_Record = zeroDisposition\<rparr> = Some w"
  shows "di_Claim r = Some cl \<Longrightarrow> \<exists>x. di_Claim (dw_Record w) = Some x \<and> dec_time (jtime (dc_ExpiresAt cl)) zeroTime = Some (dc_ExpiresAt x)"
    "di_Attempt r = Some a \<Longrightarrow> \<exists>x. di_Attempt (dw_Record w) = Some x \<and> dec_time (jtime (da_StartedAt a)) zeroTime = Some (da_StartedAt x)"
    "di_Outcome r = Some out \<Longrightarrow> \<exists>x. di_Outcome (dw_Record w) = Some x \<and> dec_time (jtime (do_SettledAt out)) zeroTime = Some (do_SettledAt x)"
  using assms
  by (auto simp: disposition_members_def dispositionInboxWire_fields_def nested_def disposition_fields_def fold_name_plain
      plain_char_def omitnil_def into_def dec_ptr_def zeroDisposition_def simp del: decode_struct.simps(1)
      dest!: expiry_as_written split: option.split_asm)

lemma minute_zone_of_read:
  assumes "dec_time (jtime t) zeroTime = Some t" and "time_marshals t"
  shows "minute_zone t"
proof -
  have same: "t_zone t = zone_shown t" using assms(1) by (cases t) (auto simp: jtime_def Let_def split: if_split_asm)
  have "60 dvd zone_shown t" by (simp add: zone_shown_def)
  with same assms(2) show ?thesis by (metis minute_zone_def time_marshals_def)
qed

text \<open>So whatever a disposition row decodes to has its times in zones of whole minutes.\<close>

lemma decoded_disposition_zones:
  assumes "decodeDispositionInboxRecord c v = Inr r"
  shows "disposition_zones r"
proof -
  from decodeDispositionInboxRecord_strict [OF assms]
  have enc: "encodeDispositionInboxRecord c r = Inr (v, r)" and marshals: "dispositionMarshals r"
    by (auto simp: encodeDispositionInboxRecord_Inr)
  then obtain n where v: "v = Marshalled (JObj ((''record_version'', ju8 n) # disposition_members r))"
    by (auto simp: encodeDispositionInboxRecord_Inr dispositionInboxWire_json_def)
  from assms obtain w where w: "decode_members True dispositionInboxWire_fields
      ((''record_version'', ju8 n) # disposition_members r) \<lparr>dw_RecordVersion = 0, dw_Record = zeroDisposition\<rparr> = Some w"
    and "\<exists>m. encodeDispositionInboxRecord c (dw_Record w) = Inr (v, r)"
    unfolding v by (auto simp: decodeDispositionInboxRecord_def decodeVersionedRecordOf_def
        simp del: decode_members.simps split: if_split_asm option.split_asm prod.split_asm)
  then have same: "di_Claim (dw_Record w) = di_Claim r" "di_Attempt (dw_Record w) = di_Attempt r" "di_Outcome (dw_Record w) = di_Outcome r"
    by (auto simp: encodeDispositionInboxRecord_Inr)
  have marshal: "di_Claim r = Some cl \<Longrightarrow> time_marshals (dc_ExpiresAt cl)" "di_Attempt r = Some a \<Longrightarrow> time_marshals (da_StartedAt a)"
    "di_Outcome r = Some out \<Longrightarrow> time_marshals (do_SettledAt out)" for cl a out
    using marshals by (simp_all add: dispositionMarshals_def)
  show ?thesis
    unfolding disposition_zones_def
    using times_as_written [OF w, unfolded same] marshal by (auto intro!: minute_zone_of_read)
qed

text \<open>
  C17. A disposition command and its stored bytes determine each other: bytes decode only if they are
  exactly what the encoder writes for what they decode to, and the bytes the encoder wrote decode
  exactly when the times of the claim, attempt and outcome are in zones of whole minutes.
\<close>

theorem disposition_codec_is_strict:
  assumes "core_utf8 c"
  shows "decodeDispositionInboxRecord c v = Inr r \<longleftrightarrow>
    encodeDispositionInboxRecord c r = Inr (v, r) \<and> disposition_zones r"
  using assms disposition_codec.decode_strict decoded_disposition_zones disposition_codec.decode_encode
  by blast

text \<open>
  C40. The condition on zones is the code's: a claim whose expiry has an offset of less than a minute
  is accepted and written, as \<open>+00:00\<close>, and no decoder reads the row it leaves.
\<close>

theorem disposition_claim_zone_may_not_read_back:
  assumes "encodeDispositionInboxRecord c r0 = Inr (v, r)" and "di_Claim r0 = Some cl"
    and "t_zone (dc_ExpiresAt cl) \<noteq> 0" and "\<bar>t_zone (dc_ExpiresAt cl)\<bar> < 60"
  shows "decodeDispositionInboxRecord c v \<noteq> Inr q"
proof
  assume dec: "decodeDispositionInboxRecord c v = Inr q"
  have zero: "zone_shown (dc_ExpiresAt cl) = 0" using assms(4) by (simp add: zone_shown_def div_pos_pos_trivial)
  from decodeDispositionInboxRecord_strict [OF dec] assms(1)
  have "disposition_members q = disposition_members r" "di_Claim r = Some cl"
    using assms(2) by (auto simp: encodeDispositionInboxRecord_Inr dispositionInboxWire_json_def)
  then obtain cl' where "di_Claim q = Some cl'" and same: "jtime (dc_ExpiresAt cl') = jtime (dc_ExpiresAt cl)"
    by (auto simp: disposition_members_def omitnil_def dispositionClaim_json_def split: option.split_asm)
  with decoded_disposition_zones [OF dec] have "jtime (dc_ExpiresAt cl') = JTime (dc_ExpiresAt cl')"
    by (simp add: disposition_zones_def jtime_minute)
  with same zero assms(3) show False by (simp add: jtime_def Let_def)
qed

end
