(* ===== verification/Disposition_Inbox.thy ===== *)
theory Disposition_Inbox
  imports Disposition_Codec Residency Inbox_Claim
begin

text \<open>
  The disposition inbox's operations: admission and read (\<^verbatim>\<open>disposition_inbox.go\<close>), claim and reject
  (\<^verbatim>\<open>disposition_claim.go\<close>), attempt and settlement (\<^verbatim>\<open>disposition_settlement.go\<close>), and the listing of
  the commands that are due (\<^verbatim>\<open>disposition_due.go\<close>).
\<close>

record DispositionInboxEntry =
  dn_Record :: DispositionInboxRecord
  dn_Revision :: u64
  dn_AcceptedOrder :: u64

record AdmitDispositionCommandRequest =
  ad_TenantID :: string
  ad_SessionID :: string
  ad_CommandID :: string
  ad_Binding :: SessionBinding
  ad_ProposedRuntimeCommandID :: string
  ad_Kind :: string
  ad_Payload :: string
  ad_PayloadObject :: "object_metadata option"
  ad_AcceptedAt :: gotime
  ad_ApplyDeadline :: gotime
  ad_Principal :: "principal option"
  ad_Metadata :: message_metadata

record GetDispositionCommandRequest =
  gd_TenantID :: string
  gd_SessionID :: string
  gd_CommandID :: string

record ClaimDispositionCommandRequest =
  kd_TenantID :: string
  kd_SessionID :: string
  kd_CommandID :: string
  kd_ExpectedRevision :: u64
  kd_Residency :: "ResidencyGrant option"
  kd_ClaimExpiresAt :: gotime

record RejectDispositionCommandRequest =
  xd_TenantID :: string
  xd_SessionID :: string
  xd_CommandID :: string
  xd_ExpectedRevision :: u64
  xd_ResidencyEpoch :: u64

record BeginDispositionAttemptRequest =
  bd_TenantID :: string
  bd_SessionID :: string
  bd_CommandID :: string
  bd_ExpectedRevision :: u64
  bd_AttemptID :: string
  bd_JournalEpoch :: u64
  bd_ResidencyEpoch :: u64
  bd_StartedAt :: gotime

record SettleDispositionCommandRequest =
  sd_TenantID :: string
  sd_SessionID :: string
  sd_CommandID :: string
  sd_ExpectedRevision :: u64
  sd_ResidencyEpoch :: u64

subsection \<open>Filing\<close>

definition dispositionInboxID :: "sessionScope \<Rightarrow> string \<Rightarrow> ordered_id" where
  "dispositionInboxID scope command = \<lparr>oid_Namespace = shardNamespace dispositionInboxNamespace (sc_ControlShard scope),
     oid_OrderingScope = sc_SessionNamespace scope, oid_StableKey = command\<rparr>"

definition dispositionInboxDue :: "DispositionInboxRecord \<Rightarrow> due" where
  "dispositionInboxDue r = (if terminal (di_State r) then NoDue else DueAt (UnixMilli (di_ApplyDeadline r)))"

definition dispositionInboxEntryFor ::
  "core_lib \<Rightarrow> ordered_record \<Rightarrow> sessionScope \<Rightarrow> string \<Rightarrow> string \<Rightarrow> string \<Rightarrow> SessionBinding \<Rightarrow> err + DispositionInboxEntry" where
  "dispositionInboxEntryFor c stored scope tenant session command binding =
    (if rec_Deleted stored then Inl (inboxErr InboxErrorDeleted ''record'')
     else bindR (decodeDispositionInboxRecord c (rec_Value stored)) (\<lambda>r.
       let d = di_Descriptor r in
       if dd_TenantID d \<noteq> tenant \<or> dd_SessionID d \<noteq> session \<or> dd_CommandID d \<noteq> command \<or> dd_Binding d \<noteq> binding
          \<or> rec_ID stored \<noteq> dispositionInboxID scope command \<or> rec_Order stored = 0 \<or> rec_Revision stored = 0
       then Inl (inboxErr InboxErrorIdentity ''record'')
       else bindR (checkFiledScope stored (sc_SessionNamespace scope) (dispositionInboxDue r) inboxIdentity) (\<lambda>_.
         Inr \<lparr>dn_Record = r, dn_Revision = rec_Revision stored, dn_AcceptedOrder = rec_Order stored\<rparr>)))"

definition dispositionCatalog :: "'s store \<Rightarrow> sessionScope \<Rightarrow> string \<Rightarrow> string \<Rightarrow> ('s, SessionBinding) store_op" where
  "dispositionCatalog st scope tenant session =
    bindE (readCatalogEntry st scope tenant session) (\<lambda>entry.
    if sb_ProtocolMode (ct_Binding (ca_Record entry)) \<noteq> ProtocolModeDisposition
      then failE (catalogInvalid ''binding.protocol_mode'')
    else returnE (ct_Binding (ca_Record entry)))"

subsection \<open>Admission and read\<close>

definition dispositionDescriptor :: "core_lib \<Rightarrow> AdmitDispositionCommandRequest \<Rightarrow> err + DispositionCommandDescriptor" where
  "dispositionDescriptor c req =
    (let d = \<lparr>dd_PublicCreate = False, dd_TenantID = ad_TenantID req, dd_SessionID = ad_SessionID req,
        dd_CommandID = ad_CommandID req, dd_Binding = ad_Binding req, dd_RuntimeCommandID = ad_ProposedRuntimeCommandID req,
        dd_Kind = ad_Kind req, dd_PayloadDigest = [], dd_PayloadSize = 0, dd_Payload = ad_Payload req,
        dd_PayloadObject = ad_PayloadObject req, dd_Principal = ad_Principal req, dd_Metadata = ad_Metadata req\<rparr> in
     bindR (validateDispositionAttribution c d) (\<lambda>_.
     case dd_PayloadObject d of
       None \<Rightarrow> Inr (d\<lparr>dd_PayloadDigest := hex_encode (Sum256 (dd_Payload d)), dd_PayloadSize := word_of_nat (length (dd_Payload d))\<rparr>)
     | Some m \<Rightarrow>
         bindR (parseObjectMetadata c m) (\<lambda>parsed.
         if po_kind parsed \<noteq> ObjectKindCommandPayload \<or> \<not> IsZero (om_CreatedAt m) then Inl (inboxInvalid ''payload_object'')
         else Inr (d\<lparr>dd_PayloadDigest := hex_encode (po_digest parsed), dd_PayloadSize := om_SizeBytes m\<rparr>))))"

text \<open>The row an admission gets back must hold the command the caller named.\<close>

definition checkDispositionWinner ::
  "DispositionInboxRecord \<Rightarrow> DispositionCommandDescriptor \<Rightarrow> PublicCreateReservation option \<Rightarrow> err + unit" where
  "checkDispositionWinner r d public =
    (let winner = di_Descriptor r in
     if dd_PublicCreate winner \<noteq> dd_PublicCreate d \<or> dd_Kind winner \<noteq> dd_Kind d
        \<or> dd_PayloadDigest winner \<noteq> dd_PayloadDigest d \<or> dd_PayloadSize winner \<noteq> dd_PayloadSize d
       then Inl (inboxErr InboxErrorCommandMismatch ''command'')
     else if dd_Principal winner \<noteq> dd_Principal d then Inl (inboxErr InboxErrorCommandMismatch ''principal'')
     else if dd_Metadata winner \<noteq> dd_Metadata d then Inl (inboxErr InboxErrorCommandMismatch ''metadata'')
     else case public of
       None \<Rightarrow> Inr ()
     | Some p \<Rightarrow>
         if dd_RuntimeCommandID winner \<noteq> pr_RuntimeCommandID p \<or> \<not> EqualT (di_AcceptedAt r) (pr_AcceptedAt p)
            \<or> \<not> EqualT (di_ApplyDeadline r) (pr_ApplyDeadline p)
         then Inl (inboxErr InboxErrorCommandMismatch ''public_create'') else Inr ())"

text \<open>
  The catalog record decides whether the command may be admitted: the session's protocol, whether the
  command is the one that created it, and the binding.
\<close>

definition checkDispositionSession ::
  "core_lib \<Rightarrow> CatalogRecord \<Rightarrow> AdmitDispositionCommandRequest \<Rightarrow> PublicCreateReservation option \<Rightarrow> err + unit" where
  "checkDispositionSession c catalog req public =
    (if sb_ProtocolMode (ct_Binding catalog) \<noteq> ProtocolModeDisposition then Inl (catalogInvalid ''binding.protocol_mode'')
     else if (case public of
                Some p \<Rightarrow> \<not> samePublicCreate c (Some p) (ct_PublicCreate catalog)
              | None \<Rightarrow> (case ct_PublicCreate catalog of
                           None \<Rightarrow> False
                         | Some q \<Rightarrow> pi_CommandID (pr_Identity q) = ad_CommandID req))
       then Inl (inboxErr InboxErrorCommandMismatch ''public_create'')
     else if ct_Binding catalog \<noteq> ad_Binding req then Inl (inboxErr InboxErrorCommandMismatch ''binding'')
     else Inr ())"

definition checkPayloadObject :: "'s store \<Rightarrow> AdmitDispositionCommandRequest \<Rightarrow> ('s, unit) store_op" where
  "checkPayloadObject st req =
    (case ad_PayloadObject req of
       None \<Rightarrow> returnE ()
     | Some m \<Rightarrow>
         bindE (GetObjectMetadata st \<lparr>gm_TenantID = ad_TenantID req, gm_SessionID = ad_SessionID req,
           gm_ExpectedKind = ObjectKindCommandPayload, gm_Reference = om_Reference m\<rparr>) (\<lambda>metadata.
         if metadata \<noteq> m then failE (objectErr ObjectErrorIntegrity ''metadata'') else returnE ()))"

definition admitDispositionCommand ::
  "'s store \<Rightarrow> AdmitDispositionCommandRequest \<Rightarrow> PublicCreateReservation option \<Rightarrow> ('s, DispositionInboxEntry \<times> bool) store_op" where
  "admitDispositionCommand st req public =
    bindE (liftE (deriveSessionScope st (ad_TenantID req) (ad_SessionID req))) (\<lambda>scope.
    bindE (liftE (dispositionDescriptor (st_core st) req)) (\<lambda>d0.
    let d = d0\<lparr>dd_PublicCreate := public \<noteq> None\<rparr> in
    bindE (liftE (encodeDispositionInboxRecord (st_core st) \<lparr>di_Descriptor = d, di_AcceptedAt = ad_AcceptedAt req,
      di_ApplyDeadline = ad_ApplyDeadline req, di_State = InboxStatePending, di_Claim = None, di_Attempt = None,
      di_Outcome = None\<rparr>)) (\<lambda>(v, r).
    bindE (admitForeground st) (\<lambda>_.
    bindE (readCatalogEntry st scope (ad_TenantID req) (ad_SessionID req)) (\<lambda>catalog.
    bindE (liftE (checkDispositionSession (st_core st) (ca_Record catalog) req public)) (\<lambda>_.
    bindE (checkPayloadObject st req) (\<lambda>_.
    bindE (bindSessionScopeMode st scope ProtocolModeDisposition) (\<lambda>_.
    bindE (classifyE (\<lambda>e. classifyInboxOrderedError e ''create'')
      (oi_Create st (dispositionInboxID scope (ad_CommandID req)) (sc_SessionNamespace scope) v noRank (dispositionInboxDue r)))
      (\<lambda>(stored, created).
    bindE (liftE (dispositionInboxEntryFor (st_core st) stored scope (ad_TenantID req) (ad_SessionID req) (ad_CommandID req)
      (ct_Binding (ca_Record catalog)))) (\<lambda>entry.
    if created \<and> v \<noteq> rec_Value stored then failE (inboxErr InboxErrorIdentity ''value'')
    else bindE (liftE (checkDispositionWinner (dn_Record entry) d public)) (\<lambda>_.
      returnE (entry, created))))))))))))"

definition AdmitDispositionCommand ::
  "'s store \<Rightarrow> AdmitDispositionCommandRequest \<Rightarrow> ('s, DispositionInboxEntry \<times> bool) store_op" where
  "AdmitDispositionCommand st req = admitDispositionCommand st req None"

definition GetDispositionCommand :: "'s store \<Rightarrow> GetDispositionCommandRequest \<Rightarrow> ('s, DispositionInboxEntry) store_op" where
  "GetDispositionCommand st req =
    bindE (liftE (deriveSessionScope st (gd_TenantID req) (gd_SessionID req))) (\<lambda>scope.
    if \<not> command_ok (st_core st) (gd_CommandID req) then failE (inboxInvalid ''command_id'')
    else bindE (admitForeground st) (\<lambda>_.
    bindE (dispositionCatalog st scope (gd_TenantID req) (gd_SessionID req)) (\<lambda>binding.
    bindE (classifyE (\<lambda>e. classifyInboxOrderedError e ''get'') (oi_Get st (dispositionInboxID scope (gd_CommandID req)))) (\<lambda>stored.
    liftE (dispositionInboxEntryFor (st_core st) stored scope (gd_TenantID req) (gd_SessionID req) (gd_CommandID req) binding)))))"

subsection \<open>Reading at a revision, fencing, committing\<close>

definition dispositionEntryAtRevision ::
  "'s store \<Rightarrow> sessionScope \<Rightarrow> string \<Rightarrow> string \<Rightarrow> string \<Rightarrow> u64 \<Rightarrow> ('s, DispositionInboxEntry) store_op" where
  "dispositionEntryAtRevision st scope tenant session command expectedRevision =
    bindE (dispositionCatalog st scope tenant session) (\<lambda>binding.
    bindE (bindProtocolMode st scope ProtocolModeDisposition) (\<lambda>_.
    bindE (classifyE (\<lambda>e. classifyInboxOrderedError e ''get'') (oi_Get st (dispositionInboxID scope command))) (\<lambda>stored.
    bindE (liftE (dispositionInboxEntryFor (st_core st) stored scope tenant session command binding)) (\<lambda>current.
    if dn_Revision current \<noteq> expectedRevision then failE (inboxConflict ''expected_revision'' (dn_Revision current))
    else returnE current))))"

definition currentDispositionEntry ::
  "'s store \<Rightarrow> sessionScope \<Rightarrow> string \<Rightarrow> string \<Rightarrow> string \<Rightarrow> u64 \<Rightarrow> ('s, DispositionInboxEntry) store_op" where
  "currentDispositionEntry st scope tenant session command expectedRevision =
    bindE (dispositionEntryAtRevision st scope tenant session command expectedRevision) (\<lambda>current.
    if terminal (di_State (dn_Record current)) then failE (inboxErr InboxErrorTerminal ''state'') else returnE current)"

definition commitDispositionTransition ::
  "'s store \<Rightarrow> sessionScope \<Rightarrow> DispositionInboxEntry \<Rightarrow> DispositionInboxRecord \<Rightarrow> ('s, DispositionInboxEntry) store_op" where
  "commitDispositionTransition st scope current next =
    bindE (liftE (encodeDispositionInboxRecord (st_core st) next)) (\<lambda>(v, r).
    let d = di_Descriptor r in
    bindE (classifyE (\<lambda>e. classifyInboxOrderedError e ''update'')
      (oi_Update st (dispositionInboxID scope (dd_CommandID d)) (dn_Revision current) v noRank (dispositionInboxDue r))) (\<lambda>stored.
    liftE (dispositionInboxEntryFor (st_core st) stored scope (dd_TenantID d) (dd_SessionID d) (dd_CommandID d) (dd_Binding d))))"

definition dispositionResidencyHighWater :: "DispositionClaim \<Rightarrow> u64 \<Rightarrow> err + unit" where
  "dispositionResidencyHighWater claim residency =
     epochFence (dc_ResidencyEpoch claim) residency (inboxEpoch ''residency_epoch'')"

definition dispositionResidencyFence :: "DispositionClaim \<Rightarrow> u64 \<Rightarrow> err + unit" where
  "dispositionResidencyFence claim residency =
    bindR (dispositionResidencyHighWater claim residency) (\<lambda>_.
    if residency \<noteq> dc_ResidencyEpoch claim then Inl (inboxErr InboxErrorClaimLost ''residency_epoch'') else Inr ())"

definition heldClaim :: "DispositionInboxRecord \<Rightarrow> DispositionClaim" where
  "heldClaim r = (case di_Claim r of None \<Rightarrow> zeroDispositionClaim | Some cl \<Rightarrow> cl)"

definition dispositionRecordHighWater :: "DispositionInboxRecord \<Rightarrow> u64 \<Rightarrow> err + unit" where
  "dispositionRecordHighWater r residency = dispositionResidencyHighWater (heldClaim r) residency"

definition sameDispositionClaim :: "DispositionClaim \<Rightarrow> DispositionClaim \<Rightarrow> bool" where
  "sameDispositionClaim stored requested \<longleftrightarrow>
     dc_ResidencyEpoch stored = dc_ResidencyEpoch requested \<and> EqualT (dc_ExpiresAt stored) (dc_ExpiresAt requested)"

definition dispositionClaimLive :: "DispositionInboxRecord \<Rightarrow> gotime \<Rightarrow> bool" where
  "dispositionClaimLive r now \<longleftrightarrow> (case di_Claim r of None \<Rightarrow> False | Some cl \<Rightarrow> Before now (dc_ExpiresAt cl))"

subsection \<open>The transitions\<close>

definition ClaimDispositionCommand ::
  "'s store \<Rightarrow> ClaimDispositionCommandRequest \<Rightarrow> ('s, DispositionInboxEntry \<times> bool) store_op" where
  "ClaimDispositionCommand st req =
    bindE (liftE (deriveSessionScope st (kd_TenantID req) (kd_SessionID req))) (\<lambda>scope.
    if \<not> command_ok (st_core st) (kd_CommandID req) then failE (inboxInvalid ''command_id'')
    else if kd_ExpectedRevision req = 0 then failE (inboxInvalid ''expected_revision'')
    else bindE (liftE (residencyFor (kd_Residency req) st (kd_TenantID req) (kd_SessionID req))) (\<lambda>residency.
    bindE (askE (st_Now st)) (\<lambda>now.
    let claim = \<lparr>dc_ResidencyEpoch = residency, dc_ExpiresAt = kd_ClaimExpiresAt req\<rparr> in
    bindE (liftE (validateDispositionClaim claim)) (\<lambda>_.
    bindE (liftE (validateBoundedExpiry (kd_ClaimExpiresAt req) now MaxCommandClaimTTL ''claim_expires_at'' inboxInvalid)) (\<lambda>_.
    bindE (admitForeground st) (\<lambda>_.
    bindE (currentDispositionEntry st scope (kd_TenantID req) (kd_SessionID req) (kd_CommandID req) (kd_ExpectedRevision req)) (\<lambda>current.
    let r = dn_Record current; live = dispositionClaimLive r now in
    if di_Attempt r \<noteq> None then failE (inboxErr InboxErrorState ''attempt'')
    else bindE (liftE (dispositionRecordHighWater r residency)) (\<lambda>_.
    if live \<and> sameDispositionClaim (heldClaim r) claim then returnE (current, False)
    else if \<not> Before now (di_ApplyDeadline r) then failE (inboxErr InboxErrorDeadline ''apply_deadline'')
    else if live \<and> dc_ResidencyEpoch (heldClaim r) = residency then failE (inboxErr InboxErrorClaimHeld ''claim'')
    else bindE (commitDispositionTransition st scope current (r\<lparr>di_State := InboxStateClaimed, di_Claim := Some claim\<rparr>)) (\<lambda>entry.
      returnE (entry, True))))))))))"

definition RejectDispositionCommand ::
  "'s store \<Rightarrow> RejectDispositionCommandRequest \<Rightarrow> ('s, DispositionInboxEntry \<times> bool) store_op" where
  "RejectDispositionCommand st req =
    bindE (liftE (deriveSessionScope st (xd_TenantID req) (xd_SessionID req))) (\<lambda>scope.
    if \<not> command_ok (st_core st) (xd_CommandID req) then failE (inboxInvalid ''command_id'')
    else if xd_ExpectedRevision req = 0 then failE (inboxInvalid ''expected_revision'')
    else bindE (askE (st_Now st)) (\<lambda>now.
    bindE (admitForeground st) (\<lambda>_.
    bindE (dispositionEntryAtRevision st scope (xd_TenantID req) (xd_SessionID req) (xd_CommandID req) (xd_ExpectedRevision req)) (\<lambda>current.
    let r = dn_Record current in
    if terminal (di_State r) then
      (if di_State r = InboxStateRejected \<and> di_Attempt r = None then returnE (current, False)
       else failE (inboxErr InboxErrorTerminal ''state''))
    else if di_Attempt r \<noteq> None then failE (inboxErr InboxErrorState ''attempt'')
    else bindE (if xd_ResidencyEpoch req \<noteq> 0 then liftE (dispositionRecordHighWater r (xd_ResidencyEpoch req)) else returnE ()) (\<lambda>_.
    if dispositionClaimLive r now \<and> dc_ResidencyEpoch (heldClaim r) \<noteq> xd_ResidencyEpoch req
      then failE (inboxErr InboxErrorClaimHeld ''claim'')
    else bindE (commitDispositionTransition st scope current (r\<lparr>di_State := InboxStateRejected\<rparr>)) (\<lambda>entry.
      returnE (entry, True)))))))"

definition BeginDispositionAttempt ::
  "'s store \<Rightarrow> BeginDispositionAttemptRequest \<Rightarrow> ('s, DispositionInboxEntry) store_op" where
  "BeginDispositionAttempt st req =
    bindE (liftE (deriveSessionScope st (bd_TenantID req) (bd_SessionID req))) (\<lambda>scope.
    if \<not> command_ok (st_core st) (bd_CommandID req) then failE (inboxInvalid ''command_id'')
    else if bd_ExpectedRevision req = 0 then failE (inboxInvalid ''expected_revision'')
    else
    let attempt = \<lparr>da_AttemptID = bd_AttemptID req, da_JournalEpoch = bd_JournalEpoch req,
          da_ResidencyEpoch = bd_ResidencyEpoch req, da_StartedAt = bd_StartedAt req\<rparr> in
    bindE (liftE (validateDispositionAttempt (st_core st) attempt)) (\<lambda>_.
    bindE (askE (st_Now st)) (\<lambda>now.
    bindE (admitForeground st) (\<lambda>_.
    bindE (currentDispositionEntry st scope (bd_TenantID req) (bd_SessionID req) (bd_CommandID req) (bd_ExpectedRevision req)) (\<lambda>current.
    let r = dn_Record current in
    if di_State r \<noteq> InboxStateClaimed \<or> di_Claim r = None then failE (inboxErr InboxErrorState ''state'')
    else bindE (liftE (dispositionResidencyFence (heldClaim r) (bd_ResidencyEpoch req))) (\<lambda>_.
    if \<not> Before now (dc_ExpiresAt (heldClaim r)) then failE (inboxErr InboxErrorClaimLost ''claim'')
    else commitDispositionTransition st scope current (r\<lparr>di_State := InboxStateApplying, di_Attempt := Some attempt\<rparr>)))))))"

definition verifiedDispositionOutcome ::
  "DispositionAttempt \<Rightarrow> DispositionEvidence \<Rightarrow> u64 \<Rightarrow> gotime \<Rightarrow> err + DispositionOutcome" where
  "verifiedDispositionOutcome attempt e residency now =
    (let bad = (\<lambda>field. Inl (inboxErr InboxErrorEvidence field)) in
     if \<not> outcome_valid (de_Kind e) then bad ''kind''
     else if de_AttemptID e \<noteq> da_AttemptID attempt then bad ''attempt_id''
     else if de_AttemptJournalEpoch e \<noteq> da_JournalEpoch attempt then bad ''attempt_journal_epoch''
     else if de_DispositionSeq e = 0 then bad ''disposition_seq''
     else if (if de_Kind e = DispositionNotApplied then de_AuthorJournalEpoch e \<le> de_AttemptJournalEpoch e
              else de_AuthorJournalEpoch e \<noteq> de_AttemptJournalEpoch e) then bad ''author_journal_epoch''
     else if (if de_Kind e = DispositionNotApplied
              then de_AuthorFenceSeq e = 0 \<or> de_AuthorFenceSeq e \<ge> de_DispositionSeq e
              else de_AuthorFenceSeq e \<noteq> 0) then bad ''author_fence_seq''
     else if de_EventID e \<noteq> [] \<or> de_EventSeq e \<noteq> 0 then bad ''event''
     else Inr \<lparr>do_Kind = de_Kind e, do_AttemptID = de_AttemptID e, do_AttemptJournalEpoch = de_AttemptJournalEpoch e,
       do_AuthorJournalEpoch = de_AuthorJournalEpoch e, do_DispositionSeq = de_DispositionSeq e,
       do_AuthorFenceSeq = de_AuthorFenceSeq e, do_EventID = de_EventID e, do_EventSeq = de_EventSeq e,
       do_SettlingResidencyEpoch = residency, do_SettledAt = now\<rparr>)"

definition evidenceRequest :: "DispositionCommandDescriptor \<Rightarrow> DispositionAttempt \<Rightarrow> DispositionEvidenceRequest" where
  "evidenceRequest d attempt = \<lparr>der_TenantID = dd_TenantID d, der_SessionID = dd_SessionID d, der_CommandID = dd_CommandID d,
     der_Kind = dd_Kind d, der_RuntimeCommandID = dd_RuntimeCommandID d, der_Binding = dd_Binding d, der_Attempt = attempt\<rparr>"

definition SettleDispositionCommand ::
  "'s store \<Rightarrow> SettleDispositionCommandRequest \<Rightarrow> ('s, DispositionInboxEntry \<times> bool) store_op" where
  "SettleDispositionCommand st req =
    bindE (liftE (deriveSessionScope st (sd_TenantID req) (sd_SessionID req))) (\<lambda>scope.
    if \<not> command_ok (st_core st) (sd_CommandID req) then failE (inboxInvalid ''command_id'')
    else if sd_ExpectedRevision req = 0 then failE (inboxInvalid ''expected_revision'')
    else if sd_ResidencyEpoch req = 0 then failE (inboxInvalid ''residency_epoch'')
    else bindE (askE (st_Now st)) (\<lambda>now.
    bindE (admitForeground st) (\<lambda>_.
    bindE (dispositionEntryAtRevision st scope (sd_TenantID req) (sd_SessionID req) (sd_CommandID req) (sd_ExpectedRevision req)) (\<lambda>current.
    let r = dn_Record current in
    if terminal (di_State r) then returnE (current, False)
    else case (di_Claim r, di_Attempt r) of
      (Some claim, Some attempt) \<Rightarrow>
        if di_State r \<noteq> InboxStateApplying then failE (inboxErr InboxErrorState ''state'')
        else bindE (liftE (dispositionResidencyHighWater claim (sd_ResidencyEpoch req))) (\<lambda>_.
        (case st_evidence st of
           None \<Rightarrow> failE (inboxErr InboxErrorEvidence ''reader'')
         | Some read \<Rightarrow>
             bindE (read (evidenceRequest (di_Descriptor r) attempt)) (\<lambda>evidence.
             bindE (liftE (verifiedDispositionOutcome attempt evidence (sd_ResidencyEpoch req) now)) (\<lambda>outcome.
             bindE (commitDispositionTransition st scope current
                 (r\<lparr>di_State := terminalState (do_Kind outcome), di_Outcome := Some outcome\<rparr>)) (\<lambda>settled.
             returnE (settled, True))))))
    | _ \<Rightarrow> failE (inboxErr InboxErrorState ''state'')))))"

subsection \<open>Commands that are due\<close>

record ListDueDispositionCommandsRequest =
  ld_Shard :: int
  ld_DueAtOrBefore :: gotime
  ld_Limit :: int
  ld_Cursor :: string

record DispositionDueCommandPage =
  dq_Commands :: "DispositionInboxEntry list"
  dq_Examined :: nat
  dq_Unreadable :: nat
  dq_Limit :: int
  dq_NextCursor :: string

text \<open>A row whose session cannot be a disposition session any more is unreadable, other failures stop the sweep.\<close>

fun unreadableCatalog :: "err \<Rightarrow> bool" where
  "unreadableCatalog (CatalogError e) \<longleftrightarrow> ce_Code e \<in> {CatalogErrorNotFound, CatalogErrorDeleted, CatalogErrorInvalid,
     CatalogErrorIdentity, CatalogErrorMalformed, CatalogErrorVersion, CatalogErrorTooLarge}"
| "unreadableCatalog _ \<longleftrightarrow> False"

definition dueDispositionFor ::
  "'s store \<Rightarrow> ordered_record \<Rightarrow> nat \<Rightarrow> int \<Rightarrow> ('s, DispositionInboxEntry option) store_op" where
  "dueDispositionFor st stored shard bound =
    (case decodeDispositionInboxRecord (st_core st) (rec_Value stored) of
       Inl _ \<Rightarrow> returnE None
     | Inr r \<Rightarrow> (let d = di_Descriptor r in
         case deriveSessionScope st (dd_TenantID d) (dd_SessionID d) of
           Inl _ \<Rightarrow> returnE None
         | Inr scope \<Rightarrow>
             if sc_ControlShard scope \<noteq> shard \<or> UnixMilli (di_ApplyDeadline r) > bound then returnE None
             else (\<lambda>s. case dispositionCatalog st scope (dd_TenantID d) (dd_SessionID d) s of
                 (Inl e, t) \<Rightarrow> if unreadableCatalog e then (Inr None, t) else (Inl e, t)
               | (Inr binding, t) \<Rightarrow>
                   (case dispositionInboxEntryFor (st_core st) stored scope (dd_TenantID d) (dd_SessionID d) (dd_CommandID d) binding of
                      Inl _ \<Rightarrow> (Inr None, t)
                    | Inr entry \<Rightarrow> (Inr (Some entry), t)))))"

fun collectDueDispositions ::
  "'s store \<Rightarrow> nat \<Rightarrow> int \<Rightarrow> ordered_record list \<Rightarrow> ('s, DispositionInboxEntry list \<times> nat) store_op" where
  "collectDueDispositions st shard bound [] = returnE ([], 0)"
| "collectDueDispositions st shard bound (stored # rows) =
    bindE (checkCtx st) (\<lambda>_.
    bindE (dueDispositionFor st stored shard bound) (\<lambda>entry.
    bindE (collectDueDispositions st shard bound rows) (\<lambda>(entries, unreadable).
    case entry of
      None \<Rightarrow> returnE (entries, Suc unreadable)
    | Some e \<Rightarrow> returnE (e # entries, unreadable))))"

definition ListDueDispositionCommands ::
  "'s store \<Rightarrow> ListDueDispositionCommandsRequest \<Rightarrow> ('s, DispositionDueCommandPage) store_op" where
  "ListDueDispositionCommands st req =
    bindE (liftE (validateShard st (ld_Shard req) inboxInvalid)) (\<lambda>shard.
    (case pageLimit st (ld_Limit req) of
       None \<Rightarrow> failE (inboxInvalid ''limit'')
     | Some limit \<Rightarrow>
        bindE (liftE (sweepPosition dueDispositionCursor st shard (ld_Cursor req) (ld_DueAtOrBefore req))) (\<lambda>(bound, after).
        bindE (admitForeground st) (\<lambda>_.
        bindE (classifyE (\<lambda>e. classifyInboxOrderedError e ''due_commands'')
          (oi_ListDue st (shardNamespace dispositionInboxNamespace shard) bound after limit)) (\<lambda>provider.
        if int (length (dp_Records provider)) > limit then failE (inboxErr InboxErrorBackend ''limit'')
        else bindE (collectDueDispositions st shard bound (dp_Records provider)) (\<lambda>(entries, unreadable).
        bindE (if dp_NextCursor provider \<noteq> [] then liftE (sweepEncode dueDispositionCursor st shard bound (dp_NextCursor provider))
               else returnE []) (\<lambda>next.
        returnE \<lparr>dq_Commands = entries, dq_Examined = length (dp_Records provider), dq_Unreadable = unreadable,
          dq_Limit = limit, dq_NextCursor = next\<rparr>)))))))"

end
