(* ===== verification/Disposition_Lifecycle.thy ===== *)
theory Disposition_Lifecycle
  imports Disposition_Inbox
begin

text \<open>
  What the disposition inbox guarantees: every transition is a step of a small lifecycle on the one row
  it names, a revision is written over once, residency epochs fence claimants, and a settlement says
  what the evidence reader reported for the row's own attempt.
\<close>

subsection \<open>What a successful read and a successful commit did\<close>

lemma extends_dispositionCatalog [extends_intros]:
  "oi_contract st hist \<Longrightarrow> extends hist (dispositionCatalog st scope tenant session)"
  unfolding dispositionCatalog_def by (intro extends_intros)

lemma extends_dispositionEntryAtRevision [extends_intros]:
  "oi_contract st hist \<Longrightarrow> extends hist (dispositionEntryAtRevision st scope tenant session command n)"
  unfolding dispositionEntryAtRevision_def by (intro extends_intros)

lemma extends_currentDispositionEntry [extends_intros]:
  "oi_contract st hist \<Longrightarrow> extends hist (currentDispositionEntry st scope tenant session command n)"
  unfolding currentDispositionEntry_def by (intro extends_intros)

lemma dispositionInboxEntryFor_Inr:
  assumes "dispositionInboxEntryFor c stored scope tenant session command binding = Inr entry"
  shows "\<not> rec_Deleted stored" "decodeDispositionInboxRecord c (rec_Value stored) = Inr (dn_Record entry)"
    "dn_Revision entry = rec_Revision stored" "dn_AcceptedOrder entry = rec_Order stored"
    "dd_TenantID (di_Descriptor (dn_Record entry)) = tenant" "dd_SessionID (di_Descriptor (dn_Record entry)) = session"
    "dd_CommandID (di_Descriptor (dn_Record entry)) = command" "dd_Binding (di_Descriptor (dn_Record entry)) = binding"
    "rec_ID stored = dispositionInboxID scope command" "rec_Order stored \<noteq> 0"
    "rec_Due stored = dispositionInboxDue (dn_Record entry)"
  using assms by (auto simp: dispositionInboxEntryFor_def Let_def split: if_split_asm)

lemma decodedDisposition:
  assumes "decodeDispositionInboxRecord c v = Inr r"
  shows "disposition_stamped r = r" "disposition_zones r" "disposition_valid c r"
  using disposition_codec.decode_canonical [OF assms] decoded_disposition_zones [OF assms]
  by (simp_all add: canonicalDispositionInboxRecord_iff)

lemma dispositionEntryAtRevision_InrE:
  assumes "oi_contract st hist" and "dispositionEntryAtRevision st scope tenant session command n s = (Inr cur, t)"
  obtains row binding where "hist t (dispositionInboxID scope command) n = Some row" "rec_Revision row = n" "dn_Revision cur = n"
    "dispositionInboxEntryFor (st_core st) row scope tenant session command binding = Inr cur"
proof -
  from assms(2) obtain u row binding where get: "oi_Get st (dispositionInboxID scope command) u = (Inr row, t)"
    and entry: "dispositionInboxEntryFor (st_core st) row scope tenant session command binding = Inr cur"
    and n: "dn_Revision cur = n"
    by (auto simp: dispositionEntryAtRevision_def elim!: bindE_InrE split: if_split_asm)
  from n dispositionInboxEntryFor_Inr(3) [OF entry] have rev: "rec_Revision row = n" by simp
  with oi_get [OF assms(1) get] have "hist t (dispositionInboxID scope command) n = Some row" by simp
  from this rev n entry show thesis by (rule that)
qed

lemma currentDispositionEntry_Inr:
  "currentDispositionEntry st scope tenant session command n s = (Inr cur, t) \<longleftrightarrow>
     dispositionEntryAtRevision st scope tenant session command n s = (Inr cur, t) \<and> \<not> terminal (di_State (dn_Record cur))"
  by (auto simp: currentDispositionEntry_def bindE_Inr_iff)

abbreviation disposition_write where
  "disposition_write st hist s t scope command \<equiv>
     row_write hist (decodeDispositionInboxRecord (st_core st)) s t (dispositionInboxID scope command)"

text \<open>The common shape of the transitions, from the read of the current row to the write.\<close>

lemma disposition_transition_write:
  assumes "oi_contract st hist" and "core_utf8 (st_core st)"
    and "dispositionEntryAtRevision st scope tenant session command n s = (Inr cur, u)" and "grows hist u w"
    and "commitDispositionTransition st scope cur next w = (Inr entry, t)"
    and "di_Descriptor next = di_Descriptor (dn_Record cur)" and "di_AcceptedAt next = di_AcceptedAt (dn_Record cur)"
    and "di_ApplyDeadline next = di_ApplyDeadline (dn_Record cur)" and "disposition_zones next"
  shows "disposition_write st hist s t scope command n (dn_Record cur) (dn_Record entry)"
    "dn_Revision entry = n + 1" "dn_Record entry = next" "disposition_valid (st_core st) next"
proof -
  obtain row binding where row: "hist u (dispositionInboxID scope command) n = Some row" "rec_Revision row = n" "dn_Revision cur = n"
    and entry: "dispositionInboxEntryFor (st_core st) row scope tenant session command binding = Inr cur"
    by (rule dispositionEntryAtRevision_InrE [OF assms(1,3)])
  note cur = dispositionInboxEntryFor_Inr [OF entry]
  note dec = decodedDisposition [OF cur(2)]
  from assms(5) obtain v r stored where enc: "encodeDispositionInboxRecord (st_core st) next = Inr (v, r)"
    and upd: "oi_Update st (dispositionInboxID scope (dd_CommandID (di_Descriptor r))) (dn_Revision cur) v noRank (dispositionInboxDue r) w
      = (Inr stored, t)"
    and new: "dispositionInboxEntryFor (st_core st) stored scope (dd_TenantID (di_Descriptor r)) (dd_SessionID (di_Descriptor r))
      (dd_CommandID (di_Descriptor r)) (dd_Binding (di_Descriptor r)) = Inr entry"
    by (auto simp: commitDispositionTransition_def Let_def elim!: bindE_InrE split: prod.split_asm)
  have "UTC (di_AcceptedAt next) = di_AcceptedAt next" "UTC (di_ApplyDeadline next) = di_ApplyDeadline next"
    using dec(1) assms(7,8) by (metis disposition_stamped_simps(6), metis disposition_stamped_simps(7))
  then have "disposition_stamped next = next" by (simp add: disposition_stamped_def)
  then have r: "r = next" and valid: "disposition_valid (st_core st) next"
    using enc by (simp_all add: encodeDispositionInboxRecord_Inr)
  have reads: "decodeDispositionInboxRecord (st_core st) v = Inr next"
    using assms(2,9) enc r by (intro decodeDispositionInboxRecord_encode) simp_all
  have here: "hist w (dispositionInboxID scope command) (rec_Revision row) = Some row"
    using row growsD [OF assms(4)] by simp
  have cmd: "dd_CommandID (di_Descriptor next) = command" using cur(7) assms(6) by simp
  note wr = row_write_of_update [OF assms(1) here cur(2) upd [unfolded r cmd row(3) row(2) [symmetric]] reads]
  note facts = dispositionInboxEntryFor_Inr [OF new]
  from facts(2) wr(2) reads show rec: "dn_Record entry = next" by simp
  from facts(3) wr(3) row(2) show "dn_Revision entry = n + 1" by simp
  show "disposition_valid (st_core st) next" by (rule valid)
  have "grows hist s w"
    using extendsD [OF extends_dispositionEntryAtRevision [OF assms(1)] assms(3)] assms(4) by (rule grows_trans)
  from row_write_earlier [OF this wr(1)] rec row(2)
  show "disposition_write st hist s t scope command n (dn_Record cur) (dn_Record entry)" by simp
qed

subsection \<open>The lifecycle as a specification\<close>

inductive disposition_step :: "gotime \<Rightarrow> DispositionInboxRecord \<Rightarrow> DispositionInboxRecord \<Rightarrow> bool" for now where
  Claim: "\<lbrakk>di_State r \<in> {InboxStatePending, InboxStateClaimed}; di_Attempt r = None; e \<noteq> 0;
     dc_ResidencyEpoch (heldClaim r) \<le> e; Before now (di_ApplyDeadline r);
     \<not> (dispositionClaimLive r now \<and> dc_ResidencyEpoch (heldClaim r) = e);
     Before now x; t_ns x - t_ns now \<le> MaxCommandClaimTTL\<rbrakk> \<Longrightarrow>
   disposition_step now r (r\<lparr>di_State := InboxStateClaimed, di_Claim := Some \<lparr>dc_ResidencyEpoch = e, dc_ExpiresAt = x\<rparr>\<rparr>)"
| Begin: "\<lbrakk>di_State r = InboxStateClaimed; dispositionClaimLive r now; di_Attempt r = None;
     da_ResidencyEpoch a = dc_ResidencyEpoch (heldClaim r); da_AttemptID a \<noteq> []; da_JournalEpoch a \<noteq> 0\<rbrakk> \<Longrightarrow>
   disposition_step now r (r\<lparr>di_State := InboxStateApplying, di_Attempt := Some a\<rparr>)"
| Settle: "\<lbrakk>di_State r = InboxStateApplying; di_Attempt r = Some a; di_Outcome r = None;
     dc_ResidencyEpoch (heldClaim r) \<le> do_SettlingResidencyEpoch out; do_SettledAt out = now;
     validateDispositionOutcome out (Some a) (terminalState (do_Kind out)) = Inr ()\<rbrakk> \<Longrightarrow>
   disposition_step now r (r\<lparr>di_State := terminalState (do_Kind out), di_Outcome := Some out\<rparr>)"
| Reject: "\<lbrakk>di_State r \<in> {InboxStatePending, InboxStateClaimed}; di_Attempt r = None;
     dispositionClaimLive r now \<Longrightarrow> dc_ResidencyEpoch (heldClaim r) = e\<rbrakk> \<Longrightarrow>
   disposition_step now r (r\<lparr>di_State := InboxStateRejected\<rparr>)"

inductive_cases disposition_stepE: "disposition_step now r r'"

lemma terminal_terminalState [simp]: "terminal (terminalState k)"
  by (simp add: terminalState_def)

lemma heldClaim_simps [simp]:
  "heldClaim (r\<lparr>di_State := q\<rparr>) = heldClaim r" "heldClaim (r\<lparr>di_Attempt := a\<rparr>) = heldClaim r"
  "heldClaim (r\<lparr>di_Outcome := out\<rparr>) = heldClaim r" "heldClaim (r\<lparr>di_Claim := Some cl\<rparr>) = cl"
  by (simp_all add: heldClaim_def)

lemma disposition_step_facts:
  assumes "disposition_step now r r'"
  shows "\<not> terminal (di_State r)" "di_Descriptor r' = di_Descriptor r" "di_AcceptedAt r' = di_AcceptedAt r"
    "di_ApplyDeadline r' = di_ApplyDeadline r" "dc_ResidencyEpoch (heldClaim r) \<le> dc_ResidencyEpoch (heldClaim r')"
    "di_Attempt r = Some a \<Longrightarrow> di_Attempt r' = Some a \<and> di_Claim r' = di_Claim r \<and> terminal (di_State r')"
    "di_Outcome r' = Some out \<Longrightarrow> di_Outcome r = None \<Longrightarrow> \<exists>a. di_Attempt r = Some a \<and> di_Attempt r' = Some a \<and>
       validateDispositionOutcome out (Some a) (di_State r') = Inr ()"
    "di_State r' = InboxStateApplied \<Longrightarrow> di_Outcome r' \<noteq> None"
  using assms by (auto elim!: disposition_stepE)

interpretation residency_fence: fenced "\<lambda>r. dc_ResidencyEpoch (heldClaim r)" dispositionRecordHighWater
  by unfold_locales (auto simp: dispositionRecordHighWater_def dispositionResidencyHighWater_def epochFence_Inl_iff)

subsection \<open>The operations take steps of the lifecycle\<close>

datatype dispositionOp =
    ClaimDisposition ClaimDispositionCommandRequest | RejectDisposition RejectDispositionCommandRequest
  | BeginDisposition BeginDispositionAttemptRequest | SettleDisposition SettleDispositionCommandRequest

fun runDispositionOp :: "'s store \<Rightarrow> dispositionOp \<Rightarrow> ('s, DispositionInboxEntry \<times> bool) store_op" where
  "runDispositionOp st (ClaimDisposition req) = ClaimDispositionCommand st req"
| "runDispositionOp st (RejectDisposition req) = RejectDispositionCommand st req"
| "runDispositionOp st (BeginDisposition req) = bindE (BeginDispositionAttempt st req) (\<lambda>entry. returnE (entry, True))"
| "runDispositionOp st (SettleDisposition req) = SettleDispositionCommand st req"

fun disposition_target :: "dispositionOp \<Rightarrow> string \<times> string \<times> string \<times> u64" where
  "disposition_target (ClaimDisposition q) = (kd_TenantID q, kd_SessionID q, kd_CommandID q, kd_ExpectedRevision q)"
| "disposition_target (RejectDisposition q) = (xd_TenantID q, xd_SessionID q, xd_CommandID q, xd_ExpectedRevision q)"
| "disposition_target (BeginDisposition q) = (bd_TenantID q, bd_SessionID q, bd_CommandID q, bd_ExpectedRevision q)"
| "disposition_target (SettleDisposition q) = (sd_TenantID q, sd_SessionID q, sd_CommandID q, sd_ExpectedRevision q)"

text \<open>The time an operation stores, in the zone it will be written in.\<close>

fun disposition_time :: "gotime \<Rightarrow> dispositionOp \<Rightarrow> gotime" where
  "disposition_time now (ClaimDisposition q) = kd_ClaimExpiresAt q"
| "disposition_time now (RejectDisposition q) = now"
| "disposition_time now (BeginDisposition q) = bd_StartedAt q"
| "disposition_time now (SettleDisposition q) = now"

lemma claim_expiry_bounded:
  "validateBoundedExpiry x now MaxCommandClaimTTL field fail = Inr u \<Longrightarrow>
     Before now x \<and> t_ns x - t_ns now \<le> MaxCommandClaimTTL"
  by (auto simp: MaxCommandClaimTTL_def Hour_def validateBoundedExpiry_Inr_iff Before_def)

lemma ClaimDispositionCommand_InrE:
  assumes "ClaimDispositionCommand st req s = (Inr (entry, changed), t)"
  obtains scope e cur u where "deriveSessionScope st (kd_TenantID req) (kd_SessionID req) = Inr scope"
    "issuedFor (kd_Residency req) st (kd_TenantID req) (kd_SessionID req) = Some e" "e \<noteq> 0"
    "dispositionEntryAtRevision st scope (kd_TenantID req) (kd_SessionID req) (kd_CommandID req) (kd_ExpectedRevision req) s = (Inr cur, u)"
    "\<not> terminal (di_State (dn_Record cur))" "di_Attempt (dn_Record cur) = None"
    "dc_ResidencyEpoch (heldClaim (dn_Record cur)) \<le> e"
    "Before (st_Now st s) (kd_ClaimExpiresAt req)" "t_ns (kd_ClaimExpiresAt req) - t_ns (st_Now st s) \<le> MaxCommandClaimTTL"
    "(entry = cur \<and> \<not> changed \<and> u = t \<and> dispositionClaimLive (dn_Record cur) (st_Now st s) \<and>
       sameDispositionClaim (heldClaim (dn_Record cur)) \<lparr>dc_ResidencyEpoch = e, dc_ExpiresAt = kd_ClaimExpiresAt req\<rparr>) \<or>
     changed \<and> Before (st_Now st s) (di_ApplyDeadline (dn_Record cur)) \<and>
     \<not> (dispositionClaimLive (dn_Record cur) (st_Now st s) \<and> dc_ResidencyEpoch (heldClaim (dn_Record cur)) = e) \<and>
     commitDispositionTransition st scope cur ((dn_Record cur)\<lparr>di_State := InboxStateClaimed,
       di_Claim := Some \<lparr>dc_ResidencyEpoch = e, dc_ExpiresAt = kd_ClaimExpiresAt req\<rparr>\<rparr>) u = (Inr entry, t)"
  using assms
  by (auto simp: ClaimDispositionCommand_def Let_def currentDispositionEntry_Inr dispositionRecordHighWater_def
      dispositionResidencyHighWater_def validateDispositionClaim_def
      elim!: bindE_InrE dest!: claim_expiry_bounded split: if_split_asm)

lemma RejectDispositionCommand_InrE:
  assumes "RejectDispositionCommand st req s = (Inr (entry, changed), t)"
  obtains scope cur u where "deriveSessionScope st (xd_TenantID req) (xd_SessionID req) = Inr scope"
    "dispositionEntryAtRevision st scope (xd_TenantID req) (xd_SessionID req) (xd_CommandID req) (xd_ExpectedRevision req) s = (Inr cur, u)"
    "di_Attempt (dn_Record cur) = None"
    "(entry = cur \<and> \<not> changed \<and> u = t \<and> di_State (dn_Record cur) = InboxStateRejected) \<or>
     changed \<and> \<not> terminal (di_State (dn_Record cur)) \<and>
     (dispositionClaimLive (dn_Record cur) (st_Now st s) \<longrightarrow> dc_ResidencyEpoch (heldClaim (dn_Record cur)) = xd_ResidencyEpoch req) \<and>
     commitDispositionTransition st scope cur ((dn_Record cur)\<lparr>di_State := InboxStateRejected\<rparr>) u = (Inr entry, t)"
  using assms
  by (auto simp: RejectDispositionCommand_def Let_def elim!: bindE_InrE split: if_split_asm)

lemma BeginDispositionAttempt_InrE:
  assumes "BeginDispositionAttempt st req s = (Inr entry, t)"
  obtains scope cur u where "deriveSessionScope st (bd_TenantID req) (bd_SessionID req) = Inr scope"
    "dispositionEntryAtRevision st scope (bd_TenantID req) (bd_SessionID req) (bd_CommandID req) (bd_ExpectedRevision req) s = (Inr cur, u)"
    "di_State (dn_Record cur) = InboxStateClaimed" "dispositionClaimLive (dn_Record cur) (st_Now st s)"
    "bd_ResidencyEpoch req = dc_ResidencyEpoch (heldClaim (dn_Record cur))" "bd_AttemptID req \<noteq> []" "bd_JournalEpoch req \<noteq> 0"
    "commitDispositionTransition st scope cur ((dn_Record cur)\<lparr>di_State := InboxStateApplying,
       di_Attempt := Some \<lparr>da_AttemptID = bd_AttemptID req, da_JournalEpoch = bd_JournalEpoch req,
          da_ResidencyEpoch = bd_ResidencyEpoch req, da_StartedAt = bd_StartedAt req\<rparr>\<rparr>) u = (Inr entry, t)"
  using assms
  by (auto simp: BeginDispositionAttempt_def Let_def currentDispositionEntry_Inr validateDispositionAttempt_def
      dispositionResidencyFence_def dispositionResidencyHighWater_def dispositionClaimLive_def heldClaim_def
      elim!: bindE_InrE split: if_split_asm)

lemma SettleDispositionCommand_InrE:
  assumes "SettleDispositionCommand st req s = (Inr (entry, changed), t)"
  obtains (settled) scope where "deriveSessionScope st (sd_TenantID req) (sd_SessionID req) = Inr scope"
      "dispositionEntryAtRevision st scope (sd_TenantID req) (sd_SessionID req) (sd_CommandID req) (sd_ExpectedRevision req) s = (Inr entry, t)"
      "\<not> changed" "terminal (di_State (dn_Record entry))"
  | (settle) scope cur u claim attempt read evidence w outcome where
      "deriveSessionScope st (sd_TenantID req) (sd_SessionID req) = Inr scope" "changed"
      "dispositionEntryAtRevision st scope (sd_TenantID req) (sd_SessionID req) (sd_CommandID req) (sd_ExpectedRevision req) s = (Inr cur, u)"
      "di_State (dn_Record cur) = InboxStateApplying" "di_Claim (dn_Record cur) = Some claim" "di_Attempt (dn_Record cur) = Some attempt"
      "dc_ResidencyEpoch claim \<le> sd_ResidencyEpoch req" "sd_ResidencyEpoch req \<noteq> 0" "st_evidence st = Some read"
      "read (evidenceRequest (di_Descriptor (dn_Record cur)) attempt) u = (Inr evidence, w)"
      "verifiedDispositionOutcome attempt evidence (sd_ResidencyEpoch req) (st_Now st s) = Inr outcome"
      "commitDispositionTransition st scope cur
         ((dn_Record cur)\<lparr>di_State := terminalState (do_Kind outcome), di_Outcome := Some outcome\<rparr>) w = (Inr entry, t)"
  using assms
  by (auto simp: SettleDispositionCommand_def Let_def dispositionResidencyHighWater_def
      elim!: bindE_InrE split: if_split_asm option.split_asm)

lemma current_disposition_facts:
  assumes "oi_contract st hist" and "dispositionEntryAtRevision st scope tenant session command n s = (Inr cur, t)"
  shows "disposition_zones (dn_Record cur)" "disposition_valid (st_core st) (dn_Record cur)"
    "\<not> terminal (di_State (dn_Record cur)) \<Longrightarrow> di_Attempt (dn_Record cur) = None \<Longrightarrow>
       di_State (dn_Record cur) \<in> {InboxStatePending, InboxStateClaimed}"
    "di_State (dn_Record cur) = InboxStateClaimed \<Longrightarrow> di_Attempt (dn_Record cur) = None"
    "di_State (dn_Record cur) = InboxStateApplying \<Longrightarrow> di_Outcome (dn_Record cur) = None"
proof -
  obtain row binding where "dispositionInboxEntryFor (st_core st) row scope tenant session command binding = Inr cur"
    by (rule dispositionEntryAtRevision_InrE [OF assms])
  note dec = decodedDisposition [OF dispositionInboxEntryFor_Inr(2) [OF this]]
  from dec show "disposition_zones (dn_Record cur)" "disposition_valid (st_core st) (dn_Record cur)" by simp_all
  from disposition_valid_facts(6) [OF dec(3)]
  show "\<not> terminal (di_State (dn_Record cur)) \<Longrightarrow> di_Attempt (dn_Record cur) = None \<Longrightarrow>
       di_State (dn_Record cur) \<in> {InboxStatePending, InboxStateClaimed}"
    "di_State (dn_Record cur) = InboxStateClaimed \<Longrightarrow> di_Attempt (dn_Record cur) = None"
    "di_State (dn_Record cur) = InboxStateApplying \<Longrightarrow> di_Outcome (dn_Record cur) = None"
    by (cases "di_State (dn_Record cur)"; auto simp: dispositionStateRule_def Let_def split: if_split_asm)+
qed

lemma verifiedDispositionOutcome_Inr:
  assumes "verifiedDispositionOutcome attempt e residency now = Inr outcome"
  shows "outcome = \<lparr>do_Kind = de_Kind e, do_AttemptID = da_AttemptID attempt, do_AttemptJournalEpoch = da_JournalEpoch attempt,
      do_AuthorJournalEpoch = de_AuthorJournalEpoch e, do_DispositionSeq = de_DispositionSeq e,
      do_AuthorFenceSeq = de_AuthorFenceSeq e, do_EventID = [], do_EventSeq = 0, do_SettlingResidencyEpoch = residency,
      do_SettledAt = now\<rparr>"
    "outcome_valid (de_Kind e)" "de_DispositionSeq e \<noteq> 0"
    "if de_Kind e = DispositionNotApplied
     then da_JournalEpoch attempt < de_AuthorJournalEpoch e \<and> de_AuthorFenceSeq e \<noteq> 0 \<and> de_AuthorFenceSeq e < de_DispositionSeq e
     else de_AuthorJournalEpoch e = da_JournalEpoch attempt \<and> de_AuthorFenceSeq e = 0"
  using assms by (auto simp: verifiedDispositionOutcome_def Let_def not_le split: if_split_asm)

text \<open>What a transition leaves, before and after: the row it read at the expected revision and the row that follows.\<close>

definition disposition_refines where
  "disposition_refines st hist s t scope command n entry \<longleftrightarrow>
    (\<exists>r. disposition_write st hist s t scope command n r (dn_Record entry) \<and> dn_Revision entry = n + 1 \<and>
       disposition_step (st_Now st s) r (dn_Record entry))"

definition disposition_found where
  "disposition_found st hist t scope command n entry \<longleftrightarrow> dn_Revision entry = n \<and>
    (\<exists>row. hist t (dispositionInboxID scope command) n = Some row \<and>
       decodeDispositionInboxRecord (st_core st) (rec_Value row) = Inr (dn_Record entry))"

lemma disposition_found_of_read:
  assumes "oi_contract st hist" and "dispositionEntryAtRevision st scope tenant session command n s = (Inr cur, t)"
  shows "disposition_found st hist t scope command n cur"
proof -
  obtain row binding where "hist t (dispositionInboxID scope command) n = Some row" "dn_Revision cur = n"
    "dispositionInboxEntryFor (st_core st) row scope tenant session command binding = Inr cur"
    by (rule dispositionEntryAtRevision_InrE [OF assms])
  with dispositionInboxEntryFor_Inr(2) show ?thesis unfolding disposition_found_def by blast
qed

lemma ClaimDisposition_refines:
  assumes "oi_contract st hist" and "core_utf8 (st_core st)" and "minute_zone (kd_ClaimExpiresAt req)"
    and "ClaimDispositionCommand st req s = (Inr (entry, changed), t)"
  shows "\<exists>scope. deriveSessionScope st (kd_TenantID req) (kd_SessionID req) = Inr scope \<and>
    (if changed then disposition_refines st hist s t scope (kd_CommandID req) (kd_ExpectedRevision req) entry
     else disposition_found st hist t scope (kd_CommandID req) (kd_ExpectedRevision req) entry)"
  using assms(4)
proof (rule ClaimDispositionCommand_InrE)
  fix scope e u and cur :: DispositionInboxEntry
  let ?r = "dn_Record cur" and ?now = "st_Now st s"
  let ?next = "?r\<lparr>di_State := InboxStateClaimed, di_Claim := Some \<lparr>dc_ResidencyEpoch = e, dc_ExpiresAt = kd_ClaimExpiresAt req\<rparr>\<rparr>"
  assume scope: "deriveSessionScope st (kd_TenantID req) (kd_SessionID req) = Inr scope" and e: "e \<noteq> 0"
    and get: "dispositionEntryAtRevision st scope (kd_TenantID req) (kd_SessionID req) (kd_CommandID req) (kd_ExpectedRevision req) s = (Inr cur, u)"
    and live: "\<not> terminal (di_State ?r)" and attempt: "di_Attempt ?r = None"
    and mark: "dc_ResidencyEpoch (heldClaim ?r) \<le> e"
    and bounded: "Before ?now (kd_ClaimExpiresAt req)" "t_ns (kd_ClaimExpiresAt req) - t_ns ?now \<le> MaxCommandClaimTTL"
    and outcome: "(entry = cur \<and> \<not> changed \<and> u = t \<and> dispositionClaimLive ?r ?now \<and>
       sameDispositionClaim (heldClaim ?r) \<lparr>dc_ResidencyEpoch = e, dc_ExpiresAt = kd_ClaimExpiresAt req\<rparr>) \<or>
     changed \<and> Before ?now (di_ApplyDeadline ?r) \<and> \<not> (dispositionClaimLive ?r ?now \<and> dc_ResidencyEpoch (heldClaim ?r) = e) \<and>
     commitDispositionTransition st scope cur ?next u = (Inr entry, t)"
  note facts = current_disposition_facts [OF assms(1) get]
  show ?thesis
  proof (cases changed)
    case True
    with outcome have put: "commitDispositionTransition st scope cur ?next u = (Inr entry, t)"
      and free: "Before ?now (di_ApplyDeadline ?r)" "\<not> (dispositionClaimLive ?r ?now \<and> dc_ResidencyEpoch (heldClaim ?r) = e)" by auto
    have "disposition_zones ?next" using facts(1) assms(3) by (simp add: disposition_zones_def)
    from disposition_transition_write [OF assms(1,2) get grows_refl put _ _ _ this]
    have w: "disposition_write st hist s t scope (kd_CommandID req) (kd_ExpectedRevision req) ?r (dn_Record entry)"
      "dn_Revision entry = kd_ExpectedRevision req + 1" "dn_Record entry = ?next" by simp_all
    have "disposition_step ?now ?r ?next"
      using facts(3) [OF live attempt] attempt e mark free bounded by (rule disposition_step.Claim)
    with w scope True show ?thesis by (auto simp: disposition_refines_def)
  next
    case False
    with outcome get scope disposition_found_of_read [OF assms(1)] show ?thesis by auto
  qed
qed

lemma RejectDisposition_refines:
  assumes "oi_contract st hist" and "core_utf8 (st_core st)"
    and "RejectDispositionCommand st req s = (Inr (entry, changed), t)"
  shows "\<exists>scope. deriveSessionScope st (xd_TenantID req) (xd_SessionID req) = Inr scope \<and>
    (if changed then disposition_refines st hist s t scope (xd_CommandID req) (xd_ExpectedRevision req) entry
     else disposition_found st hist t scope (xd_CommandID req) (xd_ExpectedRevision req) entry)"
  using assms(3)
proof (rule RejectDispositionCommand_InrE)
  fix scope u and cur :: DispositionInboxEntry
  let ?r = "dn_Record cur" and ?now = "st_Now st s"
  assume scope: "deriveSessionScope st (xd_TenantID req) (xd_SessionID req) = Inr scope"
    and get: "dispositionEntryAtRevision st scope (xd_TenantID req) (xd_SessionID req) (xd_CommandID req) (xd_ExpectedRevision req) s = (Inr cur, u)"
    and attempt: "di_Attempt ?r = None"
    and outcome: "(entry = cur \<and> \<not> changed \<and> u = t \<and> di_State ?r = InboxStateRejected) \<or>
     changed \<and> \<not> terminal (di_State ?r) \<and>
     (dispositionClaimLive ?r ?now \<longrightarrow> dc_ResidencyEpoch (heldClaim ?r) = xd_ResidencyEpoch req) \<and>
     commitDispositionTransition st scope cur (?r\<lparr>di_State := InboxStateRejected\<rparr>) u = (Inr entry, t)"
  note facts = current_disposition_facts [OF assms(1) get]
  show ?thesis
  proof (cases changed)
    case True
    with outcome have put: "commitDispositionTransition st scope cur (?r\<lparr>di_State := InboxStateRejected\<rparr>) u = (Inr entry, t)"
      and live: "\<not> terminal (di_State ?r)"
      and own: "dispositionClaimLive ?r ?now \<Longrightarrow> dc_ResidencyEpoch (heldClaim ?r) = xd_ResidencyEpoch req" by auto
    have "disposition_zones (?r\<lparr>di_State := InboxStateRejected\<rparr>)" using facts(1) by (simp add: disposition_zones_def)
    from disposition_transition_write [OF assms(1,2) get grows_refl put _ _ _ this]
    have w: "disposition_write st hist s t scope (xd_CommandID req) (xd_ExpectedRevision req) ?r (dn_Record entry)"
      "dn_Revision entry = xd_ExpectedRevision req + 1" "dn_Record entry = ?r\<lparr>di_State := InboxStateRejected\<rparr>" by simp_all
    have "disposition_step ?now ?r (?r\<lparr>di_State := InboxStateRejected\<rparr>)"
      using facts(3) [OF live attempt] attempt own by (rule disposition_step.Reject)
    with w scope True show ?thesis by (auto simp: disposition_refines_def)
  next
    case False
    with outcome get scope disposition_found_of_read [OF assms(1)] show ?thesis by auto
  qed
qed

lemma BeginDisposition_refines:
  assumes "oi_contract st hist" and "core_utf8 (st_core st)" and "minute_zone (bd_StartedAt req)"
    and "BeginDispositionAttempt st req s = (Inr entry, t)"
  shows "\<exists>scope. deriveSessionScope st (bd_TenantID req) (bd_SessionID req) = Inr scope \<and>
    disposition_refines st hist s t scope (bd_CommandID req) (bd_ExpectedRevision req) entry"
  using assms(4)
proof (rule BeginDispositionAttempt_InrE)
  fix scope u and cur :: DispositionInboxEntry
  let ?r = "dn_Record cur" and ?now = "st_Now st s"
  let ?a = "\<lparr>da_AttemptID = bd_AttemptID req, da_JournalEpoch = bd_JournalEpoch req,
          da_ResidencyEpoch = bd_ResidencyEpoch req, da_StartedAt = bd_StartedAt req\<rparr>"
  let ?next = "?r\<lparr>di_State := InboxStateApplying, di_Attempt := Some ?a\<rparr>"
  assume scope: "deriveSessionScope st (bd_TenantID req) (bd_SessionID req) = Inr scope"
    and get: "dispositionEntryAtRevision st scope (bd_TenantID req) (bd_SessionID req) (bd_CommandID req) (bd_ExpectedRevision req) s = (Inr cur, u)"
    and claimed: "di_State ?r = InboxStateClaimed" and live: "dispositionClaimLive ?r ?now"
    and own: "bd_ResidencyEpoch req = dc_ResidencyEpoch (heldClaim ?r)" and named: "bd_AttemptID req \<noteq> []" "bd_JournalEpoch req \<noteq> 0"
    and put: "commitDispositionTransition st scope cur ?next u = (Inr entry, t)"
  note facts = current_disposition_facts [OF assms(1) get]
  have "disposition_zones ?next" using facts(1) assms(3) by (simp add: disposition_zones_def)
  from disposition_transition_write [OF assms(1,2) get grows_refl put _ _ _ this]
  have w: "disposition_write st hist s t scope (bd_CommandID req) (bd_ExpectedRevision req) ?r (dn_Record entry)"
    "dn_Revision entry = bd_ExpectedRevision req + 1" "dn_Record entry = ?next" by simp_all
  have "disposition_step ?now ?r ?next"
    using own named by (intro disposition_step.Begin [OF claimed live facts(4) [OF claimed]]) simp_all
  with w scope show ?thesis by (auto simp: disposition_refines_def)
qed

lemma SettleDisposition_refines:
  assumes "oi_contract st hist" and "core_utf8 (st_core st)" and "minute_zone (st_Now st s)"
    and "SettleDispositionCommand st req s = (Inr (entry, changed), t)"
  shows "\<exists>scope. deriveSessionScope st (sd_TenantID req) (sd_SessionID req) = Inr scope \<and>
    (if changed then disposition_refines st hist s t scope (sd_CommandID req) (sd_ExpectedRevision req) entry
     else disposition_found st hist t scope (sd_CommandID req) (sd_ExpectedRevision req) entry)"
  using assms(4)
proof (cases rule: SettleDispositionCommand_InrE)
  case (settled scope)
  with disposition_found_of_read [OF assms(1) settled(2)] show ?thesis by auto
next
  case (settle scope cur u claim attempt read evidence w outcome)
  let ?r = "dn_Record cur" and ?now = "st_Now st s"
  let ?next = "?r\<lparr>di_State := terminalState (do_Kind outcome), di_Outcome := Some outcome\<rparr>"
  note get = settle(3) and applying = settle(4) and claim = settle(5) and attempt = settle(6) and mark = settle(7)
    and reader = settle(9) and evidence = settle(10) and verified = settle(11) and put = settle(12)
  note facts = current_disposition_facts [OF assms(1) get]
  note out = verifiedDispositionOutcome_Inr [OF verified]
  have "grows hist u w" by (rule extendsD [OF extends_evidence [OF assms(1) reader] evidence])
  moreover have "disposition_zones ?next" using facts(1) assms(3) by (simp add: disposition_zones_def out(1))
  ultimately have w: "disposition_write st hist s t scope (sd_CommandID req) (sd_ExpectedRevision req) ?r (dn_Record entry)"
    "dn_Revision entry = sd_ExpectedRevision req + 1" "dn_Record entry = ?next" "disposition_valid (st_core st) ?next"
    using disposition_transition_write [OF assms(1,2) get _ put] by simp_all
  have "validateDispositionOutcome outcome (Some attempt) (terminalState (do_Kind outcome)) = Inr ()"
    using disposition_valid_facts(4) [OF w(4)] attempt by simp
  then have "disposition_step ?now ?r ?next"
    using claim mark by (intro disposition_step.Settle [OF applying attempt facts(5) [OF applying]])
      (simp_all add: heldClaim_def out(1))
  with w(1-3) settle(1,2) show ?thesis by (auto simp: disposition_refines_def)
qed

lemma dispositionOp_refines:
  assumes "oi_contract st hist" and "core_utf8 (st_core st)" and "minute_zone (disposition_time (st_Now st s) op)"
    and "runDispositionOp st op s = (Inr (entry, changed), t)" and "disposition_target op = (tenant, session, command, n)"
  shows "\<exists>scope. deriveSessionScope st tenant session = Inr scope \<and>
    (if changed then disposition_refines st hist s t scope command n entry
     else disposition_found st hist t scope command n entry)"
proof (cases op)
  case (ClaimDisposition req)
  with assms show ?thesis using ClaimDisposition_refines [OF assms(1,2), of req s entry changed t] by auto
next
  case (RejectDisposition req)
  with assms show ?thesis using RejectDisposition_refines [OF assms(1,2), of req s entry changed t] by auto
next
  case (BeginDisposition req)
  with assms show ?thesis using BeginDisposition_refines [OF assms(1,2), of req s entry t]
    by (auto simp: bindE_Inr_iff)
next
  case (SettleDisposition req)
  with assms show ?thesis using SettleDisposition_refines [OF assms(1,2), of s req entry changed t] by auto
qed

text \<open>
  C8. Every claim, rejection, attempt and settlement that succeeds either replaced the row of the named
  command at the named revision by one step of the lifecycle, or changed nothing and returned the row
  stored at that revision, provided the time the operation stores is in a zone of whole minutes: the
  claim's expiry, the attempt's start, or the clock's reading at a settlement.  The code does not check
  that zone.  A time in another zone is written to the next lower minute of offset, so that the row holds
  another instant than the one validated (an expiry beyond the longest claim, say) or cannot be read back
  at all.
\<close>

theorem disposition_inbox_refines_lifecycle:
  assumes "oi_contract st hist" and "core_utf8 (st_core st)" and "minute_zone (disposition_time (st_Now st s) op)"
    and "runDispositionOp st op s = (Inr (entry, changed), t)" and "disposition_target op = (tenant, session, command, n)"
  shows "\<exists>scope. deriveSessionScope st tenant session = Inr scope \<and>
    (if changed then disposition_refines st hist s t scope command n entry
     else disposition_found st hist t scope command n entry)"
  using assms by (rule dispositionOp_refines)

text \<open>
  C15. Of two operations that name one command at one revision, whatever ran between them, at most one
  changes it.
\<close>

theorem disposition_transition_has_one_winner:
  assumes "oi_contract st hist" and "core_utf8 (st_core st)"
    and "minute_zone (disposition_time (st_Now st s) op)" "minute_zone (disposition_time (st_Now st s') op')"
    and "runDispositionOp st op s = (Inr (entry, True), t)" and "grows hist t s'"
    and "disposition_target op' = disposition_target op"
  shows "runDispositionOp st op' s' \<noteq> (Inr (entry', True), t')"
proof
  assume run: "runDispositionOp st op' s' = (Inr (entry', True), t')"
  obtain tenant session command n where target: "disposition_target op = (tenant, session, command, n)"
    by (metis prod.exhaust)
  from dispositionOp_refines [OF assms(1-3,5) target]
    dispositionOp_refines [OF assms(1,2,4) run] target assms(7)
  obtain scope where "disposition_refines st hist s t scope command n entry" "disposition_refines st hist s' t' scope command n entry'"
    by auto
  then obtain r r' where first: "disposition_write st hist s t scope command n r (dn_Record entry)"
    and second: "disposition_write st hist s' t' scope command n r' (dn_Record entry')" by (auto simp: disposition_refines_def)
  show False by (rule row_write_once [OF first assms(6) second])
qed

subsection \<open>Invariants along a run\<close>

definition disposition_inv :: "DispositionInboxRecord \<Rightarrow> DispositionInboxRecord \<Rightarrow> bool" where
  "disposition_inv r r' \<longleftrightarrow>
    di_Descriptor r' = di_Descriptor r \<and> di_AcceptedAt r' = di_AcceptedAt r \<and> di_ApplyDeadline r' = di_ApplyDeadline r \<and>
    dc_ResidencyEpoch (heldClaim r) \<le> dc_ResidencyEpoch (heldClaim r') \<and>
    (terminal (di_State r) \<longrightarrow> r' = r) \<and>
    (di_Attempt r \<noteq> None \<longrightarrow> di_Attempt r' = di_Attempt r \<and> di_Claim r' = di_Claim r) \<and>
    (\<forall>out. di_Outcome r = None \<and> di_Outcome r' = Some out \<longrightarrow>
       (\<exists>a. di_Attempt r' = Some a \<and> validateDispositionOutcome out (Some a) (di_State r') = Inr ())) \<and>
    (di_State r' = InboxStateApplied \<and> di_State r \<noteq> InboxStateApplied \<longrightarrow> di_Outcome r' \<noteq> None)"

lemma disposition_inv_step:
  assumes inv: "disposition_inv r q" and step: "disposition_step now q r'"
  shows "disposition_inv r r'"
proof -
  note f = disposition_step_facts [OF step]
  have "\<not> terminal (di_State r)" using inv f(1) by (auto simp: disposition_inv_def)
  moreover have "di_Attempt r \<noteq> None \<Longrightarrow> di_Attempt r' = di_Attempt r \<and> di_Claim r' = di_Claim r"
    using inv f(6) by (auto simp: disposition_inv_def)
  moreover have "\<exists>a. di_Attempt r' = Some a \<and> validateDispositionOutcome out (Some a) (di_State r') = Inr ()"
    if "di_Outcome r = None" "di_Outcome r' = Some out" for out
  proof (cases "di_Outcome q")
    case None
    with f(7) [OF that(2)] show ?thesis by blast
  next
    case (Some x)
    with inv that(1) have "validateDispositionOutcome x (di_Attempt q) (di_State q) = Inr ()" by (auto simp: disposition_inv_def)
    then have "terminalState (do_Kind x) = di_State q" by (simp add: validateDispositionOutcome_Inr)
    then have "terminal (di_State q)" using terminal_terminalState by metis
    with f(1) show ?thesis by simp
  qed
  moreover have "dc_ResidencyEpoch (heldClaim r) \<le> dc_ResidencyEpoch (heldClaim r')"
    using inv f(5) unfolding disposition_inv_def by (elim conjE) (rule order_trans)
  ultimately show ?thesis using inv f(2-4,8) unfolding disposition_inv_def by (intro conjI allI impI) simp_all
qed

text \<open>
  \<open>disposition_run st hist (tenant, session, command) t e u f\<close>: from the entry \<open>e\<close> at \<open>t\<close>, successful
  operations on the command, each naming the revision of the entry before it and storing its time in a
  zone of whole minutes, gave \<open>f\<close> at \<open>u\<close>; anything may be written between two of them.
\<close>

inductive disposition_run ::
  "'s store \<Rightarrow> 's row_history \<Rightarrow> string \<times> string \<times> string \<Rightarrow> 's \<Rightarrow> DispositionInboxEntry \<Rightarrow> 's \<Rightarrow>
    DispositionInboxEntry \<Rightarrow> bool"
  for st :: "'s store" and hist key t e where
  Start: "disposition_run st hist key t e t e"
| Op: "\<lbrakk>disposition_run st hist key t e u f; grows hist u v; key = (tenant, session, command);
     disposition_target op = (tenant, session, command, dn_Revision f); minute_zone (disposition_time (st_Now st v) op);
     runDispositionOp st op v = (Inr (g, changed), w)\<rbrakk> \<Longrightarrow> disposition_run st hist key t e w g"

lemma extends_commitDispositionTransition [extends_intros]:
  "oi_contract st hist \<Longrightarrow> extends hist (commitDispositionTransition st scope cur next)"
  unfolding commitDispositionTransition_def Let_def by (intro extends_intros)

lemma extends_disposition_changes [extends_intros]:
  assumes "oi_contract st hist"
  shows "extends hist (ClaimDispositionCommand st cl)" "extends hist (RejectDispositionCommand st rj)"
    "extends hist (BeginDispositionAttempt st bg)" "extends hist (SettleDispositionCommand st se)"
proof -
  show "extends hist (SettleDispositionCommand st se)"
  proof (cases "st_evidence st")
    case None
    then show ?thesis
      unfolding SettleDispositionCommand_def Let_def using assms by (simp only: option.case) (intro extends_intros)
  next
    case (Some read)
    have "extends hist (read q)" for q using extends_evidence [OF assms Some] .
    with Some show ?thesis
      unfolding SettleDispositionCommand_def Let_def using assms by (simp only: option.case) (intro extends_intros)
  qed
qed (unfold ClaimDispositionCommand_def RejectDispositionCommand_def BeginDispositionAttempt_def Let_def,
    (intro extends_intros assms)+)

lemma extends_runDispositionOp [extends_intros]:
  "oi_contract st hist \<Longrightarrow> extends hist (runDispositionOp st op)"
  by (cases op) (simp_all, (intro extends_intros; assumption)+)

lemma GetDispositionCommand_found:
  assumes "oi_contract st hist" "GetDispositionCommand st req s = (Inr e, t)"
  shows "\<exists>scope. deriveSessionScope st (gd_TenantID req) (gd_SessionID req) = Inr scope \<and>
    disposition_found st hist t scope (gd_CommandID req) (dn_Revision e) e"
proof -
  from assms(2) obtain scope w row binding where scope: "deriveSessionScope st (gd_TenantID req) (gd_SessionID req) = Inr scope"
    and get: "oi_Get st (dispositionInboxID scope (gd_CommandID req)) w = (Inr row, t)"
    and e: "dispositionInboxEntryFor (st_core st) row scope (gd_TenantID req) (gd_SessionID req) (gd_CommandID req) binding = Inr e"
    by (auto simp: GetDispositionCommand_def elim!: bindE_InrE split: if_split_asm)
  from oi_get [OF assms(1) get] dispositionInboxEntryFor_Inr [OF e] scope show ?thesis
    by (auto simp: disposition_found_def)
qed

lemma disposition_op_step:
  assumes "oi_contract st hist" "core_utf8 (st_core st)" "disposition_found st hist u scope command (dn_Revision f) f"
    and "grows hist u v" "deriveSessionScope st tenant session = Inr scope"
    and "disposition_target op = (tenant, session, command, dn_Revision f)" "minute_zone (disposition_time (st_Now st v) op)"
    and "runDispositionOp st op v = (Inr (g, changed), w)"
  shows "disposition_step (st_Now st v) (dn_Record f) (dn_Record g) \<or> dn_Record g = dn_Record f \<and> dn_Revision g = dn_Revision f"
    "disposition_found st hist w scope command (dn_Revision g) g"
proof -
  let ?id = "dispositionInboxID scope command"
  have op: "if changed then disposition_refines st hist v w scope command (dn_Revision f) g
     else disposition_found st hist w scope command (dn_Revision f) g"
    using dispositionOp_refines [OF assms(1,2,7,8,6)] assms(5) by auto
  obtain row where row: "hist u ?id (dn_Revision f) = Some row"
    "decodeDispositionInboxRecord (st_core st) (rec_Value row) = Inr (dn_Record f)"
    using assms(3) by (auto simp: disposition_found_def)
  have "grows hist u w"
    using assms(4) extendsD [OF extends_runDispositionOp [OF assms(1)] assms(8)] by (rule grows_trans)
  from growsD [OF this row(1)] have here: "hist w ?id (dn_Revision f) = Some row" .
  show "disposition_step (st_Now st v) (dn_Record f) (dn_Record g) \<or> dn_Record g = dn_Record f \<and> dn_Revision g = dn_Revision f"
    using op here row(2) by (auto simp: disposition_refines_def disposition_found_def row_write_def split: if_split_asm)
  show "disposition_found st hist w scope command (dn_Revision g) g"
    using op by (auto simp: disposition_refines_def disposition_found_def row_write_def split: if_split_asm)
qed

lemma disposition_run_facts:
  assumes "oi_contract st hist" "core_utf8 (st_core st)" "disposition_run st hist key t e u f"
    and "key = (tenant, session, command)" "deriveSessionScope st tenant session = Inr scope"
    and "disposition_found st hist t scope command (dn_Revision e) e"
  shows "disposition_inv (dn_Record e) (dn_Record f)" "disposition_found st hist u scope command (dn_Revision f) f"
    "terminal (di_State (dn_Record e)) \<longrightarrow> dn_Revision f = dn_Revision e"
  using assms(3)
proof (induction rule: disposition_run.induct)
  case Start
  {
    case 1 show ?case by (auto simp: disposition_inv_def)
  next
    case 2 show ?case by (rule assms(6))
  next
    case 3 show ?case by simp
  }
next
  case (Op u f v tenant' session' command' op g changed w)
  from Op.hyps(3) assms(4) have key: "disposition_target op = (tenant, session, command, dn_Revision f)"
    using Op.hyps(4) by simp
  note s = disposition_op_step [OF assms(1,2) Op.IH(2) Op.hyps(2) assms(5) key Op.hyps(5,6)]
  {
    case 1 show ?case using s(1) disposition_inv_step [OF Op.IH(1)] Op.IH(1) by metis
  next
    case 2 show ?case by (rule s(2))
  next
    case 3 show ?case
    proof
      assume ended: "terminal (di_State (dn_Record e))"
      with Op.IH(1) have "dn_Record f = dn_Record e" unfolding disposition_inv_def by iprover
      with ended s(1) disposition_step_facts(1) have "dn_Revision g = dn_Revision f" by metis
      with ended Op.IH(3) show "dn_Revision g = dn_Revision e" by simp
    qed
  }
qed

text \<open>
  C16. What a disposition command can become.  Start from an entry that \<open>GetDispositionCommand\<close> returned
  and apply any successful claims, rejections, attempts and settlements, each naming the revision of the
  entry before it and storing its time in a zone of whole minutes, with any other process writing in
  between.  What the command asks for (descriptor, acceptance, deadline) never changes; the residency
  epoch of its claim never decreases, so a claimant below an epoch once stored is refused for good; a
  terminal command keeps its record and its revision; an attempt, once begun, stays the only one, under
  the claim it began with; an outcome is always of the command's own attempt; and no command is applied
  without one.
\<close>

theorem disposition_lifecycle_invariants:
  assumes "oi_contract st hist" "core_utf8 (st_core st)" "GetDispositionCommand st req s = (Inr e, t)"
    and "disposition_run st hist (gd_TenantID req, gd_SessionID req, gd_CommandID req) t e u f"
    and "r = dn_Record e" "r' = dn_Record f"
  shows "di_Descriptor r' = di_Descriptor r \<and> di_AcceptedAt r' = di_AcceptedAt r \<and> di_ApplyDeadline r' = di_ApplyDeadline r \<and>
    (terminal (di_State r) \<longrightarrow> r' = r \<and> dn_Revision f = dn_Revision e) \<and>
    (\<forall>e < dc_ResidencyEpoch (heldClaim r). dispositionRecordHighWater r' e \<noteq> Inr ()) \<and>
    (di_Attempt r \<noteq> None \<longrightarrow> di_Attempt r' = di_Attempt r \<and> di_Claim r' = di_Claim r) \<and>
    (\<forall>out. di_Outcome r = None \<and> di_Outcome r' = Some out \<longrightarrow> (\<exists>a. di_Attempt r' = Some a \<and>
       do_AttemptID out = da_AttemptID a \<and> do_AttemptJournalEpoch out = da_JournalEpoch a \<and>
       di_State r' = terminalState (do_Kind out))) \<and>
    (di_State r' = InboxStateApplied \<and> di_State r \<noteq> InboxStateApplied \<longrightarrow> di_Outcome r' \<noteq> None)"
proof -
  obtain scope where scope: "deriveSessionScope st (gd_TenantID req) (gd_SessionID req) = Inr scope"
    "disposition_found st hist t scope (gd_CommandID req) (dn_Revision e) e"
    using GetDispositionCommand_found [OF assms(1,3)] by blast
  note run = disposition_run_facts [OF assms(1,2,4) refl scope]
  from run(1) assms(5,6) have inv: "disposition_inv r r'" by simp
  have "dispositionRecordHighWater r' e \<noteq> Inr ()" if "e < dc_ResidencyEpoch (heldClaim r)" for e
    using inv that residency_fence.fence_iff [of r' e] by (auto simp: disposition_inv_def)
  moreover have "\<exists>a. di_Attempt r' = Some a \<and> do_AttemptID out = da_AttemptID a \<and>
       do_AttemptJournalEpoch out = da_JournalEpoch a \<and> di_State r' = terminalState (do_Kind out)"
    if "di_Outcome r = None" "di_Outcome r' = Some out" for out
    using inv that by (auto simp: disposition_inv_def validateDispositionOutcome_Inr)
  ultimately show ?thesis using inv run(3) assms(5) unfolding disposition_inv_def by (intro conjI allI impI) simp_all
qed

subsection \<open>Settlement rests on evidence\<close>

lemma settled_by_evidence:
  assumes "oi_contract st hist" and "core_utf8 (st_core st)" and "minute_zone (st_Now st s)"
    and "SettleDispositionCommand st req s = (Inr (entry, True), t)"
  shows "\<exists>read claim attempt evidence outcome u w. st_evidence st = Some read \<and>
    di_Claim (dn_Record entry) = Some claim \<and> di_Attempt (dn_Record entry) = Some attempt \<and>
    di_Outcome (dn_Record entry) = Some outcome \<and>
    read (evidenceRequest (di_Descriptor (dn_Record entry)) attempt) u = (Inr evidence, w) \<and>
    de_AttemptID evidence = da_AttemptID attempt \<and> do_Kind outcome = de_Kind evidence \<and>
    do_DispositionSeq outcome = de_DispositionSeq evidence \<and> do_AuthorJournalEpoch outcome = de_AuthorJournalEpoch evidence \<and>
    di_State (dn_Record entry) = terminalState (de_Kind evidence) \<and>
    (if de_Kind evidence = DispositionNotApplied
     then da_JournalEpoch attempt < de_AuthorJournalEpoch evidence \<and> 0 < de_AuthorFenceSeq evidence \<and>
       de_AuthorFenceSeq evidence < de_DispositionSeq evidence
     else de_AuthorJournalEpoch evidence = da_JournalEpoch attempt) \<and>
    dc_ResidencyEpoch claim \<le> do_SettlingResidencyEpoch outcome \<and> do_SettlingResidencyEpoch outcome = sd_ResidencyEpoch req"
  using assms(4)
proof (cases rule: SettleDispositionCommand_InrE)
  case (settled scope)
  then show ?thesis by simp
next
  case (settle scope cur u claim attempt read evidence w outcome)
  note get = settle(3) and applying = settle(4) and claim = settle(5) and attempt = settle(6) and mark = settle(7)
    and reader = settle(9) and evidence = settle(10) and verified = settle(11) and put = settle(12)
  note out = verifiedDispositionOutcome_Inr [OF verified]
  have "grows hist u w" by (rule extendsD [OF extends_evidence [OF assms(1) reader] evidence])
  moreover have "disposition_zones ((dn_Record cur)\<lparr>di_State := terminalState (do_Kind outcome), di_Outcome := Some outcome\<rparr>)"
    using current_disposition_facts(1) [OF assms(1) get] assms(3) by (simp add: disposition_zones_def out(1))
  ultimately have rec: "dn_Record entry = (dn_Record cur)\<lparr>di_State := terminalState (do_Kind outcome), di_Outcome := Some outcome\<rparr>"
    using disposition_transition_write(3) [OF assms(1,2) get _ put] by simp
  have id: "de_AttemptID evidence = da_AttemptID attempt"
    using verified by (auto simp: verifiedDispositionOutcome_def Let_def split: if_split_asm)
  have author: "if de_Kind evidence = DispositionNotApplied
     then da_JournalEpoch attempt < de_AuthorJournalEpoch evidence \<and> 0 < de_AuthorFenceSeq evidence \<and>
       de_AuthorFenceSeq evidence < de_DispositionSeq evidence
     else de_AuthorJournalEpoch evidence = da_JournalEpoch attempt"
    using out(4) by (simp add: word_pos_iff split: if_split_asm)
  show ?thesis
    by (rule exI [of _ read], rule exI [of _ claim], rule exI [of _ attempt], rule exI [of _ evidence],
        rule exI [of _ outcome], rule exI [of _ u], rule exI [of _ w])
      (use reader claim attempt evidence id author mark in \<open>simp add: rec out(1)\<close>)
qed

text \<open>
  C14. A settlement that changes a command reports, field by field, what the evidence reader returned for
  the command's own attempt, read after the row it settles; the author of the disposition is the attempt's
  own journal epoch, except that \<open>not_applied\<close> is authored by a later epoch after that epoch's fence; and
  the settling residency is not below the claim's.
\<close>

theorem settlement_rests_on_evidence:
  assumes "oi_contract st hist" and "core_utf8 (st_core st)" and "minute_zone (st_Now st s)"
    and "SettleDispositionCommand st req s = (Inr (entry, True), t)"
  shows "\<exists>read claim attempt evidence outcome u w. st_evidence st = Some read \<and>
    di_Claim (dn_Record entry) = Some claim \<and> di_Attempt (dn_Record entry) = Some attempt \<and>
    di_Outcome (dn_Record entry) = Some outcome \<and>
    read (evidenceRequest (di_Descriptor (dn_Record entry)) attempt) u = (Inr evidence, w) \<and>
    de_AttemptID evidence = da_AttemptID attempt \<and> do_Kind outcome = de_Kind evidence \<and>
    do_DispositionSeq outcome = de_DispositionSeq evidence \<and> do_AuthorJournalEpoch outcome = de_AuthorJournalEpoch evidence \<and>
    di_State (dn_Record entry) = terminalState (de_Kind evidence) \<and>
    (if de_Kind evidence = DispositionNotApplied
     then da_JournalEpoch attempt < de_AuthorJournalEpoch evidence \<and> 0 < de_AuthorFenceSeq evidence \<and>
       de_AuthorFenceSeq evidence < de_DispositionSeq evidence
     else de_AuthorJournalEpoch evidence = da_JournalEpoch attempt) \<and>
    dc_ResidencyEpoch claim \<le> do_SettlingResidencyEpoch outcome \<and> do_SettlingResidencyEpoch outcome = sd_ResidencyEpoch req"
  using assms by (rule settled_by_evidence)

end
