(* ===== verification/Public_Create.thy ===== *)
theory Public_Create
  imports Disposition_Lifecycle
begin

text \<open>
  \<^verbatim>\<open>public_create.go\<close>, the operations: a tenant's command id reserves the session it creates, the
  catalog record is written from the reservation, and the creating command is admitted as the
  reservation says.  Also what a disposition admission guarantees, which the public one rests on.
\<close>

record PreparePublicCreateRequest =
  pp_Identity :: PublicCreateIdentity
  pp_ProposedRuntimeCommandID :: string
  pp_AcceptedAt :: gotime
  pp_ApplyDeadline :: gotime
  pp_InitialWorkload :: DesiredWorkload

record PublicCreatePreparation =
  pq_Reservation :: PublicCreateReservation
  pq_Catalog :: CatalogEntry

record AdmitPublicCreateRequest =
  ap_Identity :: PublicCreateIdentity
  ap_Payload :: string
  ap_PayloadObject :: "object_metadata option"
  ap_Principal :: "principal option"
  ap_Metadata :: message_metadata

definition publicCreateCatalogRequest :: "core_lib \<Rightarrow> PublicCreateReservation \<Rightarrow> CreateCatalogEntryRequest" where
  "publicCreateCatalogRequest c r = (let i = pr_Identity r in
    \<lparr>cn_Binding = pi_Binding i, cn_TenantID = pi_TenantID i, cn_SessionID = pi_SessionID i, cn_AgentID = hk_AgentID (pi_Target i),
     cn_RuntimeCompatibilityID = hk_RuntimeCompatibilityID (pi_Target i), cn_CreatedAt = pr_AcceptedAt r,
     cn_LastActiveAt = pr_AcceptedAt r, cn_State = SessionStateIdle c, cn_Residency = SessionResidencyCold c,
     cn_DesiredPlacement = hk_Placement (pi_Target i), cn_DesiredWorkload = pr_InitialWorkload r, cn_IdempotencyKey = pi_CommandID i\<rparr>)"

definition publicCreateCatalogRecord :: "core_lib \<Rightarrow> PublicCreateReservation \<Rightarrow> CatalogRecord" where
  "publicCreateCatalogRecord c r = (catalogRecordForCreate (publicCreateCatalogRequest c r))\<lparr>ct_PublicCreate := Some r\<rparr>"

definition PreparePublicCreate :: "'s store \<Rightarrow> PreparePublicCreateRequest \<Rightarrow> ('s, PublicCreatePreparation) store_op" where
  "PreparePublicCreate st req =
    (let i = pp_Identity req; c = st_core st in
    bindE (liftE (deriveSessionScope st (pi_TenantID i) (pi_SessionID i))) (\<lambda>scope.
    bindE (liftE (encodePublicCreate c \<lparr>pr_Identity = i, pr_RuntimeCommandID = pp_ProposedRuntimeCommandID req,
      pr_AcceptedAt = pp_AcceptedAt req, pr_ApplyDeadline = pp_ApplyDeadline req, pr_InitialWorkload = pp_InitialWorkload req\<rparr>)) (\<lambda>(v, r0).
    bindE (liftE (encodeCatalogRecord c (publicCreateCatalogRecord c r0))) (\<lambda>_.
    if sc_layout scope \<noteq> layoutTenantV1 then failE (inboxInvalid ''layout'')
    else bindE (admitForeground st) (\<lambda>_.
    bindE (bindSessionScopeMode st scope ProtocolModeDisposition) (\<lambda>_.
    bindE (classifyE (\<lambda>e. classifyInboxOrderedError e ''reservation'')
      (oi_Create st (publicCreateID scope (pi_CommandID i)) (sc_TenantNamespace scope) v noRank NoDue)) (\<lambda>(stored, created).
    if created \<and> v \<noteq> rec_Value stored then failE (inboxErr InboxErrorIdentity ''reservation'')
    else bindE (liftE (publicCreateWinner c stored scope i)) (\<lambda>r.
    bindE (createCatalogEntry st (publicCreateCatalogRequest c r) (Some r)) (\<lambda>(entry, _).
    bindE (askE (st_CtxErr st)) (\<lambda>done.
    if done then failE (classifyInboxOrderedError OrderedOther ''prepare'')
    else returnE \<lparr>pq_Reservation = r, pq_Catalog = entry\<rparr>))))))))))"

definition publicAdmission :: "AdmitPublicCreateRequest \<Rightarrow> string \<Rightarrow> gotime \<Rightarrow> gotime \<Rightarrow> AdmitDispositionCommandRequest" where
  "publicAdmission req runtime accepted deadline = (let i = ap_Identity req in
    \<lparr>ad_TenantID = pi_TenantID i, ad_SessionID = pi_SessionID i, ad_CommandID = pi_CommandID i, ad_Binding = pi_Binding i,
     ad_ProposedRuntimeCommandID = runtime, ad_Kind = pi_Kind i, ad_Payload = ap_Payload req, ad_PayloadObject = ap_PayloadObject req,
     ad_AcceptedAt = accepted, ad_ApplyDeadline = deadline, ad_Principal = ap_Principal req, ad_Metadata = ap_Metadata req\<rparr>)"

definition AdmitPublicCreate :: "'s store \<Rightarrow> AdmitPublicCreateRequest \<Rightarrow> ('s, DispositionInboxEntry \<times> bool) store_op" where
  "AdmitPublicCreate st req =
    (let i = ap_Identity req; c = st_core st in
    bindE (liftE (validatePublicCreateIdentity c i)) (\<lambda>_.
    bindE (liftE (dispositionDescriptor c (publicAdmission req [] zeroTime zeroTime))) (\<lambda>d.
    bindE (liftE (deriveSessionScope st (pi_TenantID i) (pi_SessionID i))) (\<lambda>scope.
    if dd_PayloadDigest d \<noteq> pi_PayloadDigest i \<or> dd_PayloadSize d \<noteq> pi_PayloadSize i
      then failE (inboxErr InboxErrorCommandMismatch ''payload'')
    else if length (ap_Payload req) > MaxInboxPayloadBytes \<or> (ap_PayloadObject req \<noteq> None \<and> length (ap_Payload req) \<noteq> 0)
      then failE (inboxInvalid ''payload'')
    else bindE (admitForeground st) (\<lambda>_.
    bindE (verifySessionScope st scope) (\<lambda>_.
    bindE (classifyE (\<lambda>e. classifyInboxOrderedError e ''reservation'') (oi_Get st (publicCreateID scope (pi_CommandID i)))) (\<lambda>stored.
    bindE (liftE (publicCreateWinner c stored scope i)) (\<lambda>r.
    bindE (admitDispositionCommand st (publicAdmission req (pr_RuntimeCommandID r) (pr_AcceptedAt r) (pr_ApplyDeadline r)) (Some r)) (\<lambda>(entry, created).
    bindE (askE (st_CtxErr st)) (\<lambda>done.
    if done then failE (classifyInboxOrderedError OrderedOther ''admit'')
    else returnE (entry, created)))))))))))"

subsection \<open>What a disposition admission guarantees\<close>

lemma dispositionDescriptor_Inr:
  assumes "dispositionDescriptor c req = Inr d"
  shows "dd_TenantID d = ad_TenantID req" "dd_SessionID d = ad_SessionID req" "dd_CommandID d = ad_CommandID req"
    "dd_Binding d = ad_Binding req" "dd_Kind d = ad_Kind req" "dd_Payload d = ad_Payload req"
    "dd_PayloadObject d = ad_PayloadObject req" "dd_Principal d = ad_Principal req" "dd_Metadata d = ad_Metadata req"
    "dd_RuntimeCommandID d = ad_ProposedRuntimeCommandID req"
    "ad_PayloadObject req = None \<Longrightarrow> dd_PayloadDigest d = hex_encode (Sum256 (ad_Payload req)) \<and>
       dd_PayloadSize d = word_of_nat (length (ad_Payload req))"
  using assms by (auto simp: dispositionDescriptor_def Let_def split: option.split_asm if_split_asm)

lemma extends_checkPayloadObject [extends_intros]:
  "oi_contract st hist \<Longrightarrow> extends hist (checkPayloadObject st req)"
  unfolding checkPayloadObject_def GetObjectMetadata_def by (intro extends_intros)

lemma admitDispositionCommand_InrE:
  assumes "oi_contract st hist" and "admitDispositionCommand st req public s = (Inr (entry, created), t)"
  obtains scope d v r stored catalog u x w where
    "deriveSessionScope st (ad_TenantID req) (ad_SessionID req) = Inr scope"
    "dispositionDescriptor (st_core st) req = Inr d"
    "encodeDispositionInboxRecord (st_core st) \<lparr>di_Descriptor = d\<lparr>dd_PublicCreate := public \<noteq> None\<rparr>, di_AcceptedAt = ad_AcceptedAt req,
      di_ApplyDeadline = ad_ApplyDeadline req, di_State = InboxStatePending, di_Claim = None, di_Attempt = None,
      di_Outcome = None\<rparr> = Inr (v, r)"
    "readCatalogEntry st scope (ad_TenantID req) (ad_SessionID req) s = (Inr catalog, u)"
    "checkDispositionSession (st_core st) (ca_Record catalog) req public = Inr ()"
    "checkPayloadObject st req u = (Inr (), x)" "grows hist x w"
    "oi_Create st (dispositionInboxID scope (ad_CommandID req)) (sc_SessionNamespace scope) v noRank (dispositionInboxDue r) w
       = (Inr (stored, created), t)"
    "dispositionInboxEntryFor (st_core st) stored scope (ad_TenantID req) (ad_SessionID req) (ad_CommandID req)
      (ct_Binding (ca_Record catalog)) = Inr entry"
    "created \<Longrightarrow> rec_Value stored = v"
    "checkDispositionWinner (dn_Record entry) (d\<lparr>dd_PublicCreate := public \<noteq> None\<rparr>) public = Inr ()"
proof -
  from assms(2) obtain scope d v r stored catalog u x w where
    *: "deriveSessionScope st (ad_TenantID req) (ad_SessionID req) = Inr scope"
    "dispositionDescriptor (st_core st) req = Inr d"
    "encodeDispositionInboxRecord (st_core st) \<lparr>di_Descriptor = d\<lparr>dd_PublicCreate := public \<noteq> None\<rparr>, di_AcceptedAt = ad_AcceptedAt req,
      di_ApplyDeadline = ad_ApplyDeadline req, di_State = InboxStatePending, di_Claim = None, di_Attempt = None,
      di_Outcome = None\<rparr> = Inr (v, r)"
    "readCatalogEntry st scope (ad_TenantID req) (ad_SessionID req) s = (Inr catalog, u)"
    "checkDispositionSession (st_core st) (ca_Record catalog) req public = Inr ()"
    "checkPayloadObject st req u = (Inr (), x)"
    and steps: "bindSessionScopeMode st scope ProtocolModeDisposition x = (Inr (), w)"
    and **: "oi_Create st (dispositionInboxID scope (ad_CommandID req)) (sc_SessionNamespace scope) v noRank (dispositionInboxDue r) w
       = (Inr (stored, created), t)"
    "dispositionInboxEntryFor (st_core st) stored scope (ad_TenantID req) (ad_SessionID req) (ad_CommandID req)
      (ct_Binding (ca_Record catalog)) = Inr entry"
    "created \<Longrightarrow> rec_Value stored = v"
    "checkDispositionWinner (dn_Record entry) (d\<lparr>dd_PublicCreate := public \<noteq> None\<rparr>) public = Inr ()"
    unfolding admitDispositionCommand_def Let_def
    by (elim bindE_InrE) (auto split: prod.split_asm if_split_asm elim!: bindE_InrE)
  have "grows hist x w" by (rule extendsD [OF extends_bindSessionScopeMode [OF assms(1)] steps])
  with * ** show thesis by (intro that)
qed

lemma checkDispositionSession_Inr:
  "checkDispositionSession c catalog req public = Inr u \<Longrightarrow> ct_Binding catalog = ad_Binding req \<and>
     sb_ProtocolMode (ad_Binding req) = ProtocolModeDisposition \<and>
     (\<forall>p. public = Some p \<longrightarrow> samePublicCreate c (Some p) (ct_PublicCreate catalog))"
  by (auto simp: checkDispositionSession_def split: if_split_asm option.split_asm)

lemma checkDispositionWinner_Inr:
  "checkDispositionWinner r d public = Inr u \<longleftrightarrow>
     dd_PublicCreate (di_Descriptor r) = dd_PublicCreate d \<and> dd_Kind (di_Descriptor r) = dd_Kind d \<and>
     dd_PayloadDigest (di_Descriptor r) = dd_PayloadDigest d \<and> dd_PayloadSize (di_Descriptor r) = dd_PayloadSize d \<and>
     dd_Principal (di_Descriptor r) = dd_Principal d \<and> dd_Metadata (di_Descriptor r) = dd_Metadata d \<and>
     (\<forall>p. public = Some p \<longrightarrow> dd_RuntimeCommandID (di_Descriptor r) = pr_RuntimeCommandID p \<and>
        EqualT (di_AcceptedAt r) (pr_AcceptedAt p) \<and> EqualT (di_ApplyDeadline r) (pr_ApplyDeadline p))"
  by (cases public) (auto simp: checkDispositionWinner_def Let_def)

text \<open>
  \<open>payload_named c inline object digest bytes\<close>: the payload a command carries, inline or as a committed
  object, is the one with this SHA-256 digest and this number of bytes.
\<close>

definition payload_named :: "core_lib \<Rightarrow> string \<Rightarrow> object_metadata option \<Rightarrow> string \<Rightarrow> nat \<Rightarrow> bool" where
  "payload_named c inline object digest bytes \<longleftrightarrow>
    (case object of
       None \<Rightarrow> digest = Sum256 inline \<and> bytes = length inline
     | Some m \<Rightarrow> inline = [] \<and> IsZero (om_CreatedAt m) \<and> bytes = unat (om_SizeBytes m) \<and>
         (\<exists>parsed. parseObjectMetadata c m = Inr parsed \<and> po_kind parsed = ObjectKindCommandPayload \<and>
            po_digest parsed = digest))"

lemma payload_of_valid:
  assumes "disposition_valid c r"
  shows "\<exists>digest. dd_PayloadDigest (di_Descriptor r) = hex_encode digest \<and>
    payload_named c (dd_Payload (di_Descriptor r)) (dd_PayloadObject (di_Descriptor r)) digest (unat (dd_PayloadSize (di_Descriptor r)))"
proof -
  have v: "validateDispositionPayload c (di_Descriptor r) = Inr ()" using assms unfolding disposition_valid_def by iprover
  show ?thesis
  proof (cases "dd_PayloadObject (di_Descriptor r)")
    case None
    with v have facts: "dd_PayloadDigest (di_Descriptor r) = hex_encode (Sum256 (dd_Payload (di_Descriptor r)))"
      "dd_PayloadSize (di_Descriptor r) = word_of_nat (length (dd_Payload (di_Descriptor r)))"
      "length (dd_Payload (di_Descriptor r)) \<le> MaxInboxPayloadBytes"
      by (simp_all add: validateDispositionPayload_def split: if_split_asm)
    from facts(3) have "length (dd_Payload (di_Descriptor r)) < 2 ^ LENGTH(64)" by (simp add: MaxInboxPayloadBytes_def)
    then have "unat (dd_PayloadSize (di_Descriptor r)) = length (dd_Payload (di_Descriptor r))"
      unfolding facts(2) by (simp add: unat_of_nat)
    with facts(1) None show ?thesis by (simp add: payload_named_def)
  next
    case (Some m)
    with v show ?thesis
      by (auto simp: validateDispositionPayload_def payload_named_def bindR_Inr_iff split: if_split_asm)
  qed
qed

text \<open>
  C18. A disposition admission that succeeds, created or found, answers with the stored row of the
  command the caller named, under the session's own disposition binding: same kind, principal and
  metadata, and the payload the caller sent, in that the caller's payload and the stored one, each inline
  or a committed object, are named by one SHA-256 digest and one length.  A payload object has been read
  from the store during the admission and has exactly the metadata the caller gave.  A caller told it
  created the row finds its own pending record at the first revision, with its own payload, object, runtime
  command and times (in UTC), and no row was stored there before.
\<close>

theorem disposition_admission_is_idempotent:
  assumes "oi_contract st hist" and "core_utf8 (st_core st)"
    and "admitDispositionCommand st req public s = (Inr (entry, created), t)"
  shows "\<exists>scope row d digest bytes. deriveSessionScope st (ad_TenantID req) (ad_SessionID req) = Inr scope \<and>
    hist t (dispositionInboxID scope (ad_CommandID req)) (dn_Revision entry) = Some row \<and>
    decodeDispositionInboxRecord (st_core st) (rec_Value row) = Inr (dn_Record entry) \<and>
    d = di_Descriptor (dn_Record entry) \<and> dd_CommandID d = ad_CommandID req \<and> dd_Binding d = ad_Binding req \<and>
    sb_ProtocolMode (ad_Binding req) = ProtocolModeDisposition \<and>
    dd_Kind d = ad_Kind req \<and> dd_Principal d = ad_Principal req \<and> dd_Metadata d = ad_Metadata req \<and>
    payload_named (st_core st) (ad_Payload req) (ad_PayloadObject req) digest bytes \<and>
    payload_named (st_core st) (dd_Payload d) (dd_PayloadObject d) digest bytes \<and>
    (dd_PayloadObject d = None \<and> ad_PayloadObject req = None \<longrightarrow>
       Sum256 (dd_Payload d) = Sum256 (ad_Payload req) \<and> length (dd_Payload d) = length (ad_Payload req)) \<and>
    (\<forall>m. ad_PayloadObject req = Some m \<longrightarrow> (\<exists>u x. grows hist s u \<and> grows hist x t \<and>
       GetObjectMetadata st \<lparr>gm_TenantID = ad_TenantID req, gm_SessionID = ad_SessionID req,
         gm_ExpectedKind = ObjectKindCommandPayload, gm_Reference = om_Reference m\<rparr> u = (Inr m, x))) \<and>
    (created \<longrightarrow> dn_Revision entry = 1 \<and> hist s (dispositionInboxID scope (ad_CommandID req)) 1 = None \<and>
       di_State (dn_Record entry) = InboxStatePending \<and> dd_Payload d = ad_Payload req \<and>
       dd_PayloadObject d = ad_PayloadObject req \<and> dd_RuntimeCommandID d = ad_ProposedRuntimeCommandID req \<and>
       di_AcceptedAt (dn_Record entry) = UTC (ad_AcceptedAt req) \<and>
       di_ApplyDeadline (dn_Record entry) = UTC (ad_ApplyDeadline req))"
proof (rule admitDispositionCommand_InrE [OF assms(1,3)])
  fix scope v stored u x w and d :: DispositionCommandDescriptor and r :: DispositionInboxRecord and catalog :: CatalogEntry
  let ?c = "st_core st" and ?i = "dispositionInboxID scope (ad_CommandID req)" and ?e = "di_Descriptor (dn_Record entry)"
  let ?r0 = "\<lparr>di_Descriptor = d\<lparr>dd_PublicCreate := public \<noteq> None\<rparr>, di_AcceptedAt = ad_AcceptedAt req,
      di_ApplyDeadline = ad_ApplyDeadline req, di_State = InboxStatePending, di_Claim = None, di_Attempt = None,
      di_Outcome = None\<rparr>"
  assume scope: "deriveSessionScope st (ad_TenantID req) (ad_SessionID req) = Inr scope"
    and desc: "dispositionDescriptor ?c req = Inr d"
    and enc: "encodeDispositionInboxRecord ?c ?r0 = Inr (v, r)"
    and get: "readCatalogEntry st scope (ad_TenantID req) (ad_SessionID req) s = (Inr catalog, u)"
    and session: "checkDispositionSession ?c (ca_Record catalog) req public = Inr ()"
    and checked: "checkPayloadObject st req u = (Inr (), x)" and grow: "grows hist x w"
    and create: "oi_Create st ?i (sc_SessionNamespace scope) v noRank (dispositionInboxDue r) w = (Inr (stored, created), t)"
    and entry: "dispositionInboxEntryFor ?c stored scope (ad_TenantID req) (ad_SessionID req) (ad_CommandID req)
      (ct_Binding (ca_Record catalog)) = Inr entry"
    and winner: "checkDispositionWinner (dn_Record entry) (d\<lparr>dd_PublicCreate := public \<noteq> None\<rparr>) public = Inr ()"
  note facts = dispositionInboxEntryFor_Inr [OF entry]
  note d = dispositionDescriptor_Inr [OF desc]
  note same = winner [unfolded checkDispositionWinner_Inr] and bound = checkDispositionSession_Inr [OF session]
  from enc have r: "r = disposition_stamped ?r0" and valid: "disposition_valid ?c ?r0" by (simp_all add: encodeDispositionInboxRecord_Inr)
  have su: "grows hist s u" by (rule extendsD [OF extends_readCatalogEntry [OF assms(1)] get])
  have ux: "grows hist u x" by (rule extendsD [OF extends_checkPayloadObject [OF assms(1)] checked])
  have "grows hist w t" by (rule extendsD [OF extends_provider(4) [OF assms(1)] create])
  with grow have xt: "grows hist x t" by (rule grows_trans)
  have object: "\<exists>u x. grows hist s u \<and> grows hist x t \<and>
       GetObjectMetadata st \<lparr>gm_TenantID = ad_TenantID req, gm_SessionID = ad_SessionID req,
         gm_ExpectedKind = ObjectKindCommandPayload, gm_Reference = om_Reference m\<rparr> u = (Inr m, x)"
    if "ad_PayloadObject req = Some m" for m
    using checked that su xt by (auto simp: checkPayloadObject_def elim!: bindE_InrE split: if_split_asm)
  from payload_of_valid [OF valid] d(6,7) obtain digest where
    own: "dd_PayloadDigest d = hex_encode digest" "payload_named ?c (ad_Payload req) (ad_PayloadObject req) digest (unat (dd_PayloadSize d))"
    by auto
  from payload_of_valid [OF decodedDisposition(3) [OF facts(2)]] same obtain digest' where
    "hex_encode digest' = hex_encode digest" "payload_named ?c (dd_Payload ?e) (dd_PayloadObject ?e) digest' (unat (dd_PayloadSize d))"
    using own(1) by auto
  then have found: "payload_named ?c (dd_Payload ?e) (dd_PayloadObject ?e) digest (unat (dd_PayloadSize d))"
    using hex_encode_inj by metis
  have payload: "Sum256 (dd_Payload ?e) = Sum256 (ad_Payload req) \<and> length (dd_Payload ?e) = length (ad_Payload req)"
    if "dd_PayloadObject ?e = None" "ad_PayloadObject req = None"
    using that found own(2) by (simp add: payload_named_def)
  have common: "dd_CommandID ?e = ad_CommandID req \<and> dd_Binding ?e = ad_Binding req \<and>
    sb_ProtocolMode (ad_Binding req) = ProtocolModeDisposition \<and>
    dd_Kind ?e = ad_Kind req \<and> dd_Principal ?e = ad_Principal req \<and> dd_Metadata ?e = ad_Metadata req"
    using facts(7,8) bound same d by simp
  obtain row where "hist t ?i (dn_Revision entry) = Some row \<and> decodeDispositionInboxRecord ?c (rec_Value row) = Inr (dn_Record entry) \<and>
    (created \<longrightarrow> dn_Revision entry = 1 \<and> hist s ?i 1 = None \<and>
       di_State (dn_Record entry) = InboxStatePending \<and> dd_Payload ?e = ad_Payload req \<and>
       dd_PayloadObject ?e = ad_PayloadObject req \<and> dd_RuntimeCommandID ?e = ad_ProposedRuntimeCommandID req \<and>
       di_AcceptedAt (dn_Record entry) = UTC (ad_AcceptedAt req) \<and>
       di_ApplyDeadline (dn_Record entry) = UTC (ad_ApplyDeadline req))"
  proof (cases created)
    case True
    then have new: "created_row ?i (sc_SessionNamespace scope) v noRank (dispositionInboxDue r) stored" "hist w ?i 1 = None" "hist t ?i 1 = Some stored"
      using oi_create_new [OF assms(1)] create by auto
    have "grows hist s w" by (rule grows_trans [OF grows_trans [OF su ux] grow])
    with new(2) have "hist s ?i 1 = None" using growsD [of hist s w ?i 1] by (cases "hist s ?i 1") auto
    moreover have "decodeDispositionInboxRecord ?c v = Inr r"
      using assms(2) enc r by (intro decodeDispositionInboxRecord_encode) (simp_all add: disposition_zones_def)
    with facts(2) new(1) have "dn_Record entry = r" by (simp add: created_row_def)
    ultimately show thesis using new facts(2,3) r d by (intro that [of stored]) (auto simp: created_row_def)
  next
    case False
    with oi_create_old [OF assms(1)] create have "hist t ?i (rec_Revision stored) = Some stored" by auto
    with facts(2,3) False show thesis by (intro that [of stored]) auto
  qed
  with scope common payload object own(2) found show ?thesis
    by (intro exI [of _ scope] exI [of _ row] exI [of _ ?e] exI [of _ digest] exI [of _ "unat (dd_PayloadSize d)"])
      (simp del: split_paired_Ex)
qed

subsection \<open>A public creation reserves one session\<close>

lemma publicCreateWinner_Inr:
  assumes "publicCreateWinner c stored scope identity = Inr r"
  shows "pr_Identity r = identity" "decodePublicCreate c (rec_Value stored) = Inr r" "rec_Revision stored = 1"
    "rec_ID stored = publicCreateID scope (pi_CommandID identity)"
  using assms by (auto simp: publicCreateWinner_def split: if_split_asm)

lemma extends_createCatalogEntry [extends_intros]:
  "oi_contract st hist \<Longrightarrow> extends hist (createCatalogEntry st req public)"
  unfolding createCatalogEntry_def Let_def by (intro extends_intros)

lemma PreparePublicCreate_InrE:
  assumes "PreparePublicCreate st req s = (Inr prepared, t)"
  obtains scope v r0 u w stored created made where
    "deriveSessionScope st (pi_TenantID (pp_Identity req)) (pi_SessionID (pp_Identity req)) = Inr scope"
    "sc_layout scope = layoutTenantV1"
    "bindSessionScopeMode st scope ProtocolModeDisposition s = (Inr (), u)"
    "oi_Create st (publicCreateID scope (pi_CommandID (pp_Identity req))) (sc_TenantNamespace scope) v noRank NoDue u
       = (Inr (stored, created), w)"
    "publicCreateWinner (st_core st) stored scope (pp_Identity req) = Inr (pq_Reservation prepared)"
    "createCatalogEntry st (publicCreateCatalogRequest (st_core st) (pq_Reservation prepared)) (Some (pq_Reservation prepared)) w
       = (Inr (pq_Catalog prepared, made), t)"
  using assms unfolding PreparePublicCreate_def Let_def
  by (auto elim!: bindE_InrE split: prod.split_asm if_split_asm)

lemma extends_PreparePublicCreate [extends_intros]:
  "oi_contract st hist \<Longrightarrow> extends hist (PreparePublicCreate st req)"
  unfolding PreparePublicCreate_def Let_def by (intro extends_intros)

text \<open>The namespace a tenant's reservations are filed under does not depend on the session.\<close>

lemma tenant_namespace_of_tenant:
  "deriveSessionScope st tenant session = Inr scope \<Longrightarrow> deriveSessionScope st tenant session' = Inr scope' \<Longrightarrow>
     sc_TenantNamespace scope' = sc_TenantNamespace scope"
  by (auto simp: deriveSessionScope_def Let_def split: if_split_asm)

text \<open>
  C19. A tenant's command id reserves one session for good: two successful preparations under one tenant
  and command, whatever ran between them, name one identity (session, target, binding, kind and payload)
  and return one reservation, the first one's runtime command, times and workload; and the catalog entry
  each returns is that session's, made from that reservation.
\<close>

theorem public_create_reserves_one_session:
  assumes "oi_contract st hist" and "core_utf8 (st_core st)" and "core_instants (st_core st)"
    and "PreparePublicCreate st req s = (Inr prepared, t)" and "grows hist t s'"
    and "PreparePublicCreate st req' s' = (Inr prepared', t')"
    and "pi_TenantID (pp_Identity req') = pi_TenantID (pp_Identity req)"
    and "pi_CommandID (pp_Identity req') = pi_CommandID (pp_Identity req)"
  shows "pp_Identity req' = pp_Identity req \<and> pq_Reservation prepared' = pq_Reservation prepared \<and>
    pr_Identity (pq_Reservation prepared) = pp_Identity req \<and>
    ct_SessionID (ca_Record (pq_Catalog prepared')) = pi_SessionID (pp_Identity req) \<and>
    samePublicCreate (st_core st) (Some (pq_Reservation prepared)) (ct_PublicCreate (ca_Record (pq_Catalog prepared')))"
proof -
  let ?i = "pp_Identity req" and ?i' = "pp_Identity req'"
  have row: "\<exists>scope row made. deriveSessionScope st (pi_TenantID (pp_Identity req)) (pi_SessionID (pp_Identity req)) = Inr scope \<and>
      sc_layout scope = layoutTenantV1 \<and> hist t (publicCreateID scope (pi_CommandID (pp_Identity req))) 1 = Some row \<and>
      decodePublicCreate (st_core st) (rec_Value row) = Inr (pq_Reservation prepared) \<and>
      pr_Identity (pq_Reservation prepared) = pp_Identity req \<and>
      (\<exists>w. createCatalogEntry st (publicCreateCatalogRequest (st_core st) (pq_Reservation prepared)) (Some (pq_Reservation prepared)) w
       = (Inr (pq_Catalog prepared, made), t))"
    if "PreparePublicCreate st req s = (Inr prepared, t)" for req s prepared t
    using that
  proof (rule PreparePublicCreate_InrE)
    fix scope v u w stored created made
    let ?id = "publicCreateID scope (pi_CommandID (pp_Identity req))"
    assume scope: "deriveSessionScope st (pi_TenantID (pp_Identity req)) (pi_SessionID (pp_Identity req)) = Inr scope"
      "sc_layout scope = layoutTenantV1"
      and create: "oi_Create st ?id (sc_TenantNamespace scope) v noRank NoDue u = (Inr (stored, created), w)"
      and winner: "publicCreateWinner (st_core st) stored scope (pp_Identity req) = Inr (pq_Reservation prepared)"
      and catalog: "createCatalogEntry st (publicCreateCatalogRequest (st_core st) (pq_Reservation prepared)) (Some (pq_Reservation prepared)) w
       = (Inr (pq_Catalog prepared, made), t)"
    note win = publicCreateWinner_Inr [OF winner]
    have "hist w ?id 1 = Some stored"
    proof (cases created)
      case True
      with oi_create_new [OF assms(1)] create show ?thesis by auto
    next
      case False
      with oi_create_old [OF assms(1)] create win(3) show ?thesis by metis
    qed
    from growsD [OF extendsD [OF extends_createCatalogEntry [OF assms(1)] catalog] this]
    have "hist t ?id 1 = Some stored" .
    with scope win catalog show ?thesis by blast
  qed
  from row [OF assms(4)] obtain scope r where scope: "deriveSessionScope st (pi_TenantID ?i) (pi_SessionID ?i) = Inr scope" "sc_layout scope = layoutTenantV1"
    and r: "hist t (publicCreateID scope (pi_CommandID ?i)) 1 = Some r" "decodePublicCreate (st_core st) (rec_Value r) = Inr (pq_Reservation prepared)"
    and id: "pr_Identity (pq_Reservation prepared) = ?i" by blast
  from row [OF assms(6)] obtain scope' r' w' made' where scope': "deriveSessionScope st (pi_TenantID ?i') (pi_SessionID ?i') = Inr scope'" "sc_layout scope' = layoutTenantV1"
    and r': "hist t' (publicCreateID scope' (pi_CommandID ?i')) 1 = Some r'" "decodePublicCreate (st_core st) (rec_Value r') = Inr (pq_Reservation prepared')"
    and id': "pr_Identity (pq_Reservation prepared') = ?i'"
    and catalog: "createCatalogEntry st (publicCreateCatalogRequest (st_core st) (pq_Reservation prepared')) (Some (pq_Reservation prepared')) w'
       = (Inr (pq_Catalog prepared', made'), t')" by blast
  have "sc_TenantNamespace scope' = sc_TenantNamespace scope"
    using scope scope' assms(7) tenant_namespace_of_tenant by metis
  then have same: "publicCreateID scope' (pi_CommandID ?i') = publicCreateID scope (pi_CommandID ?i)"
    using assms(8) by (simp add: publicCreateID_def)
  have "grows hist t t'" using grows_trans [OF assms(5)] extends_PreparePublicCreate [OF assms(1)] assms(6) extendsD by metis
  from growsD [OF this r(1)] r'(1) same have "r' = r" by simp
  with r r' have res: "pq_Reservation prepared' = pq_Reservation prepared" by simp
  with id id' have ident: "?i' = ?i" by simp
  have "ct_SessionID (ca_Record (pq_Catalog prepared')) = cn_SessionID (publicCreateCatalogRequest (st_core st) (pq_Reservation prepared')) \<and>
    samePublicCreate (st_core st) (Some (pq_Reservation prepared')) (ct_PublicCreate (ca_Record (pq_Catalog prepared')))"
    using catalog
  proof (rule createCatalogEntry_InrE)
  qed (auto dest: catalogEntry_Inr)
  with res id ident show ?thesis by (simp add: publicCreateCatalogRequest_def Let_def)
qed

lemma AdmitPublicCreate_InrE:
  assumes "AdmitPublicCreate st req s = (Inr (entry, created), t)"
  obtains d scope stored r u w where
    "dispositionDescriptor (st_core st) (publicAdmission req [] zeroTime zeroTime) = Inr d"
    "deriveSessionScope st (pi_TenantID (ap_Identity req)) (pi_SessionID (ap_Identity req)) = Inr scope"
    "dd_PayloadDigest d = pi_PayloadDigest (ap_Identity req)" "dd_PayloadSize d = pi_PayloadSize (ap_Identity req)"
    "oi_Get st (publicCreateID scope (pi_CommandID (ap_Identity req))) u = (Inr stored, w)"
    "publicCreateWinner (st_core st) stored scope (ap_Identity req) = Inr r"
    "admitDispositionCommand st (publicAdmission req (pr_RuntimeCommandID r) (pr_AcceptedAt r) (pr_ApplyDeadline r)) (Some r) w
      = (Inr (entry, created), t)"
  using assms unfolding AdmitPublicCreate_def Let_def
  by (auto elim!: bindE_InrE split: prod.split_asm if_split_asm)

lemma extends_admitDispositionCommand [extends_intros]:
  "oi_contract st hist \<Longrightarrow> extends hist (admitDispositionCommand st req public)"
  unfolding admitDispositionCommand_def Let_def by (intro extends_intros)

lemma publicAdmission_payload:
  assumes "dispositionDescriptor c (publicAdmission req runtime accepted deadline) = Inr d"
    and "dispositionDescriptor c (publicAdmission req runtime' accepted' deadline') = Inr d'"
  shows "dd_PayloadDigest d' = dd_PayloadDigest d" "dd_PayloadSize d' = dd_PayloadSize d"
  using assms by (auto simp: dispositionDescriptor_def publicAdmission_def validateDispositionAttribution_def Let_def
      split: option.split_asm if_split_asm)

text \<open>
  C20. Admitting the command that creates a session admits what was reserved: there is a reservation of
  exactly the caller's identity, and the command stored is marked as the creating one, with the
  reservation's runtime command and times and the identity's payload digest and size, whoever admitted it.
\<close>

theorem public_create_admits_what_was_reserved:
  assumes "oi_contract st hist" and "AdmitPublicCreate st req s = (Inr (entry, created), t)"
  shows "\<exists>scope row r. deriveSessionScope st (pi_TenantID (ap_Identity req)) (pi_SessionID (ap_Identity req)) = Inr scope \<and>
    hist t (publicCreateID scope (pi_CommandID (ap_Identity req))) 1 = Some row \<and>
    decodePublicCreate (st_core st) (rec_Value row) = Inr r \<and> pr_Identity r = ap_Identity req \<and>
    dd_PublicCreate (di_Descriptor (dn_Record entry)) \<and>
    dd_RuntimeCommandID (di_Descriptor (dn_Record entry)) = pr_RuntimeCommandID r \<and>
    EqualT (di_AcceptedAt (dn_Record entry)) (pr_AcceptedAt r) \<and>
    EqualT (di_ApplyDeadline (dn_Record entry)) (pr_ApplyDeadline r) \<and>
    dd_PayloadDigest (di_Descriptor (dn_Record entry)) = pi_PayloadDigest (ap_Identity req) \<and>
    dd_PayloadSize (di_Descriptor (dn_Record entry)) = pi_PayloadSize (ap_Identity req)"
  using assms(2)
proof (rule AdmitPublicCreate_InrE)
  fix d scope stored u w and r :: PublicCreateReservation
  let ?id = "publicCreateID scope (pi_CommandID (ap_Identity req))"
  let ?req = "publicAdmission req (pr_RuntimeCommandID r) (pr_AcceptedAt r) (pr_ApplyDeadline r)"
  assume desc: "dispositionDescriptor (st_core st) (publicAdmission req [] zeroTime zeroTime) = Inr d"
    and scope: "deriveSessionScope st (pi_TenantID (ap_Identity req)) (pi_SessionID (ap_Identity req)) = Inr scope"
    and payload: "dd_PayloadDigest d = pi_PayloadDigest (ap_Identity req)" "dd_PayloadSize d = pi_PayloadSize (ap_Identity req)"
    and get: "oi_Get st ?id u = (Inr stored, w)"
    and winner: "publicCreateWinner (st_core st) stored scope (ap_Identity req) = Inr r"
    and admit: "admitDispositionCommand st ?req (Some r) w = (Inr (entry, created), t)"
  note win = publicCreateWinner_Inr [OF winner]
  have "hist w ?id 1 = Some stored" using oi_get [OF assms(1) get] win(3) by simp
  from growsD [OF extendsD [OF extends_admitDispositionCommand [OF assms(1)] admit] this]
  have row: "hist t ?id 1 = Some stored" .
  obtain d' where d': "dispositionDescriptor (st_core st) ?req = Inr d'"
    and same: "checkDispositionWinner (dn_Record entry) (d'\<lparr>dd_PublicCreate := Some r \<noteq> None\<rparr>) (Some r) = Inr ()"
    by (rule admitDispositionCommand_InrE [OF assms(1) admit])
  show ?thesis
    using scope row win same [unfolded checkDispositionWinner_Inr] publicAdmission_payload [OF desc d'] payload by auto
qed

end
