(* ===== verification/Disposition_Witnesses.thy ===== *)
theory Disposition_Witnesses
  imports Catalog_Witnesses Public_Create
begin

text \<open>
  The disposition protocol on the in-memory provider: a session bound to it, a command admitted with a
  committed payload object, claimed by a resident Host, applying, and settled by an evidence reader.
\<close>

definition w_object :: object_metadata where
  "w_object = \<lparr>om_Reference = objectIDFor ObjectKindCommandPayload (encodeObjectGeneration (replicate 16 (CHR ''g'')))
       (hex_encode (replicate 32 (CHR ''d''))), om_SizeBytes = 5,
     om_Digest = objectDigestPrefix @ hex_encode (replicate 32 (CHR ''d'')), om_MediaType = ''text/plain'', om_CreatedAt = zeroTime\<rparr>"

definition w_admit_d :: AdmitDispositionCommandRequest where
  "w_admit_d = \<lparr>ad_TenantID = ''t1'', ad_SessionID = ''s1'', ad_CommandID = ''c1'', ad_Binding = w_binding,
     ad_ProposedRuntimeCommandID = ''0123456789abcdef'', ad_Kind = ''input'', ad_Payload = [], ad_PayloadObject = Some w_object,
     ad_AcceptedAt = w_time, ad_ApplyDeadline = \<lparr>t_ns = 1700000600000000000, t_zone = 0\<rparr>, ad_Principal = Some ''p'',
     ad_Metadata = [(''k'', ''v'')]\<rparr>"

definition w_d0 :: mem where
  "w_d0 = snd (kv_Put mem_store (objectMetadataKey w_scope (projr (parseObjectMetadata mem_core w_object))) 0
     (projr (encodeObjectMetadataRecord ''t1'' ''s1'' w_object)) w_bound)"

definition w_drecord :: DispositionInboxRecord where
  "w_drecord = \<lparr>di_Descriptor = projr (dispositionDescriptor mem_core w_admit_d), di_AcceptedAt = UTC w_time,
     di_ApplyDeadline = \<lparr>t_ns = 1700000600000000000, t_zone = 0\<rparr>, di_State = InboxStatePending, di_Claim = None,
     di_Attempt = None, di_Outcome = None\<rparr>"

definition w_attempt :: DispositionAttempt where
  "w_attempt = \<lparr>da_AttemptID = ''at1'', da_JournalEpoch = 7, da_ResidencyEpoch = 1, da_StartedAt = UTC w_time\<rparr>"

definition w_dapplying :: DispositionInboxRecord where
  "w_dapplying = w_drecord\<lparr>di_State := InboxStateApplying,
     di_Claim := Some \<lparr>dc_ResidencyEpoch = 1, dc_ExpiresAt = w_expiry\<rparr>, di_Attempt := Some w_attempt\<rparr>"

definition w_drow :: "u64 \<Rightarrow> DispositionInboxRecord \<Rightarrow> ordered_record" where
  "w_drow n r = \<lparr>rec_ID = dispositionInboxID w_scope ''c1'', rec_RankingScope = sc_SessionNamespace w_scope,
     rec_Value = fst (projr (encodeDispositionInboxRecord mem_core r)), rec_Revision = n, rec_Order = 1,
     rec_Rank = noRank, rec_Due = dispositionInboxDue r, rec_Deleted = False\<rparr>"

definition w_d1 :: mem where "w_d1 = (let m = w_bound in m\<lparr>mem_rows := w_drow 1 w_drecord # mem_rows m\<rparr>)"
definition w_d3 :: mem where "w_d3 = (let m = w_bound in m\<lparr>mem_rows := w_drow 3 w_dapplying # mem_rows m\<rparr>)"

definition w_grant :: ResidencyGrant where
  "w_grant = \<lparr>rg_store = 1, rg_tenant = ''t1'', rg_session = ''s1'', rg_lease = 0, rg_epoch = 1, rg_released = False\<rparr>"

definition w_get_d :: GetDispositionCommandRequest where
  "w_get_d = \<lparr>gd_TenantID = ''t1'', gd_SessionID = ''s1'', gd_CommandID = ''c1''\<rparr>"

definition w_claim_d :: ClaimDispositionCommandRequest where
  "w_claim_d = \<lparr>kd_TenantID = ''t1'', kd_SessionID = ''s1'', kd_CommandID = ''c1'', kd_ExpectedRevision = 1,
     kd_Residency = Some w_grant, kd_ClaimExpiresAt = w_expiry\<rparr>"

definition w_reject_d :: RejectDispositionCommandRequest where
  "w_reject_d = \<lparr>xd_TenantID = ''t1'', xd_SessionID = ''s1'', xd_CommandID = ''c1'', xd_ExpectedRevision = 1, xd_ResidencyEpoch = 0\<rparr>"

definition w_settle_d :: SettleDispositionCommandRequest where
  "w_settle_d = \<lparr>sd_TenantID = ''t1'', sd_SessionID = ''s1'', sd_CommandID = ''c1'', sd_ExpectedRevision = 3, sd_ResidencyEpoch = 2\<rparr>"

definition w_evidence :: DispositionEvidence where
  "w_evidence = \<lparr>de_AttemptID = ''at1'', de_Kind = DispositionNotApplied, de_AttemptJournalEpoch = 7, de_AuthorJournalEpoch = 8,
     de_DispositionSeq = 12, de_AuthorFenceSeq = 9, de_EventID = [], de_EventSeq = 0\<rparr>"

definition ev_store :: "mem store" where
  "ev_store = mem_store\<lparr>st_evidence := Some (\<lambda>req m. (Inr w_evidence, m))\<rparr>"

lemma ev_oi_contract: "oi_contract ev_store mem_version"
  using mem_oi_contract
  by (simp add: ev_store_def oi_contract_def calls_extend_def get_law_def create_law_def update_law_def extends_def)

lemma w_admits_d:
  "(case admitDispositionCommand mem_store w_admit_d None w_d0 of (Inr (e, changed), t) \<Rightarrow> changed | _ \<Rightarrow> False)" by code_simp
lemma w_gets_d:
  "(case GetDispositionCommand mem_store w_get_d w_d1 of (Inr e, t) \<Rightarrow> dn_Revision e = 1 \<and> t = w_d1 | _ \<Rightarrow> False)" by code_simp
lemma w_claims_d: "(case ClaimDispositionCommand mem_store w_claim_d w_d1 of (Inr (e, changed), t) \<Rightarrow> changed | _ \<Rightarrow> False)" by code_simp
lemma w_settles_d: "(case SettleDispositionCommand ev_store w_settle_d w_d3 of (Inr (e, changed), t) \<Rightarrow> changed | _ \<Rightarrow> False)" by code_simp

theorem disposition_codec_is_strict_witness:
  "\<exists>v r. encodeDispositionInboxRecord mem_core w_dapplying = Inr (v, r) \<and> decodeDispositionInboxRecord mem_core v = Inr r"
proof -
  have "isOK (encodeDispositionInboxRecord mem_core w_dapplying)" by code_simp
  then obtain v r where enc: "encodeDispositionInboxRecord mem_core w_dapplying = Inr (v, r)" by (auto elim!: isOK_E)
  have "disposition_stamped w_dapplying = w_dapplying"
    by (simp add: disposition_stamped_def w_dapplying_def w_drecord_def w_attempt_def UTC_def)
  with enc have r: "r = w_dapplying" by (simp add: encodeDispositionInboxRecord_Inr)
  with enc have "encodeDispositionInboxRecord mem_core r = Inr (v, r)" by simp
  moreover have "disposition_zones r"
    by (simp add: r disposition_zones_def w_dapplying_def w_drecord_def w_attempt_def w_expiry_def minute_zone_def)
  ultimately show ?thesis using enc disposition_codec_is_strict [OF mem_core_utf8] by blast
qed

theorem disposition_claim_zone_may_not_read_back_witness:
  "\<exists>v r. encodeDispositionInboxRecord mem_core (w_dapplying\<lparr>di_Claim := Some \<lparr>dc_ResidencyEpoch = 1, dc_ExpiresAt = w_expiry\<lparr>t_zone := 30\<rparr>\<rparr>\<rparr>) = Inr (v, r) \<and>
     (\<forall>q. decodeDispositionInboxRecord mem_core v \<noteq> Inr q)"
proof -
  let ?r = "w_dapplying\<lparr>di_Claim := Some \<lparr>dc_ResidencyEpoch = 1, dc_ExpiresAt = w_expiry\<lparr>t_zone := 30\<rparr>\<rparr>\<rparr>"
  have "isOK (encodeDispositionInboxRecord mem_core ?r)" by code_simp
  then obtain v r where enc: "encodeDispositionInboxRecord mem_core ?r = Inr (v, r)" by (auto elim!: isOK_E)
  have "decodeDispositionInboxRecord mem_core v \<noteq> Inr q" for q
    by (rule disposition_claim_zone_may_not_read_back [OF enc], simp, simp_all add: w_expiry_def)
  with enc show ?thesis by blast
qed

theorem disposition_inbox_refines_lifecycle_witness:
  "\<exists>entry t scope. ClaimDispositionCommand mem_store w_claim_d w_d1 = (Inr (entry, True), t) \<and>
     disposition_refines mem_store mem_version w_d1 t scope ''c1'' 1 entry"
proof -
  obtain entry t where run: "ClaimDispositionCommand mem_store w_claim_d w_d1 = (Inr (entry, True), t)"
    using w_claims_d by (rule isOK_changedE)
  then have op: "runDispositionOp mem_store (ClaimDisposition w_claim_d) w_d1 = (Inr (entry, True), t)" by simp
  have zone: "minute_zone (disposition_time (st_Now mem_store w_d1) (ClaimDisposition w_claim_d))"
    by (simp add: w_claim_d_def w_expiry_def minute_zone_def)
  have target: "disposition_target (ClaimDisposition w_claim_d) = (''t1'', ''s1'', ''c1'', 1)" by (simp add: w_claim_d_def)
  from disposition_inbox_refines_lifecycle [OF mem_oi_contract mem_utf8 zone op target] run show ?thesis by auto
qed

theorem disposition_transition_has_one_winner_witness:
  "\<exists>entry t. ClaimDispositionCommand mem_store w_claim_d w_d1 = (Inr (entry, True), t) \<and>
     (\<forall>entry' t'. ClaimDispositionCommand mem_store w_claim_d t \<noteq> (Inr (entry', True), t'))"
proof -
  obtain entry t where run: "ClaimDispositionCommand mem_store w_claim_d w_d1 = (Inr (entry, True), t)"
    using w_claims_d by (rule isOK_changedE)
  then have op: "runDispositionOp mem_store (ClaimDisposition w_claim_d) w_d1 = (Inr (entry, True), t)" by simp
  have zone: "minute_zone (disposition_time now (ClaimDisposition w_claim_d))" for now
    by (simp add: w_claim_d_def w_expiry_def minute_zone_def)
  from disposition_transition_has_one_winner [OF mem_oi_contract mem_utf8 zone zone op grows_refl refl] run
  show ?thesis by simp
qed

theorem disposition_lifecycle_invariants_witness:
  "\<exists>e f t. GetDispositionCommand mem_store w_get_d w_d1 = (Inr e, w_d1) \<and>
     ClaimDispositionCommand mem_store w_claim_d w_d1 = (Inr (f, True), t) \<and>
     disposition_run mem_store mem_version (''t1'', ''s1'', ''c1'') w_d1 e t f \<and>
     di_Descriptor (dn_Record f) = di_Descriptor (dn_Record e)"
proof -
  obtain e where get: "GetDispositionCommand mem_store w_get_d w_d1 = (Inr e, w_d1)" and e: "dn_Revision e = 1"
    using w_gets_d by (auto split: prod.split_asm sum.split_asm)
  obtain f t where claim: "ClaimDispositionCommand mem_store w_claim_d w_d1 = (Inr (f, True), t)"
    using w_claims_d by (rule isOK_changedE)
  have key: "(gd_TenantID w_get_d, gd_SessionID w_get_d, gd_CommandID w_get_d) = (''t1'', ''s1'', ''c1'')" by (simp add: w_get_d_def)
  have target: "disposition_target (ClaimDisposition w_claim_d) = (''t1'', ''s1'', ''c1'', dn_Revision e)"
    by (simp add: w_claim_d_def e)
  have zone: "minute_zone (disposition_time now (ClaimDisposition w_claim_d))" for now
    by (simp add: w_claim_d_def w_expiry_def minute_zone_def)
  have run: "disposition_run mem_store mem_version (gd_TenantID w_get_d, gd_SessionID w_get_d, gd_CommandID w_get_d) w_d1 e t f"
    by (rule disposition_run.Op [OF disposition_run.Start grows_refl key target zone]) (simp add: claim)
  from disposition_lifecycle_invariants [OF mem_oi_contract mem_utf8 get run refl refl] get claim run
  show ?thesis unfolding key by blast
qed

theorem settlement_rests_on_evidence_witness:
  "\<exists>entry t. SettleDispositionCommand ev_store w_settle_d w_d3 = (Inr (entry, True), t) \<and>
     di_State (dn_Record entry) = InboxStateRejected"
proof -
  obtain entry t where run: "SettleDispositionCommand ev_store w_settle_d w_d3 = (Inr (entry, True), t)"
    using w_settles_d by (rule isOK_changedE)
  have "core_utf8 (st_core ev_store)" using mem_utf8 by (simp add: ev_store_def)
  moreover have "t_zone (st_Now ev_store w_d3) = 0" by code_simp
  then have "minute_zone (st_Now ev_store w_d3)" by simp
  ultimately obtain read evidence u w req where "st_evidence ev_store = Some read" "read req u = (Inr evidence, w)"
    "di_State (dn_Record entry) = terminalState (de_Kind evidence)"
    using settlement_rests_on_evidence [OF ev_oi_contract _ _ run] by blast
  then have "di_State (dn_Record entry) = InboxStateRejected"
    by (auto simp: ev_store_def w_evidence_def terminalState_def)
  with run show ?thesis by blast
qed

theorem disposition_admission_is_idempotent_witness:
  "\<exists>entry t digest. admitDispositionCommand mem_store w_admit_d None w_d0 = (Inr (entry, True), t) \<and>
     dd_PayloadObject (di_Descriptor (dn_Record entry)) = Some w_object \<and>
     payload_named mem_core [] (Some w_object) digest 5 \<and>
     (\<exists>u x. GetObjectMetadata mem_store \<lparr>gm_TenantID = ''t1'', gm_SessionID = ''s1'',
        gm_ExpectedKind = ObjectKindCommandPayload, gm_Reference = om_Reference w_object\<rparr> u = (Inr w_object, x))"
proof -
  obtain entry t where run: "admitDispositionCommand mem_store w_admit_d None w_d0 = (Inr (entry, True), t)"
    using w_admits_d by (rule isOK_changedE)
  have req: "ad_PayloadObject w_admit_d = Some w_object" "ad_Payload w_admit_d = []"
    "ad_TenantID w_admit_d = ''t1''" "ad_SessionID w_admit_d = ''s1''" "st_core mem_store = mem_core"
    by (simp_all add: w_admit_d_def mem_store_def)
  have "bytes = 5" if "payload_named mem_core [] (Some w_object) digest bytes" for digest bytes
    using that by (simp add: payload_named_def w_object_def)
  with disposition_admission_is_idempotent [OF mem_oi_contract mem_utf8 run] run show ?thesis unfolding req by auto
qed

text \<open>The creating command of a session: reserved twice, then admitted.\<close>

definition w_public :: PublicCreateIdentity where
  "w_public = (pr_Identity w_reservation)\<lparr>pi_Kind := ''input'', pi_PayloadDigest := hex_encode (replicate 32 (CHR ''d'')), pi_PayloadSize := 5\<rparr>"

definition w_prepare :: PreparePublicCreateRequest where
  "w_prepare = \<lparr>pp_Identity = w_public, pp_ProposedRuntimeCommandID = ''0123456789abcdef'', pp_AcceptedAt = w_time,
     pp_ApplyDeadline = \<lparr>t_ns = 1700000600000000000, t_zone = 0\<rparr>, pp_InitialWorkload = zeroWorkload\<rparr>"

definition w_admit_p :: AdmitPublicCreateRequest where
  "w_admit_p = \<lparr>ap_Identity = w_public, ap_Payload = [], ap_PayloadObject = Some w_object, ap_Principal = Some ''p'',
     ap_Metadata = [(''k'', ''v'')]\<rparr>"

definition w_preservation :: PublicCreateReservation where
  "w_preservation = snd (projr (encodePublicCreate mem_core \<lparr>pr_Identity = w_public, pr_RuntimeCommandID = ''0123456789abcdef'',
     pr_AcceptedAt = w_time, pr_ApplyDeadline = \<lparr>t_ns = 1700000600000000000, t_zone = 0\<rparr>, pr_InitialWorkload = zeroWorkload\<rparr>))"

text \<open>The provider after the reservation and the catalog record made from it.\<close>

definition w_p1 :: mem where
  "w_p1 = (let r = w_preservation; cat = publicCreateCatalogRecord mem_core r in
     w_d0\<lparr>mem_rows :=
       [\<lparr>rec_ID = catalogID w_scope ''s1'', rec_RankingScope = sc_CatalogScope w_scope,
          rec_Value = projr (encodeCatalogRecord mem_core cat), rec_Revision = 1, rec_Order = 2,
          rec_Rank = catalogRank cat, rec_Due = NoDue, rec_Deleted = False\<rparr>,
        \<lparr>rec_ID = publicCreateID w_scope ''c1'', rec_RankingScope = sc_TenantNamespace w_scope,
          rec_Value = fst (projr (encodePublicCreate mem_core r)), rec_Revision = 1, rec_Order = 1,
          rec_Rank = noRank, rec_Due = NoDue, rec_Deleted = False\<rparr>]\<rparr>)"

lemma w_prepares:
  "(case PreparePublicCreate mem_store w_prepare w_p1 of (Inr p, t) \<Rightarrow> t = w_p1 | _ \<Rightarrow> False)" by code_simp
lemma w_admits_p: "isOK (fst (AdmitPublicCreate mem_store w_admit_p w_p1))" by code_simp

theorem public_create_reserves_one_session_witness:
  "\<exists>p. PreparePublicCreate mem_store w_prepare w_p1 = (Inr p, w_p1) \<and> pr_Identity (pq_Reservation p) = w_public"
proof -
  obtain p where run: "PreparePublicCreate mem_store w_prepare w_p1 = (Inr p, w_p1)"
    using w_prepares by (auto split: prod.split_asm sum.split_asm)
  from public_create_reserves_one_session [OF mem_oi_contract mem_utf8 mem_instants run grows_refl run refl refl]
  show ?thesis using run by (simp add: w_prepare_def)
qed

theorem public_create_admits_what_was_reserved_witness:
  "\<exists>entry created. fst (AdmitPublicCreate mem_store w_admit_p w_p1) = Inr (entry, created) \<and>
     dd_PublicCreate (di_Descriptor (dn_Record entry))"
proof -
  obtain entry created t where run: "AdmitPublicCreate mem_store w_admit_p w_p1 = (Inr (entry, created), t)"
    using w_admits_p by (auto elim!: isOK_pairE)
  with public_create_admits_what_was_reserved [OF mem_oi_contract run] show ?thesis by auto
qed

end
