(* ===== verification/Object_Store.thy ===== *)
theory Object_Store
  imports Disposition_Inbox Envelope Object_Stream
begin

text \<open>
  \<^verbatim>\<open>objects.go\<close>, the operations: an object is uploaded through a verifier, read back through another,
  and only then is its metadata committed; a reader of an object is behind a verifier too.  Journal
  bodies above a threshold are objects (\<^verbatim>\<open>journal.go\<close> writes them, \<^verbatim>\<open>journal_reader.go\<close> resolves them).
\<close>

subsection \<open>Upload\<close>

record PutObjectRequest =
  pt_TenantID :: string
  pt_SessionID :: string
  pt_Kind :: ObjectKind
  pt_SizeBytes :: u64
  pt_SHA256 :: string
  pt_MediaType :: string
  pt_Body :: "byte_source option"

text \<open>\<^verbatim>\<open>io.Copy\<close> to \<^verbatim>\<open>io.Discard\<close> reads 8192 bytes at a time; of two errors joined the first is kept.\<close>

definition verifyPersisted :: "'s store \<Rightarrow> string \<Rightarrow> u64 \<Rightarrow> string \<Rightarrow> ('s, unit) store_op" where
  "verifyPersisted st key expected digest =
    bindE (classifyE (\<lambda>_. objectErr ObjectErrorBackend ''post_get'') (bl_Get st key)) (\<lambda>stored. case stored of
      None \<Rightarrow> failE (objectErr ObjectErrorBackend ''post_get'')
    | Some reader \<Rightarrow>
        bindE (askE (st_StreamCtx st)) (\<lambda>ctx.
        case fst (drain (\<lambda>_. 8191) ctx 0 [] (newBackendExactVerifier (bq_source reader) expected digest)) of
          Inl e \<Rightarrow> failE e
        | Inr _ \<Rightarrow> if bq_close reader then failE (objectErr ObjectErrorBackend ''post_close'') else returnE ()))"

text \<open>The upload proper, and what its outcome says of the verifier it was given.\<close>

definition putVerified :: "'s store \<Rightarrow> string \<Rightarrow> exactVerifier \<Rightarrow> ('s, unit) store_op" where
  "putVerified st key v = (\<lambda>s. case bl_Put st key v s of (r, v1, t) \<Rightarrow>
    ((case (r, ev_failure v1) of
        (Inl _, Some failure) \<Rightarrow> Inl failure
      | (Inl e, None) \<Rightarrow> Inl (objectErr (if e = BlobConflictError key then ObjectErrorConflict else ObjectErrorBackend)
                          (if e = BlobConflictError key then ''blob'' else ''put''))
      | (Inr _, failure) \<Rightarrow>
          if ev_verified v1 then Inr ()
          else (case failure of Some e \<Rightarrow> Inl e | None \<Rightarrow> Inl (objectErr ObjectErrorIntegrity ''put_eof''))), t))"

definition putObject :: "'s store \<Rightarrow> PutObjectRequest \<Rightarrow> ProtocolMode \<Rightarrow> ('s, object_metadata) store_op" where
  "putObject st req mode =
    (if \<not> kind_valid (pt_Kind req) then failE (objectErr ObjectErrorInvalid ''kind'')
     else case pt_Body req of
       None \<Rightarrow> failE (objectErr ObjectErrorInvalid ''body'')
     | Some body \<Rightarrow>
         if pt_SHA256 req = replicate 32 (CHR 0x00) then failE (objectErr ObjectErrorInvalid ''sha256'')
         else
           bindE (liftE (validateMediaType (pt_MediaType req))) (\<lambda>_.
           bindE (liftE (deriveSessionScope st (pt_TenantID req) (pt_SessionID req))) (\<lambda>scope.
           bindE (admitForeground st) (\<lambda>_.
           bindE (if mode = ProtocolModeDisposition then
                    (if pt_Kind req \<noteq> ObjectKindCommandPayload then failE (objectErr ObjectErrorInvalid ''kind'')
                     else bindE (dispositionCatalog st scope (pt_TenantID req) (pt_SessionID req)) (\<lambda>_. returnE ()))
                  else returnE ()) (\<lambda>_.
           bindE (classifyE (\<lambda>_. objectErr ObjectErrorSource ''generation'') (st_Generation st)) (\<lambda>generation.
           let metadata = objectMetadataFor (pt_Kind req) generation (pt_SizeBytes req) (pt_SHA256 req) (pt_MediaType req) in
           bindE (liftE (parseObjectMetadata (st_core st) metadata)) (\<lambda>parsed.
           bindE (bindSessionScopeMode st scope mode) (\<lambda>_.
           let key = objectKey scope parsed in
           bindE (putVerified st key (newExactVerifier body (pt_SizeBytes req) (pt_SHA256 req))) (\<lambda>_.
           bindE (verifyPersisted st key (pt_SizeBytes req) (pt_SHA256 req)) (\<lambda>_.
           bindE (persistObjectMetadata st scope (pt_TenantID req) (pt_SessionID req) metadata parsed) (\<lambda>_.
           returnE metadata)))))))))))"

definition PutObject :: "'s store \<Rightarrow> PutObjectRequest \<Rightarrow> ('s, object_metadata) store_op" where
  "PutObject st req = putObject st req ProtocolModeLegacy"

record PutCommandPayloadRequest =
  py_TenantID :: string
  py_SessionID :: string
  py_SizeBytes :: u64
  py_SHA256 :: string
  py_MediaType :: string
  py_Body :: "byte_source option"

definition PutCommandPayload :: "'s store \<Rightarrow> PutCommandPayloadRequest \<Rightarrow> ('s, object_metadata) store_op" where
  "PutCommandPayload st req = putObject st
    \<lparr>pt_TenantID = py_TenantID req, pt_SessionID = py_SessionID req, pt_Kind = ObjectKindCommandPayload,
     pt_SizeBytes = py_SizeBytes req, pt_SHA256 = py_SHA256 req, pt_MediaType = py_MediaType req, pt_Body = py_Body req\<rparr>
    ProtocolModeDisposition"

subsection \<open>Download\<close>

text \<open>
  The reader handed to a caller, used by one caller at a time.  The first error, the end included,
  closes the blob and stays; of several errors joined the first is kept, and an end joined with a
  failed close is that failure.
\<close>

record objectReader =
  or_verifier :: exactVerifier
  or_close :: bool
  or_terminal :: "stream_end option"
  or_closeErr :: "err option"

definition closeFailure :: err where "closeFailure = objectErr ObjectErrorBackend ''close''"

definition completeTermination :: "stream_end \<Rightarrow> objectReader \<Rightarrow> objectReader" where
  "completeTermination primary r =
    (case primary of
       StreamEOF \<Rightarrow> r\<lparr>or_terminal := Some (if or_close r then StreamErr closeFailure else StreamEOF),
                     or_closeErr := (if or_close r then Some closeFailure else None)\<rparr>
     | StreamErr e \<Rightarrow> r\<lparr>or_terminal := Some (StreamErr e), or_closeErr := Some e\<rparr>)"

definition objectRead :: "bool \<Rightarrow> bool \<Rightarrow> nat \<Rightarrow> objectReader \<Rightarrow> (string \<times> stream_end option) \<times> objectReader" where
  "objectRead done canceled room r =
    (case or_terminal r of
       Some t \<Rightarrow> (([], Some t), r)
     | None \<Rightarrow>
         (case verifierRead done canceled room (or_verifier r) of ((d, e), v1) \<Rightarrow>
           (let r1 = r\<lparr>or_verifier := v1\<rparr> in
            case e of None \<Rightarrow> ((d, None), r1)
            | Some primary \<Rightarrow> (let r2 = completeTermination primary r1 in ((d, or_terminal r2), r2)))))"

definition objectClose :: "objectReader \<Rightarrow> err option \<times> objectReader" where
  "objectClose r =
    (let r1 = (if or_terminal r \<noteq> None then r
               else completeTermination (StreamErr (objectErr ObjectErrorIntegrity ''incomplete'')) r)
     in (or_closeErr r1, r1))"

text \<open>\<^verbatim>\<open>io.ReadAll\<close> of the reader.\<close>

definition objectReadAll :: "(nat \<Rightarrow> nat) \<Rightarrow> (nat \<Rightarrow> bool \<times> bool) \<Rightarrow> objectReader \<Rightarrow> (err + string) \<times> objectReader" where
  "objectReadAll room ctx r =
    (case or_terminal r of
       Some StreamEOF \<Rightarrow> (Inr [], r)
     | Some (StreamErr e) \<Rightarrow> (Inl e, r)
     | None \<Rightarrow>
         (case drain room ctx 0 [] (or_verifier r) of (result, v1) \<Rightarrow>
           (let r1 = completeTermination (case result of Inl e \<Rightarrow> StreamErr e | Inr _ \<Rightarrow> StreamEOF) (r\<lparr>or_verifier := v1\<rparr>) in
            (case or_terminal r1 of Some (StreamErr e) \<Rightarrow> Inl e | _ \<Rightarrow> result, r1))))"

record GetObjectRequest =
  gt_TenantID :: string
  gt_SessionID :: string
  gt_ExpectedKind :: ObjectKind
  gt_Metadata :: object_metadata

definition GetObject :: "'s store \<Rightarrow> GetObjectRequest \<Rightarrow> ('s, objectReader) store_op" where
  "GetObject st req =
    (if \<not> kind_valid (gt_ExpectedKind req) then failE (objectErr ObjectErrorInvalid ''expected_kind'')
     else
       bindE (liftE (parseObjectMetadata (st_core st) (gt_Metadata req))) (\<lambda>parsed.
       if po_kind parsed \<noteq> gt_ExpectedKind req then failE (objectErr ObjectErrorInvalid ''expected_kind'')
       else
         bindE (liftE (deriveSessionScope st (gt_TenantID req) (gt_SessionID req))) (\<lambda>scope.
         bindE (admitForeground st) (\<lambda>_.
         bindE (verifySessionScope st scope) (\<lambda>_.
         bindE (classifyE (\<lambda>_. objectErr ObjectErrorBackend ''get'') (bl_Get st (objectKey scope parsed))) (\<lambda>reader. case reader of
           None \<Rightarrow> failE (objectErr ObjectErrorBackend ''get'')
         | Some blob \<Rightarrow>
             returnE \<lparr>or_verifier = newBackendExactVerifier (bq_source blob) (po_size parsed) (po_digest parsed),
               or_close = bq_close blob, or_terminal = None, or_closeErr = None\<rparr>))))))"

subsection \<open>Listing and deletion\<close>

text \<open>The references of the keys listed, each key once; a key that is not canonical or repeats fails the listing.\<close>

fun listedReferences :: "core_lib \<Rightarrow> string \<Rightarrow> ObjectKind \<Rightarrow> string list \<Rightarrow> object_reference list \<Rightarrow> err + object_reference list" where
  "listedReferences c pre kind [] refs = Inr refs"
| "listedReferences c pre kind (key # keys) refs =
    bindR (parsePhysicalObjectKey c pre kind key) (\<lambda>parsed.
    let ref = objectIDFor (po_kind parsed) (po_generation parsed) (hex_encode (po_digest parsed)) in
    if ref \<in> set refs then Inl (objectErr ObjectErrorIntegrity ''list_duplicate'')
    else listedReferences c pre kind keys (refs @ [ref]))"

definition listObjectReferences :: "'s store \<Rightarrow> string \<Rightarrow> string \<Rightarrow> ObjectKind \<Rightarrow> ('s, object_reference list) store_op" where
  "listObjectReferences st tenant session kind =
    (if \<not> kind_valid kind then failE (objectErr ObjectErrorInvalid ''kind'')
     else
       bindE (liftE (deriveSessionScope st tenant session)) (\<lambda>scope.
       bindE (admitForeground st) (\<lambda>_.
       bindE (verifySessionScope st scope) (\<lambda>_.
       let pre = objectKindPrefix scope kind in
       bindE (classifyE (\<lambda>_. objectErr ObjectErrorBackend ''list'') (bl_List st pre)) (\<lambda>keys.
       bindE (liftE (listedReferences (st_core st) pre kind keys [])) (\<lambda>refs.
       returnE (sort_key (\<lambda>ref. map byte_of (or_ObjectID ref)) refs)))))))"

definition deleteObject :: "'s store \<Rightarrow> string \<Rightarrow> string \<Rightarrow> ObjectKind \<Rightarrow> object_reference \<Rightarrow> ('s, unit) store_op" where
  "deleteObject st tenant session expectedKind reference =
    (if \<not> kind_valid expectedKind then failE (objectErr ObjectErrorInvalid ''expected_kind'')
     else
       bindE (liftE (parseObjectReference (st_core st) reference)) (\<lambda>parsed.
       if po_kind parsed \<noteq> expectedKind then failE (objectErr ObjectErrorInvalid ''expected_kind'')
       else
         bindE (liftE (deriveSessionScope st tenant session)) (\<lambda>scope.
         bindE (admitForeground st) (\<lambda>_.
         bindE (verifySessionScope st scope) (\<lambda>_.
         classifyE (\<lambda>_. objectErr ObjectErrorBackend ''delete'') (bl_Delete st (objectKey scope parsed)))))))"

subsection \<open>Journal bodies as objects\<close>

definition BodyReferenceFromObjectMetadata :: "core_lib \<Rightarrow> object_metadata \<Rightarrow> err + BodyReference" where
  "BodyReferenceFromObjectMetadata c m =
    (if \<not> reference_ok c (om_Reference m) then Inl (envelopeError EnvelopeErrorInvalid ''object_reference'')
     else if length (om_Digest m) \<noteq> 7 + 64 \<or> take 7 (om_Digest m) \<noteq> ''sha256:''
       then Inl (envelopeError EnvelopeErrorDigest ''digest'')
     else (let text = drop 7 (om_Digest m) in
       case hex_decode text of
         None \<Rightarrow> Inl (envelopeError EnvelopeErrorDigest ''digest'')
       | Some digest \<Rightarrow>
           if hex_encode digest \<noteq> text \<or> isZeroDigest digest then Inl (envelopeError EnvelopeErrorDigest ''digest'')
           else Inr \<lparr>br_Reference = om_Reference m, br_SizeBytes = om_SizeBytes m, br_SHA256 = digest\<rparr>))"

definition ObjectMetadataOf :: "core_lib \<Rightarrow> BodyReference \<Rightarrow> err + object_metadata" where
  "ObjectMetadataOf c ref =
    (if \<not> reference_ok c (br_Reference ref) then Inl (envelopeError EnvelopeErrorInvalid ''object_reference'')
     else if isZeroDigest (br_SHA256 ref) then Inl (envelopeError EnvelopeErrorDigest ''digest'')
     else Inr \<lparr>om_Reference = br_Reference ref, om_SizeBytes = br_SizeBytes ref,
       om_Digest = ''sha256:'' @ hex_encode (br_SHA256 ref), om_MediaType = [], om_CreatedAt = zeroTime\<rparr>)"

definition overflowBody ::
  "'s store \<Rightarrow> string \<Rightarrow> string \<Rightarrow> BodySlot \<Rightarrow> ObjectKind \<Rightarrow> int \<Rightarrow> ('s, BodySlot) store_op" where
  "overflowBody st tenant session slot kind threshold =
    (case bs_Inline slot of
       None \<Rightarrow> returnE slot
     | Some body \<Rightarrow>
         if int (length body) \<le> threshold then returnE slot
         else
           bindE (PutObject st \<lparr>pt_TenantID = tenant, pt_SessionID = session, pt_Kind = kind,
             pt_SizeBytes = word_of_nat (length body), pt_SHA256 = Sum256 body, pt_MediaType = [],
             pt_Body = Some (bytesReader body)\<rparr>) (\<lambda>metadata.
           bindE (liftE (BodyReferenceFromObjectMetadata (st_core st) metadata)) (\<lambda>reference.
           returnE \<lparr>bs_Inline = None, bs_Reference = Some reference\<rparr>)))"

definition MaxObjectPublicBodyBytes :: u64 where "MaxObjectPublicBodyBytes = 16777216"

definition publicObjectReadErr :: "err \<Rightarrow> err" where
  "publicObjectReadErr e =
    (case e of
       ObjectError code _ \<Rightarrow>
         if code = ObjectErrorSize \<or> code = ObjectErrorIntegrity then journalErr JournalErrorIntegrity ''public_object'' else e
     | _ \<Rightarrow> e)"

definition resolvePublicBody :: "'s store \<Rightarrow> string \<Rightarrow> string \<Rightarrow> BodySlot \<Rightarrow> ('s, string) store_op" where
  "resolvePublicBody st tenant session slot =
    (case bs_Inline slot of
       Some body \<Rightarrow> returnE body
     | None \<Rightarrow>
         (case bs_Reference slot of
            None \<Rightarrow> failE (journalErr JournalErrorIntegrity ''public_body'')
          | Some ref \<Rightarrow>
              if br_SizeBytes ref > MaxObjectPublicBodyBytes then failE (journalErr JournalErrorTooLarge ''public_reference'')
              else
                bindE (liftE (ObjectMetadataOf (st_core st) ref)) (\<lambda>metadata.
                bindE (GetObject st \<lparr>gt_TenantID = tenant, gt_SessionID = session,
                  gt_ExpectedKind = ObjectKindJournalPublic, gt_Metadata = metadata\<rparr>) (\<lambda>reader.
                bindE (askE (st_StreamCtx st)) (\<lambda>ctx.
                case objectReadAll (st_room st) ctx reader of
                  (Inl e, _) \<Rightarrow> failE (publicObjectReadErr e)
                | (Inr body, r1) \<Rightarrow>
                    (case fst (objectClose r1) of Some e \<Rightarrow> failE (publicObjectReadErr e) | None \<Rightarrow> returnE body))))))"

subsection \<open>An object reads back as it was declared\<close>

lemma parseObjectMetadata_Inr:
  assumes "parseObjectMetadata c m = Inr parsed"
  shows "po_size parsed = om_SizeBytes m" "om_Digest m = objectDigestPrefix @ hex_encode (po_digest parsed)"
  using assms by (auto simp: parseObjectMetadata_def split: if_split_asm)

lemma objectReadAll_exact:
  assumes "objectReadAll room ctx r = (Inr b, r1)" and "or_terminal r = None" and "verifier_inv (or_verifier r)"
    and "ev_hash (or_verifier r) = []"
  shows "length b = unat (ev_expected (or_verifier r))" "Sum256 b = ev_digest (or_verifier r)"
proof -
  from assms(1,2) obtain v1 where "drain room ctx 0 [] (or_verifier r) = (Inr b, v1)"
    by (auto simp: objectReadAll_def completeTermination_def Let_def split: prod.split_asm sum.split_asm if_split_asm
        option.split_asm stream_end.split_asm)
  from drain_exact [OF this assms(3,4)] show "length b = unat (ev_expected (or_verifier r))" "Sum256 b = ev_digest (or_verifier r)"
    by simp_all
qed

lemma GetObject_InrE:
  assumes "GetObject st req s = (Inr r, t)"
  obtains parsed where "parseObjectMetadata (st_core st) (gt_Metadata req) = Inr parsed" "or_terminal r = None"
    "verifier_inv (or_verifier r)" "ev_hash (or_verifier r) = []"
    "ev_expected (or_verifier r) = om_SizeBytes (gt_Metadata req)" "ev_digest (or_verifier r) = po_digest parsed"
  using assms
  by (auto simp: GetObject_def newBackendExactVerifier_def verifier_inv_new parseObjectMetadata_Inr(1)
      split: if_split_asm option.split_asm elim!: bindE_InrE)
    (simp_all add: newExactVerifierWithReadCode_def)

lemma object_reads_back:
  assumes "GetObject st req s = (Inr r, t)" and "objectReadAll room ctx r = (Inr b, r1)"
  shows "length b = unat (om_SizeBytes (gt_Metadata req))" "om_Digest (gt_Metadata req) = objectDigestPrefix @ hex_encode (Sum256 b)"
proof -
  from assms(1) have "length b = unat (om_SizeBytes (gt_Metadata req)) \<and>
    om_Digest (gt_Metadata req) = objectDigestPrefix @ hex_encode (Sum256 b)"
  proof (rule GetObject_InrE)
    fix parsed
    assume "parseObjectMetadata (st_core st) (gt_Metadata req) = Inr parsed"
      and r: "or_terminal r = None" "verifier_inv (or_verifier r)" "ev_hash (or_verifier r) = []"
      and ev: "ev_expected (or_verifier r) = om_SizeBytes (gt_Metadata req)" "ev_digest (or_verifier r) = po_digest parsed"
    with parseObjectMetadata_Inr(2) objectReadAll_exact [OF assms(2) r] show ?thesis by simp
  qed
  then show "length b = unat (om_SizeBytes (gt_Metadata req))" "om_Digest (gt_Metadata req) = objectDigestPrefix @ hex_encode (Sum256 b)"
    by simp_all
qed

lemma putObject_metadata:
  "putObject st req mode s = (Inr m, t) \<Longrightarrow> om_SizeBytes m = pt_SizeBytes req \<and>
     om_Digest m = objectDigestPrefix @ hex_encode (pt_SHA256 req)"
  by (auto simp: putObject_def objectMetadataFor_def Let_def split: if_split_asm option.split_asm elim!: bindE_InrE)

lemma body_reference_trip:
  assumes "BodyReferenceFromObjectMetadata c m = Inr ref" and "ObjectMetadataOf c' ref = Inr m'"
  shows "om_SizeBytes m' = om_SizeBytes m" "om_Digest m' = om_Digest m"
proof -
  from assms(1) have parts: "take 7 (om_Digest m) = ''sha256:''" "drop 7 (om_Digest m) = hex_encode (br_SHA256 ref)"
    and refsize: "br_SizeBytes ref = om_SizeBytes m"
    by (auto simp: BodyReferenceFromObjectMetadata_def Let_def split: if_split_asm option.split_asm)
  have "om_Digest m = ''sha256:'' @ hex_encode (br_SHA256 ref)"
    using append_take_drop_id [of 7 "om_Digest m"] unfolding parts by (rule sym)
  moreover from assms(2) have "om_SizeBytes m' = br_SizeBytes ref" "om_Digest m' = ''sha256:'' @ hex_encode (br_SHA256 ref)"
    by (auto simp: ObjectMetadataOf_def split: if_split_asm)
  ultimately show "om_SizeBytes m' = om_SizeBytes m" "om_Digest m' = om_Digest m" using refsize by simp_all
qed

lemma resolvePublicBody_reference:
  assumes "resolvePublicBody st tenant session \<lparr>bs_Inline = None, bs_Reference = Some ref\<rparr> s = (Inr b, t)"
  shows "\<exists>m. ObjectMetadataOf (st_core st) ref = Inr m \<and> length b = unat (om_SizeBytes m) \<and>
    om_Digest m = objectDigestPrefix @ hex_encode (Sum256 b)"
proof -
  from assms obtain m r ctx r1 u w where "ObjectMetadataOf (st_core st) ref = Inr m"
    and get: "GetObject st \<lparr>gt_TenantID = tenant, gt_SessionID = session, gt_ExpectedKind = ObjectKindJournalPublic,
      gt_Metadata = m\<rparr> u = (Inr r, w)" and all: "objectReadAll (st_room st) ctx r = (Inr b, r1)"
    by (auto simp: resolvePublicBody_def split: if_split_asm prod.split_asm sum.split_asm option.split_asm elim!: bindE_InrE)
  with object_reads_back [OF get all] show ?thesis by auto
qed

text \<open>
  C32. A public body survives its journal record: if a body is put into a slot (kept inline up to the
  threshold, uploaded as an object above it) and that slot is later resolved, by any Store on any state
  of the provider, then a body that was resolved is the one that was put, or has its length and its SHA-256 digest;
  the provider is not trusted with it.
\<close>

theorem public_body_survives_its_slot:
  assumes "overflowBody st tenant session \<lparr>bs_Inline = Some body, bs_Reference = None\<rparr> kind threshold s = (Inr slot, t)"
    and "resolvePublicBody st' tenant' session' slot u = (Inr body', w)" and "length body < 2 ^ 64"
  shows "length body' = length body \<and> Sum256 body' = Sum256 body \<and> (int (length body) \<le> threshold \<longrightarrow> body' = body)"
proof (cases "int (length body) \<le> threshold")
  case True
  with assms(1,2) show ?thesis by (auto simp: overflowBody_def resolvePublicBody_def)
next
  case False
  with assms(1) obtain m ref v where put: "PutObject st \<lparr>pt_TenantID = tenant, pt_SessionID = session, pt_Kind = kind,
        pt_SizeBytes = word_of_nat (length body), pt_SHA256 = Sum256 body, pt_MediaType = [],
        pt_Body = Some (bytesReader body)\<rparr> s = (Inr m, v)"
    and ref: "BodyReferenceFromObjectMetadata (st_core st) m = Inr ref" and slot: "slot = \<lparr>bs_Inline = None, bs_Reference = Some ref\<rparr>"
    by (auto simp: overflowBody_def elim!: bindE_InrE)
  from resolvePublicBody_reference [OF assms(2) [unfolded slot]] obtain m' where m': "ObjectMetadataOf (st_core st') ref = Inr m'"
    and found: "length body' = unat (om_SizeBytes m')" "om_Digest m' = objectDigestPrefix @ hex_encode (Sum256 body')" by blast
  note trip = body_reference_trip [OF ref m']
  from putObject_metadata [OF put [unfolded PutObject_def]] trip found
  have "hex_encode (Sum256 body') = hex_encode (Sum256 body)" "length body' = unat (word_of_nat (length body) :: u64)" by simp_all
  with False assms(3) show ?thesis using hex_decode_encode by (auto simp: unat_of_nat) (metis option.inject)
qed

end
