(* ===== verification/Journal_Reader.thy ===== *)
theory Journal_Reader
  imports Object_Store Cursor
begin

text \<open>
  \<^verbatim>\<open>journal_reader.go\<close>: paged reads of a session's journal.  A read captures the tip once, in its first
  page, and carries it in the cursor, so that all pages read one prefix of the journal.
\<close>

definition DefaultJournalPageBytes :: int where "DefaultJournalPageBytes = 1048576"

subsection \<open>The cursor\<close>

datatype journalCursorKind = journalCursorPublic | journalCursorRuntime

fun journalCursorMagic :: "journalCursorKind \<Rightarrow> string" where
  "journalCursorMagic journalCursorPublic = ''LRJP''"
| "journalCursorMagic journalCursorRuntime = ''LRJR''"

definition journalCursorVersion :: char where "journalCursorVersion = CHR 0x01"
definition journalCursorPayload :: nat where "journalCursorPayload = 16"

record journalCursorPosition =
  jp_nextSeq :: u64
  jp_capturedTip :: u64

definition journalCursorScope :: "'s store \<Rightarrow> string \<Rightarrow> string \<Rightarrow> err + string" where
  "journalCursorScope st tenant session =
    bindR (digestFrame ''looprig/sessionstore/journal/cursor/v1'' [tenant, session]) (\<lambda>frame.
      Inr (ks_digest (st_keys st) frame))"

definition encodeJournalCursor :: "journalCursorKind \<Rightarrow> 's store \<Rightarrow> string \<Rightarrow> string \<Rightarrow> u64 \<Rightarrow> u64 \<Rightarrow> err + string" where
  "encodeJournalCursor kind st tenant session nextSeq capturedTip =
    bindR (journalCursorScope st tenant session) (\<lambda>scope.
      encodeCursorEnvelope (journalCursorMagic kind) journalCursorVersion scope
        (be_put 8 (unat nextSeq) @ be_put 8 (unat capturedTip)))"

definition decodeJournalCursor ::
  "journalCursorKind \<Rightarrow> 's store \<Rightarrow> string \<Rightarrow> string \<Rightarrow> string \<Rightarrow> u64 \<Rightarrow> err + journalCursorPosition" where
  "decodeJournalCursor kind st tenant session cursor liveTip =
    (let invalid = Inl (journalErr JournalErrorCursor ''cursor'') in
     bindR (journalCursorScope st tenant session) (\<lambda>scope.
     case decodeCursorEnvelope (journalCursorMagic kind) journalCursorVersion scope cursor
       journalCursorPayload journalCursorPayload of
       None \<Rightarrow> invalid
     | Some payload \<Rightarrow>
         (let p = \<lparr>jp_nextSeq = word_of_nat (be_get (take 8 payload)),
                   jp_capturedTip = word_of_nat (be_get (drop 8 payload))\<rparr> in
          if jp_nextSeq p < 1 then invalid
          else if jp_capturedTip p > liveTip then invalid
          else if jp_capturedTip p + 1 < jp_nextSeq p then invalid
          else Inr p)))"

subsection \<open>Planning a page\<close>

record journalScan =
  jn_scope :: sessionScope
  jn_from :: u64
  jn_capturedTip :: u64
  jn_limit :: int
  jn_maxBytes :: int
  jn_scanLimit :: int
  jn_covered :: u64
  jn_truncated :: bool
  jn_nextSeq :: u64

text \<open>The parameters of a read: tenant, session and paging, common to both kinds.\<close>

definition planJournalRead ::
  "'s store \<Rightarrow> journalCursorKind \<Rightarrow> string \<Rightarrow> string \<Rightarrow> u64 \<Rightarrow> string \<Rightarrow> int \<Rightarrow> bool \<Rightarrow> int \<Rightarrow> ('s, journalScan) store_op" where
  "planJournalRead st kind tenant session fromSeq cursor limit0 tailing scanLimit =
    (if scanLimit < 0 \<or> scanLimit > st_MaxOrderedPageLimit st then failE (journalErr JournalErrorInvalid ''scan_limit'')
     else case pageLimit st limit0 of
       None \<Rightarrow> failE (journalErr JournalErrorInvalid ''limit'')
     | Some limit \<Rightarrow>
         if tailing \<and> (cursor \<noteq> [] \<or> fromSeq \<noteq> 0) then failE (journalErr JournalErrorInvalid ''tail'')
         else if cursor \<noteq> [] \<and> fromSeq \<noteq> 0 then failE (journalErr JournalErrorInvalid ''cursor'')
         else
           bindE (liftE (deriveSessionScope st tenant session)) (\<lambda>scope.
           bindE (admitForeground st) (\<lambda>_.
           bindE (verifySessionScope st scope) (\<lambda>_.
           bindE (classifyE (\<lambda>_. journalErr JournalErrorBackend ''tip'') (lg_Tip st (sc_JournalName scope))) (\<lambda>tip.
           let span = word_of_int limit;
               from0 = (if tailing \<and> tip \<ge> span then tip - span + 1 else fromSeq) in
           bindE (if cursor \<noteq> [] then
                    bindE (liftE (decodeJournalCursor kind st tenant session cursor tip)) (\<lambda>p.
                      returnE (jp_nextSeq p, jp_capturedTip p))
                  else returnE (from0, tip)) (\<lambda>(from1, capturedTip).
           let from2 = (if from1 < 1 then 1 else from1);
               covered = (if from2 - 1 > capturedTip then capturedTip else from2 - 1);
               maxBytes = (if st_maxPageBytes st \<le> 0 then DefaultJournalPageBytes else st_maxPageBytes st) in
           returnE \<lparr>jn_scope = scope, jn_from = from2, jn_capturedTip = capturedTip, jn_limit = limit,
             jn_maxBytes = maxBytes, jn_scanLimit = scanLimit, jn_covered = covered, jn_truncated = False, jn_nextSeq = 0\<rparr>))))))"

subsection \<open>The walk\<close>

definition truncateScan :: "journalScan \<Rightarrow> u64 \<Rightarrow> journalScan" where
  "truncateScan scan s = scan\<lparr>jn_truncated := True, jn_nextSeq := s\<rparr>"

text \<open>
  The loop over what the ledger's cursor yields.  The page is built in order; \<open>used\<close> bytes and
  \<open>examined\<close> records so far.
\<close>

fun walkLoop ::
  "core_lib \<Rightarrow> (Envelope \<Rightarrow> bool) \<Rightarrow> (u64 \<Rightarrow> Envelope \<Rightarrow> string \<Rightarrow> ('s, 'a \<times> int) store_op)
    \<Rightarrow> (ledger_error + ledger_record) list \<Rightarrow> journalScan \<Rightarrow> 'a list \<Rightarrow> int \<Rightarrow> int \<Rightarrow> ('s, 'a list \<times> journalScan) store_op" where
  "walkLoop c selects build items scan page used examined =
    (if jn_scanLimit scan > 0 \<and> examined \<ge> jn_scanLimit scan then returnE (page, truncateScan scan (jn_covered scan + 1))
     else case items of
       [] \<Rightarrow> returnE (page, scan)
     | Inl _ # _ \<Rightarrow> failE (journalErr JournalErrorBackend ''read'')
     | Inr stored # rest \<Rightarrow>
         if lr_Seq stored > jn_capturedTip scan then returnE (page, scan)
         else case DecodeEnvelope c (lr_Payload stored) of
           Inl _ \<Rightarrow> failE (journalErr JournalErrorIntegrity ''record'')
         | Inr env \<Rightarrow>
             let go = (\<lambda>page used.
               (let scan1 = scan\<lparr>jn_covered := lr_Seq stored\<rparr> in
                if lr_Seq stored = jn_capturedTip scan then returnE (page, scan1)
                else walkLoop c selects build rest scan1 page used (examined + 1))) in
             if selects env then
               (if int (length page) \<ge> jn_limit scan then returnE (page, truncateScan scan (lr_Seq stored))
                else bindE (build (lr_Seq stored) env (lr_Payload stored)) (\<lambda>(item, cost).
                  if page \<noteq> [] \<and> used + cost > jn_maxBytes scan then returnE (page, truncateScan scan (lr_Seq stored))
                  else go (page @ [item]) (used + cost)))
             else go page used)"

definition walkJournal ::
  "'s store \<Rightarrow> journalScan \<Rightarrow> (Envelope \<Rightarrow> bool) \<Rightarrow> (u64 \<Rightarrow> Envelope \<Rightarrow> string \<Rightarrow> ('s, 'a \<times> int) store_op)
    \<Rightarrow> ('s, 'a list \<times> journalScan) store_op" where
  "walkJournal st scan selects build =
    (if jn_from scan > jn_capturedTip scan then returnE ([], scan)
     else
       bindE (classifyE (\<lambda>_. journalErr JournalErrorBackend ''read'')
         (lg_Read st (sc_JournalName (jn_scope scan)) (jn_from scan))) (\<lambda>items.
       bindE (walkLoop (st_core st) selects build items scan [] 0 0) (\<lambda>(page, scan1).
       if jn_covered scan1 < jn_capturedTip scan1 \<and> \<not> jn_truncated scan1
       then failE (journalErr JournalErrorIntegrity ''read'')
       else returnE (page, scan1))))"

definition nextJournalCursor :: "'s store \<Rightarrow> journalCursorKind \<Rightarrow> string \<Rightarrow> string \<Rightarrow> journalScan \<Rightarrow> err + string" where
  "nextJournalCursor st kind tenant session scan =
    (if \<not> jn_truncated scan then Inr []
     else encodeJournalCursor kind st tenant session (jn_nextSeq scan) (jn_capturedTip scan))"

subsection \<open>The two reads\<close>

record ReadRuntimeJournalRequest =
  rr_TenantID :: string
  rr_SessionID :: string
  rr_FromSeq :: u64
  rr_Cursor :: string
  rr_Limit :: int

record RuntimeRecord =
  rn_Seq :: u64
  rn_Envelope :: Envelope

record RuntimePage =
  rg_Records :: "RuntimeRecord list"
  rg_CapturedTip :: u64
  rg_CoveredThrough :: u64
  rg_NextCursor :: string

definition ReadRuntimeJournal :: "'s store \<Rightarrow> ReadRuntimeJournalRequest \<Rightarrow> ('s, RuntimePage) store_op" where
  "ReadRuntimeJournal st req =
    bindE (planJournalRead st journalCursorRuntime (rr_TenantID req) (rr_SessionID req) (rr_FromSeq req) (rr_Cursor req)
      (rr_Limit req) False 0) (\<lambda>scan.
    bindE (walkJournal st scan (\<lambda>_. True) (\<lambda>s env frame.
      returnE (\<lparr>rn_Seq = s, rn_Envelope = env\<rparr>, int (length frame)))) (\<lambda>(records, scan1).
    bindE (liftE (nextJournalCursor st journalCursorRuntime (rr_TenantID req) (rr_SessionID req) scan1)) (\<lambda>following.
    returnE \<lparr>rg_Records = records, rg_CapturedTip = jn_capturedTip scan1, rg_CoveredThrough = jn_covered scan1,
      rg_NextCursor = following\<rparr>)))"

record ReadPublicJournalRequest =
  rq_TenantID :: string
  rq_SessionID :: string
  rq_FromSeq :: u64
  rq_Tail :: bool
  rq_TipOnly :: bool
  rq_ScanLimit :: int
  rq_Cursor :: string
  rq_Limit :: int

text \<open>Core's \<^verbatim>\<open>JournalEvent\<close> and \<^verbatim>\<open>JournalPage\<close>.\<close>

record journal_event =
  je_EventID :: string
  je_JournalSeq :: u64
  je_Body :: string

record journal_page =
  jg_Events :: "journal_event list"
  jg_CapturedTip :: u64
  jg_CoveredThrough :: u64
  jg_NextCursor :: string

definition ReadPublicJournal :: "'s store \<Rightarrow> ReadPublicJournalRequest \<Rightarrow> ('s, journal_page) store_op" where
  "ReadPublicJournal st req =
    (if rq_TipOnly req \<and> (rq_Cursor req \<noteq> [] \<or> rq_FromSeq req \<noteq> 0) then failE (journalErr JournalErrorInvalid ''tip_only'')
     else
       bindE (planJournalRead st journalCursorPublic (rq_TenantID req) (rq_SessionID req) (rq_FromSeq req) (rq_Cursor req)
         (rq_Limit req) (rq_Tail req) (rq_ScanLimit req)) (\<lambda>scan.
       if rq_TipOnly req
       then returnE \<lparr>jg_Events = [], jg_CapturedTip = jn_capturedTip scan, jg_CoveredThrough = 0, jg_NextCursor = []\<rparr>
       else
         bindE (walkJournal st scan (\<lambda>env. en_Kind env = EnvelopeKindPublicEvent) (\<lambda>s env frame.
           bindE (resolvePublicBody st (rq_TenantID req) (rq_SessionID req) (en_Public env)) (\<lambda>body.
           returnE (\<lparr>je_EventID = en_EventID env, je_JournalSeq = s, je_Body = body\<rparr>, int (length body))))) (\<lambda>(events, scan1).
         bindE (liftE (nextJournalCursor st journalCursorPublic (rq_TenantID req) (rq_SessionID req) scan1)) (\<lambda>following.
         returnE \<lparr>jg_Events = events, jg_CapturedTip = jn_capturedTip scan1, jg_CoveredThrough = jn_covered scan1,
           jg_NextCursor = following\<rparr>))))"

end
