(* ===== verification/Journal_Pages.thy ===== *)
theory Journal_Pages
  imports Journal_Reader Ledger
begin

text \<open>
  What the pages of a runtime read are: under the ledger's contract every page is a run of consecutive
  records of the journal, the next page continues where it ended, and the pages of one read end at the
  tip the first one captured.
\<close>

subsection \<open>Journal cursors\<close>

lemma journalCursorScope_length:
  "digest32 st \<Longrightarrow> journalCursorScope st tenant session = Inr scope \<Longrightarrow> length scope = 32"
  by (auto simp: journalCursorScope_def digest32_def)

lemma journalCursorMagic_length [simp]: "length (journalCursorMagic kind) = 4"
  by (cases kind) simp_all

lemma journal_cursor_read:
  assumes "digest32 st" and "encodeJournalCursor kind st tenant session nextSeq tip = Inr cursor"
    and "1 \<le> nextSeq" and "nextSeq \<le> tip" and "tip \<le> live" and "Suc (unat tip) < 2 ^ 64"
  shows "decodeJournalCursor kind st tenant session cursor live = Inr \<lparr>jp_nextSeq = nextSeq, jp_capturedTip = tip\<rparr>"
    "cursor \<noteq> []"
proof -
  let ?p = "be_put 8 (unat nextSeq) @ be_put 8 (unat tip)"
  from assms(2) obtain scope where scope: "journalCursorScope st tenant session = Inr scope"
    and enc: "encodeCursorEnvelope (journalCursorMagic kind) journalCursorVersion scope ?p = Inr cursor"
    by (auto simp: encodeJournalCursor_def simp del: be_put.simps)
  have len: "length scope = 32" by (rule journalCursorScope_length [OF assms(1) scope])
  have "decodeCursorEnvelope (journalCursorMagic kind) journalCursorVersion scope cursor 16 16 = Some ?p"
    using enc by (simp add: decodeCursorEnvelope_Some_iff [OF journalCursorMagic_length len] del: be_put.simps)
  moreover have "unat nextSeq < 256 ^ 8" "unat tip < 256 ^ 8" by (rule unat_u64_lt)+
  moreover have "\<not> tip + 1 < nextSeq"
    using assms(4,6) by (simp add: word_less_nat_alt word_le_nat_alt unat_word_ariths)
  ultimately show "decodeJournalCursor kind st tenant session cursor live = Inr \<lparr>jp_nextSeq = nextSeq, jp_capturedTip = tip\<rparr>"
    using scope assms(3,5)
    by (auto simp: decodeJournalCursor_def journalCursorPayload_def be_get_be_put Let_def not_less word_less_1 simp del: be_put.simps)
  show "cursor \<noteq> []" using enc by (auto simp: encodeCursorEnvelope_def split: if_split_asm)
qed

subsection \<open>One page\<close>

text \<open>The records of a list of payloads that are numbered from \<open>i\<close>, when all of them decode.\<close>

fun runtime_records :: "core_lib \<Rightarrow> nat \<Rightarrow> string list \<Rightarrow> RuntimeRecord list option" where
  "runtime_records c i [] = Some []"
| "runtime_records c i (p # ps) =
    (case DecodeEnvelope c p of
       Inl _ \<Rightarrow> None
     | Inr env \<Rightarrow> map_option ((#) \<lparr>rn_Seq = word_of_nat i, rn_Envelope = env\<rparr>) (runtime_records c (Suc i) ps))"

lemma runtime_records_append:
  "runtime_records c i (ps @ qs) =
    (case runtime_records c i ps of None \<Rightarrow> None
     | Some rs \<Rightarrow> map_option ((@) rs) (runtime_records c (i + length ps) qs))"
  by (induction ps arbitrary: i) (auto simp: map_option_case split: sum.split option.split)

lemma runtime_records_length: "runtime_records c i ps = Some rs \<Longrightarrow> length rs = length ps"
  by (induction ps arbitrary: i rs) (auto split: sum.split_asm)

lemma runtime_records_nth:
  "runtime_records c i ps = Some rs \<Longrightarrow> k < length rs \<Longrightarrow>
     rn_Seq (rs ! k) = word_of_nat (i + k) \<and> DecodeEnvelope c (ps ! k) = Inr (rn_Envelope (rs ! k))"
  by (induction ps arbitrary: i rs k) (auto simp: nth_Cons split: sum.split_asm nat.split)

abbreviation runtimeItem :: "u64 \<Rightarrow> Envelope \<Rightarrow> string \<Rightarrow> ('s, RuntimeRecord \<times> int) store_op" where
  "runtimeItem \<equiv> (\<lambda>s env frame. returnE (\<lparr>rn_Seq = s, rn_Envelope = env\<rparr>, int (length frame)))"

text \<open>What a walk from record \<open>i\<close> on adds to its page.\<close>

definition walked_from :: "core_lib \<Rightarrow> string list \<Rightarrow> nat \<Rightarrow> nat \<Rightarrow> RuntimeRecord list \<Rightarrow> journalScan \<Rightarrow> bool" where
  "walked_from c js i tip recs scan \<longleftrightarrow>
    runtime_records c i (take (length recs) (drop (i - 1) js)) = Some recs \<and> i + length recs \<le> Suc tip \<and>
    unat (jn_covered scan) = i - 1 + length recs \<and>
    (if jn_truncated scan then unat (jn_nextSeq scan) = i + length recs \<and> i + length recs \<le> tip
     else i + length recs = Suc tip)"

declare walkLoop.simps [simp del]

lemmas walkLoop_Cons = walkLoop.simps [of _ _ _ "item # rest" for item rest]

lemma bindE_returnE: "bindE (returnE x) k = k x"
  by (rule ext) (simp add: bindE_def returnE_def)

lemma walkLoop_runtime:
  assumes "walkLoop c (\<lambda>_. True) runtimeItem items scan page used examined s = (Inr (page', scan'), t)"
    and "yields js i items" and "1 \<le> i" and "i \<le> unat (jn_capturedTip scan)" and "unat (jn_capturedTip scan) \<le> length js"
    and "length js < 2 ^ 64" and "unat (jn_covered scan) = i - 1" and "\<not> jn_truncated scan" and "jn_scanLimit scan = 0"
    and "page \<noteq> [] \<or> 0 < jn_limit scan"
  shows "t = s \<and> jn_capturedTip scan' = jn_capturedTip scan \<and>
    (\<exists>recs. page' = page @ recs \<and> walked_from c js i (unat (jn_capturedTip scan)) recs scan' \<and> (page = [] \<longrightarrow> recs \<noteq> []))"
  using assms
proof (induction items arbitrary: i scan page used examined)
  case Nil
  then show ?case by simp
next
  case (Cons item rest)
  let ?tip = "unat (jn_capturedTip scan)"
  from Cons.prems(1,8,9) obtain r where item: "item = Inr r"
    by (cases item) (auto simp: walkLoop_Cons)
  with Cons.prems(2) have r: "r = ledger_record_at js i" and rest: "yields js (Suc i) rest" and i: "i \<le> length js" by simp_all
  have s: "unat (lr_Seq r) = i" "lr_Payload r = js ! (i - 1)" "lr_Seq r = word_of_nat i"
    using r i Cons.prems(6) by (simp_all add: ledger_record_at_def unat_of_nat)
  have within: "\<not> lr_Seq r > jn_capturedTip scan" using s Cons.prems(4) by (simp add: word_less_nat_alt)
  have head: "take (Suc k) (drop (i - 1) js) = js ! (i - 1) # take k (drop i js)" for k
  proof -
    have "drop (i - 1) js = js ! (i - 1) # drop i js" using i Cons.prems(3) Cons_nth_drop_Suc [of "i - 1" js] by simp
    then show ?thesis by simp
  qed
  obtain env where env: "DecodeEnvelope c (js ! (i - 1)) = Inr env"
    using Cons.prems(1,9) within s(2) by (cases "DecodeEnvelope c (js ! (i - 1))") (simp_all add: item walkLoop_Cons)
  let ?rec = "\<lparr>rn_Seq = word_of_nat i, rn_Envelope = env\<rparr>"
  let ?scan1 = "scan\<lparr>jn_covered := lr_Seq r\<rparr>"
  have stop: "walked_from c js i ?tip [] (truncateScan scan (lr_Seq r))"
    using Cons.prems(3,4,7) s by (simp add: walked_from_def truncateScan_def)
  have some: "jn_limit scan \<le> int (length page) \<Longrightarrow> page \<noteq> []" using Cons.prems(10) by auto
  consider (full) "page \<noteq> []" "page' = page" "scan' = truncateScan scan (lr_Seq r)" "t = s"
    | (last) "page' = page @ [?rec]" "scan' = ?scan1" "lr_Seq r = jn_capturedTip scan" "t = s"
    | (more) used' where "walkLoop c (\<lambda>_. True) runtimeItem rest ?scan1 (page @ [?rec]) used' (examined + 1) s = (Inr (page', scan'), t)"
        "lr_Seq r \<noteq> jn_capturedTip scan"
    using Cons.prems(1,9) within env s some by (auto simp: item walkLoop_Cons Let_def bindE_returnE split: if_split_asm)
  then show ?case
  proof cases
    case full
    with stop show ?thesis by (intro conjI exI [of _ "[]"]) (simp_all add: truncateScan_def)
  next
    case last
    have "?tip = i" using last(3) s(1) by simp
    then have "walked_from c js i ?tip [?rec] scan'"
      using head [of 0] env Cons.prems(3,8) s by (simp add: walked_from_def last(2))
    with last show ?thesis by auto
  next
    case more
    have "i \<noteq> ?tip"
    proof
      assume "i = ?tip"
      then have "lr_Seq r = jn_capturedTip scan" using s(1) by (simp add: word_unat_eq_iff)
      with more(2) show False by simp
    qed
    then have next_le: "Suc i \<le> unat (jn_capturedTip ?scan1)" using Cons.prems(4) by simp
    have ih: "t = s \<and> jn_capturedTip scan' = jn_capturedTip ?scan1 \<and>
      (\<exists>recs. page' = (page @ [?rec]) @ recs \<and> walked_from c js (Suc i) (unat (jn_capturedTip ?scan1)) recs scan' \<and>
        (page @ [?rec] = [] \<longrightarrow> recs \<noteq> []))"
      by (rule Cons.IH [OF more(1) rest _ next_le]) (use Cons.prems s in simp_all)
    then obtain recs where recs: "page' = (page @ [?rec]) @ recs" "walked_from c js (Suc i) ?tip recs scan'" by auto
    have "walked_from c js i ?tip (?rec # recs) scan'"
      using recs(2) head [of "length recs"] env Cons.prems(3) by (auto simp: walked_from_def)
    with ih recs show ?thesis by auto
  qed
qed

text \<open>A page of a read through the tip \<open>tip\<close> that starts at record \<open>i\<close>.\<close>

definition runtimeRequest :: "string \<Rightarrow> string \<Rightarrow> string \<Rightarrow> ReadRuntimeJournalRequest" where
  "runtimeRequest tenant session cursor =
    \<lparr>rr_TenantID = tenant, rr_SessionID = session, rr_FromSeq = 0, rr_Cursor = cursor, rr_Limit = 0\<rparr>"

definition page_through :: "'s store \<Rightarrow> string \<Rightarrow> string \<Rightarrow> string list \<Rightarrow> nat \<Rightarrow> nat \<Rightarrow> RuntimePage \<Rightarrow> bool" where
  "page_through st tenant session js i tip page \<longleftrightarrow>
    runtime_records (st_core st) i (take (length (rg_Records page)) (drop (i - 1) js)) = Some (rg_Records page) \<and>
    (if rg_NextCursor page = [] then i + length (rg_Records page) = Suc tip
     else rg_Records page \<noteq> [] \<and> i + length (rg_Records page) \<le> tip \<and>
       encodeJournalCursor journalCursorRuntime st tenant session (word_of_nat (i + length (rg_Records page))) (word_of_nat tip)
         = Inr (rg_NextCursor page))"

lemma planJournalRead_Inr:
  assumes "planJournalRead st kind tenant session 0 cursor 0 False 0 s = (Inr scan, t)"
  obtains scope tip u where "deriveSessionScope st tenant session = Inr scope" "verifySessionScope st scope s = (Inr (), u)"
    "lg_Tip st (sc_JournalName scope) u = (Inr tip, t)" "jn_scope scan = scope" "jn_limit scan = st_MaxPageSize st"
    "jn_scanLimit scan = 0" "\<not> jn_truncated scan"
    "cursor = [] \<Longrightarrow> jn_from scan = 1 \<and> jn_capturedTip scan = tip \<and> jn_covered scan = 0"
    "\<And>p. cursor \<noteq> [] \<Longrightarrow> decodeJournalCursor kind st tenant session cursor tip = Inr p \<Longrightarrow> 1 \<le> jp_nextSeq p \<Longrightarrow>
       jp_nextSeq p \<le> jp_capturedTip p \<Longrightarrow> jn_from scan = jp_nextSeq p \<and> jn_capturedTip scan = jp_capturedTip p \<and>
       jn_covered scan = jp_nextSeq p - 1"
proof -
  from assms obtain scope tip u from1 captured where scope: "deriveSessionScope st tenant session = Inr scope"
    "verifySessionScope st scope s = (Inr (), u)" "lg_Tip st (sc_JournalName scope) u = (Inr tip, t)"
    and cursor: "if cursor \<noteq> [] then (\<exists>p. decodeJournalCursor kind st tenant session cursor tip = Inr p \<and>
        from1 = jp_nextSeq p \<and> captured = jp_capturedTip p) else from1 = 0 \<and> captured = tip"
    and scan: "scan = (let from2 = (if from1 < 1 then 1 else from1);
             covered = (if from2 - 1 > captured then captured else from2 - 1) in
           \<lparr>jn_scope = scope, jn_from = from2, jn_capturedTip = captured, jn_limit = st_MaxPageSize st,
             jn_maxBytes = (if st_maxPageBytes st \<le> 0 then DefaultJournalPageBytes else st_maxPageBytes st),
             jn_scanLimit = 0, jn_covered = covered, jn_truncated = False, jn_nextSeq = 0\<rparr>)"
    unfolding planJournalRead_def Let_def pageLimit_def
    by (auto split: if_split_asm option.split_asm elim!: bindE_InrE)
  show thesis
  proof (rule that [OF scope])
    show "jn_scope scan = scope" "jn_limit scan = st_MaxPageSize st" "jn_scanLimit scan = 0" "\<not> jn_truncated scan"
      by (simp_all add: scan Let_def)
    show "cursor = [] \<Longrightarrow> jn_from scan = 1 \<and> jn_capturedTip scan = tip \<and> jn_covered scan = 0"
      using cursor by (simp add: scan Let_def)
    fix p
    assume "cursor \<noteq> []" "decodeJournalCursor kind st tenant session cursor tip = Inr p" and p: "1 \<le> jp_nextSeq p"
      "jp_nextSeq p \<le> jp_capturedTip p"
    with cursor have at: "from1 = jp_nextSeq p" "captured = jp_capturedTip p" by simp_all
    have "jp_nextSeq p - 1 \<le> jp_nextSeq p" using p(1) by (simp add: word_le_nat_alt unat_sub)
    with p(2) have "\<not> jp_nextSeq p - 1 > jp_capturedTip p" by simp
    moreover have "\<not> jp_nextSeq p < 1" using p(1) by (rule leD)
    ultimately show "jn_from scan = jp_nextSeq p \<and> jn_capturedTip scan = jp_capturedTip p \<and> jn_covered scan = jp_nextSeq p - 1"
      by (simp add: scan Let_def at)
  qed
qed

text \<open>The walk of a planned page, when the plan starts within the captured tip or right behind an empty journal.\<close>

lemma walkJournal_runtime:
  assumes "ledger_contract st J" and "walkJournal st scan (\<lambda>_. True) runtimeItem s = (Inr (recs, scan'), t)"
    and "1 \<le> jn_from scan" and "unat (jn_from scan) \<le> Suc (unat (jn_capturedTip scan))"
    and "unat (jn_capturedTip scan) \<le> length (J s (sc_JournalName (jn_scope scan)))"
    and "jn_covered scan = jn_from scan - 1" and "\<not> jn_truncated scan" and "jn_scanLimit scan = 0" and "0 < jn_limit scan"
  shows "ledger_grows J s t \<and> jn_capturedTip scan' = jn_capturedTip scan \<and>
    walked_from (st_core st) (J t (sc_JournalName (jn_scope scan))) (unat (jn_from scan)) (unat (jn_capturedTip scan)) recs scan' \<and>
    (unat (jn_from scan) \<le> unat (jn_capturedTip scan) \<longrightarrow> recs \<noteq> [])"
proof -
  let ?n = "sc_JournalName (jn_scope scan)" and ?i = "unat (jn_from scan)" and ?tip = "unat (jn_capturedTip scan)"
  have one: "1 \<le> ?i" using assms(3) by (simp add: word_le_nat_alt)
  have covered: "unat (jn_covered scan) = ?i - 1" using assms(3) unat_sub [OF assms(3)] by (simp add: assms(6))
  show ?thesis
  proof (cases "jn_from scan > jn_capturedTip scan")
    case True
    with assms(2) have "recs = []" "scan' = scan" "t = s" by (simp_all add: walkJournal_def)
    moreover have "?i = Suc ?tip" using True assms(4) by (simp add: word_less_nat_alt)
    ultimately show ?thesis using assms(7) covered by (simp add: walked_from_def)
  next
    case False
    from False assms(2) obtain items where items: "lg_Read st ?n (jn_from scan) s = (Inr items, t)"
      and loop: "walkLoop (st_core st) (\<lambda>_. True) runtimeItem items scan [] 0 0 t = (Inr (recs, scan'), t)"
    proof -
      from False assms(2) obtain items u where items: "lg_Read st ?n (jn_from scan) s = (Inr items, u)"
        and loop: "walkLoop (st_core st) (\<lambda>_. True) runtimeItem items scan [] 0 0 u = (Inr (recs, scan'), t)"
        by (auto simp: walkJournal_def split: if_split_asm elim!: bindE_InrE)
      have "ledger_grows J s u" by (rule appendsD [OF appends_provider(4) [OF assms(1)] items])
      from ledger_grows_length [OF this] assms(5) have "?tip \<le> length (J u ?n)" by (rule order.trans [rotated])
      with walkLoop_runtime [OF loop] ledger_read [OF assms(1) items] one covered False assms(7,8,9)
      have "t = u" by (simp add: max_def word_le_nat_alt not_less)
      with items loop that show thesis by simp
    qed
    have grow: "ledger_grows J s t" by (rule appendsD [OF appends_provider(4) [OF assms(1)] items])
    from ledger_grows_length [OF this] assms(5) have "?tip \<le> length (J t ?n)" by (rule order.trans [rotated])
    with walkLoop_runtime [OF loop] ledger_read [OF assms(1) items] one covered False assms(7,8,9) grow
    show ?thesis by (simp add: max_def word_le_nat_alt not_less)
  qed
qed

lemma walked_page:
  assumes "walked_from (st_core st) js i tip recs scan'" and "jn_capturedTip scan' = word_of_nat tip" and "tip < 2 ^ 64"
    and "i \<le> tip \<longrightarrow> recs \<noteq> []"
    and "nextJournalCursor st journalCursorRuntime tenant session scan' = Inr following" and "digest32 st"
    and "rg_Records page = recs" and "rg_NextCursor page = following" and "1 \<le> i" and "Suc tip < 2 ^ 64"
  shows "page_through st tenant session js i tip page"
proof (cases "jn_truncated scan'")
  case False
  with assms show ?thesis by (simp add: page_through_def walked_from_def nextJournalCursor_def)
next
  case True
  with assms(1) have at: "unat (jn_nextSeq scan') = i + length recs" "i + length recs \<le> tip"
    and recs: "runtime_records (st_core st) i (take (length recs) (drop (i - 1) js)) = Some recs"
    by (simp_all add: walked_from_def)
  have seq: "jn_nextSeq scan' = word_of_nat (i + length recs)" unfolding at(1) [symmetric] by simp
  have enc0: "encodeJournalCursor journalCursorRuntime st tenant session (jn_nextSeq scan') (word_of_nat tip) = Inr following"
    using assms(5) True by (simp add: nextJournalCursor_def assms(2))
  have enc: "encodeJournalCursor journalCursorRuntime st tenant session (word_of_nat (i + length recs)) (word_of_nat tip) = Inr following"
    using enc0 unfolding seq .
  have "following \<noteq> []"
    by (rule journal_cursor_read(2) [OF assms(6) enc0 _ _ order.refl])
      (use at assms(3,9,10) in \<open>simp_all add: word_le_nat_alt unat_of_nat\<close>)
  with at recs enc assms show ?thesis by (simp add: page_through_def)
qed

text \<open>The first page captures the tip, the later pages keep it.\<close>

lemma first_page:
  assumes "ledger_contract st J" and "digest32 st" and "0 < st_MaxPageSize st"
    and "ReadRuntimeJournal st (runtimeRequest tenant session []) s = (Inr page, t)"
  obtains scope tip where "deriveSessionScope st tenant session = Inr scope" "tip \<le> length (J t (sc_JournalName scope))"
    "length (J s (sc_JournalName scope)) \<le> tip" "Suc tip < 2 ^ 64" "ledger_grows J s t"
    "page_through st tenant session (J t (sc_JournalName scope)) 1 tip page"
proof -
  from assms(4) obtain scan u recs scan' following where plan: "planJournalRead st journalCursorRuntime tenant session 0 [] 0 False 0 s = (Inr scan, u)"
    and walk: "walkJournal st scan (\<lambda>_. True) runtimeItem u = (Inr (recs, scan'), t)"
    and cursor: "nextJournalCursor st journalCursorRuntime tenant session scan' = Inr following"
    and page: "rg_Records page = recs" "rg_NextCursor page = following"
    by (auto simp: ReadRuntimeJournal_def runtimeRequest_def elim!: bindE_InrE)
  from plan show thesis
  proof (rule planJournalRead_Inr)
    fix scope :: sessionScope and tip v
    let ?n = "sc_JournalName scope"
    assume scope: "deriveSessionScope st tenant session = Inr scope" and v: "verifySessionScope st scope s = (Inr (), v)"
      and tip: "lg_Tip st ?n v = (Inr tip, u)" and scan: "jn_scope scan = scope" "jn_limit scan = st_MaxPageSize st"
      "jn_scanLimit scan = 0" "\<not> jn_truncated scan"
      and start: "([] :: string) = [] \<Longrightarrow> jn_from scan = 1 \<and> jn_capturedTip scan = tip \<and> jn_covered scan = 0"
    note len = ledger_tip [OF assms(1) tip]
    have grow: "ledger_grows J s u"
      using appendsD [OF appends_verifySessionScope [OF assms(1)] v] appendsD [OF appends_provider(3) [OF assms(1)] tip]
      by (rule ledger_grows_trans)
    have walked: "ledger_grows J u t \<and> jn_capturedTip scan' = jn_capturedTip scan \<and>
      walked_from (st_core st) (J t ?n) (unat (jn_from scan)) (unat (jn_capturedTip scan)) recs scan' \<and>
      (unat (jn_from scan) \<le> unat (jn_capturedTip scan) \<longrightarrow> recs \<noteq> [])"
      unfolding scan(1) [symmetric]
      by (rule walkJournal_runtime [OF assms(1) walk]) (use start scan len assms(3) in simp_all)
    have "jn_capturedTip scan' = word_of_nat (unat tip)" using walked start by simp
    then have "page_through st tenant session (J t ?n) 1 (unat tip) page"
      by (rule walked_page [OF _ _ _ _ cursor assms(2) page, rotated]) (use walked start conjunct2 [OF len] in simp_all)
    moreover have "unat tip \<le> length (J t ?n)" "length (J s ?n) \<le> unat tip" "Suc (unat tip) < 2 ^ 64"
      using ledger_grows_length [OF conjunct1 [OF walked]] ledger_grows_length [OF grow] len by simp_all
    moreover have "ledger_grows J s t" using grow conjunct1 [OF walked] by (rule ledger_grows_trans)
    ultimately show thesis using scope that by blast
  qed
qed

lemma next_page:
  assumes "ledger_contract st J" and "digest32 st" and "0 < st_MaxPageSize st"
    and "deriveSessionScope st tenant session = Inr scope"
    and "encodeJournalCursor journalCursorRuntime st tenant session (word_of_nat i) (word_of_nat tip) = Inr cursor"
    and "1 \<le> i" and "i \<le> tip" and "tip \<le> length (J s (sc_JournalName scope))" and "Suc tip < 2 ^ 64"
    and "ReadRuntimeJournal st (runtimeRequest tenant session cursor) s = (Inr page, t)"
  shows "ledger_grows J s t" "page_through st tenant session (J t (sc_JournalName scope)) i tip page"
proof -
  let ?n = "sc_JournalName scope" and ?i = "word_of_nat i :: u64" and ?tip = "word_of_nat tip :: u64"
  from assms(10) obtain scan u recs scan' following where plan: "planJournalRead st journalCursorRuntime tenant session 0 cursor 0 False 0 s = (Inr scan, u)"
    and walk: "walkJournal st scan (\<lambda>_. True) runtimeItem u = (Inr (recs, scan'), t)"
    and cursor: "nextJournalCursor st journalCursorRuntime tenant session scan' = Inr following"
    and page: "rg_Records page = recs" "rg_NextCursor page = following"
    by (auto simp: ReadRuntimeJournal_def runtimeRequest_def elim!: bindE_InrE)
  have nat: "unat ?i = i" "unat ?tip = tip" using assms(7,9) by (simp_all add: unat_of_nat)
  have bounds: "1 \<le> ?i" "?i \<le> ?tip" "Suc (unat ?tip) < 2 ^ 64" using assms(6,7,9) nat by (simp_all add: word_le_nat_alt)
  from plan have "ledger_grows J s t \<and> page_through st tenant session (J t ?n) i tip page"
  proof (rule planJournalRead_Inr)
    fix scope' :: sessionScope and live v
    assume scope': "deriveSessionScope st tenant session = Inr scope'" and v: "verifySessionScope st scope' s = (Inr (), v)"
      and live: "lg_Tip st (sc_JournalName scope') v = (Inr live, u)" and scan: "jn_scope scan = scope'" "jn_limit scan = st_MaxPageSize st"
      "jn_scanLimit scan = 0" "\<not> jn_truncated scan"
      and start: "\<And>p. cursor \<noteq> [] \<Longrightarrow> decodeJournalCursor journalCursorRuntime st tenant session cursor live = Inr p \<Longrightarrow>
        1 \<le> jp_nextSeq p \<Longrightarrow> jp_nextSeq p \<le> jp_capturedTip p \<Longrightarrow> jn_from scan = jp_nextSeq p \<and>
        jn_capturedTip scan = jp_capturedTip p \<and> jn_covered scan = jp_nextSeq p - 1"
    have same: "scope' = scope" using scope' assms(4) by simp
    have grow: "ledger_grows J s u"
      using appendsD [OF appends_verifySessionScope [OF assms(1)] v] appendsD [OF appends_provider(3) [OF assms(1)] live]
      by (rule ledger_grows_trans)
    from ledger_grows_length [OF grow] assms(8) have len: "tip \<le> length (J u ?n)" by (rule order.trans [rotated])
    with ledger_tip [OF assms(1) live] have "?tip \<le> live" by (simp add: same word_le_nat_alt nat)
    note decoded = journal_cursor_read [OF assms(2,5) bounds(1,2) this bounds(3)]
    from start [OF decoded(2,1)] bounds have at: "jn_from scan = ?i" "jn_capturedTip scan = ?tip" "jn_covered scan = ?i - 1" by simp_all
    have walked: "ledger_grows J u t \<and> jn_capturedTip scan' = jn_capturedTip scan \<and>
      walked_from (st_core st) (J t ?n) (unat (jn_from scan)) (unat (jn_capturedTip scan)) recs scan' \<and>
      (unat (jn_from scan) \<le> unat (jn_capturedTip scan) \<longrightarrow> recs \<noteq> [])"
      unfolding same [symmetric] scan(1) [symmetric]
      by (rule walkJournal_runtime [OF assms(1) walk]) (use at scan len bounds nat assms(3,7) same in simp_all)
    have "page_through st tenant session (J t ?n) i tip page"
      by (rule walked_page [OF _ _ _ _ cursor assms(2) page]) (use walked at nat assms(6,9) in simp_all)
    moreover have "ledger_grows J s t" using grow conjunct1 [OF walked] by (rule ledger_grows_trans)
    ultimately show ?thesis by blast
  qed
  then show "ledger_grows J s t" "page_through st tenant session (J t ?n) i tip page" by simp_all
qed

end
