(* ===== verification/Journal_Evidence.thy ===== *)
theory Journal_Evidence
  imports Journal_Pages Disposition_Lifecycle
begin

text \<open>
  \<^verbatim>\<open>disposition_evidence.go\<close>: the evidence reader that reads the session's own journal, page by page,
  for the one disposition record of an attempt, and the settlement that rests on it.
\<close>

text \<open>What the loop carries: the evidence found, and the opening fence seen last.\<close>

record evidence_scan =
  es_found :: "DispositionEvidence option"
  es_fenceEpoch :: u64
  es_fenceSeq :: u64

definition noEvidence :: evidence_scan where
  "noEvidence = \<lparr>es_found = None, es_fenceEpoch = 0, es_fenceSeq = 0\<rparr>"

definition evidenceOf :: "DispositionEvidenceRequest \<Rightarrow> RuntimeRecord \<Rightarrow> u64 \<Rightarrow> u64 \<Rightarrow> DispositionEvidence" where
  "evidenceOf req r fenceEpoch fenceSeq =
    (let kind = outcome_of_text (en_DispositionKind (rn_Envelope r)) in
     \<lparr>de_AttemptID = da_AttemptID (der_Attempt req), de_Kind = kind,
      de_AttemptJournalEpoch = en_AttemptJournalEpoch (rn_Envelope r), de_AuthorJournalEpoch = fenceEpoch,
      de_DispositionSeq = rn_Seq r, de_AuthorFenceSeq = (if kind = DispositionNotApplied then fenceSeq else 0),
      de_EventID = [], de_EventSeq = 0\<rparr>)"

definition evidenceStep ::
  "core_lib \<Rightarrow> DispositionEvidenceRequest \<Rightarrow> RuntimeRecord \<Rightarrow> evidence_scan \<Rightarrow> err + evidence_scan" where
  "evidenceStep c req r es =
    (let env = rn_Envelope r; bad = (\<lambda>field. Inl (inboxErr InboxErrorEvidence field)) in
     if en_Kind env = EnvelopeKindOpeningFence
       then Inr (es\<lparr>es_fenceEpoch := en_LeaseEpoch env, es_fenceSeq := rn_Seq r\<rparr>)
     else if en_Kind env \<noteq> EnvelopeKindCommandDisposition \<or> en_AttemptID env \<noteq> da_AttemptID (der_Attempt req) then Inr es
     else if en_CommandID env \<noteq> der_CommandID req then bad ''command_id''
     else if en_RuntimeCommandID env \<noteq> uuid_of c (der_RuntimeCommandID req) then bad ''runtime_command_id''
     else if en_CommandKind env \<noteq> der_Kind req then bad ''command_kind''
     else if es_fenceEpoch es = 0 then bad ''opening_fence''
     else if en_LeaseEpoch env \<noteq> es_fenceEpoch es then bad ''lease_epoch''
     else if es_found es \<noteq> None then bad ''disposition''
     else Inr (es\<lparr>es_found := Some (evidenceOf req r (es_fenceEpoch es) (es_fenceSeq es))\<rparr>))"

fun evidenceRecords ::
  "core_lib \<Rightarrow> DispositionEvidenceRequest \<Rightarrow> RuntimeRecord list \<Rightarrow> evidence_scan \<Rightarrow> err + evidence_scan" where
  "evidenceRecords c req [] es = Inr es"
| "evidenceRecords c req (r # rs) es = bindR (evidenceStep c req r es) (evidenceRecords c req rs)"

text \<open>The loop over the pages; \<open>None\<close> is a loop that has not ended after \<open>fuel\<close> pages.\<close>

fun evidenceLoop ::
  "nat \<Rightarrow> 's store \<Rightarrow> DispositionEvidenceRequest \<Rightarrow> string \<Rightarrow> evidence_scan \<Rightarrow> 's \<Rightarrow> ((err + evidence_scan) \<times> 's) option" where
  "evidenceLoop fuel st req cursor es s =
    (if fuel = 0 then None
     else case ReadRuntimeJournal st (runtimeRequest (der_TenantID req) (der_SessionID req) cursor) s of
       (Inl e, t) \<Rightarrow> Some (Inl e, t)
     | (Inr page, t) \<Rightarrow>
         (case evidenceRecords (st_core st) req (rg_Records page) es of
            Inl e \<Rightarrow> Some (Inl e, t)
          | Inr es1 \<Rightarrow>
              if rg_NextCursor page = [] then Some (Inr es1, t)
              else evidenceLoop (fuel - 1) st req (rg_NextCursor page) es1 t))"

declare evidenceLoop.simps [simp del]

definition ReadDispositionEvidence ::
  "nat \<Rightarrow> 's store \<Rightarrow> DispositionEvidenceRequest \<Rightarrow> 's \<Rightarrow> ((err + DispositionEvidence) \<times> 's) option" where
  "ReadDispositionEvidence fuel st req s =
    map_option (\<lambda>(r, t). (case r of
        Inl e \<Rightarrow> Inl e
      | Inr es \<Rightarrow> (case es_found es of None \<Rightarrow> Inl (inboxErr InboxErrorEvidence ''disposition'') | Some e \<Rightarrow> Inr e), t))
      (evidenceLoop fuel st req [] noEvidence s)"

text \<open>The Store with its own journal for an evidence reader; \<open>2 ^ 64\<close> pages are more than any journal has records.\<close>

definition WithJournalDispositionEvidence :: "'s store \<Rightarrow> 's store" where
  "WithJournalDispositionEvidence st = st\<lparr>st_evidence := Some (\<lambda>req s.
     case ReadDispositionEvidence (2 ^ 64) st req s of Some r \<Rightarrow> r | None \<Rightarrow> (Inl ContextError, s))\<rparr>"

subsection \<open>The loop reads one prefix of the journal, and ends\<close>

lemma evidenceRecords_append:
  "evidenceRecords c req (rs @ qs) es = bindR (evidenceRecords c req rs es) (evidenceRecords c req qs)"
  by (induction rs arbitrary: es) (auto simp: bindR_def split: sum.split)

definition evidence_read :: "'s store \<Rightarrow> DispositionEvidenceRequest \<Rightarrow> string list \<Rightarrow> nat \<Rightarrow> evidence_scan \<Rightarrow> err + evidence_scan \<Rightarrow> bool" where
  "evidence_read st req js i es r \<longleftrightarrow> (\<forall>es'. r = Inr es' \<longrightarrow>
     (\<exists>recs. runtime_records (st_core st) i (drop (i - 1) js) = Some recs \<and> evidenceRecords (st_core st) req recs es = Inr es'))"

lemma drop_take_split:
  assumes "i + k \<le> Suc tip" and "1 \<le> i"
  shows "drop (i - 1) (take tip js) = take k (drop (i - 1) js) @ drop (i + k - 1) (take tip js)"
proof -
  have "drop (i - 1) (take tip js) = take k (drop (i - 1) (take tip js)) @ drop k (drop (i - 1) (take tip js))"
    by (rule append_take_drop_id [symmetric])
  moreover have "take k (drop (i - 1) (take tip js)) = take k (drop (i - 1) js)"
  proof -
    have le: "k \<le> tip - (i - 1)" using assms by simp
    show ?thesis by (simp only: drop_take take_take min_absorb1 [OF le])
  qed
  moreover have "drop k (drop (i - 1) (take tip js)) = drop (i + k - 1) (take tip js)"
    using assms by (simp add: add.commute)
  ultimately show ?thesis by simp
qed

text \<open>One page and what follows it.\<close>

lemma evidence_page:
  assumes "page_through st tenant session js i tip page" and "1 \<le> i" and "i \<le> Suc tip" and "tip \<le> length js"
    and "evidenceRecords (st_core st) req (rg_Records page) es = Inr es1"
  shows "rg_NextCursor page = [] \<Longrightarrow> evidence_read st req (take tip js) i es (Inr es1)"
    and "evidence_read st req (take tip js) (i + length (rg_Records page)) es1 r \<Longrightarrow> rg_NextCursor page \<noteq> [] \<Longrightarrow>
      evidence_read st req (take tip js) i es r"
proof -
  let ?k = "length (rg_Records page)"
  have recs: "runtime_records (st_core st) i (take ?k (drop (i - 1) js)) = Some (rg_Records page)"
    using assms(1) by (simp add: page_through_def)
  have fits: "i + ?k \<le> Suc tip" using assms(1) by (auto simp: page_through_def split: if_split_asm)
  note split = drop_take_split [OF fits assms(2), of js]
  have len: "length (take ?k (drop (i - 1) js)) = ?k" using fits assms(2,4) by simp
  {
    assume "rg_NextCursor page = []"
    then have "i + ?k = Suc tip" using assms(1) by (simp add: page_through_def)
    then have "drop (i - 1) (take tip js) = take ?k (drop (i - 1) js)" using split by simp
    with recs assms(5) show "evidence_read st req (take tip js) i es (Inr es1)" by (simp add: evidence_read_def)
  next
    assume rest: "evidence_read st req (take tip js) (i + ?k) es1 r"
    show "evidence_read st req (take tip js) i es r"
      unfolding evidence_read_def
    proof (intro allI impI)
      fix es'
      assume "r = Inr es'"
      with rest obtain more where more: "runtime_records (st_core st) (i + ?k) (drop (i + ?k - 1) (take tip js)) = Some more"
        "evidenceRecords (st_core st) req more es1 = Inr es'" by (auto simp: evidence_read_def)
      have "runtime_records (st_core st) i (drop (i - 1) (take tip js)) = Some (rg_Records page @ more)"
        unfolding split runtime_records_append recs len using more(1) by simp
      moreover have "evidenceRecords (st_core st) req (rg_Records page @ more) es = Inr es'"
        using assms(5) more(2) by (simp add: evidenceRecords_append)
      ultimately show "\<exists>recs. runtime_records (st_core st) i (drop (i - 1) (take tip js)) = Some recs \<and>
        evidenceRecords (st_core st) req recs es = Inr es'" by blast
    qed
  }
qed

definition loop_reads ::
  "'s store \<Rightarrow> 's journals \<Rightarrow> DispositionEvidenceRequest \<Rightarrow> string \<Rightarrow> nat \<Rightarrow> nat \<Rightarrow> evidence_scan \<Rightarrow> 's
    \<Rightarrow> err + evidence_scan \<Rightarrow> 's \<Rightarrow> bool" where
  "loop_reads st J req n i tip es s r t \<longleftrightarrow> (\<forall>es'. r = Inr es' \<longrightarrow> ledger_grows J s t \<and> tip \<le> length (J t n)) \<and>
     evidence_read st req (take tip (J t n)) i es r"

lemma loop_reads_Inl [simp]: "loop_reads st J req n i tip es s (Inl e) t"
  by (simp add: loop_reads_def evidence_read_def)

text \<open>A page that was read, and the rest of the loop from the state it left.\<close>

lemma loop_reads_page:
  assumes "ledger_grows J s u" and "page_through st tenant session (J u n) i tip page" and "1 \<le> i" and "i \<le> Suc tip"
    and "tip \<le> length (J u n)" and "evidenceRecords (st_core st) req (rg_Records page) es = Inr es1"
  shows "rg_NextCursor page = [] \<Longrightarrow> loop_reads st J req n i tip es s (Inr es1) u"
    and "rg_NextCursor page \<noteq> [] \<Longrightarrow> loop_reads st J req n (i + length (rg_Records page)) tip es1 u r t \<Longrightarrow>
      loop_reads st J req n i tip es s r t"
proof -
  note parts = evidence_page [OF assms(2-5,6)]
  {
    assume "rg_NextCursor page = []"
    with parts(1) assms(1,5) show "loop_reads st J req n i tip es s (Inr es1) u" by (simp add: loop_reads_def)
  next
    assume more: "rg_NextCursor page \<noteq> []" and rest: "loop_reads st J req n (i + length (rg_Records page)) tip es1 u r t"
    show "loop_reads st J req n i tip es s r t"
    proof (cases r)
      case (Inr es')
      with rest have grow: "ledger_grows J u t" and len: "tip \<le> length (J t n)" by (simp_all add: loop_reads_def)
      have "take tip (J t n) = take tip (J u n)" by (rule ledger_grows_take [OF grow assms(5)])
      with rest more parts(2) [of r] have "evidence_read st req (take tip (J t n)) i es r" by (simp add: loop_reads_def)
      with ledger_grows_trans [OF assms(1) grow] len show ?thesis by (simp add: loop_reads_def)
    qed simp
  }
qed

lemma evidenceLoop_continues:
  assumes "ledger_contract st J" and "digest32 st" and "0 < st_MaxPageSize st"
    and "deriveSessionScope st (der_TenantID req) (der_SessionID req) = Inr scope"
    and "encodeJournalCursor journalCursorRuntime st (der_TenantID req) (der_SessionID req) (word_of_nat i) (word_of_nat tip) = Inr cursor"
    and "1 \<le> i" and "i \<le> tip" and "tip \<le> length (J s (sc_JournalName scope))" and "tip < i + fuel" and "Suc tip < 2 ^ 64"
  shows "\<exists>r t. evidenceLoop fuel st req cursor es s = Some (r, t) \<and> loop_reads st J req (sc_JournalName scope) i tip es s r t"
  using assms(5-9)
proof (induction fuel arbitrary: i cursor es s)
  case 0
  then show ?case by simp
next
  case (Suc fuel)
  let ?n = "sc_JournalName scope" and ?req = "runtimeRequest (der_TenantID req) (der_SessionID req) cursor"
  obtain p u where read: "ReadRuntimeJournal st ?req s = (p, u)" by (metis surj_pair)
  show ?case
  proof (cases p)
    case (Inl e)
    with read show ?thesis by (simp add: evidenceLoop.simps [of "Suc fuel"])
  next
    case (Inr page)
    note page = next_page [OF assms(1-4) Suc.prems(1-4) assms(10) read [unfolded Inr]]
    from ledger_grows_length [OF page(1)] Suc.prems(4) have tip: "tip \<le> length (J u ?n)" by (rule order.trans [rotated])
    show ?thesis
    proof (cases "evidenceRecords (st_core st) req (rg_Records page) es")
      case (Inl e)
      with read Inr show ?thesis by (simp add: evidenceLoop.simps [of "Suc fuel"])
    next
      case es1: (Inr es1)
      note whole = loop_reads_page [OF page Suc.prems(2) le_SucI [OF Suc.prems(3)] tip es1]
      show ?thesis
      proof (cases "rg_NextCursor page = []")
        case True
        with whole(1) read Inr es1 show ?thesis by (simp add: evidenceLoop.simps [of "Suc fuel"])
      next
        case False
        let ?j = "i + length (rg_Records page)"
        from False page(2) have j: "?j \<le> tip" "0 < length (rg_Records page)" and enc: "encodeJournalCursor journalCursorRuntime st
            (der_TenantID req) (der_SessionID req) (word_of_nat ?j) (word_of_nat tip) = Inr (rg_NextCursor page)"
          by (simp_all add: page_through_def)
        from j Suc.prems(2,5) have "1 \<le> ?j" "tip < ?j + fuel" by linarith+
        from Suc.IH [OF enc this(1) j(1) tip this(2)] obtain r t where
          "evidenceLoop fuel st req (rg_NextCursor page) es1 u = Some (r, t)" "loop_reads st J req ?n ?j tip es1 u r t" by blast
        with whole(2) [OF False] read Inr es1 False show ?thesis by (auto simp: evidenceLoop.simps [of "Suc fuel"])
      qed
    qed
  qed
qed

lemma evidenceLoop_from_start:
  assumes "ledger_contract st J" and "digest32 st" and "0 < st_MaxPageSize st" and "2 ^ 64 \<le> fuel"
  shows "\<exists>r t. evidenceLoop fuel st req [] noEvidence s = Some (r, t) \<and>
    (\<forall>es. r = Inr es \<longrightarrow> (\<exists>scope tip. deriveSessionScope st (der_TenantID req) (der_SessionID req) = Inr scope \<and>
      length (J s (sc_JournalName scope)) \<le> tip \<and> tip \<le> length (J t (sc_JournalName scope)) \<and> tip < 2 ^ 64 \<and>
      loop_reads st J req (sc_JournalName scope) 1 tip noEvidence s r t))"
proof -
  obtain p u where read: "ReadRuntimeJournal st (runtimeRequest (der_TenantID req) (der_SessionID req) []) s = (p, u)" by (metis surj_pair)
  obtain m where fuel: "fuel = Suc m" using assms(4) by (cases fuel) auto
  show ?thesis
  proof (cases p)
    case (Inl e)
    with read show ?thesis by (simp add: fuel evidenceLoop.simps [of "Suc m"])
  next
    case (Inr page)
    show ?thesis
    proof (rule first_page [OF assms(1-3) read [unfolded Inr]])
      fix scope :: sessionScope and tip
      let ?n = "sc_JournalName scope"
      assume scope: "deriveSessionScope st (der_TenantID req) (der_SessionID req) = Inr scope"
        and tip: "tip \<le> length (J u ?n)" "length (J s ?n) \<le> tip" "Suc tip < 2 ^ 64" and grow: "ledger_grows J s u"
        and page: "page_through st (der_TenantID req) (der_SessionID req) (J u ?n) 1 tip page"
      have goal: ?thesis if "evidenceLoop fuel st req [] noEvidence s = Some (r, t)"
        "loop_reads st J req ?n 1 tip noEvidence s r t" for r t
        using that scope tip by (auto simp: loop_reads_def intro!: exI [of _ tip])
      show ?thesis
      proof (cases "evidenceRecords (st_core st) req (rg_Records page) noEvidence")
        case (Inl e)
        with read Inr show ?thesis by (simp add: fuel evidenceLoop.simps [of "Suc m"])
      next
        case es1: (Inr es1)
        have le: "(1 :: nat) \<le> 1" "1 \<le> Suc tip" by simp_all
        note whole = loop_reads_page [OF grow page le tip(1) es1]
        show ?thesis
        proof (cases "rg_NextCursor page = []")
          case True
          with whole(1) read Inr es1 show ?thesis by (intro goal) (simp_all add: fuel evidenceLoop.simps [of "Suc m"])
        next
          case False
          let ?j = "1 + length (rg_Records page)"
          from False page have j: "?j \<le> tip" and enc: "encodeJournalCursor journalCursorRuntime st
              (der_TenantID req) (der_SessionID req) (word_of_nat ?j) (word_of_nat tip) = Inr (rg_NextCursor page)"
            by (simp_all add: page_through_def)
          have "1 \<le> ?j" "tip < ?j + m" using assms(4) tip(3) fuel by simp_all
          from evidenceLoop_continues [OF assms(1-3) scope enc this(1) j tip(1) this(2) tip(3)] obtain r t where
            "evidenceLoop m st req (rg_NextCursor page) es1 u = Some (r, t)" "loop_reads st J req ?n ?j tip es1 u r t" by blast
          with whole(2) [OF False] read Inr es1 False show ?thesis by (intro goal) (auto simp: fuel evidenceLoop.simps [of "Suc m"])
        qed
      qed
    qed
  qed
qed

text \<open>
  C13. Reading evidence from the journal always ends: \<open>2 ^ 64\<close> pages are enough for any journal the ledger
  can hold, whoever appends while it is read, because the first page captures the tip and every page
  after it makes progress.
\<close>

theorem journal_evidence_read_ends:
  assumes "ledger_contract st J" and "digest32 st" and "0 < st_MaxPageSize st" and "2 ^ 64 \<le> fuel"
  shows "\<exists>r t. ReadDispositionEvidence fuel st req s = Some (r, t)"
  using evidenceLoop_from_start [OF assms, of req s] by (auto simp: ReadDispositionEvidence_def)

subsection \<open>What was found\<close>

definition names_attempt :: "DispositionEvidenceRequest \<Rightarrow> RuntimeRecord \<Rightarrow> bool" where
  "names_attempt req r \<longleftrightarrow> en_Kind (rn_Envelope r) = EnvelopeKindCommandDisposition \<and>
     en_AttemptID (rn_Envelope r) = da_AttemptID (der_Attempt req)"

text \<open>The opening fence in force at a position: the last one before it.\<close>

definition fence_before :: "RuntimeRecord list \<Rightarrow> nat \<Rightarrow> RuntimeRecord option" where
  "fence_before recs k = List.find (\<lambda>r. en_Kind (rn_Envelope r) = EnvelopeKindOpeningFence) (rev (take k recs))"

text \<open>The record at \<open>k\<close> is the disposition of the attempt, written under the lease whose fence is in force.\<close>

definition disposes :: "core_lib \<Rightarrow> DispositionEvidenceRequest \<Rightarrow> RuntimeRecord list \<Rightarrow> nat \<Rightarrow> RuntimeRecord \<Rightarrow> bool" where
  "disposes c req recs k fence \<longleftrightarrow> k < length recs \<and> names_attempt req (recs ! k) \<and>
     (let env = rn_Envelope (recs ! k) in
      en_CommandID env = der_CommandID req \<and> en_RuntimeCommandID env = uuid_of c (der_RuntimeCommandID req) \<and>
      en_CommandKind env = der_Kind req \<and> fence_before recs k = Some fence \<and>
      en_LeaseEpoch env = en_LeaseEpoch (rn_Envelope fence) \<and> en_LeaseEpoch env \<noteq> 0)"

definition found_inv :: "core_lib \<Rightarrow> DispositionEvidenceRequest \<Rightarrow> RuntimeRecord list \<Rightarrow> DispositionEvidence option \<Rightarrow> bool" where
  "found_inv c req recs found \<longleftrightarrow>
    (case found of
       None \<Rightarrow> \<forall>r \<in> set recs. \<not> names_attempt req r
     | Some e \<Rightarrow> \<exists>k f. disposes c req recs k f \<and> e = evidenceOf req (recs ! k) (en_LeaseEpoch (rn_Envelope f)) (rn_Seq f) \<and>
         (\<forall>j < length recs. names_attempt req (recs ! j) \<longrightarrow> j = k))"

definition fence_inv :: "RuntimeRecord list \<Rightarrow> evidence_scan \<Rightarrow> bool" where
  "fence_inv recs es \<longleftrightarrow>
    (case fence_before recs (length recs) of
       None \<Rightarrow> es_fenceEpoch es = 0
     | Some f \<Rightarrow> es_fenceEpoch es = en_LeaseEpoch (rn_Envelope f) \<and> es_fenceSeq es = rn_Seq f)"

lemma fence_before_snoc [simp]:
  "k \<le> length recs \<Longrightarrow> fence_before (recs @ [r]) k = fence_before recs k"
  "fence_before (recs @ [r]) (Suc (length recs)) =
    (if en_Kind (rn_Envelope r) = EnvelopeKindOpeningFence then Some r else fence_before recs (length recs))"
  by (simp_all add: fence_before_def)

lemma disposes_snoc: "disposes c req recs k f \<Longrightarrow> disposes c req (recs @ [r]) k f \<and> (recs @ [r]) ! k = recs ! k"
  by (auto simp: disposes_def nth_append Let_def)

lemma found_inv_snoc:
  assumes "found_inv c req recs found" and "\<not> names_attempt req r"
  shows "found_inv c req (recs @ [r]) found"
proof (cases found)
  case None
  with assms show ?thesis by (simp add: found_inv_def)
next
  case (Some e)
  with assms(1) obtain k f where k: "disposes c req recs k f" "e = evidenceOf req (recs ! k) (en_LeaseEpoch (rn_Envelope f)) (rn_Seq f)"
    "\<forall>j < length recs. names_attempt req (recs ! j) \<longrightarrow> j = k" by (auto simp: found_inv_def)
  note there = disposes_snoc [OF k(1), of r]
  have "\<forall>j < length (recs @ [r]). names_attempt req ((recs @ [r]) ! j) \<longrightarrow> j = k"
    using k(3) assms(2) by (auto simp: nth_append less_Suc_eq)
  with there k(2) show ?thesis unfolding found_inv_def Some option.case
    by (intro exI [of _ k] exI [of _ f]) simp
qed

lemma found_inv_first:
  assumes "found_inv c req recs None" and "disposes c req (recs @ [r]) (length recs) f"
  shows "found_inv c req (recs @ [r]) (Some (evidenceOf req r (en_LeaseEpoch (rn_Envelope f)) (rn_Seq f)))"
proof -
  have "\<forall>j < length (recs @ [r]). names_attempt req ((recs @ [r]) ! j) \<longrightarrow> j = length recs"
    using assms(1) by (auto simp: found_inv_def nth_append less_Suc_eq)
  with assms(2) show ?thesis unfolding found_inv_def option.case
    by (intro exI [of _ "length recs"] exI [of _ f]) simp
qed

lemma evidenceStep_found:
  assumes "evidenceStep c req r es = Inr es'" and "names_attempt req r"
  shows "en_CommandID (rn_Envelope r) = der_CommandID req \<and> en_RuntimeCommandID (rn_Envelope r) = uuid_of c (der_RuntimeCommandID req) \<and>
    en_CommandKind (rn_Envelope r) = der_Kind req \<and> es_fenceEpoch es \<noteq> 0 \<and> en_LeaseEpoch (rn_Envelope r) = es_fenceEpoch es \<and>
    es_found es = None \<and> es' = es\<lparr>es_found := Some (evidenceOf req r (es_fenceEpoch es) (es_fenceSeq es))\<rparr>"
  using assms by (simp add: evidenceStep_def names_attempt_def Let_def split: if_split_asm)

lemma evidence_inv_step:
  assumes "fence_inv recs es" and "found_inv c req recs (es_found es)" and "evidenceStep c req r es = Inr es'"
  shows "fence_inv (recs @ [r]) es' \<and> found_inv c req (recs @ [r]) (es_found es')"
proof (cases "names_attempt req r")
  case False
  show ?thesis
  proof (cases "en_Kind (rn_Envelope r) = EnvelopeKindOpeningFence")
    case True
    with assms(3) have "es' = es\<lparr>es_fenceEpoch := en_LeaseEpoch (rn_Envelope r), es_fenceSeq := rn_Seq r\<rparr>"
      by (simp add: evidenceStep_def)
    with True found_inv_snoc [OF assms(2) False] show ?thesis by (simp add: fence_inv_def)
  next
    case other: False
    with assms(3) False have "es' = es" by (simp add: evidenceStep_def names_attempt_def)
    with other assms(1) found_inv_snoc [OF assms(2) False] show ?thesis by (simp add: fence_inv_def)
  qed
next
  case True
  note found = evidenceStep_found [OF assms(3) True]
  have kind: "en_Kind (rn_Envelope r) \<noteq> EnvelopeKindOpeningFence" using True by (simp add: names_attempt_def)
  from found assms(1) obtain f where f: "fence_before recs (length recs) = Some f" "es_fenceEpoch es = en_LeaseEpoch (rn_Envelope f)"
    "es_fenceSeq es = rn_Seq f" by (auto simp: fence_inv_def split: option.split_asm)
  have "disposes c req (recs @ [r]) (length recs) f" using found True f by (simp add: disposes_def Let_def)
  from found_inv_first [OF _ this] assms(2) found have
    "found_inv c req (recs @ [r]) (Some (evidenceOf req r (en_LeaseEpoch (rn_Envelope f)) (rn_Seq f)))" by simp
  with found f kind assms(1) show ?thesis by (simp add: fence_inv_def)
qed

lemma evidenceRecords_inv:
  "evidenceRecords c req recs noEvidence = Inr es \<Longrightarrow> fence_inv recs es \<and> found_inv c req recs (es_found es)"
proof (induction recs arbitrary: es rule: rev_induct)
  case Nil
  then show ?case by (auto simp: fence_inv_def found_inv_def noEvidence_def fence_before_def)
next
  case (snoc r recs)
  then obtain es0 where "evidenceRecords c req recs noEvidence = Inr es0" "evidenceStep c req r es0 = Inr es"
    by (auto simp: evidenceRecords_append)
  with snoc.IH evidence_inv_step show ?case by blast
qed

lemma journal_evidence_found:
  assumes "ledger_contract st J" and "digest32 st" and "0 < st_MaxPageSize st" and "2 ^ 64 \<le> fuel"
    and "ReadDispositionEvidence fuel st req s = Some (Inr e, t)"
  obtains scope tip recs k f where "deriveSessionScope st (der_TenantID req) (der_SessionID req) = Inr scope"
    "length (J s (sc_JournalName scope)) \<le> tip" "tip \<le> length (J t (sc_JournalName scope))"
    "runtime_records (st_core st) 1 (take tip (J t (sc_JournalName scope))) = Some recs"
    "disposes (st_core st) req recs k f" "e = evidenceOf req (recs ! k) (en_LeaseEpoch (rn_Envelope f)) (rn_Seq f)"
    "\<forall>j < length recs. names_attempt req (recs ! j) \<longrightarrow> j = k"
proof -
  from assms(5) obtain es where loop: "evidenceLoop fuel st req [] noEvidence s = Some (Inr es, t)" and found: "es_found es = Some e"
  proof (cases "evidenceLoop fuel st req [] noEvidence s")
    case (Some p)
    obtain r u where p: "p = (r, u)" by (cases p)
    with Some assms(5) show thesis
      by (cases r) (auto simp: ReadDispositionEvidence_def split: option.split_asm intro: that)
  qed (use assms(5) in \<open>simp add: ReadDispositionEvidence_def\<close>)
  from evidenceLoop_from_start [OF assms(1-4), of req s] loop obtain scope :: sessionScope and tip
    where scope: "deriveSessionScope st (der_TenantID req) (der_SessionID req) = Inr scope"
      "length (J s (sc_JournalName scope)) \<le> tip" "tip \<le> length (J t (sc_JournalName scope))"
      and reads: "loop_reads st J req (sc_JournalName scope) 1 tip noEvidence s (Inr es) t" by auto
  from reads obtain recs where recs: "runtime_records (st_core st) 1 (take tip (J t (sc_JournalName scope))) = Some recs"
    "evidenceRecords (st_core st) req recs noEvidence = Inr es" by (auto simp: loop_reads_def evidence_read_def)
  from evidenceRecords_inv [OF recs(2)] found obtain k f where "disposes (st_core st) req recs k f"
    "e = evidenceOf req (recs ! k) (en_LeaseEpoch (rn_Envelope f)) (rn_Seq f)"
    "\<forall>j < length recs. names_attempt req (recs ! j) \<longrightarrow> j = k" by (auto simp: found_inv_def)
  with scope recs(1) that show thesis by blast
qed

text \<open>
  C12. Evidence read from the journal is what the journal says: it describes one record of the prefix that
  ends at the tip captured by the first page, the disposition record of the request's attempt, command,
  runtime command and kind, written under the lease of the opening fence in force at that record; no other
  record of that prefix is a disposition of the attempt.
\<close>

theorem journal_evidence_is_the_journals:
  assumes "ledger_contract st J" and "digest32 st" and "0 < st_MaxPageSize st" and "2 ^ 64 \<le> fuel"
    and "ReadDispositionEvidence fuel st req s = Some (Inr e, t)"
  shows "\<exists>scope tip recs k f. deriveSessionScope st (der_TenantID req) (der_SessionID req) = Inr scope \<and>
    length (J s (sc_JournalName scope)) \<le> tip \<and> tip \<le> length (J t (sc_JournalName scope)) \<and>
    runtime_records (st_core st) 1 (take tip (J t (sc_JournalName scope))) = Some recs \<and>
    disposes (st_core st) req recs k f \<and> e = evidenceOf req (recs ! k) (en_LeaseEpoch (rn_Envelope f)) (rn_Seq f) \<and>
    (\<forall>j < length recs. names_attempt req (recs ! j) \<longrightarrow> j = k)"
  using journal_evidence_found [OF assms] by metis

subsection \<open>Settlement from the journal\<close>

lemma extends_walkLoop:
  assumes "\<And>s env frame. extends hist (build s env frame)"
  shows "extends hist (walkLoop c selects build items scan page used examined)"
proof (induction items arbitrary: scan page used examined)
  case Nil
  show ?case by (subst walkLoop.simps) (auto intro!: extends_intros)
next
  case (Cons item rest)
  then show ?case
    by (cases item) (auto simp: walkLoop_Cons Let_def intro!: extends_intros assms split: sum.split)
qed

lemma extends_ReadRuntimeJournal:
  assumes "oi_contract st hist"
  shows "extends hist (ReadRuntimeJournal st req)"
proof -
  have "extends hist (planJournalRead st kind tenant session fromSeq cursor limit tailing scanLimit)"
    for kind tenant session fromSeq cursor limit tailing scanLimit
    unfolding planJournalRead_def Let_def by (intro extends_intros assms)
  moreover have "extends hist (walkJournal st scan (\<lambda>_. True) runtimeItem)" for scan
    unfolding walkJournal_def by (intro extends_intros assms extends_walkLoop)
  ultimately show ?thesis unfolding ReadRuntimeJournal_def by (intro extends_intros)
qed

lemma evidenceLoop_extends:
  assumes "oi_contract st hist"
  shows "evidenceLoop fuel st req cursor es s = Some (r, t) \<Longrightarrow> grows hist s t"
proof (induction fuel arbitrary: cursor es s)
  case 0
  then show ?case by (simp add: evidenceLoop.simps [of 0])
next
  case (Suc fuel)
  obtain p u where read: "ReadRuntimeJournal st (runtimeRequest (der_TenantID req) (der_SessionID req) cursor) s = (p, u)"
    by (metis surj_pair)
  have grow: "grows hist s u" by (rule extendsD [OF extends_ReadRuntimeJournal [OF assms] read])
  show ?case
  proof (cases p)
    case (Inl e)
    with Suc.prems read grow show ?thesis by (simp add: evidenceLoop.simps [of "Suc fuel"])
  next
    case (Inr page)
    with Suc.prems read grow show ?thesis
      by (auto simp: evidenceLoop.simps [of "Suc fuel"] split: sum.split_asm if_split_asm intro: grows_trans [OF grow Suc.IH])
  qed
qed

lemma journal_evidence_contract:
  assumes "oi_contract st hist"
  shows "oi_contract (WithJournalDispositionEvidence st) hist"
proof -
  have "grows hist s t" if "(case ReadDispositionEvidence (2 ^ 64) st req s of Some r \<Rightarrow> r | None \<Rightarrow> (Inl ContextError, s)) = (r, t)"
    for req s r t
  proof (cases "evidenceLoop (2 ^ 64) st req [] noEvidence s")
    case None
    with that show ?thesis by (simp add: ReadDispositionEvidence_def)
  next
    case (Some p)
    obtain q u where p: "p = (q, u)" by (cases p)
    with that Some have "t = u" by (simp add: ReadDispositionEvidence_def)
    with evidenceLoop_extends [OF assms Some [unfolded p]] show ?thesis by simp
  qed
  then have "extends hist (\<lambda>s. case ReadDispositionEvidence (2 ^ 64) st req s of Some r \<Rightarrow> r | None \<Rightarrow> (Inl ContextError, s))" for req
    unfolding extends_def by blast
  with assms show ?thesis
    by (simp add: WithJournalDispositionEvidence_def oi_contract_def calls_extend_def get_law_def create_law_def update_law_def)
qed

text \<open>
  C9. With the journal for its evidence reader, the Store settles a disposition command only by its journal:
  a settlement that changes a command rests on the one disposition record of the command's own attempt in
  the journal of its session, naming its command, runtime command and kind, written under the lease whose
  opening fence is in force there; the state stored is the one that record names, its sequence number and
  the fence's epoch are recorded, and unless the record says \<open>not_applied\<close> that epoch is the attempt's own.
\<close>

theorem settlement_rests_on_the_journal:
  assumes "oi_contract st hist" and "ledger_contract st J" and "digest32 st" and "0 < st_MaxPageSize st"
    and "core_utf8 (st_core st)" and "minute_zone (st_Now st s)"
    and "SettleDispositionCommand (WithJournalDispositionEvidence st) req s = (Inr (entry, True), t)"
  shows "\<exists>scope recs k f w attempt outcome d. d = di_Descriptor (dn_Record entry) \<and>
    deriveSessionScope st (dd_TenantID d) (dd_SessionID d) = Inr scope \<and>
    runtime_records (st_core st) 1 (take (length recs) (J w (sc_JournalName scope))) = Some recs \<and>
    di_Attempt (dn_Record entry) = Some attempt \<and> di_Outcome (dn_Record entry) = Some outcome \<and>
    disposes (st_core st) (evidenceRequest d attempt) recs k f \<and>
    (\<forall>j < length recs. names_attempt (evidenceRequest d attempt) (recs ! j) \<longrightarrow> j = k) \<and>
    do_Kind outcome = outcome_of_text (en_DispositionKind (rn_Envelope (recs ! k))) \<and>
    di_State (dn_Record entry) = terminalState (do_Kind outcome) \<and> do_DispositionSeq outcome = rn_Seq (recs ! k) \<and>
    do_AuthorJournalEpoch outcome = en_LeaseEpoch (rn_Envelope f) \<and>
    (do_Kind outcome \<noteq> DispositionNotApplied \<longrightarrow> en_LeaseEpoch (rn_Envelope f) = da_JournalEpoch attempt) \<and>
    (do_Kind outcome = DispositionNotApplied \<longrightarrow> da_JournalEpoch attempt < en_LeaseEpoch (rn_Envelope f))"
proof -
  let ?st = "WithJournalDispositionEvidence st"
  have core: "core_utf8 (st_core ?st)" "minute_zone (st_Now ?st s)" using assms(5,6) by (simp_all add: WithJournalDispositionEvidence_def)
  from settled_by_evidence [OF journal_evidence_contract [OF assms(1)] core assms(7)]
  obtain read claim attempt evidence outcome u w where reader: "st_evidence ?st = Some read"
    and stored: "di_Attempt (dn_Record entry) = Some attempt" "di_Outcome (dn_Record entry) = Some outcome"
    and evidence: "read (evidenceRequest (di_Descriptor (dn_Record entry)) attempt) u = (Inr evidence, w)"
    and out: "do_Kind outcome = de_Kind evidence" "do_DispositionSeq outcome = de_DispositionSeq evidence"
      "do_AuthorJournalEpoch outcome = de_AuthorJournalEpoch evidence" "di_State (dn_Record entry) = terminalState (de_Kind evidence)"
    and author: "if de_Kind evidence = DispositionNotApplied
     then da_JournalEpoch attempt < de_AuthorJournalEpoch evidence \<and> 0 < de_AuthorFenceSeq evidence \<and>
       de_AuthorFenceSeq evidence < de_DispositionSeq evidence
     else de_AuthorJournalEpoch evidence = da_JournalEpoch attempt" by blast
  let ?d = "di_Descriptor (dn_Record entry)"
  let ?r = "evidenceRequest ?d attempt"
  have found: "ReadDispositionEvidence (2 ^ 64) st ?r u = Some (Inr evidence, w)"
    using reader evidence by (auto simp: WithJournalDispositionEvidence_def split: option.split_asm)
  show ?thesis
  proof (rule journal_evidence_found [OF assms(2-4) order.refl found])
    fix scope :: sessionScope and tip recs k f
    let ?n = "sc_JournalName scope"
    assume scope: "deriveSessionScope st (der_TenantID ?r) (der_SessionID ?r) = Inr scope" and tip: "tip \<le> length (J w ?n)"
      and recs: "runtime_records (st_core st) 1 (take tip (J w ?n)) = Some recs" and k: "disposes (st_core st) ?r recs k f"
      and e: "evidence = evidenceOf ?r (recs ! k) (en_LeaseEpoch (rn_Envelope f)) (rn_Seq f)"
      and only: "\<forall>j < length recs. names_attempt ?r (recs ! j) \<longrightarrow> j = k"
    have "length recs = tip" using runtime_records_length [OF recs] tip by simp
    with recs have "runtime_records (st_core st) 1 (take (length recs) (J w ?n)) = Some recs" by simp
    moreover have "deriveSessionScope st (dd_TenantID ?d) (dd_SessionID ?d) = Inr scope" using scope by (simp add: evidenceRequest_def)
    moreover have "do_Kind outcome = outcome_of_text (en_DispositionKind (rn_Envelope (recs ! k)))"
      "do_DispositionSeq outcome = rn_Seq (recs ! k)" "do_AuthorJournalEpoch outcome = en_LeaseEpoch (rn_Envelope f)"
      "di_State (dn_Record entry) = terminalState (do_Kind outcome)" using out e by (simp_all add: evidenceOf_def Let_def)
    moreover have "(do_Kind outcome \<noteq> DispositionNotApplied \<longrightarrow> en_LeaseEpoch (rn_Envelope f) = da_JournalEpoch attempt) \<and>
      (do_Kind outcome = DispositionNotApplied \<longrightarrow> da_JournalEpoch attempt < en_LeaseEpoch (rn_Envelope f))"
      using author out(1) e by (simp add: evidenceOf_def Let_def split: if_split_asm)
    ultimately show ?thesis using stored k only by metis
  qed
qed

end
