(* ===== verification/Journal_Writer.thy ===== *)
theory Journal_Writer
  imports Journal_Evidence Object_Store
begin

text \<open>
  \<^verbatim>\<open>journal.go\<close>: the one writer of a session's journal.  Opening acquires the session's lease and appends
  an opening fence with its epoch at the tip; the writer then appends each record directly after the one
  it appended last, so that a record of another writer in between makes every later append fail.
\<close>

subsection \<open>The writer\<close>

definition DefaultJournalOverflowThresholdBytes :: int where "DefaultJournalOverflowThresholdBytes = 65536"

definition journalOverflowThreshold :: "'s store \<Rightarrow> int" where
  "journalOverflowThreshold st =
    (let threshold = (if st_overflowThreshold st \<le> 0 then DefaultJournalOverflowThresholdBytes else st_overflowThreshold st)
     in if threshold > int MaxInlineBodyBytes then int MaxInlineBodyBytes else threshold)"

definition classifyAppendError :: "append_error \<Rightarrow> string \<Rightarrow> err" where
  "classifyAppendError e field =
    (case e of
       AppendConflictError \<Rightarrow> journalErr JournalErrorFenced field
     | AppendAmbiguousError \<Rightarrow> journalErr JournalErrorUnknown field
     | AppendVerifyError \<Rightarrow> journalErr JournalErrorUnknown field
     | AppendOther \<Rightarrow> journalErr JournalErrorBackend field)"

record OpenJournalRequest =
  oj_TenantID :: string
  oj_SessionID :: string

record JournalWriter =
  jw_tenant :: string
  jw_session :: string
  jw_scope :: sessionScope
  jw_lease :: nat
  jw_epoch :: u64
  jw_tracked :: u64
  jw_failure :: "err option"
  jw_closed :: bool

definition Sequence :: "JournalWriter \<Rightarrow> u64" where
  "Sequence w = jw_tracked w"

definition openingFence :: "u64 \<Rightarrow> Envelope" where
  "openingFence epoch = (zeroEnvelope EnvelopeKindOpeningFence)\<lparr>en_LeaseEpoch := epoch\<rparr>"

text \<open>A step of the outside state alone, and an error that is latched in the writer when it is final.\<close>

definition onStore :: "('s, 'e, 'a) op \<Rightarrow> ('s \<times> JournalWriter, 'e, 'a) op" where
  "onStore m = (\<lambda>(s, w). case m s of (r, t) \<Rightarrow> (r, (t, w)))"

definition latch :: "err \<Rightarrow> JournalWriter \<Rightarrow> JournalWriter" where
  "latch e w =
    (case e of
       JournalError x \<Rightarrow>
         if je_Code x = JournalErrorFenced \<or> je_Code x = JournalErrorUnknown \<or> je_Code x = JournalErrorLeaseLost
         then w\<lparr>jw_failure := Some e\<rparr> else w
     | _ \<Rightarrow> w)"

definition failLatched :: "err \<Rightarrow> ('s \<times> JournalWriter, err, 'a) op" where
  "failLatched e = (\<lambda>(s, w). (Inl e, (s, latch e w)))"

definition stampWriterOwnedFields :: "JournalWriter \<Rightarrow> Envelope \<Rightarrow> err + Envelope" where
  "stampWriterOwnedFields w env =
    (if en_Kind env = EnvelopeKindOpeningFence then Inl (journalErr JournalErrorInvalid ''kind'')
     else if en_Kind env = EnvelopeKindApplicationPrefix \<or> en_Kind env = EnvelopeKindCommandDisposition then
       (if en_LeaseEpoch env \<noteq> 0 then Inl (journalErr JournalErrorInvalid ''lease_epoch'')
        else Inr (env\<lparr>en_LeaseEpoch := jw_epoch w\<rparr>))
     else Inr env)"

definition checkPublicInline :: "core_lib \<Rightarrow> Envelope \<Rightarrow> err + unit" where
  "checkPublicInline c env =
    (if en_Kind env \<noteq> EnvelopeKindPublicEvent then Inr ()
     else bindR (validatePublicBody c (en_EventID env) (bs_Inline (en_Public env))) (\<lambda>_.
       if (case bs_Inline (en_Public env) of None \<Rightarrow> False | Some b \<Rightarrow> length b > MaxInlineBodyBytes)
       then Inl (journalErr JournalErrorTooLarge ''public_body'') else Inr ()))"

definition leaseLost :: "u64 \<Rightarrow> err" where
  "leaseLost epoch = JournalError \<lparr>je_Code = JournalErrorLeaseLost, je_Field = ''lease'', je_Epoch = epoch\<rparr>"

definition AppendRecord :: "'s store \<Rightarrow> Envelope \<Rightarrow> ('s \<times> JournalWriter, err, u64) op" where
  "AppendRecord st env =
    bindE (askE snd) (\<lambda>w.
    if jw_closed w then failE (journalErr JournalErrorClosed ''writer'')
    else case jw_failure w of
      Some e \<Rightarrow> failE e
    | None \<Rightarrow>
        bindE (liftE (stampWriterOwnedFields w env)) (\<lambda>env1.
        bindE (liftE (checkPublicInline (st_core st) env1)) (\<lambda>_.
        bindE (askE (\<lambda>(s, _). le_Lost st (jw_lease w) s)) (\<lambda>lost.
        if lost then failLatched (leaseLost (jw_epoch w))
        else
          bindE (onStore (overflowBody st (jw_tenant w) (jw_session w) (en_Public env1) ObjectKindJournalPublic
            (journalOverflowThreshold st))) (\<lambda>public.
          bindE (onStore (overflowBody st (jw_tenant w) (jw_session w) (en_Runtime env1) ObjectKindJournalRuntime
            (journalOverflowThreshold st))) (\<lambda>runtime.
          bindE (liftE (EncodeEnvelope (st_core st) (env1\<lparr>en_Public := public, en_Runtime := runtime\<rparr>))) (\<lambda>frame.
          bindE (onStore (attemptE (lg_AppendDefinite st (sc_JournalName (jw_scope w)) (jw_tracked w) frame))) (\<lambda>r. case r of
            Inl e \<Rightarrow> failLatched (classifyAppendError e ''append'')
          | Inr _ \<Rightarrow> (\<lambda>(s, w1). (Inr (jw_tracked w1 + 1), (s, w1\<lparr>jw_tracked := jw_tracked w1 + 1\<rparr>)))))))))))"

definition CloseJournal :: "'s store \<Rightarrow> ('s \<times> JournalWriter, err, unit) op" where
  "CloseJournal st = (\<lambda>(s, w).
    if jw_closed w then (Inr (), (s, w))
    else (case le_Release st (jw_lease w) s of (r, t) \<Rightarrow>
      ((case r of Inl _ \<Rightarrow> Inl (journalErr JournalErrorBackend ''lease_release'') | Inr _ \<Rightarrow> Inr ()), (t, w\<lparr>jw_closed := True\<rparr>))))"

text \<open>A failure after the lease was acquired releases it, whatever the release says.\<close>

definition releasing :: "'s store \<Rightarrow> nat \<Rightarrow> ('s, 'a) store_op \<Rightarrow> ('s, 'a) store_op" where
  "releasing st lease m = (\<lambda>s. case m s of
     (Inl e, t) \<Rightarrow> (Inl e, snd (le_Release st lease t))
   | (Inr x, t) \<Rightarrow> (Inr x, t))"

definition appendFence :: "'s store \<Rightarrow> sessionScope \<Rightarrow> u64 \<Rightarrow> ('s, u64) store_op" where
  "appendFence st scope epoch =
    bindE (liftE (EncodeEnvelope (st_core st) (openingFence epoch))) (\<lambda>fence.
    bindE (classifyE (\<lambda>_. journalErr JournalErrorBackend ''tip'') (lg_Tip st (sc_JournalName scope))) (\<lambda>tip.
    bindE (classifyE (\<lambda>e. classifyAppendError e ''opening_fence'')
      (lg_AppendDefinite st (sc_JournalName scope) tip fence)) (\<lambda>_.
    returnE (tip + 1))))"

definition OpenJournal :: "'s store \<Rightarrow> OpenJournalRequest \<Rightarrow> ('s, JournalWriter) store_op" where
  "OpenJournal st req =
    bindE (liftE (deriveSessionScope st (oj_TenantID req) (oj_SessionID req))) (\<lambda>scope.
    bindE (admitForeground st) (\<lambda>_.
    bindE (bindSessionScope st scope) (\<lambda>_.
    bindE (classifyE (\<lambda>e. case e of
        LeaseHeldError holder \<Rightarrow> JournalError \<lparr>je_Code = JournalErrorLeaseHeld, je_Field = ''lease'', je_Epoch = holder\<rparr>
      | LeaseOther \<Rightarrow> journalErr JournalErrorBackend ''lease'') (le_Acquire st (sc_LeaseName scope))) (\<lambda>(lease, epoch).
    bindE (releasing st lease (appendFence st scope epoch)) (\<lambda>tracked.
    let w = \<lparr>jw_tenant = oj_TenantID req, jw_session = oj_SessionID req, jw_scope = scope, jw_lease = lease,
      jw_epoch = epoch, jw_tracked = tracked, jw_failure = None, jw_closed = False\<rparr> in
    bindE (askE (st_closing st)) (\<lambda>closing.
    if closing then (\<lambda>s. (Inl StoreClosedError, fst (snd (CloseJournal st (s, w)))))
    else returnE w))))))"

subsection \<open>The section a writer owns\<close>

definition written_under :: "u64 \<Rightarrow> Envelope \<Rightarrow> bool" where
  "written_under epoch env \<longleftrightarrow> en_Kind env \<noteq> EnvelopeKindOpeningFence \<and>
     (en_Kind env = EnvelopeKindApplicationPrefix \<or> en_Kind env = EnvelopeKindCommandDisposition \<longrightarrow> en_LeaseEpoch env = epoch)"

text \<open>
  The records from the sequence number \<open>at\<close> to \<open>to\<close> are the opening fence of \<open>epoch\<close> and records that
  are no fences, each at its place; those that name a lease's epoch name this one.
\<close>

definition section_of :: "core_lib \<Rightarrow> string list \<Rightarrow> u64 \<Rightarrow> nat \<Rightarrow> nat \<Rightarrow> bool" where
  "section_of c js epoch at to \<longleftrightarrow> 1 \<le> at \<and> at \<le> to \<and> to \<le> length js \<and>
     EncodeEnvelope c (openingFence epoch) = Inr (js ! (at - 1)) \<and>
     (\<forall>i. at < i \<and> i \<le> to \<longrightarrow> (\<exists>env. EncodeEnvelope c env = Inr (js ! (i - 1)) \<and> written_under epoch env))"

definition writer_inv :: "'s store \<Rightarrow> 's journals \<Rightarrow> nat \<Rightarrow> 's \<Rightarrow> JournalWriter \<Rightarrow> bool" where
  "writer_inv st J at s w \<longleftrightarrow>
     section_of (st_core st) (J s (sc_JournalName (jw_scope w))) (jw_epoch w) at (unat (jw_tracked w))"

lemma section_of_grows:
  assumes "section_of c (J s n) epoch at to" and "ledger_grows J s t"
  shows "section_of c (J t n) epoch at to"
proof -
  have same: "J t n ! i = J s n ! i \<and> i < length (J t n)" if "i < length (J s n)" for i
    using ledger_growsD [OF assms(2) that] by blast
  from assms(1) have "1 \<le> at" "at \<le> to" "to \<le> length (J s n)" by (simp_all add: section_of_def)
  moreover have "to \<le> length (J t n)" using \<open>to \<le> length (J s n)\<close> ledger_grows_length [OF assms(2)] by (rule order.trans)
  moreover have "J t n ! (i - 1) = J s n ! (i - 1)" if "at \<le> i" "i \<le> to" for i
    using same [of "i - 1"] that calculation by simp
  ultimately show ?thesis using assms(1) unfolding section_of_def by (metis le_refl less_imp_le)
qed

subsection \<open>What the writer's operations change\<close>

lemma appends_bind [appends_intros]:
  assumes "ledger_contract st J"
  shows "appends J (bindSessionScopeMode st scope mode)" "appends J (bindSessionScope st scope)"
proof -
  have witness: "appends J (bindWitness st k w)" for k w
    unfolding bindWitness_def by (intro appends_intros assms)
  have mode: "appends J (bindProtocolMode st scope mode)" for mode
    unfolding bindProtocolMode_def putProtocolWitness_def by (intro appends_intros assms)
  show "appends J (bindSessionScopeMode st scope mode)" for mode
    unfolding bindSessionScopeMode_def by (intro appends_intros witness mode)
  then show "appends J (bindSessionScope st scope)" unfolding bindSessionScope_def .
qed

lemma appends_overflowBody [appends_intros]:
  assumes "ledger_contract st J"
  shows "appends J (overflowBody st tenant session slot kind threshold)"
proof -
  have put: "appends J (putVerified st key v)" for key v
    using assms by (auto simp: appends_def putVerified_def ledger_contract_def calls_append_def split: prod.split_asm)
  have catalog: "appends J (dispositionCatalog st scope t i)" for scope t i
    unfolding dispositionCatalog_def readCatalogEntry_def by (intro appends_intros assms)
  have "appends J (putObject st req mode)" for req mode
    unfolding putObject_def verifyPersisted_def persistObjectMetadata_def Let_def
    by (intro appends_intros assms put catalog)
  then show ?thesis unfolding overflowBody_def PutObject_def by (intro appends_intros)
qed

text \<open>An operation of the writer that appends to no journal but through the ledger, and keeps the writer's identity and place.\<close>

definition quiet :: "'s journals \<Rightarrow> ('s \<times> JournalWriter, 'e, 'a) op \<Rightarrow> bool" where
  "quiet J m \<longleftrightarrow> (\<forall>s w r t w'. m (s, w) = (r, (t, w')) \<longrightarrow>
     ledger_grows J s t \<and> jw_scope w' = jw_scope w \<and> jw_epoch w' = jw_epoch w \<and> jw_tracked w' = jw_tracked w)"

lemma quietD:
  "quiet J m \<Longrightarrow> m (s, w) = (r, (t, w')) \<Longrightarrow>
     ledger_grows J s t \<and> jw_scope w' = jw_scope w \<and> jw_epoch w' = jw_epoch w \<and> jw_tracked w' = jw_tracked w"
  by (simp add: quiet_def)

lemma quiet_onStore: "appends J m \<Longrightarrow> quiet J (onStore m)"
  by (auto simp: quiet_def onStore_def appends_def split: prod.split_asm)

lemma quiet_pure: "quiet J (liftE x)" "quiet J (askE f)" "quiet J (failE e)" "quiet J (failLatched e')"
  by (auto simp: quiet_def failLatched_def latch_def split: err.split)

text \<open>A whole operation: nothing of the writer but its place moves, and that only when it succeeds.\<close>

definition writes :: "'s journals \<Rightarrow> ('s \<times> JournalWriter, 'e, 'a) op \<Rightarrow> bool" where
  "writes J m \<longleftrightarrow> (\<forall>s w r t w'. m (s, w) = (r, (t, w')) \<longrightarrow>
     ledger_grows J s t \<and> jw_scope w' = jw_scope w \<and> jw_epoch w' = jw_epoch w \<and>
     (\<forall>e. r = Inl e \<longrightarrow> jw_tracked w' = jw_tracked w))"

lemma writes_quiet: "quiet J m \<Longrightarrow> writes J m"
  by (simp add: quiet_def writes_def)

lemma writes_bindE:
  assumes "quiet J m" and "\<And>x. writes J (k x)"
  shows "writes J (bindE m k)"
  unfolding writes_def
proof (intro allI impI)
  fix s w r t w'
  assume run: "bindE m k (s, w) = (r, (t, w'))"
  obtain q u v where m: "m (s, w) = (q, (u, v))" by (metis surj_pair)
  note mid = quietD [OF assms(1) m]
  show "ledger_grows J s t \<and> jw_scope w' = jw_scope w \<and> jw_epoch w' = jw_epoch w \<and> (\<forall>e. r = Inl e \<longrightarrow> jw_tracked w' = jw_tracked w)"
  proof (cases q)
    case (Inl e)
    with run m mid show ?thesis by (auto simp: bindE_def)
  next
    case (Inr x)
    with run m have "k x (u, v) = (r, (t, w'))" by (simp add: bindE_def)
    with assms(2) [of x] mid show ?thesis unfolding writes_def by (metis ledger_grows_trans)
  qed
qed

lemma writes_branches:
  "(b \<Longrightarrow> writes J m) \<Longrightarrow> (\<not> b \<Longrightarrow> writes J n) \<Longrightarrow> writes J (if b then m else n)"
  "(\<And>e. writes J (f e)) \<Longrightarrow> (\<And>x. writes J (g x)) \<Longrightarrow> writes J (case r of Inl e \<Rightarrow> f e | Inr x \<Rightarrow> g x)"
  "writes J m \<Longrightarrow> (\<And>x. writes J (h x)) \<Longrightarrow> writes J (case q of None \<Rightarrow> m | Some x \<Rightarrow> h x)"
  "writes J (failE e)" "writes J (failLatched e')"
  by (auto split: sum.split option.split intro: writes_quiet quiet_pure)

lemma writes_AppendRecord:
  assumes "ledger_contract st J"
  shows "writes J (AppendRecord st env)"
proof -
  have last: "writes J (\<lambda>(s, w1). (Inr (jw_tracked w1 + 1), (s, w1\<lparr>jw_tracked := jw_tracked w1 + 1\<rparr>)))"
    by (simp add: writes_def)
  have store: "quiet J (onStore (attemptE (lg_AppendDefinite st n tip frame)))"
      "quiet J (onStore (overflowBody st tenant session slot kind threshold))" for n tip frame tenant session slot kind threshold
    by (intro quiet_onStore appends_intros assms)+
  show ?thesis
    unfolding AppendRecord_def by (intro writes_branches writes_bindE quiet_pure store last)
qed

lemma AppendRecord_InrE:
  assumes "AppendRecord st env (s, w) = (Inr n, (t, w'))"
  obtains env1 public runtime frame u v where
    "stampWriterOwnedFields w env = Inr env1"
    "EncodeEnvelope (st_core st) (env1\<lparr>en_Public := public, en_Runtime := runtime\<rparr>) = Inr frame"
    "overflowBody st (jw_tenant w) (jw_session w) (en_Public env1) ObjectKindJournalPublic (journalOverflowThreshold st) s = (Inr public, u)"
    "overflowBody st (jw_tenant w) (jw_session w) (en_Runtime env1) ObjectKindJournalRuntime (journalOverflowThreshold st) u = (Inr runtime, v)"
    "lg_AppendDefinite st (sc_JournalName (jw_scope w)) (jw_tracked w) frame v = (Inr (), t)"
    "n = jw_tracked w + 1" "w' = w\<lparr>jw_tracked := n\<rparr>"
  using assms that unfolding AppendRecord_def
  by (auto simp: onStore_def failLatched_def split: if_split_asm option.split_asm sum.split_asm prod.split_asm elim!: bindE_InrE)

lemma stamped_written_under:
  "stampWriterOwnedFields w env = Inr env1 \<Longrightarrow> written_under (jw_epoch w) (env1\<lparr>en_Public := public, en_Runtime := runtime\<rparr>)"
  by (auto simp: stampWriterOwnedFields_def written_under_def split: if_split_asm)

lemma section_of_extend:
  assumes "section_of c js epoch at to" and "to < length js" and "EncodeEnvelope c env = Inr (js ! to)" and "written_under epoch env"
  shows "section_of c js epoch at (Suc to)"
  using assms unfolding section_of_def by (auto simp: le_Suc_eq)

lemma AppendRecord_next:
  assumes "ledger_contract st J" and "AppendRecord st env (s, w) = (Inr n, (t, w'))"
  shows "unat n = Suc (unat (jw_tracked w))"
    and "jw_tracked w' = n" and "unat (jw_tracked w) < length (J t (sc_JournalName (jw_scope w)))"
    and "\<exists>env'. EncodeEnvelope (st_core st) env' = Inr (J t (sc_JournalName (jw_scope w)) ! unat (jw_tracked w)) \<and>
      written_under (jw_epoch w) env'"
proof -
  let ?n = "sc_JournalName (jw_scope w)"
  from assms(2) obtain env1 public runtime frame u v where
    run: "stampWriterOwnedFields w env = Inr env1"
    "EncodeEnvelope (st_core st) (env1\<lparr>en_Public := public, en_Runtime := runtime\<rparr>) = Inr frame"
    "overflowBody st (jw_tenant w) (jw_session w) (en_Public env1) ObjectKindJournalPublic (journalOverflowThreshold st) s = (Inr public, u)"
    "overflowBody st (jw_tenant w) (jw_session w) (en_Runtime env1) ObjectKindJournalRuntime (journalOverflowThreshold st) u = (Inr runtime, v)"
    and put: "lg_AppendDefinite st ?n (jw_tracked w) frame v = (Inr (), t)"
    and after: "n = jw_tracked w + 1" "w' = w\<lparr>jw_tracked := n\<rparr>"
    by (rule AppendRecord_InrE)
  note there = ledger_append [OF assms(1) put]
  show "unat n = Suc (unat (jw_tracked w))" using after(1) there(3) by (simp add: unat_word_ariths)
  show "jw_tracked w' = n" "unat (jw_tracked w) < length (J t ?n)" using after(2) there(1) by simp_all
  show "\<exists>env'. EncodeEnvelope (st_core st) env' = Inr (J t ?n ! unat (jw_tracked w)) \<and> written_under (jw_epoch w) env'"
    using run(2) there(2) stamped_written_under [OF run(1)] by blast
qed

lemma writer_inv_AppendRecord:
  assumes "ledger_contract st J" and "writer_inv st J at s w" and "AppendRecord st env (s, w) = (r, (t, w'))"
  shows "writer_inv st J at t w'"
proof -
  have kept: "ledger_grows J s t" "jw_scope w' = jw_scope w" "jw_epoch w' = jw_epoch w" "\<forall>e. r = Inl e \<longrightarrow> jw_tracked w' = jw_tracked w"
    using writes_AppendRecord [OF assms(1), of env] assms(3) unfolding writes_def by metis+
  have grown: "section_of (st_core st) (J t (sc_JournalName (jw_scope w))) (jw_epoch w) at (unat (jw_tracked w))"
    using assms(2) section_of_grows [OF _ kept(1)] by (simp add: writer_inv_def)
  show ?thesis
  proof (cases r)
    case (Inl e)
    with grown kept show ?thesis by (simp add: writer_inv_def)
  next
    case (Inr n)
    note put = AppendRecord_next [OF assms(1) assms(3) [unfolded Inr]]
    from put(4) obtain env' where "EncodeEnvelope (st_core st) env' = Inr (J t (sc_JournalName (jw_scope w)) ! unat (jw_tracked w))"
      "written_under (jw_epoch w) env'" by blast
    from section_of_extend [OF grown put(3) this] put(1,2) kept show ?thesis by (simp add: writer_inv_def)
  qed
qed

subsection \<open>Runs of a writer among others\<close>

text \<open>The writer appends or closes, or other processes append to any journals.\<close>

inductive writer_step ::
  "'s store \<Rightarrow> 's journals \<Rightarrow> 's \<times> JournalWriter \<Rightarrow> 's \<times> JournalWriter \<Rightarrow> bool" for st :: "'s store" and J :: "'s journals" where
  step_append: "AppendRecord st env (s, w) = (r, (t, w')) \<Longrightarrow> writer_step st J (s, w) (t, w')"
| step_close: "CloseJournal st (s, w) = (r, (t, w')) \<Longrightarrow> writer_step st J (s, w) (t, w')"
| step_others: "ledger_grows J s t \<Longrightarrow> writer_step st J (s, w) (t, w)"

inductive_cases writer_stepE: "writer_step st J (s, w) (t, w')"

lemma CloseJournal_keeps:
  assumes "ledger_contract st J" and "CloseJournal st (s, w) = (r, (t, w'))"
  shows "ledger_grows J s t" and "jw_scope w' = jw_scope w \<and> jw_epoch w' = jw_epoch w \<and> jw_tracked w' = jw_tracked w"
  using assms(2) appends_provider(7) [OF assms(1), of "jw_lease w"]
  by (auto simp: CloseJournal_def appends_def split: if_split_asm prod.split_asm)

lemma writer_step_keeps:
  assumes "ledger_contract st J" and "writer_step st J (s, w) (t, w')"
  shows "ledger_grows J s t" and "jw_scope w' = jw_scope w \<and> jw_epoch w' = jw_epoch w"
  using assms(2) writes_AppendRecord [OF assms(1)] CloseJournal_keeps [OF assms(1)]
  by (auto simp: writes_def elim!: writer_stepE)

lemma writer_inv_step:
  assumes "ledger_contract st J" and "writer_inv st J at s w" and "writer_step st J (s, w) (t, w')"
  shows "writer_inv st J at t w'"
proof (rule writer_stepE [OF assms(3)])
  fix env r
  assume "AppendRecord st env (s, w) = (r, t, w')"
  from writer_inv_AppendRecord [OF assms(1,2) this] show ?thesis .
next
  fix r
  assume "CloseJournal st (s, w) = (r, t, w')"
  from CloseJournal_keeps [OF assms(1) this] assms(2) show ?thesis by (simp add: writer_inv_def section_of_grows)
next
  assume "w' = w" "ledger_grows J s t"
  with assms(2) show ?thesis by (simp add: writer_inv_def section_of_grows)
qed

lemma writer_run_induct [consumes 1, case_names refl step]:
  assumes "(writer_step st J)\<^sup>*\<^sup>* (s, w) (t, w')" and "P s w"
    and "\<And>u v u' v'. P u v \<Longrightarrow> writer_step st J (u, v) (u', v') \<Longrightarrow> P u' v'"
  shows "P t w'"
proof -
  have "case q of (u, v) \<Rightarrow> P u v" if "(writer_step st J)\<^sup>*\<^sup>* (s, w) q" for q
    using that
  proof (induction rule: rtranclp_induct)
    case base
    from assms(2) show ?case by simp
  next
    case (step p q)
    then show ?case using assms(3) by (auto split: prod.split_asm prod.split)
  qed
  from this [OF assms(1)] show ?thesis by simp
qed

lemma OpenJournal_section:
  assumes "ledger_contract st J" and "OpenJournal st req s = (Inr w, t)"
  shows "writer_inv st J (unat (jw_tracked w)) t w"
proof -
  from assms(2) obtain scope lease epoch u v tracked where
    "releasing st lease (appendFence st scope epoch) u = (Inr tracked, v)" and t: "t = v"
    and w: "jw_scope w = scope" "jw_epoch w = epoch" "jw_tracked w = tracked"
    by (auto simp: OpenJournal_def Let_def elim!: bindE_InrE split: if_split_asm)
  then have "appendFence st scope epoch u = (Inr tracked, v)"
    by (auto simp: releasing_def split: prod.split_asm sum.split_asm)
  then obtain fence tip x where fence: "EncodeEnvelope (st_core st) (openingFence epoch) = Inr fence"
    and put: "lg_AppendDefinite st (sc_JournalName scope) tip fence x = (Inr (), v)" and tracked: "tracked = tip + 1"
    by (auto simp: appendFence_def classifyE_def elim!: bindE_InrE split: prod.split_asm sum.split_asm)
  note there = ledger_append [OF assms(1) put]
  have "unat tracked = Suc (unat tip)" using tracked there(3) by (simp add: unat_word_ariths)
  then have "(\<exists>i. unat tracked < i \<and> i \<le> unat tracked) = False" and "1 \<le> unat tracked" and "unat tracked - 1 = unat tip"
    and "unat tracked \<le> length (J v (sc_JournalName scope))" using there(1) by auto
  with there(2) fence w t show ?thesis unfolding writer_inv_def section_of_def by auto
qed

text \<open>
  C10. The records between a writer's opening fence and the last record it appended are its own section of
  the journal, at every moment of any run of the writer among other processes: they start with the fence
  of its lease's epoch, none of them is another fence, and each application prefix and command disposition
  among them carries that epoch.
\<close>

theorem journal_writer_owns_its_section:
  assumes "ledger_contract st J" and "OpenJournal st req s = (Inr w, t)" and "(writer_step st J)\<^sup>*\<^sup>* (t, w) (u, v)"
  shows "section_of (st_core st) (J u (sc_JournalName (jw_scope w))) (jw_epoch w) (unat (jw_tracked w)) (unat (jw_tracked v))"
proof -
  from assms(3) have "writer_inv st J (unat (jw_tracked w)) u v \<and> jw_scope v = jw_scope w \<and> jw_epoch v = jw_epoch w"
  proof (induction rule: writer_run_induct)
    case refl
    from OpenJournal_section [OF assms(1,2)] show ?case by simp
  next
    case (step a x a' x')
    with writer_inv_step [OF assms(1) _ step(2)] writer_step_keeps [OF assms(1) step(2)] show ?case by simp
  qed
  then show ?thesis unfolding writer_inv_def by auto
qed

subsection \<open>A later opening fences the writer\<close>

text \<open>An opening fence that stands in the journal with the sequence number \<open>p\<close>.\<close>

definition fence_at :: "core_lib \<Rightarrow> string list \<Rightarrow> nat \<Rightarrow> bool" where
  "fence_at c js p \<longleftrightarrow> 1 \<le> p \<and> p \<le> length js \<and> (\<exists>epoch. EncodeEnvelope c (openingFence epoch) = Inr (js ! (p - 1)))"

lemma fence_at_grows: "fence_at c (J s n) p \<Longrightarrow> ledger_grows J s t \<Longrightarrow> fence_at c (J t n) p"
  using ledger_growsD [of J s t "p - 1" n] ledger_grows_length [of J s t n] by (auto simp: fence_at_def)

text \<open>No record the writer appends is an opening fence, so it never takes the fence of another for its own.\<close>

lemma fenced_AppendRecord:
  assumes "ledger_contract st J" and "fence_at (st_core st) (J s (sc_JournalName (jw_scope w))) p"
    and "unat (jw_tracked w) < p" and "AppendRecord st env (s, w) = (Inr n, (t, w'))"
  shows "unat n < p"
proof (rule ccontr)
  assume "\<not> unat n < p"
  note put = AppendRecord_next [OF assms(1,4)]
  with assms(3) \<open>\<not> unat n < p\<close> have p: "p - 1 = unat (jw_tracked w)" by simp
  have "ledger_grows J s t" using writes_AppendRecord [OF assms(1), of env] assms(4) unfolding writes_def by metis
  from fence_at_grows [OF assms(2) this] obtain epoch
    where "EncodeEnvelope (st_core st) (openingFence epoch) = Inr (J t (sc_JournalName (jw_scope w)) ! unat (jw_tracked w))"
    by (auto simp: fence_at_def p [unfolded One_nat_def])
  moreover from put(4) obtain env' where
    "EncodeEnvelope (st_core st) env' = Inr (J t (sc_JournalName (jw_scope w)) ! unat (jw_tracked w))" "written_under (jw_epoch w) env'" by blast
  ultimately show False
    using encoded_kind [of "st_core st" "openingFence epoch" _ env']
    by (simp add: openingFence_def zeroEnvelope_def written_under_def)
qed

lemma fenced_step:
  assumes "ledger_contract st J" and "fence_at (st_core st) (J s (sc_JournalName (jw_scope w))) p \<and> unat (jw_tracked w) < p"
    and "writer_step st J (s, w) (t, w')"
  shows "fence_at (st_core st) (J t (sc_JournalName (jw_scope w'))) p \<and> unat (jw_tracked w') < p"
proof -
  note kept = writer_step_keeps [OF assms(1,3)]
  have "unat (jw_tracked w') < p"
  proof (rule writer_stepE [OF assms(3)])
    fix env r
    assume put: "AppendRecord st env (s, w) = (r, t, w')"
    show ?thesis
    proof (cases r)
      case (Inl e)
      with put writes_AppendRecord [OF assms(1), of env] have "jw_tracked w' = jw_tracked w" unfolding writes_def by metis
      with assms(2) show ?thesis by simp
    next
      case (Inr n)
      with put have ok: "AppendRecord st env (s, w) = (Inr n, (t, w'))" by simp
      with fenced_AppendRecord [OF assms(1) _ _ ok] assms(2) AppendRecord_next(2) [OF assms(1) ok] show ?thesis by simp
    qed
  next
    fix r
    assume "CloseJournal st (s, w) = (r, t, w')"
    from CloseJournal_keeps(2) [OF assms(1) this] assms(2) show ?thesis by simp
  next
    assume "w' = w"
    with assms(2) show ?thesis by simp
  qed
  with fence_at_grows [OF conjunct1 [OF assms(2)] kept(1)] kept(2) show ?thesis by simp
qed

text \<open>An opening puts its fence after everything that was in the journal before.\<close>

lemma appendFence_after:
  assumes "ledger_contract st J" and "appendFence st scope epoch s = (Inr tracked, t)"
  shows "length (J s (sc_JournalName scope)) < unat tracked"
proof -
  let ?n = "sc_JournalName scope"
  from assms(2) obtain fence tip u where tip: "lg_Tip st ?n s = (Inr tip, u)"
    and put: "lg_AppendDefinite st ?n tip fence u = (Inr (), t)" and tracked: "tracked = tip + 1"
    by (auto simp: appendFence_def classifyE_def elim!: bindE_InrE split: prod.split_asm sum.split_asm)
  have "length (J s ?n) \<le> length (J u ?n)"
    by (rule ledger_grows_length [OF appendsD [OF appends_provider(3) [OF assms(1)] tip]])
  also have "length (J u ?n) = unat tip" using ledger_tip [OF assms(1) tip] by simp
  also have "unat tip < unat tracked" using tracked ledger_append(3) [OF assms(1) put] by (simp add: unat_word_ariths)
  finally show ?thesis .
qed

lemma OpenJournal_fence:
  assumes "ledger_contract st J" and "OpenJournal st req s = (Inr w, t)"
  shows "fence_at (st_core st) (J t (sc_JournalName (jw_scope w))) (unat (jw_tracked w))"
    "length (J s (sc_JournalName (jw_scope w))) < unat (jw_tracked w)"
proof -
  let ?n = "sc_JournalName (jw_scope w)"
  from OpenJournal_section [OF assms] show "fence_at (st_core st) (J t ?n) (unat (jw_tracked w))"
    by (auto simp: writer_inv_def section_of_def fence_at_def)
  from assms(2) obtain scope lease epoch u v x where bind: "bindSessionScope st scope s = (Inr (), x)"
    and acquire: "le_Acquire st (sc_LeaseName scope) x = (Inr (lease, epoch), u)"
    and opened: "releasing st lease (appendFence st scope epoch) u = (Inr (jw_tracked w), v)" and w: "jw_scope w = scope"
    by (auto simp: OpenJournal_def classifyE_def Let_def elim!: bindE_InrE split: if_split_asm prod.split_asm sum.split_asm)
  from opened have "appendFence st scope epoch u = (Inr (jw_tracked w), v)"
    by (auto simp: releasing_def split: prod.split_asm sum.split_asm)
  from appendFence_after [OF assms(1) this] have "length (J u ?n) < unat (jw_tracked w)" by (simp add: w)
  moreover have "ledger_grows J s u"
    using appendsD [OF appends_bind(2) [OF assms(1)] bind]
      appendsD [OF appends_provider(6) [OF assms(1)] acquire] by (rule ledger_grows_trans)
  then have "length (J s ?n) \<le> length (J u ?n)" by (rule ledger_grows_length)
  ultimately show "length (J s ?n) < unat (jw_tracked w)" by simp
qed

text \<open>
  C11. Opening a session's journal fences its earlier writer: once another process has opened the journal that
  a writer opened before, and whatever both and others did until then and do afterwards, the earlier writer is and stays
  before the later opening fence: it never tracks that fence's sequence number or one beyond it, and no append of
  its ever succeeds there.
\<close>

theorem later_opening_fences_the_writer:
  assumes "ledger_contract st J"
    and "OpenJournal st a r = (Inr w0, s0)" and "(writer_step st J)\<^sup>*\<^sup>* (s0, w0) (s, w)"
    and "OpenJournal st b s = (Inr x, u)" and "jw_scope x = jw_scope w0"
    and "(writer_step st J)\<^sup>*\<^sup>* (u, w) (t, v)"
  shows "unat (jw_tracked w) < unat (jw_tracked x) \<and> unat (jw_tracked v) < unat (jw_tracked x) \<and>
    (\<forall>env n q. AppendRecord st env (t, v) = (Inr n, q) \<longrightarrow> unat n < unat (jw_tracked x))"
proof -
  from assms(3) have "writer_inv st J (unat (jw_tracked w0)) s w \<and> jw_scope w = jw_scope w0"
  proof (induction rule: writer_run_induct)
    case refl
    from OpenJournal_section [OF assms(1,2)] show ?case by simp
  next
    case (step c y c' y')
    with writer_inv_step [OF assms(1) _ step(2)] writer_step_keeps [OF assms(1) step(2)] show ?case by simp
  qed
  then have place: "unat (jw_tracked w) \<le> length (J s (sc_JournalName (jw_scope w)))" and scope: "jw_scope w = jw_scope x"
    unfolding writer_inv_def section_of_def assms(5) by iprover+
  from place OpenJournal_fence(2) [OF assms(1,4)] have before: "unat (jw_tracked w) < unat (jw_tracked x)" by (simp add: scope)
  from assms(6) have late: "fence_at (st_core st) (J t (sc_JournalName (jw_scope v))) (unat (jw_tracked x)) \<and>
      unat (jw_tracked v) < unat (jw_tracked x)"
  proof (induction rule: writer_run_induct)
    case refl
    from OpenJournal_fence(1) [OF assms(1,4)] before show ?case unfolding scope by (rule conjI)
  next
    case (step c y c' y')
    from fenced_step [OF assms(1) step] show ?case .
  qed
  have "unat n < unat (jw_tracked x)" if "AppendRecord st env (t, v) = (Inr n, q)" for env n q
    using fenced_AppendRecord [OF assms(1) conjunct1 [OF late] conjunct2 [OF late]] that by (cases q) blast
  with before conjunct2 [OF late] show ?thesis by blast
qed

end
