(* ===== verification/Journal_Witnesses.thy ===== *)
theory Journal_Witnesses
  imports Disposition_Witnesses Journal_Writer
begin

text \<open>
  The journal on the in-memory provider: an attempt settled by the disposition record of a later lease, a
  writer that opens the journal and appends a public event, a body kept inline, a stream read in one call.
\<close>

definition w_disposition :: Envelope where
  "w_disposition = (zeroEnvelope EnvelopeKindCommandDisposition)\<lparr>en_LeaseEpoch := 8, en_CommandID := ''c1'',
     en_RuntimeCommandID := ''0123456789abcdef'', en_CommandKind := ''input'', en_AttemptID := ''at1'',
     en_AttemptJournalEpoch := 7, en_DispositionKind := ''not_applied''\<rparr>"

definition w_evidence_request :: DispositionEvidenceRequest where
  "w_evidence_request = evidenceRequest (di_Descriptor w_dapplying) w_attempt"

definition w_j3 :: mem where
  "w_j3 = w_d3\<lparr>mem_journal := [w_frame (openingFence 8), w_frame w_disposition]\<rparr>"

lemma mem_digests: "digest32 mem_store"
  by (simp add: digest32_def mem_digest32)

lemma mem_pages: "0 < st_MaxPageSize mem_store"
  by (simp add: mem_store_def)

lemma w_reads_evidence:
  "(case ReadDispositionEvidence (2 ^ 64) mem_store w_evidence_request w_j3 of Some r \<Rightarrow> isOK (fst r) | None \<Rightarrow> False)" by code_simp

lemma w_settles_j:
  "(case SettleDispositionCommand (WithJournalDispositionEvidence mem_store) w_settle_d w_j3 of (Inr (e, changed), t) \<Rightarrow> changed | _ \<Rightarrow> False)"
  by code_simp

theorem journal_evidence_read_ends_witness:
  "\<exists>r t. ReadDispositionEvidence (2 ^ 64) mem_store w_evidence_request w_j3 = Some (r, t)"
  by (rule journal_evidence_read_ends [OF mem_ledger_contract mem_digests mem_pages order.refl])

theorem journal_evidence_is_the_journals_witness:
  "\<exists>e t scope tip recs k f. ReadDispositionEvidence (2 ^ 64) mem_store w_evidence_request w_j3 = Some (Inr e, t) \<and>
     runtime_records mem_core 1 (take tip (mem_journal t)) = Some recs \<and> disposes mem_core w_evidence_request recs k f \<and>
     deriveSessionScope mem_store ''t1'' ''s1'' = Inr scope"
proof -
  obtain e t where run: "ReadDispositionEvidence (2 ^ 64) mem_store w_evidence_request w_j3 = Some (Inr e, t)"
    using w_reads_evidence by (auto simp: isOK_def split: option.split_asm sum.split_asm)
  have core: "st_core mem_store = mem_core" by (simp add: mem_store_def)
  have names: "der_TenantID w_evidence_request = ''t1''" "der_SessionID w_evidence_request = ''s1''"
    by code_simp+
  from journal_evidence_is_the_journals [OF mem_ledger_contract mem_digests mem_pages order.refl run]
  show ?thesis unfolding core names using run by blast
qed

theorem settlement_rests_on_the_journal_witness:
  "\<exists>entry t outcome. SettleDispositionCommand (WithJournalDispositionEvidence mem_store) w_settle_d w_j3 = (Inr (entry, True), t) \<and>
     di_Outcome (dn_Record entry) = Some outcome \<and> di_State (dn_Record entry) = terminalState (do_Kind outcome)"
proof -
  obtain entry t where run: "SettleDispositionCommand (WithJournalDispositionEvidence mem_store) w_settle_d w_j3 = (Inr (entry, True), t)"
    using w_settles_j by (rule isOK_changedE)
  have "t_zone (st_Now mem_store w_j3) = 0" by code_simp
  then have "minute_zone (st_Now mem_store w_j3)" by (simp add: minute_zone_def)
  from settlement_rests_on_the_journal [OF mem_oi_contract mem_ledger_contract mem_digests mem_pages mem_utf8 this run] run
  show ?thesis by blast
qed

text \<open>A writer on an empty journal, and the record of another process after its fence.\<close>

definition w_open :: OpenJournalRequest where "w_open = \<lparr>oj_TenantID = ''t1'', oj_SessionID = ''s1''\<rparr>"

lemma w_opens: "isOK (fst (OpenJournal mem_store w_open w_t0))" by code_simp

lemma w_appends:
  "(case OpenJournal mem_store w_open w_t0 of (Inr w, t) \<Rightarrow> isOK (fst (AppendRecord mem_store w_event (t, w))) | _ \<Rightarrow> False)"
  by code_simp

theorem journal_writer_owns_its_section_witness:
  "\<exists>w t n u v. OpenJournal mem_store w_open w_t0 = (Inr w, t) \<and> AppendRecord mem_store w_event (t, w) = (Inr n, (u, v)) \<and>
     section_of mem_core (mem_journal u) (jw_epoch w) (unat (jw_tracked w)) (unat (jw_tracked v))"
proof -
  obtain w t where opened: "OpenJournal mem_store w_open w_t0 = (Inr w, t)" using w_opens by (rule isOK_pairE)
  obtain q where "AppendRecord mem_store w_event (t, w) = q" "isOK (fst q)" using w_appends opened by simp
  then obtain n u v where put: "AppendRecord mem_store w_event (t, w) = (Inr n, (u, v))"
    by (cases q) (auto elim!: isOK_E)
  have "(writer_step mem_store (\<lambda>m n. mem_journal m))\<^sup>*\<^sup>* (t, w) (u, v)" using step_append [OF put] by blast
  from journal_writer_owns_its_section [OF mem_ledger_contract opened this] opened put show ?thesis
    by (auto simp: mem_store_def)
qed

lemma w_opens_again:
  "(case OpenJournal mem_store w_open w_t0 of (Inr w, t) \<Rightarrow> jw_scope w = w_scope \<and>
     (case OpenJournal mem_store w_open t of (Inr x, u) \<Rightarrow> jw_scope x = w_scope | _ \<Rightarrow> False) | _ \<Rightarrow> False)"
  by code_simp

theorem later_opening_fences_the_writer_witness:
  "\<exists>w t x u. OpenJournal mem_store w_open w_t0 = (Inr w, t) \<and> OpenJournal mem_store w_open t = (Inr x, u) \<and>
     (\<forall>env n q. AppendRecord mem_store env (u, w) = (Inr n, q) \<longrightarrow> unat n < unat (jw_tracked x))"
proof -
  obtain w t x u where opened: "OpenJournal mem_store w_open w_t0 = (Inr w, t)" "OpenJournal mem_store w_open t = (Inr x, u)"
    and scope: "jw_scope x = jw_scope w"
    using w_opens_again by (auto split: prod.split_asm sum.split_asm)
  from later_opening_fences_the_writer [OF mem_ledger_contract opened(1) rtranclp.rtrancl_refl opened(2) scope rtranclp.rtrancl_refl]
  have "\<forall>env n q. AppendRecord mem_store env (u, w) = (Inr n, q) \<longrightarrow> unat n < unat (jw_tracked x)" by blast
  with opened show ?thesis by blast
qed

text \<open>A body within the threshold, and a source read once.\<close>

theorem public_body_survives_its_slot_witness:
  "\<exists>slot t body. overflowBody mem_store ''t1'' ''s1'' \<lparr>bs_Inline = Some ''{}'', bs_Reference = None\<rparr> ObjectKindJournalPublic 64 w_t0 = (Inr slot, t) \<and>
     resolvePublicBody mem_store ''t1'' ''s1'' slot t = (Inr body, t) \<and> body = ''{}''"
proof -
  let ?slot = "\<lparr>bs_Inline = Some ''{}'', bs_Reference = None\<rparr>"
  have put: "overflowBody mem_store ''t1'' ''s1'' ?slot ObjectKindJournalPublic 64 w_t0 = (Inr ?slot, w_t0)"
    by (simp add: overflowBody_def returnE_def)
  moreover have "resolvePublicBody mem_store ''t1'' ''s1'' ?slot w_t0 = (Inr ''{}'', w_t0)"
    by (simp add: resolvePublicBody_def returnE_def)
  ultimately show ?thesis using public_body_survives_its_slot [OF put, of mem_store] by auto
qed

theorem verified_stream_is_exact_witness:
  "\<exists>replies v. readRun [(False, False, 8), (False, False, 8)] (newExactVerifier (bytesReader ''abc'') 3 (Sum256 ''abc'')) = (replies, v) \<and>
     StreamEOF \<in> reported replies \<and> length (handed replies) = 3 \<and> Sum256 (handed replies) = Sum256 ''abc''"
proof -
  let ?v = "newExactVerifierWithReadCode (bytesReader ''abc'') 3 (Sum256 ''abc'') ObjectErrorSource"
  let ?calls = "[(False, False, 8), (False, False, 8)]"
  obtain replies v where run: "readRun ?calls ?v = (replies, v)" by (cases "readRun ?calls ?v")
  have "StreamEOF \<in> reported (fst (readRun ?calls ?v))"
    by (simp add: newExactVerifierWithReadCode_def verifierRead_def readSource_def bytesReader_def finishRead_def Let_def reported_def)
  with verified_stream_is_exact [OF run] run show ?thesis by (simp add: newExactVerifier_def)
qed

end
