(* ===== verification/Spec2Isabelle.thy ===== *)
theory Spec2Isabelle
  imports Journal_Witnesses
begin

text \<open>
  A verification development of \<^verbatim>\<open>looprig/sessionstore\<close>, the Go package that keeps sessions, their commands, their
  journal and their objects on a storage provider shared by many processes.

  \<^bold>\<open>The program.\<close>  A \<^verbatim>\<open>Store\<close> (\<^verbatim>\<open>store.go\<close>) is a handle on a provider of five primitives: key-value pairs, an
  ordered index of rows with revisions, leases, an append-only ledger and a blob store.  Every operation derives a session's
  scope (\<^verbatim>\<open>keyspace.go\<close>, \<^verbatim>\<open>shards.go\<close>), binds or verifies the scope's create-only witnesses (\<^verbatim>\<open>session_binding.go\<close>), reads a
  row, validates and fences it, and writes at the revision it read.  Commands enter a session by one of two inboxes: the legacy
  one (\<^verbatim>\<open>inbox*.go\<close>), whose applied effects are found again by scanning the journal, and the disposition one
  (\<^verbatim>\<open>disposition_*.go\<close>), where a command is settled by evidence, read from the journal when the Store is configured so.  The journal
  has one writer at a time, fenced by its lease (\<^verbatim>\<open>journal.go\<close>), and paged readers (\<^verbatim>\<open>journal_reader.go\<close>); bodies too large for a
  record are objects (\<^verbatim>\<open>objects.go\<close>).  The catalog (\<^verbatim>\<open>catalog.go\<close>) holds one record per session, written by the Host and by the
  control plane; a public creation (\<^verbatim>\<open>public_create.go\<close>) reserves the session, its first command and its catalog record at once.

  \<^bold>\<open>The model.\<close>  An operation is a function of the outside state \<open>'s\<close> that returns an error or a result and the state it
  leaves (\<open>('s, err, 'a) op\<close>, theory \<open>Prelude\<close>); \<open>bindE\<close> is the early return on an error.  The Store is a record of its configuration
  and of the provider's calls (\<open>Store_Model\<close>): the provider, Core's validators (\<open>core_lib\<close>) and SHA-256 over strings of the keyspace are
  parameters.  A call may be preceded by any writes of other processes, which is how concurrency between processes enters.  What is
  relied on of the provider is stated as contracts over views of the outside state: \<open>kv_contract\<close> (\<open>Session_Binding\<close>), \<open>oi_contract\<close> over the
  history of rows (\<open>Ordered_Index\<close>), \<open>ledger_contract\<close> over the journals (\<open>Ledger\<close>; a successful append says only that the frame stands
  after the tip it named, since after a lost acknowledgement an equal frame of another writer is taken for one's own).  \<open>Mem_Provider\<close> is a provider in memory that
  satisfies them; the witness theories run the operations on it by evaluation in the kernel (\<open>Evaluation\<close> has the code equations).
  Go integers are words of their width, times are nanoseconds with a zone offset, \<^verbatim>\<open>encoding/json\<close> is modelled on documents (\<open>Json_Model\<close>):
  stored bytes are the marshalling of a document, another text of one, or no JSON at all.

  \<^bold>\<open>Theories and code.\<close>
  \<^item> \<open>Prelude\<close>, \<open>Go_Lib\<close>, \<open>Go_Text\<close>, \<open>Json_Model\<close>: operations, the standard library as used, UTF-8, encodings, JSON documents.
  \<^item> \<open>Errors\<close> (\<^verbatim>\<open>errors.go\<close>), \<open>Store_Model\<close> (\<^verbatim>\<open>store.go\<close>), \<open>Keyspace\<close>, \<open>Session_Binding\<close>, \<open>Cursor\<close>, \<open>Object_Ref\<close>, \<open>Envelope\<close>: the files of these names.
  \<^item> \<open>Record_Codec\<close>: the locales of versioned codecs (\<open>record_codec\<close>, \<open>strict_codec\<close>) and of fences (\<open>fenced\<close>), interpreted by the record theories.
  \<^item> \<open>Inbox_Record\<close>, \<open>Inbox\<close>, \<open>Inbox_Recovery\<close>, \<open>Inbox_Claim\<close>: the legacy inbox, its journal scan and its lifecycle.
  \<^item> \<open>Row_Write\<close>: one committed write over the row history, shared by all read-modify-writes.
  \<^item> \<open>Placement\<close>, \<open>Catalog_Record\<close>, \<open>Catalog_Codec\<close>, \<open>Catalog\<close>, \<open>Residency\<close>: the catalog, its two writers, and residency grants.
  \<^item> \<open>Disposition_Record\<close>, \<open>Disposition_Codec\<close>, \<open>Disposition_Inbox\<close>, \<open>Disposition_Lifecycle\<close>: the disposition inbox and its lifecycle.
  \<^item> \<open>Public_Create_Record\<close>, \<open>Public_Create\<close>: reservations and the admission of a session's first command.
  \<^item> \<open>Object_Stream\<close>, \<open>Object_Store\<close>: the exact verifier, uploads, downloads, and journal bodies kept as objects.
  \<^item> \<open>Journal_Reader\<close>, \<open>Ledger\<close>, \<open>Journal_Pages\<close>, \<open>Journal_Evidence\<close>, \<open>Journal_Writer\<close>: paged reads, the ledger contract, what pages
    of one read together are, evidence from the journal (\<^verbatim>\<open>disposition_evidence.go\<close>), and the writer.

  \<^bold>\<open>What the lemmas show.\<close>  Each record kind has a canonical form that is a fixed point, and a codec that reads back what it wrote (and,
  where the code is strict, nothing else).  Each operation of an inbox and of the catalog refines an inductive step relation: a
  success replaces the row at exactly the named revision by one step, so two operations on one revision have one winner; of the
  disposition inbox this holds when the time an operation stores is in a zone of whole minutes, which the code does not check.  From
  these, by rule induction over runs of the operations themselves (\<open>legacy_run\<close>, \<open>disposition_run\<close>, \<open>catalog_run\<close>: each operation names what
  the one before left, and other processes write in between), the entries returned keep the command's or session's identity, never lower
  an epoch and never leave a terminal state.  Rejection and completion rest on
  the journal scan, which equals a declarative verdict; settlement rests on evidence, and, composed with the evidence reader, on the one
  disposition record in the section of the journal that a lease's opening fence opened; the writer's theorems show that such
  a section is written by that lease's writer alone, and that a later opening puts a fence its predecessor never gets past.  Streams and bodies are exact against any provider, down to SHA-256.

  \<^bold>\<open>Bounds.\<close>  The loops that follow a stored structure are structural recursions.  The evidence reader's loop over pages has fuel; \<open>2 ^ 64\<close> pages are
  proved enough for any journal, because a ledger holds fewer than \<open>2 ^ 64 - 1\<close> records and each page makes progress.  Draining a stream ends
  because every read without an error delivers bytes and the declared size bounds them.

  \<^bold>\<open>Not modelled.\<close>  The goroutines and locks of one process: the waiting of a closing Store, the concurrent \<^verbatim>\<open>Read\<close> and \<^verbatim>\<open>Close\<close> of an object
  reader, shutdown callbacks of leases, cancellation other than where a context is consulted.  Message texts and wrapped causes of errors.
  Opening a Store beyond its layout marker, and the options, which assign configuration.  Gates (\<^verbatim>\<open>gates.go\<close>), consumption cursors (\<^verbatim>\<open>consumption.go\<close>), session
  pointers (\<^verbatim>\<open>pointers.go\<close>), terminations (\<^verbatim>\<open>termination.go\<close>), reconciliation claims (\<^verbatim>\<open>reconcile.go\<close>), host
  registrations and targets (\<^verbatim>\<open>registry.go\<close>, \<^verbatim>\<open>host_targets.go\<close>): rows of the same kind as those modelled, left out for size.  The build tooling under \<^verbatim>\<open>internal\<close> is file-system input and output.
\<close>

end
